(* ===== verification/Prelude.thy ===== *)
theory Prelude
  imports Main "HOL-Library.Word" "HOL-Library.Monad_Syntax"
begin

text \<open>
  Shared vocabulary of the development: bytes and machine words, byte buffers with
  bounds-checked reads and writes, little-endian integers, C pointers to heap blocks,
  and C strings. A read or write outside a buffer, a free of a dead pointer and every
  other undefined step of the C program is the value \<open>None\<close> of an option, so a result
  \<open>Some r\<close> means that the modelled code has a defined execution and returns \<open>r\<close>.
\<close>

unbundle bit_operations_syntax

type_synonym byte = "8 word"
type_synonym u16 = "16 word"
type_synonym u32 = "32 word"

named_theorems wire "facts that evaluate byte buffers and packed structures"

section \<open>Lists and options\<close>

lemma bind_Some_iff [simp]:
  "Option.bind m f = Some y \<longleftrightarrow> (\<exists>x. m = Some x \<and> f x = Some y)"
  by (cases m) auto

lemma length_2E:
  assumes "length xs = 2"
  obtains a b where "xs = [a, b]"
  using assms by (cases xs; cases "tl xs") auto

lemma take_eq_map_nth: "n \<le> length xs \<Longrightarrow> take n xs = map ((!) xs) [0..<n]"
  by (rule nth_equalityI) auto

lemma upt_numeral [wire]:
  "[0..<numeral n] = [0..<pred_numeral n] @ [pred_numeral n]"
  by (simp add: numeral_eq_Suc)

text \<open>Steps that may be undefined, one after the other.\<close>

fun run_steps :: "('m \<Rightarrow> 's \<Rightarrow> 's option) \<Rightarrow> 'm list \<Rightarrow> 's \<Rightarrow> 's option" where
  "run_steps step [] s = Some s"
| "run_steps step (x # xs) s = do { s \<leftarrow> step x s; run_steps step xs s }"

lemma run_steps_append:
  "run_steps step (xs @ ys) s = do { s \<leftarrow> run_steps step xs s; run_steps step ys s }"
  by (induction xs arbitrary: s) (simp_all cong: Option.bind_cong)

section \<open>Little-endian integers\<close>

definition mk16 :: "byte \<Rightarrow> byte \<Rightarrow> u16" where
  "mk16 lo hi = ucast lo OR push_bit 8 (ucast hi)"

definition mk32 :: "byte \<Rightarrow> byte \<Rightarrow> byte \<Rightarrow> byte \<Rightarrow> u32" where
  "mk32 b0 b1 b2 b3 =
     ucast b0 OR push_bit 8 (ucast b1) OR push_bit 16 (ucast b2) OR push_bit 24 (ucast b3)"

definition le16 :: "u16 \<Rightarrow> byte list" where
  "le16 w = [ucast w, ucast (drop_bit 8 w)]"

definition le32 :: "u32 \<Rightarrow> byte list" where
  "le32 w = [ucast w, ucast (drop_bit 8 w), ucast (drop_bit 16 w), ucast (drop_bit 24 w)]"

lemma length_le16 [simp]: "length (le16 w) = 2"
  by (simp add: le16_def)

lemma le16_not_Nil [simp]: "le16 w \<noteq> []"
  by (simp add: le16_def)

lemma length_le32 [simp]: "length (le32 w) = 4"
  by (simp add: le32_def)

lemma mk16_le16 [simp]: "mk16 (ucast w) (ucast (drop_bit 8 w)) = w"
  by (rule bit_word_eqI) (auto simp: mk16_def bit_simps)

lemma mk32_le32 [simp]:
  "mk32 (ucast w) (ucast (drop_bit 8 w)) (ucast (drop_bit 16 w)) (ucast (drop_bit 24 w)) = w"
proof (rule bit_word_eqI)
  fix n assume "n < LENGTH(32)"
  then have "n < 8 \<or> 8 \<le> n \<and> n < 16 \<or> 16 \<le> n \<and> n < 24 \<or> 24 \<le> n \<and> n < 32" by auto
  then show "bit (mk32 (ucast w) (ucast (drop_bit 8 w)) (ucast (drop_bit 16 w))
      (ucast (drop_bit 24 w))) n = bit w n"
    by (elim disjE) (auto simp: mk32_def bit_simps)
qed

lemma le16_mk16: "le16 (mk16 a b) = [a, b]"
proof -
  have high: "\<not> bit a (8 + n)" for n
    using bit_imp_le_length [of a "8 + n"] by auto
  have "ucast (mk16 a b) = a" and "ucast (drop_bit 8 (mk16 a b)) = b"
    by (auto intro!: bit_word_eqI simp: mk16_def bit_simps high)
  then show ?thesis by (simp add: le16_def)
qed

section \<open>Buffers: bounds-checked reads and writes\<close>

definition rd8 :: "byte list \<Rightarrow> nat \<Rightarrow> byte option" where
  "rd8 b i = (if i < length b then Some (b ! i) else None)"

definition rd16 :: "byte list \<Rightarrow> nat \<Rightarrow> u16 option" where
  "rd16 b i = do { lo \<leftarrow> rd8 b i; hi \<leftarrow> rd8 b (i + 1); Some (mk16 lo hi) }"

definition rd32 :: "byte list \<Rightarrow> nat \<Rightarrow> u32 option" where
  "rd32 b i = do { b0 \<leftarrow> rd8 b i; b1 \<leftarrow> rd8 b (i + 1); b2 \<leftarrow> rd8 b (i + 2);
     b3 \<leftarrow> rd8 b (i + 3); Some (mk32 b0 b1 b2 b3) }"

definition rdn :: "byte list \<Rightarrow> nat \<Rightarrow> nat \<Rightarrow> byte list option" where
  "rdn b i n = (if i + n \<le> length b then Some (take n (drop i b)) else None)"

fun wr :: "byte list \<Rightarrow> nat \<Rightarrow> byte list \<Rightarrow> byte list option" where
  "wr b i [] = Some b"
| "wr b i (x # xs) = (if i < length b then wr (b[i := x]) (Suc i) xs else None)"

abbreviation wr8 :: "byte list \<Rightarrow> nat \<Rightarrow> byte \<Rightarrow> byte list option" where
  "wr8 b i v \<equiv> wr b i [v]"

abbreviation wr16 :: "byte list \<Rightarrow> nat \<Rightarrow> u16 \<Rightarrow> byte list option" where
  "wr16 b i v \<equiv> wr b i (le16 v)"

abbreviation wr32 :: "byte list \<Rightarrow> nat \<Rightarrow> u32 \<Rightarrow> byte list option" where
  "wr32 b i v \<equiv> wr b i (le32 v)"

lemma rd8_append: "rd8 (xs @ ys) i = (if i < length xs then rd8 xs i else rd8 ys (i - length xs))"
  by (auto simp: rd8_def nth_append)

lemma rd8_append2 [simp]: "rd8 (xs @ ys) (length xs + i) = rd8 ys i"
  by (simp add: rd8_append)

lemma rd8_drop: "rd8 (drop n b) i = rd8 b (n + i)"
  by (auto simp: rd8_def)

lemma rd16_drop: "rd16 (drop n b) i = rd16 b (n + i)"
  by (simp add: rd16_def rd8_drop add.assoc)

lemma rd32_drop: "rd32 (drop n b) i = rd32 b (n + i)"
  by (simp add: rd32_def rd8_drop add.assoc)

lemma rd8_Some [simp]: "i < length b \<Longrightarrow> rd8 b i = Some (b ! i)"
  by (simp add: rd8_def)

lemma rd8_None [simp]: "rd8 b i = None \<longleftrightarrow> length b \<le> i"
  by (auto simp: rd8_def)

lemma rd16_Some: "i + 1 < length b \<Longrightarrow> rd16 b i = Some (mk16 (b ! i) (b ! (i + 1)))"
  by (simp add: rd16_def)

lemma rd16_None [simp]: "rd16 b i = None \<longleftrightarrow> length b \<le> i + 1"
  by (cases "rd8 b i"; cases "rd8 b (i + 1)") (auto simp: rd16_def rd8_def split: if_splits)

lemma rd32_Some:
  "i + 3 < length b \<Longrightarrow> rd32 b i = Some (mk32 (b ! i) (b ! (i + 1)) (b ! (i + 2)) (b ! (i + 3)))"
  by (simp add: rd32_def)

lemma rd32_None [simp]: "rd32 b i = None \<longleftrightarrow> length b \<le> i + 3"
  by (auto simp: rd32_def rd8_def)

lemma rd16_le16 [simp]: "rd16 (le16 w @ ys) 0 = Some w"
  by (simp add: rd16_def le16_def)

lemma rd16_append2 [simp]: "rd16 (xs @ ys) (length xs + i) = rd16 ys i"
  using rd8_append2 [of xs ys "i + 1"] by (simp add: rd16_def del: rd8_append2) (simp add: add.assoc)

lemma length_wr: "wr b i xs = Some b' \<Longrightarrow> length b' = length b"
  by (induction b i xs rule: wr.induct) (auto split: if_splits)

lemma wr_eq: "i + length xs \<le> length b \<Longrightarrow>
  wr b i xs = Some (take i b @ xs @ drop (i + length xs) b)"
proof (induction b i xs rule: wr.induct)
  case (2 b i x xs)
  then have "i < length b" by simp
  with 2 show ?case
    by (simp add: take_Suc_conv_app_nth nth_list_update upd_conv_take_nth_drop ac_simps)
qed simp

lemma wr_None [simp]: "wr b i xs = None \<longleftrightarrow> xs \<noteq> [] \<and> length b < i + length xs"
proof (induction b i xs rule: wr.induct)
  case (2 b i x xs)
  then show ?case by (cases "xs = []") auto
qed simp

lemma wr_Some_iff: "wr b i xs = Some b' \<longleftrightarrow>
  (xs = [] \<and> b' = b \<or> i + length xs \<le> length b \<and> b' = take i b @ xs @ drop (i + length xs) b)"
proof (cases "xs = [] \<or> i + length xs \<le> length b")
  case False
  then have "wr b i xs = None" by (simp add: not_le)
  then have "wr b i xs \<noteq> Some b'" by (simp del: wr_None)
  with False show ?thesis by blast
qed (auto simp: wr_eq)

lemma wr_append: "wr b i (xs @ ys) = do { b \<leftarrow> wr b i xs; wr b (i + length xs) ys }"
  by (induction b i xs rule: wr.induct) simp_all

section \<open>Building a message left to right\<close>

text \<open>
  \<open>starts b pre\<close>: the buffer \<open>b\<close> begins with the bytes \<open>pre\<close>. The request builders of
  the program fill a fixed buffer from the left, so their result is described by the
  prefix they have built; a C string copy also writes its terminating zero behind it.
\<close>

definition starts :: "byte list \<Rightarrow> byte list \<Rightarrow> bool" where
  "starts b pre \<longleftrightarrow> take (length pre) b = pre"

lemma starts_length: "starts b pre \<Longrightarrow> length pre \<le> length b"
  unfolding starts_def by (metis length_take min.cobounded1)

lemma starts_Nil [simp]: "starts b []"
  by (simp add: starts_def)

lemma starts_wr:
  assumes "starts b pre" "length pre + length xs \<le> length b"
  obtains b' where "wr b (length pre) xs = Some b'" "starts b' (pre @ xs)" "length b' = length b"
proof -
  let ?b' = "pre @ xs @ drop (length pre + length xs) b"
  have w: "wr b (length pre) xs = Some ?b'"
    using assms by (simp add: wr_eq starts_def)
  have "starts ?b' (pre @ xs)" by (simp add: starts_def)
  from that [OF w this length_wr [OF w]] show ?thesis .
qed

lemma starts_prefix: "starts b (pre @ xs) \<Longrightarrow> starts b pre"
proof -
  assume "starts b (pre @ xs)"
  then have "take (length pre) (take (length (pre @ xs)) b) = take (length pre) (pre @ xs)"
    by (simp add: starts_def)
  then show "starts b pre" by (simp add: starts_def min_def)
qed

section \<open>Pointers to heap blocks and C strings\<close>

text \<open>
  A \<open>PQCQMIMSG\<close> variable: null, pointing to a live block, or indeterminate (never
  assigned, or its block was freed). \<open>free\<close> of null does nothing; \<open>free\<close> of a live
  block kills it; any use of an indeterminate pointer is undefined.
\<close>

datatype cptr = PNull | PLive "byte list" | PDead

fun cfree :: "cptr \<Rightarrow> cptr option" where
  "cfree PNull = Some PNull"
| "cfree (PLive m) = Some PDead"
| "cfree PDead = None"

fun if_free :: "cptr \<Rightarrow> cptr option" where
  \<comment> \<open>\<open>if (pResponse) free(pResponse);\<close>\<close>
  "if_free PNull = Some PNull"
| "if_free (PLive m) = Some PDead"
| "if_free PDead = None"

fun deref :: "cptr \<Rightarrow> byte list option" where
  "deref (PLive m) = Some m"
| "deref _ = None"

definition cstr :: "string \<Rightarrow> byte list" where
  "cstr s = map of_char s"

lemma length_cstr [simp]: "length (cstr s) = length s"
  by (simp add: cstr_def)

end
