(* ===== verification/Wire.thy ===== *)
theory Wire
  imports Prelude
begin

text \<open>
  The packed structures of the QMI headers (\<open>MPQMI.h\<close>, \<open>MPQCTL.h\<close>, \<open>MPQMUX.h\<close>, all
  under \<open>#pragma pack(push, 1)\<close>). A structure is its layout, the list of its fields with
  their widths in bytes in the order of the declaration, so that \<open>sizeof\<close> and the
  offset of a field are computed as the C compiler does for a packed structure. A cast
  pointer \<open>p\<close> into a message is an offset, and \<open>p->f\<close> reads at \<open>p + off L f\<close>.
\<close>

type_synonym layout = "(string \<times> nat) list"

definition sizeof :: "layout \<Rightarrow> nat" where
  "sizeof L = sum_list (map snd L)"

fun off :: "layout \<Rightarrow> string \<Rightarrow> nat" where
  "off [] f = 0"
| "off ((g, n) # L) f = (if f = g then 0 else n + off L f)"

definition get8 :: "byte list \<Rightarrow> nat \<Rightarrow> layout \<Rightarrow> string \<Rightarrow> byte option" where
  "get8 m p L f = rd8 m (p + off L f)"

definition get16 :: "byte list \<Rightarrow> nat \<Rightarrow> layout \<Rightarrow> string \<Rightarrow> u16 option" where
  "get16 m p L f = rd16 m (p + off L f)"

definition get32 :: "byte list \<Rightarrow> nat \<Rightarrow> layout \<Rightarrow> string \<Rightarrow> u32 option" where
  "get32 m p L f = rd32 m (p + off L f)"

definition put8 :: "nat \<Rightarrow> layout \<Rightarrow> string \<Rightarrow> byte \<Rightarrow> byte list \<Rightarrow> byte list option" where
  "put8 p L f v b = wr8 b (p + off L f) v"

definition put16 :: "nat \<Rightarrow> layout \<Rightarrow> string \<Rightarrow> u16 \<Rightarrow> byte list \<Rightarrow> byte list option" where
  "put16 p L f v b = wr16 b (p + off L f) v"

definition put32 :: "nat \<Rightarrow> layout \<Rightarrow> string \<Rightarrow> u32 \<Rightarrow> byte list \<Rightarrow> byte list option" where
  "put32 p L f v b = wr32 b (p + off L f) v"

lemmas field_defs = get8_def get16_def get32_def put8_def put16_def put32_def

section \<open>MPQMI.h\<close>

definition QCQMI_HDR :: layout where
  "QCQMI_HDR =
    [(''IFType'', 1), (''Length'', 2), (''CtlFlags'', 1), (''QMIType'', 1), (''ClientId'',
     1)]"

lemma QCQMI_HDR_layout [simp]:
  "sizeof QCQMI_HDR = 6"
  "off QCQMI_HDR ''IFType'' = 0"
  "off QCQMI_HDR ''Length'' = 1"
  "off QCQMI_HDR ''CtlFlags'' = 3"
  "off QCQMI_HDR ''QMIType'' = 4"
  "off QCQMI_HDR ''ClientId'' = 5"
  by (simp_all add: QCQMI_HDR_def sizeof_def)

definition QCQMUX_HDR :: layout where
  "QCQMUX_HDR =
    [(''CtlFlags'', 1), (''TransactionId'', 2)]"

lemma QCQMUX_HDR_layout [simp]:
  "sizeof QCQMUX_HDR = 3"
  "off QCQMUX_HDR ''CtlFlags'' = 0"
  "off QCQMUX_HDR ''TransactionId'' = 1"
  by (simp_all add: QCQMUX_HDR_def sizeof_def)

definition QCQMUX_MSG_HDR :: layout where
  "QCQMUX_MSG_HDR =
    [(''Type'', 2), (''Length'', 2)]"

lemma QCQMUX_MSG_HDR_layout [simp]:
  "sizeof QCQMUX_MSG_HDR = 4"
  "off QCQMUX_MSG_HDR ''Type'' = 0"
  "off QCQMUX_MSG_HDR ''Length'' = 2"
  by (simp_all add: QCQMUX_MSG_HDR_def sizeof_def)

definition QCQMUX_MSG_HDR_RESP :: layout where
  "QCQMUX_MSG_HDR_RESP =
    [(''Type'', 2), (''Length'', 2), (''TLVType'', 1), (''TLVLength'', 2), (''QMUXResult'',
     2), (''QMUXError'', 2)]"

lemma QCQMUX_MSG_HDR_RESP_layout [simp]:
  "sizeof QCQMUX_MSG_HDR_RESP = 11"
  "off QCQMUX_MSG_HDR_RESP ''Type'' = 0"
  "off QCQMUX_MSG_HDR_RESP ''Length'' = 2"
  "off QCQMUX_MSG_HDR_RESP ''TLVType'' = 4"
  "off QCQMUX_MSG_HDR_RESP ''TLVLength'' = 5"
  "off QCQMUX_MSG_HDR_RESP ''QMUXResult'' = 7"
  "off QCQMUX_MSG_HDR_RESP ''QMUXError'' = 9"
  by (simp_all add: QCQMUX_MSG_HDR_RESP_def sizeof_def)

definition QCQMUX_TLV :: layout where
  "QCQMUX_TLV =
    [(''Type'', 1), (''Length'', 2), (''Value'', 1)]"

lemma QCQMUX_TLV_layout [simp]:
  "sizeof QCQMUX_TLV = 4"
  "off QCQMUX_TLV ''Type'' = 0"
  "off QCQMUX_TLV ''Length'' = 1"
  "off QCQMUX_TLV ''Value'' = 3"
  by (simp_all add: QCQMUX_TLV_def sizeof_def)

definition QMI_TLV_HDR :: layout where
  "QMI_TLV_HDR =
    [(''TLVType'', 1), (''TLVLength'', 2)]"

lemma QMI_TLV_HDR_layout [simp]:
  "sizeof QMI_TLV_HDR = 3"
  "off QMI_TLV_HDR ''TLVType'' = 0"
  "off QMI_TLV_HDR ''TLVLength'' = 1"
  by (simp_all add: QMI_TLV_HDR_def sizeof_def)

section \<open>MPQCTL.h\<close>

definition QCQMICTL_MSG_HDR :: layout where
  "QCQMICTL_MSG_HDR =
    [(''CtlFlags'', 1), (''TransactionId'', 1), (''QMICTLType'', 2), (''Length'', 2)]"

lemma QCQMICTL_MSG_HDR_layout [simp]:
  "sizeof QCQMICTL_MSG_HDR = 6"
  "off QCQMICTL_MSG_HDR ''CtlFlags'' = 0"
  "off QCQMICTL_MSG_HDR ''TransactionId'' = 1"
  "off QCQMICTL_MSG_HDR ''QMICTLType'' = 2"
  "off QCQMICTL_MSG_HDR ''Length'' = 4"
  by (simp_all add: QCQMICTL_MSG_HDR_def sizeof_def)

definition QCQMICTL_MSG_HDR_RESP :: layout where
  "QCQMICTL_MSG_HDR_RESP =
    [(''CtlFlags'', 1), (''TransactionId'', 1), (''QMICTLType'', 2), (''Length'', 2),
     (''TLVType'', 1), (''TLVLength'', 2), (''QMUXResult'', 2), (''QMUXError'', 2)]"

lemma QCQMICTL_MSG_HDR_RESP_layout [simp]:
  "sizeof QCQMICTL_MSG_HDR_RESP = 13"
  "off QCQMICTL_MSG_HDR_RESP ''CtlFlags'' = 0"
  "off QCQMICTL_MSG_HDR_RESP ''TransactionId'' = 1"
  "off QCQMICTL_MSG_HDR_RESP ''QMICTLType'' = 2"
  "off QCQMICTL_MSG_HDR_RESP ''Length'' = 4"
  "off QCQMICTL_MSG_HDR_RESP ''TLVType'' = 6"
  "off QCQMICTL_MSG_HDR_RESP ''TLVLength'' = 7"
  "off QCQMICTL_MSG_HDR_RESP ''QMUXResult'' = 9"
  "off QCQMICTL_MSG_HDR_RESP ''QMUXError'' = 11"
  by (simp_all add: QCQMICTL_MSG_HDR_RESP_def sizeof_def)

definition QCQMICTL_TLV_HDR :: layout where
  "QCQMICTL_TLV_HDR =
    [(''TLVType'', 1), (''TLVLength'', 2)]"

lemma QCQMICTL_TLV_HDR_layout [simp]:
  "sizeof QCQMICTL_TLV_HDR = 3"
  "off QCQMICTL_TLV_HDR ''TLVType'' = 0"
  "off QCQMICTL_TLV_HDR ''TLVLength'' = 1"
  by (simp_all add: QCQMICTL_TLV_HDR_def sizeof_def)

definition QMICTL_GET_VERSION_REQ_MSG :: layout where
  "QMICTL_GET_VERSION_REQ_MSG =
    [(''CtlFlags'', 1), (''TransactionId'', 1), (''QMICTLType'', 2), (''Length'', 2),
     (''TLVType'', 1), (''TLVLength'', 2), (''QMUXTypes'', 1)]"

lemma QMICTL_GET_VERSION_REQ_MSG_layout [simp]:
  "sizeof QMICTL_GET_VERSION_REQ_MSG = 10"
  "off QMICTL_GET_VERSION_REQ_MSG ''CtlFlags'' = 0"
  "off QMICTL_GET_VERSION_REQ_MSG ''TransactionId'' = 1"
  "off QMICTL_GET_VERSION_REQ_MSG ''QMICTLType'' = 2"
  "off QMICTL_GET_VERSION_REQ_MSG ''Length'' = 4"
  "off QMICTL_GET_VERSION_REQ_MSG ''TLVType'' = 6"
  "off QMICTL_GET_VERSION_REQ_MSG ''TLVLength'' = 7"
  "off QMICTL_GET_VERSION_REQ_MSG ''QMUXTypes'' = 9"
  by (simp_all add: QMICTL_GET_VERSION_REQ_MSG_def sizeof_def)

definition QMUX_TYPE_VERSION_STRUCT :: layout where
  "QMUX_TYPE_VERSION_STRUCT =
    [(''QMUXType'', 1), (''MajorVersion'', 2), (''MinorVersion'', 2)]"

lemma QMUX_TYPE_VERSION_STRUCT_layout [simp]:
  "sizeof QMUX_TYPE_VERSION_STRUCT = 5"
  "off QMUX_TYPE_VERSION_STRUCT ''QMUXType'' = 0"
  "off QMUX_TYPE_VERSION_STRUCT ''MajorVersion'' = 1"
  "off QMUX_TYPE_VERSION_STRUCT ''MinorVersion'' = 3"
  by (simp_all add: QMUX_TYPE_VERSION_STRUCT_def sizeof_def)

definition QMICTL_GET_VERSION_RESP_MSG :: layout where
  "QMICTL_GET_VERSION_RESP_MSG =
    [(''CtlFlags'', 1), (''TransactionId'', 1), (''QMICTLType'', 2), (''Length'', 2),
     (''TLVType'', 1), (''TLVLength'', 2), (''QMIResult'', 2), (''QMIError'', 2),
     (''TLV2Type'', 1), (''TLV2Length'', 2), (''NumElements'', 1), (''TypeVersion'', 0)]"

lemma QMICTL_GET_VERSION_RESP_MSG_layout [simp]:
  "sizeof QMICTL_GET_VERSION_RESP_MSG = 17"
  "off QMICTL_GET_VERSION_RESP_MSG ''CtlFlags'' = 0"
  "off QMICTL_GET_VERSION_RESP_MSG ''TransactionId'' = 1"
  "off QMICTL_GET_VERSION_RESP_MSG ''QMICTLType'' = 2"
  "off QMICTL_GET_VERSION_RESP_MSG ''Length'' = 4"
  "off QMICTL_GET_VERSION_RESP_MSG ''TLVType'' = 6"
  "off QMICTL_GET_VERSION_RESP_MSG ''TLVLength'' = 7"
  "off QMICTL_GET_VERSION_RESP_MSG ''QMIResult'' = 9"
  "off QMICTL_GET_VERSION_RESP_MSG ''QMIError'' = 11"
  "off QMICTL_GET_VERSION_RESP_MSG ''TLV2Type'' = 13"
  "off QMICTL_GET_VERSION_RESP_MSG ''TLV2Length'' = 14"
  "off QMICTL_GET_VERSION_RESP_MSG ''NumElements'' = 16"
  "off QMICTL_GET_VERSION_RESP_MSG ''TypeVersion'' = 17"
  by (simp_all add: QMICTL_GET_VERSION_RESP_MSG_def sizeof_def)

definition QMICTL_GET_CLIENT_ID_REQ_MSG :: layout where
  "QMICTL_GET_CLIENT_ID_REQ_MSG =
    [(''CtlFlags'', 1), (''TransactionId'', 1), (''QMICTLType'', 2), (''Length'', 2),
     (''TLVType'', 1), (''TLVLength'', 2), (''QMIType'', 1)]"

lemma QMICTL_GET_CLIENT_ID_REQ_MSG_layout [simp]:
  "sizeof QMICTL_GET_CLIENT_ID_REQ_MSG = 10"
  "off QMICTL_GET_CLIENT_ID_REQ_MSG ''CtlFlags'' = 0"
  "off QMICTL_GET_CLIENT_ID_REQ_MSG ''TransactionId'' = 1"
  "off QMICTL_GET_CLIENT_ID_REQ_MSG ''QMICTLType'' = 2"
  "off QMICTL_GET_CLIENT_ID_REQ_MSG ''Length'' = 4"
  "off QMICTL_GET_CLIENT_ID_REQ_MSG ''TLVType'' = 6"
  "off QMICTL_GET_CLIENT_ID_REQ_MSG ''TLVLength'' = 7"
  "off QMICTL_GET_CLIENT_ID_REQ_MSG ''QMIType'' = 9"
  by (simp_all add: QMICTL_GET_CLIENT_ID_REQ_MSG_def sizeof_def)

definition QMICTL_GET_CLIENT_ID_RESP_MSG :: layout where
  "QMICTL_GET_CLIENT_ID_RESP_MSG =
    [(''CtlFlags'', 1), (''TransactionId'', 1), (''QMICTLType'', 2), (''Length'', 2),
     (''TLVType'', 1), (''TLVLength'', 2), (''QMIResult'', 2), (''QMIError'', 2),
     (''TLV2Type'', 1), (''TLV2Length'', 2), (''QMIType'', 1), (''ClientId'', 1)]"

lemma QMICTL_GET_CLIENT_ID_RESP_MSG_layout [simp]:
  "sizeof QMICTL_GET_CLIENT_ID_RESP_MSG = 18"
  "off QMICTL_GET_CLIENT_ID_RESP_MSG ''CtlFlags'' = 0"
  "off QMICTL_GET_CLIENT_ID_RESP_MSG ''TransactionId'' = 1"
  "off QMICTL_GET_CLIENT_ID_RESP_MSG ''QMICTLType'' = 2"
  "off QMICTL_GET_CLIENT_ID_RESP_MSG ''Length'' = 4"
  "off QMICTL_GET_CLIENT_ID_RESP_MSG ''TLVType'' = 6"
  "off QMICTL_GET_CLIENT_ID_RESP_MSG ''TLVLength'' = 7"
  "off QMICTL_GET_CLIENT_ID_RESP_MSG ''QMIResult'' = 9"
  "off QMICTL_GET_CLIENT_ID_RESP_MSG ''QMIError'' = 11"
  "off QMICTL_GET_CLIENT_ID_RESP_MSG ''TLV2Type'' = 13"
  "off QMICTL_GET_CLIENT_ID_RESP_MSG ''TLV2Length'' = 14"
  "off QMICTL_GET_CLIENT_ID_RESP_MSG ''QMIType'' = 16"
  "off QMICTL_GET_CLIENT_ID_RESP_MSG ''ClientId'' = 17"
  by (simp_all add: QMICTL_GET_CLIENT_ID_RESP_MSG_def sizeof_def)

definition QMICTL_RELEASE_CLIENT_ID_REQ_MSG :: layout where
  "QMICTL_RELEASE_CLIENT_ID_REQ_MSG =
    [(''CtlFlags'', 1), (''TransactionId'', 1), (''QMICTLType'', 2), (''Length'', 2),
     (''TLVType'', 1), (''TLVLength'', 2), (''QMIType'', 1), (''ClientId'', 1)]"

lemma QMICTL_RELEASE_CLIENT_ID_REQ_MSG_layout [simp]:
  "sizeof QMICTL_RELEASE_CLIENT_ID_REQ_MSG = 11"
  "off QMICTL_RELEASE_CLIENT_ID_REQ_MSG ''CtlFlags'' = 0"
  "off QMICTL_RELEASE_CLIENT_ID_REQ_MSG ''TransactionId'' = 1"
  "off QMICTL_RELEASE_CLIENT_ID_REQ_MSG ''QMICTLType'' = 2"
  "off QMICTL_RELEASE_CLIENT_ID_REQ_MSG ''Length'' = 4"
  "off QMICTL_RELEASE_CLIENT_ID_REQ_MSG ''TLVType'' = 6"
  "off QMICTL_RELEASE_CLIENT_ID_REQ_MSG ''TLVLength'' = 7"
  "off QMICTL_RELEASE_CLIENT_ID_REQ_MSG ''QMIType'' = 9"
  "off QMICTL_RELEASE_CLIENT_ID_REQ_MSG ''ClientId'' = 10"
  by (simp_all add: QMICTL_RELEASE_CLIENT_ID_REQ_MSG_def sizeof_def)

section \<open>MPQMUX.h\<close>

definition QMIWDS_ADMIN_SET_DATA_FORMAT_TLV_QOS :: layout where
  "QMIWDS_ADMIN_SET_DATA_FORMAT_TLV_QOS =
    [(''TLVType'', 1), (''TLVLength'', 2), (''QOSSetting'', 1)]"

lemma QMIWDS_ADMIN_SET_DATA_FORMAT_TLV_QOS_layout [simp]:
  "sizeof QMIWDS_ADMIN_SET_DATA_FORMAT_TLV_QOS = 4"
  "off QMIWDS_ADMIN_SET_DATA_FORMAT_TLV_QOS ''TLVType'' = 0"
  "off QMIWDS_ADMIN_SET_DATA_FORMAT_TLV_QOS ''TLVLength'' = 1"
  "off QMIWDS_ADMIN_SET_DATA_FORMAT_TLV_QOS ''QOSSetting'' = 3"
  by (simp_all add: QMIWDS_ADMIN_SET_DATA_FORMAT_TLV_QOS_def sizeof_def)

definition QMIWDS_ADMIN_SET_DATA_FORMAT_TLV :: layout where
  "QMIWDS_ADMIN_SET_DATA_FORMAT_TLV =
    [(''TLVType'', 1), (''TLVLength'', 2), (''Value'', 4)]"

lemma QMIWDS_ADMIN_SET_DATA_FORMAT_TLV_layout [simp]:
  "sizeof QMIWDS_ADMIN_SET_DATA_FORMAT_TLV = 7"
  "off QMIWDS_ADMIN_SET_DATA_FORMAT_TLV ''TLVType'' = 0"
  "off QMIWDS_ADMIN_SET_DATA_FORMAT_TLV ''TLVLength'' = 1"
  "off QMIWDS_ADMIN_SET_DATA_FORMAT_TLV ''Value'' = 3"
  by (simp_all add: QMIWDS_ADMIN_SET_DATA_FORMAT_TLV_def sizeof_def)

definition QMIWDS_ENDPOINT_TLV :: layout where
  "QMIWDS_ENDPOINT_TLV =
    [(''TLVType'', 1), (''TLVLength'', 2), (''ep_type'', 4), (''iface_id'', 4)]"

lemma QMIWDS_ENDPOINT_TLV_layout [simp]:
  "sizeof QMIWDS_ENDPOINT_TLV = 11"
  "off QMIWDS_ENDPOINT_TLV ''TLVType'' = 0"
  "off QMIWDS_ENDPOINT_TLV ''TLVLength'' = 1"
  "off QMIWDS_ENDPOINT_TLV ''ep_type'' = 3"
  "off QMIWDS_ENDPOINT_TLV ''iface_id'' = 7"
  by (simp_all add: QMIWDS_ENDPOINT_TLV_def sizeof_def)

definition QMIWDS_ADMIN_SET_DATA_FORMAT_REQ_MSG :: layout where
  "QMIWDS_ADMIN_SET_DATA_FORMAT_REQ_MSG =
    [(''Type'', 2), (''Length'', 2), (''QosDataFormatTlv'', 4),
     (''UnderlyingLinkLayerProtocolTlv'', 7), (''UplinkDataAggregationProtocolTlv'', 7),
     (''DownlinkDataAggregationProtocolTlv'', 7),
     (''DownlinkDataAggregationMaxDatagramsTlv'', 7),
     (''DownlinkDataAggregationMaxSizeTlv'', 7), (''epTlv'', 11)]"

lemma QMIWDS_ADMIN_SET_DATA_FORMAT_REQ_MSG_layout [simp]:
  "sizeof QMIWDS_ADMIN_SET_DATA_FORMAT_REQ_MSG = 54"
  "off QMIWDS_ADMIN_SET_DATA_FORMAT_REQ_MSG ''Type'' = 0"
  "off QMIWDS_ADMIN_SET_DATA_FORMAT_REQ_MSG ''Length'' = 2"
  "off QMIWDS_ADMIN_SET_DATA_FORMAT_REQ_MSG ''QosDataFormatTlv'' = 4"
  "off QMIWDS_ADMIN_SET_DATA_FORMAT_REQ_MSG ''UnderlyingLinkLayerProtocolTlv'' = 8"
  "off QMIWDS_ADMIN_SET_DATA_FORMAT_REQ_MSG ''UplinkDataAggregationProtocolTlv'' = 15"
  "off QMIWDS_ADMIN_SET_DATA_FORMAT_REQ_MSG ''DownlinkDataAggregationProtocolTlv'' = 22"
  "off QMIWDS_ADMIN_SET_DATA_FORMAT_REQ_MSG ''DownlinkDataAggregationMaxDatagramsTlv'' = 29"
  "off QMIWDS_ADMIN_SET_DATA_FORMAT_REQ_MSG ''DownlinkDataAggregationMaxSizeTlv'' = 36"
  "off QMIWDS_ADMIN_SET_DATA_FORMAT_REQ_MSG ''epTlv'' = 43"
  by (simp_all add: QMIWDS_ADMIN_SET_DATA_FORMAT_REQ_MSG_def sizeof_def)

definition QMIWDS_GET_RUNTIME_SETTINGS_REQ_MSG :: layout where
  "QMIWDS_GET_RUNTIME_SETTINGS_REQ_MSG =
    [(''Type'', 2), (''Length'', 2), (''TLVType'', 1), (''TLVLength'', 2), (''Mask'', 4)]"

lemma QMIWDS_GET_RUNTIME_SETTINGS_REQ_MSG_layout [simp]:
  "sizeof QMIWDS_GET_RUNTIME_SETTINGS_REQ_MSG = 11"
  "off QMIWDS_GET_RUNTIME_SETTINGS_REQ_MSG ''Type'' = 0"
  "off QMIWDS_GET_RUNTIME_SETTINGS_REQ_MSG ''Length'' = 2"
  "off QMIWDS_GET_RUNTIME_SETTINGS_REQ_MSG ''TLVType'' = 4"
  "off QMIWDS_GET_RUNTIME_SETTINGS_REQ_MSG ''TLVLength'' = 5"
  "off QMIWDS_GET_RUNTIME_SETTINGS_REQ_MSG ''Mask'' = 7"
  by (simp_all add: QMIWDS_GET_RUNTIME_SETTINGS_REQ_MSG_def sizeof_def)

definition QMIWDS_BIND_MUX_DATA_PORT_REQ_MSG :: layout where
  "QMIWDS_BIND_MUX_DATA_PORT_REQ_MSG =
    [(''Type'', 2), (''Length'', 2), (''TLVType'', 1), (''TLVLength'', 2), (''ep_type'',
     4), (''iface_id'', 4), (''TLV2Type'', 1), (''TLV2Length'', 2), (''MuxId'', 1),
     (''TLV3Type'', 1), (''TLV3Length'', 2), (''client_type'', 4)]"

lemma QMIWDS_BIND_MUX_DATA_PORT_REQ_MSG_layout [simp]:
  "sizeof QMIWDS_BIND_MUX_DATA_PORT_REQ_MSG = 26"
  "off QMIWDS_BIND_MUX_DATA_PORT_REQ_MSG ''Type'' = 0"
  "off QMIWDS_BIND_MUX_DATA_PORT_REQ_MSG ''Length'' = 2"
  "off QMIWDS_BIND_MUX_DATA_PORT_REQ_MSG ''TLVType'' = 4"
  "off QMIWDS_BIND_MUX_DATA_PORT_REQ_MSG ''TLVLength'' = 5"
  "off QMIWDS_BIND_MUX_DATA_PORT_REQ_MSG ''ep_type'' = 7"
  "off QMIWDS_BIND_MUX_DATA_PORT_REQ_MSG ''iface_id'' = 11"
  "off QMIWDS_BIND_MUX_DATA_PORT_REQ_MSG ''TLV2Type'' = 15"
  "off QMIWDS_BIND_MUX_DATA_PORT_REQ_MSG ''TLV2Length'' = 16"
  "off QMIWDS_BIND_MUX_DATA_PORT_REQ_MSG ''MuxId'' = 18"
  "off QMIWDS_BIND_MUX_DATA_PORT_REQ_MSG ''TLV3Type'' = 19"
  "off QMIWDS_BIND_MUX_DATA_PORT_REQ_MSG ''TLV3Length'' = 20"
  "off QMIWDS_BIND_MUX_DATA_PORT_REQ_MSG ''client_type'' = 22"
  by (simp_all add: QMIWDS_BIND_MUX_DATA_PORT_REQ_MSG_def sizeof_def)

definition QMIWDS_GET_RUNTIME_SETTINGS_TLV_MTU :: layout where
  "QMIWDS_GET_RUNTIME_SETTINGS_TLV_MTU =
    [(''TLVType'', 1), (''TLVLength'', 2), (''Mtu'', 4)]"

lemma QMIWDS_GET_RUNTIME_SETTINGS_TLV_MTU_layout [simp]:
  "sizeof QMIWDS_GET_RUNTIME_SETTINGS_TLV_MTU = 7"
  "off QMIWDS_GET_RUNTIME_SETTINGS_TLV_MTU ''TLVType'' = 0"
  "off QMIWDS_GET_RUNTIME_SETTINGS_TLV_MTU ''TLVLength'' = 1"
  "off QMIWDS_GET_RUNTIME_SETTINGS_TLV_MTU ''Mtu'' = 3"
  by (simp_all add: QMIWDS_GET_RUNTIME_SETTINGS_TLV_MTU_def sizeof_def)

definition QMIWDS_GET_RUNTIME_SETTINGS_TLV_IPV4_ADDR :: layout where
  "QMIWDS_GET_RUNTIME_SETTINGS_TLV_IPV4_ADDR =
    [(''TLVType'', 1), (''TLVLength'', 2), (''IPV4Address'', 4)]"

lemma QMIWDS_GET_RUNTIME_SETTINGS_TLV_IPV4_ADDR_layout [simp]:
  "sizeof QMIWDS_GET_RUNTIME_SETTINGS_TLV_IPV4_ADDR = 7"
  "off QMIWDS_GET_RUNTIME_SETTINGS_TLV_IPV4_ADDR ''TLVType'' = 0"
  "off QMIWDS_GET_RUNTIME_SETTINGS_TLV_IPV4_ADDR ''TLVLength'' = 1"
  "off QMIWDS_GET_RUNTIME_SETTINGS_TLV_IPV4_ADDR ''IPV4Address'' = 3"
  by (simp_all add: QMIWDS_GET_RUNTIME_SETTINGS_TLV_IPV4_ADDR_def sizeof_def)

definition QMIWDS_GET_RUNTIME_SETTINGS_TLV_IPV6_ADDR :: layout where
  "QMIWDS_GET_RUNTIME_SETTINGS_TLV_IPV6_ADDR =
    [(''TLVType'', 1), (''TLVLength'', 2), (''IPV6Address'', 16), (''PrefixLength'', 1)]"

lemma QMIWDS_GET_RUNTIME_SETTINGS_TLV_IPV6_ADDR_layout [simp]:
  "sizeof QMIWDS_GET_RUNTIME_SETTINGS_TLV_IPV6_ADDR = 20"
  "off QMIWDS_GET_RUNTIME_SETTINGS_TLV_IPV6_ADDR ''TLVType'' = 0"
  "off QMIWDS_GET_RUNTIME_SETTINGS_TLV_IPV6_ADDR ''TLVLength'' = 1"
  "off QMIWDS_GET_RUNTIME_SETTINGS_TLV_IPV6_ADDR ''IPV6Address'' = 3"
  "off QMIWDS_GET_RUNTIME_SETTINGS_TLV_IPV6_ADDR ''PrefixLength'' = 19"
  by (simp_all add: QMIWDS_GET_RUNTIME_SETTINGS_TLV_IPV6_ADDR_def sizeof_def)

definition QMIWDS_IP_FAMILY_TLV :: layout where
  "QMIWDS_IP_FAMILY_TLV =
    [(''TLVType'', 1), (''TLVLength'', 2), (''IpFamily'', 1)]"

lemma QMIWDS_IP_FAMILY_TLV_layout [simp]:
  "sizeof QMIWDS_IP_FAMILY_TLV = 4"
  "off QMIWDS_IP_FAMILY_TLV ''TLVType'' = 0"
  "off QMIWDS_IP_FAMILY_TLV ''TLVLength'' = 1"
  "off QMIWDS_IP_FAMILY_TLV ''IpFamily'' = 3"
  by (simp_all add: QMIWDS_IP_FAMILY_TLV_def sizeof_def)

definition QMIWDS_PKT_SRVC_TLV :: layout where
  "QMIWDS_PKT_SRVC_TLV =
    [(''TLVType'', 1), (''TLVLength'', 2), (''ConnectionStatus'', 1), (''ReconfigReqd'', 1)]"

lemma QMIWDS_PKT_SRVC_TLV_layout [simp]:
  "sizeof QMIWDS_PKT_SRVC_TLV = 5"
  "off QMIWDS_PKT_SRVC_TLV ''TLVType'' = 0"
  "off QMIWDS_PKT_SRVC_TLV ''TLVLength'' = 1"
  "off QMIWDS_PKT_SRVC_TLV ''ConnectionStatus'' = 3"
  "off QMIWDS_PKT_SRVC_TLV ''ReconfigReqd'' = 4"
  by (simp_all add: QMIWDS_PKT_SRVC_TLV_def sizeof_def)

definition QMIWDS_SET_CLIENT_IP_FAMILY_PREF_REQ_MSG :: layout where
  "QMIWDS_SET_CLIENT_IP_FAMILY_PREF_REQ_MSG =
    [(''Type'', 2), (''Length'', 2), (''TLVType'', 1), (''TLVLength'', 2),
     (''IpPreference'', 1)]"

lemma QMIWDS_SET_CLIENT_IP_FAMILY_PREF_REQ_MSG_layout [simp]:
  "sizeof QMIWDS_SET_CLIENT_IP_FAMILY_PREF_REQ_MSG = 8"
  "off QMIWDS_SET_CLIENT_IP_FAMILY_PREF_REQ_MSG ''Type'' = 0"
  "off QMIWDS_SET_CLIENT_IP_FAMILY_PREF_REQ_MSG ''Length'' = 2"
  "off QMIWDS_SET_CLIENT_IP_FAMILY_PREF_REQ_MSG ''TLVType'' = 4"
  "off QMIWDS_SET_CLIENT_IP_FAMILY_PREF_REQ_MSG ''TLVLength'' = 5"
  "off QMIWDS_SET_CLIENT_IP_FAMILY_PREF_REQ_MSG ''IpPreference'' = 7"
  by (simp_all add: QMIWDS_SET_CLIENT_IP_FAMILY_PREF_REQ_MSG_def sizeof_def)

definition QMIWDS_SET_AUTO_CONNECT_REQ_MSG :: layout where
  "QMIWDS_SET_AUTO_CONNECT_REQ_MSG =
    [(''Type'', 2), (''Length'', 2), (''TLVType'', 1), (''TLVLength'', 2),
     (''autoconnect_setting'', 1)]"

lemma QMIWDS_SET_AUTO_CONNECT_REQ_MSG_layout [simp]:
  "sizeof QMIWDS_SET_AUTO_CONNECT_REQ_MSG = 8"
  "off QMIWDS_SET_AUTO_CONNECT_REQ_MSG ''Type'' = 0"
  "off QMIWDS_SET_AUTO_CONNECT_REQ_MSG ''Length'' = 2"
  "off QMIWDS_SET_AUTO_CONNECT_REQ_MSG ''TLVType'' = 4"
  "off QMIWDS_SET_AUTO_CONNECT_REQ_MSG ''TLVLength'' = 5"
  "off QMIWDS_SET_AUTO_CONNECT_REQ_MSG ''autoconnect_setting'' = 7"
  by (simp_all add: QMIWDS_SET_AUTO_CONNECT_REQ_MSG_def sizeof_def)

definition QMIWDS_TECHNOLOGY_PREFERECE :: layout where
  "QMIWDS_TECHNOLOGY_PREFERECE =
    [(''TLVType'', 1), (''TLVLength'', 2), (''TechPreference'', 1)]"

lemma QMIWDS_TECHNOLOGY_PREFERECE_layout [simp]:
  "sizeof QMIWDS_TECHNOLOGY_PREFERECE = 4"
  "off QMIWDS_TECHNOLOGY_PREFERECE ''TLVType'' = 0"
  "off QMIWDS_TECHNOLOGY_PREFERECE ''TLVLength'' = 1"
  "off QMIWDS_TECHNOLOGY_PREFERECE ''TechPreference'' = 3"
  by (simp_all add: QMIWDS_TECHNOLOGY_PREFERECE_def sizeof_def)

definition QMIWDS_PROFILE_IDENTIFIER :: layout where
  "QMIWDS_PROFILE_IDENTIFIER =
    [(''TLVType'', 1), (''TLVLength'', 2), (''ProfileIndex'', 1)]"

lemma QMIWDS_PROFILE_IDENTIFIER_layout [simp]:
  "sizeof QMIWDS_PROFILE_IDENTIFIER = 4"
  "off QMIWDS_PROFILE_IDENTIFIER ''TLVType'' = 0"
  "off QMIWDS_PROFILE_IDENTIFIER ''TLVLength'' = 1"
  "off QMIWDS_PROFILE_IDENTIFIER ''ProfileIndex'' = 3"
  by (simp_all add: QMIWDS_PROFILE_IDENTIFIER_def sizeof_def)

definition QMIWDS_PDPTYPE :: layout where
  "QMIWDS_PDPTYPE =
    [(''TLVType'', 1), (''TLVLength'', 2), (''PdpType'', 1)]"

lemma QMIWDS_PDPTYPE_layout [simp]:
  "sizeof QMIWDS_PDPTYPE = 4"
  "off QMIWDS_PDPTYPE ''TLVType'' = 0"
  "off QMIWDS_PDPTYPE ''TLVLength'' = 1"
  "off QMIWDS_PDPTYPE ''PdpType'' = 3"
  by (simp_all add: QMIWDS_PDPTYPE_def sizeof_def)

definition QMIWDS_USERNAME :: layout where
  "QMIWDS_USERNAME =
    [(''TLVType'', 1), (''TLVLength'', 2), (''UserName'', 1)]"

lemma QMIWDS_USERNAME_layout [simp]:
  "sizeof QMIWDS_USERNAME = 4"
  "off QMIWDS_USERNAME ''TLVType'' = 0"
  "off QMIWDS_USERNAME ''TLVLength'' = 1"
  "off QMIWDS_USERNAME ''UserName'' = 3"
  by (simp_all add: QMIWDS_USERNAME_def sizeof_def)

definition QMIWDS_PASSWD :: layout where
  "QMIWDS_PASSWD =
    [(''TLVType'', 1), (''TLVLength'', 2), (''Passwd'', 1)]"

lemma QMIWDS_PASSWD_layout [simp]:
  "sizeof QMIWDS_PASSWD = 4"
  "off QMIWDS_PASSWD ''TLVType'' = 0"
  "off QMIWDS_PASSWD ''TLVLength'' = 1"
  "off QMIWDS_PASSWD ''Passwd'' = 3"
  by (simp_all add: QMIWDS_PASSWD_def sizeof_def)

definition QMIWDS_AUTH_PREFERENCE :: layout where
  "QMIWDS_AUTH_PREFERENCE =
    [(''TLVType'', 1), (''TLVLength'', 2), (''AuthPreference'', 1)]"

lemma QMIWDS_AUTH_PREFERENCE_layout [simp]:
  "sizeof QMIWDS_AUTH_PREFERENCE = 4"
  "off QMIWDS_AUTH_PREFERENCE ''TLVType'' = 0"
  "off QMIWDS_AUTH_PREFERENCE ''TLVLength'' = 1"
  "off QMIWDS_AUTH_PREFERENCE ''AuthPreference'' = 3"
  by (simp_all add: QMIWDS_AUTH_PREFERENCE_def sizeof_def)

definition QMIWDS_APNNAME :: layout where
  "QMIWDS_APNNAME =
    [(''TLVType'', 1), (''TLVLength'', 2), (''ApnName'', 1)]"

lemma QMIWDS_APNNAME_layout [simp]:
  "sizeof QMIWDS_APNNAME = 4"
  "off QMIWDS_APNNAME ''TLVType'' = 0"
  "off QMIWDS_APNNAME ''TLVLength'' = 1"
  "off QMIWDS_APNNAME ''ApnName'' = 3"
  by (simp_all add: QMIWDS_APNNAME_def sizeof_def)

definition QMIWDS_START_NETWORK_INTERFACE_REQ_MSG :: layout where
  "QMIWDS_START_NETWORK_INTERFACE_REQ_MSG =
    [(''Type'', 2), (''Length'', 2)]"

lemma QMIWDS_START_NETWORK_INTERFACE_REQ_MSG_layout [simp]:
  "sizeof QMIWDS_START_NETWORK_INTERFACE_REQ_MSG = 4"
  "off QMIWDS_START_NETWORK_INTERFACE_REQ_MSG ''Type'' = 0"
  "off QMIWDS_START_NETWORK_INTERFACE_REQ_MSG ''Length'' = 2"
  by (simp_all add: QMIWDS_START_NETWORK_INTERFACE_REQ_MSG_def sizeof_def)

definition QMIWDS_START_NETWORK_INTERFACE_RESP_MSG :: layout where
  "QMIWDS_START_NETWORK_INTERFACE_RESP_MSG =
    [(''Type'', 2), (''Length'', 2), (''TLVType'', 1), (''TLVLength'', 2), (''QMUXResult'',
     2), (''QMUXError'', 2), (''TLV2Type'', 1), (''TLV2Length'', 2), (''Handle'', 4)]"

lemma QMIWDS_START_NETWORK_INTERFACE_RESP_MSG_layout [simp]:
  "sizeof QMIWDS_START_NETWORK_INTERFACE_RESP_MSG = 18"
  "off QMIWDS_START_NETWORK_INTERFACE_RESP_MSG ''Type'' = 0"
  "off QMIWDS_START_NETWORK_INTERFACE_RESP_MSG ''Length'' = 2"
  "off QMIWDS_START_NETWORK_INTERFACE_RESP_MSG ''TLVType'' = 4"
  "off QMIWDS_START_NETWORK_INTERFACE_RESP_MSG ''TLVLength'' = 5"
  "off QMIWDS_START_NETWORK_INTERFACE_RESP_MSG ''QMUXResult'' = 7"
  "off QMIWDS_START_NETWORK_INTERFACE_RESP_MSG ''QMUXError'' = 9"
  "off QMIWDS_START_NETWORK_INTERFACE_RESP_MSG ''TLV2Type'' = 11"
  "off QMIWDS_START_NETWORK_INTERFACE_RESP_MSG ''TLV2Length'' = 12"
  "off QMIWDS_START_NETWORK_INTERFACE_RESP_MSG ''Handle'' = 14"
  by (simp_all add: QMIWDS_START_NETWORK_INTERFACE_RESP_MSG_def sizeof_def)

definition QMIWDS_STOP_NETWORK_INTERFACE_REQ_MSG :: layout where
  "QMIWDS_STOP_NETWORK_INTERFACE_REQ_MSG =
    [(''Type'', 2), (''Length'', 2), (''TLVType'', 1), (''TLVLength'', 2), (''Handle'', 4)]"

lemma QMIWDS_STOP_NETWORK_INTERFACE_REQ_MSG_layout [simp]:
  "sizeof QMIWDS_STOP_NETWORK_INTERFACE_REQ_MSG = 11"
  "off QMIWDS_STOP_NETWORK_INTERFACE_REQ_MSG ''Type'' = 0"
  "off QMIWDS_STOP_NETWORK_INTERFACE_REQ_MSG ''Length'' = 2"
  "off QMIWDS_STOP_NETWORK_INTERFACE_REQ_MSG ''TLVType'' = 4"
  "off QMIWDS_STOP_NETWORK_INTERFACE_REQ_MSG ''TLVLength'' = 5"
  "off QMIWDS_STOP_NETWORK_INTERFACE_REQ_MSG ''Handle'' = 7"
  by (simp_all add: QMIWDS_STOP_NETWORK_INTERFACE_REQ_MSG_def sizeof_def)

definition QMIWDS_MODIFY_PROFILE_SETTINGS_REQ_MSG :: layout where
  "QMIWDS_MODIFY_PROFILE_SETTINGS_REQ_MSG =
    [(''Type'', 2), (''Length'', 2), (''TLVType'', 1), (''TLVLength'', 2),
     (''ProfileType'', 1), (''ProfileIndex'', 1)]"

lemma QMIWDS_MODIFY_PROFILE_SETTINGS_REQ_MSG_layout [simp]:
  "sizeof QMIWDS_MODIFY_PROFILE_SETTINGS_REQ_MSG = 9"
  "off QMIWDS_MODIFY_PROFILE_SETTINGS_REQ_MSG ''Type'' = 0"
  "off QMIWDS_MODIFY_PROFILE_SETTINGS_REQ_MSG ''Length'' = 2"
  "off QMIWDS_MODIFY_PROFILE_SETTINGS_REQ_MSG ''TLVType'' = 4"
  "off QMIWDS_MODIFY_PROFILE_SETTINGS_REQ_MSG ''TLVLength'' = 5"
  "off QMIWDS_MODIFY_PROFILE_SETTINGS_REQ_MSG ''ProfileType'' = 7"
  "off QMIWDS_MODIFY_PROFILE_SETTINGS_REQ_MSG ''ProfileIndex'' = 8"
  by (simp_all add: QMIWDS_MODIFY_PROFILE_SETTINGS_REQ_MSG_def sizeof_def)

definition QMIWDS_GET_PROFILE_SETTINGS_REQ_MSG :: layout where
  "QMIWDS_GET_PROFILE_SETTINGS_REQ_MSG =
    [(''Type'', 2), (''Length'', 2), (''TLVType'', 1), (''TLVLength'', 2),
     (''ProfileType'', 1), (''ProfileIndex'', 1)]"

lemma QMIWDS_GET_PROFILE_SETTINGS_REQ_MSG_layout [simp]:
  "sizeof QMIWDS_GET_PROFILE_SETTINGS_REQ_MSG = 9"
  "off QMIWDS_GET_PROFILE_SETTINGS_REQ_MSG ''Type'' = 0"
  "off QMIWDS_GET_PROFILE_SETTINGS_REQ_MSG ''Length'' = 2"
  "off QMIWDS_GET_PROFILE_SETTINGS_REQ_MSG ''TLVType'' = 4"
  "off QMIWDS_GET_PROFILE_SETTINGS_REQ_MSG ''TLVLength'' = 5"
  "off QMIWDS_GET_PROFILE_SETTINGS_REQ_MSG ''ProfileType'' = 7"
  "off QMIWDS_GET_PROFILE_SETTINGS_REQ_MSG ''ProfileIndex'' = 8"
  by (simp_all add: QMIWDS_GET_PROFILE_SETTINGS_REQ_MSG_def sizeof_def)

definition DEVICE_REV_ID :: layout where
  "DEVICE_REV_ID =
    [(''TLVType'', 1), (''TLVLength'', 2), (''RevisionID'', 1)]"

lemma DEVICE_REV_ID_layout [simp]:
  "sizeof DEVICE_REV_ID = 4"
  "off DEVICE_REV_ID ''TLVType'' = 0"
  "off DEVICE_REV_ID ''TLVLength'' = 1"
  "off DEVICE_REV_ID ''RevisionID'' = 3"
  by (simp_all add: DEVICE_REV_ID_def sizeof_def)

definition QMIDMS_UIM_GET_STATE_RESP_MSG :: layout where
  "QMIDMS_UIM_GET_STATE_RESP_MSG =
    [(''Type'', 2), (''Length'', 2), (''TLVType'', 1), (''TLVLength'', 2), (''QMUXResult'',
     2), (''QMUXError'', 2), (''TLV2Type'', 1), (''TLV2Length'', 2), (''UIMState'', 1)]"

lemma QMIDMS_UIM_GET_STATE_RESP_MSG_layout [simp]:
  "sizeof QMIDMS_UIM_GET_STATE_RESP_MSG = 15"
  "off QMIDMS_UIM_GET_STATE_RESP_MSG ''Type'' = 0"
  "off QMIDMS_UIM_GET_STATE_RESP_MSG ''Length'' = 2"
  "off QMIDMS_UIM_GET_STATE_RESP_MSG ''TLVType'' = 4"
  "off QMIDMS_UIM_GET_STATE_RESP_MSG ''TLVLength'' = 5"
  "off QMIDMS_UIM_GET_STATE_RESP_MSG ''QMUXResult'' = 7"
  "off QMIDMS_UIM_GET_STATE_RESP_MSG ''QMUXError'' = 9"
  "off QMIDMS_UIM_GET_STATE_RESP_MSG ''TLV2Type'' = 11"
  "off QMIDMS_UIM_GET_STATE_RESP_MSG ''TLV2Length'' = 12"
  "off QMIDMS_UIM_GET_STATE_RESP_MSG ''UIMState'' = 14"
  by (simp_all add: QMIDMS_UIM_GET_STATE_RESP_MSG_def sizeof_def)

definition QMIDMS_UIM_PIN_STATUS :: layout where
  "QMIDMS_UIM_PIN_STATUS =
    [(''TLVType'', 1), (''TLVLength'', 2), (''PINStatus'', 1), (''PINVerifyRetriesLeft'',
     1), (''PINUnblockRetriesLeft'', 1)]"

lemma QMIDMS_UIM_PIN_STATUS_layout [simp]:
  "sizeof QMIDMS_UIM_PIN_STATUS = 6"
  "off QMIDMS_UIM_PIN_STATUS ''TLVType'' = 0"
  "off QMIDMS_UIM_PIN_STATUS ''TLVLength'' = 1"
  "off QMIDMS_UIM_PIN_STATUS ''PINStatus'' = 3"
  "off QMIDMS_UIM_PIN_STATUS ''PINVerifyRetriesLeft'' = 4"
  "off QMIDMS_UIM_PIN_STATUS ''PINUnblockRetriesLeft'' = 5"
  by (simp_all add: QMIDMS_UIM_PIN_STATUS_def sizeof_def)

definition QMIDMS_UIM_VERIFY_PIN_REQ_MSG :: layout where
  "QMIDMS_UIM_VERIFY_PIN_REQ_MSG =
    [(''Type'', 2), (''Length'', 2), (''TLVType'', 1), (''TLVLength'', 2), (''PINID'', 1),
     (''PINLen'', 1), (''PINValue'', 1)]"

lemma QMIDMS_UIM_VERIFY_PIN_REQ_MSG_layout [simp]:
  "sizeof QMIDMS_UIM_VERIFY_PIN_REQ_MSG = 10"
  "off QMIDMS_UIM_VERIFY_PIN_REQ_MSG ''Type'' = 0"
  "off QMIDMS_UIM_VERIFY_PIN_REQ_MSG ''Length'' = 2"
  "off QMIDMS_UIM_VERIFY_PIN_REQ_MSG ''TLVType'' = 4"
  "off QMIDMS_UIM_VERIFY_PIN_REQ_MSG ''TLVLength'' = 5"
  "off QMIDMS_UIM_VERIFY_PIN_REQ_MSG ''PINID'' = 7"
  "off QMIDMS_UIM_VERIFY_PIN_REQ_MSG ''PINLen'' = 8"
  "off QMIDMS_UIM_VERIFY_PIN_REQ_MSG ''PINValue'' = 9"
  by (simp_all add: QMIDMS_UIM_VERIFY_PIN_REQ_MSG_def sizeof_def)

definition HOME_NETWORK_SYSTEMID :: layout where
  "HOME_NETWORK_SYSTEMID =
    [(''TLVType'', 1), (''TLVLength'', 2), (''SystemID'', 2), (''NetworkID'', 2)]"

lemma HOME_NETWORK_SYSTEMID_layout [simp]:
  "sizeof HOME_NETWORK_SYSTEMID = 7"
  "off HOME_NETWORK_SYSTEMID ''TLVType'' = 0"
  "off HOME_NETWORK_SYSTEMID ''TLVLength'' = 1"
  "off HOME_NETWORK_SYSTEMID ''SystemID'' = 3"
  "off HOME_NETWORK_SYSTEMID ''NetworkID'' = 5"
  by (simp_all add: HOME_NETWORK_SYSTEMID_def sizeof_def)

definition HOME_NETWORK :: layout where
  "HOME_NETWORK =
    [(''TLVType'', 1), (''TLVLength'', 2), (''MobileCountryCode'', 2),
     (''MobileNetworkCode'', 2), (''NetworkDesclen'', 1), (''NetworkDesc'', 1)]"

lemma HOME_NETWORK_layout [simp]:
  "sizeof HOME_NETWORK = 9"
  "off HOME_NETWORK ''TLVType'' = 0"
  "off HOME_NETWORK ''TLVLength'' = 1"
  "off HOME_NETWORK ''MobileCountryCode'' = 3"
  "off HOME_NETWORK ''MobileNetworkCode'' = 5"
  "off HOME_NETWORK ''NetworkDesclen'' = 7"
  "off HOME_NETWORK ''NetworkDesc'' = 8"
  by (simp_all add: HOME_NETWORK_def sizeof_def)

definition QMINAS_DATA_CAP :: layout where
  "QMINAS_DATA_CAP =
    [(''TLVType'', 1), (''TLVLength'', 2), (''DataCapListLen'', 1), (''DataCap'', 1)]"

lemma QMINAS_DATA_CAP_layout [simp]:
  "sizeof QMINAS_DATA_CAP = 5"
  "off QMINAS_DATA_CAP ''TLVType'' = 0"
  "off QMINAS_DATA_CAP ''TLVLength'' = 1"
  "off QMINAS_DATA_CAP ''DataCapListLen'' = 3"
  "off QMINAS_DATA_CAP ''DataCap'' = 4"
  by (simp_all add: QMINAS_DATA_CAP_def sizeof_def)

definition QMINAS_CURRENT_PLMN_MSG :: layout where
  "QMINAS_CURRENT_PLMN_MSG =
    [(''TLVType'', 1), (''TLVLength'', 2), (''MobileCountryCode'', 2),
     (''MobileNetworkCode'', 2), (''NetworkDesclen'', 1), (''NetworkDesc'', 1)]"

lemma QMINAS_CURRENT_PLMN_MSG_layout [simp]:
  "sizeof QMINAS_CURRENT_PLMN_MSG = 9"
  "off QMINAS_CURRENT_PLMN_MSG ''TLVType'' = 0"
  "off QMINAS_CURRENT_PLMN_MSG ''TLVLength'' = 1"
  "off QMINAS_CURRENT_PLMN_MSG ''MobileCountryCode'' = 3"
  "off QMINAS_CURRENT_PLMN_MSG ''MobileNetworkCode'' = 5"
  "off QMINAS_CURRENT_PLMN_MSG ''NetworkDesclen'' = 7"
  "off QMINAS_CURRENT_PLMN_MSG ''NetworkDesc'' = 8"
  by (simp_all add: QMINAS_CURRENT_PLMN_MSG_def sizeof_def)

definition SERVING_SYSTEM :: layout where
  "SERVING_SYSTEM =
    [(''TLVType'', 1), (''TLVLength'', 2), (''RegistrationState'', 1),
     (''CSAttachedState'', 1), (''PSAttachedState'', 1), (''RegistredNetwork'', 1),
     (''InUseRadioIF'', 1), (''RadioIF'', 1)]"

lemma SERVING_SYSTEM_layout [simp]:
  "sizeof SERVING_SYSTEM = 9"
  "off SERVING_SYSTEM ''TLVType'' = 0"
  "off SERVING_SYSTEM ''TLVLength'' = 1"
  "off SERVING_SYSTEM ''RegistrationState'' = 3"
  "off SERVING_SYSTEM ''CSAttachedState'' = 4"
  "off SERVING_SYSTEM ''PSAttachedState'' = 5"
  "off SERVING_SYSTEM ''RegistredNetwork'' = 6"
  "off SERVING_SYSTEM ''InUseRadioIF'' = 7"
  "off SERVING_SYSTEM ''RadioIF'' = 8"
  by (simp_all add: SERVING_SYSTEM_def sizeof_def)

definition QMINAS_GET_SYS_INFO_RESP_MSG :: layout where
  "QMINAS_GET_SYS_INFO_RESP_MSG =
    [(''Type'', 2), (''Length'', 2), (''TLVType'', 1), (''TLVLength'', 2), (''QMUXResult'',
     2), (''QMUXError'', 2)]"

lemma QMINAS_GET_SYS_INFO_RESP_MSG_layout [simp]:
  "sizeof QMINAS_GET_SYS_INFO_RESP_MSG = 11"
  "off QMINAS_GET_SYS_INFO_RESP_MSG ''Type'' = 0"
  "off QMINAS_GET_SYS_INFO_RESP_MSG ''Length'' = 2"
  "off QMINAS_GET_SYS_INFO_RESP_MSG ''TLVType'' = 4"
  "off QMINAS_GET_SYS_INFO_RESP_MSG ''TLVLength'' = 5"
  "off QMINAS_GET_SYS_INFO_RESP_MSG ''QMUXResult'' = 7"
  "off QMINAS_GET_SYS_INFO_RESP_MSG ''QMUXError'' = 9"
  by (simp_all add: QMINAS_GET_SYS_INFO_RESP_MSG_def sizeof_def)

definition SERVICE_STATUS_INFO :: layout where
  "SERVICE_STATUS_INFO =
    [(''TLVType'', 1), (''TLVLength'', 2), (''SrvStatus'', 1), (''true_srv_status'', 1),
     (''IsPrefDataPath'', 1)]"

lemma SERVICE_STATUS_INFO_layout [simp]:
  "sizeof SERVICE_STATUS_INFO = 6"
  "off SERVICE_STATUS_INFO ''TLVType'' = 0"
  "off SERVICE_STATUS_INFO ''TLVLength'' = 1"
  "off SERVICE_STATUS_INFO ''SrvStatus'' = 3"
  "off SERVICE_STATUS_INFO ''true_srv_status'' = 4"
  "off SERVICE_STATUS_INFO ''IsPrefDataPath'' = 5"
  by (simp_all add: SERVICE_STATUS_INFO_def sizeof_def)

definition CDMA_SYSTEM_INFO :: layout where
  "CDMA_SYSTEM_INFO =
    [(''TLVType'', 1), (''TLVLength'', 2), (''SrvDomainValid'', 1), (''SrvDomain'', 1),
     (''SrvCapabilityValid'', 1), (''SrvCapability'', 1), (''RoamStatusValid'', 1),
     (''RoamStatus'', 1), (''IsSysForbiddenValid'', 1), (''IsSysForbidden'', 1),
     (''IsSysPrlMatchValid'', 1), (''IsSysPrlMatch'', 1), (''PRevInUseValid'', 1),
     (''PRevInUse'', 1), (''BSPRevValid'', 1), (''BSPRev'', 1), (''CCSSupportedValid'', 1),
     (''CCSSupported'', 1), (''CDMASysIdValid'', 1), (''SID'', 2), (''NID'', 2),
     (''BSInfoValid'', 1), (''BaseID'', 2), (''BaseLAT'', 4), (''BaseLONG'', 4),
     (''PacketZoneValid'', 1), (''PacketZone'', 2), (''NetworkIdValid'', 1), (''MCC'', 3),
     (''MNC'', 3)]"

lemma CDMA_SYSTEM_INFO_layout [simp]:
  "sizeof CDMA_SYSTEM_INFO = 45"
  "off CDMA_SYSTEM_INFO ''TLVType'' = 0"
  "off CDMA_SYSTEM_INFO ''TLVLength'' = 1"
  "off CDMA_SYSTEM_INFO ''SrvDomainValid'' = 3"
  "off CDMA_SYSTEM_INFO ''SrvDomain'' = 4"
  "off CDMA_SYSTEM_INFO ''SrvCapabilityValid'' = 5"
  "off CDMA_SYSTEM_INFO ''SrvCapability'' = 6"
  "off CDMA_SYSTEM_INFO ''RoamStatusValid'' = 7"
  "off CDMA_SYSTEM_INFO ''RoamStatus'' = 8"
  "off CDMA_SYSTEM_INFO ''IsSysForbiddenValid'' = 9"
  "off CDMA_SYSTEM_INFO ''IsSysForbidden'' = 10"
  "off CDMA_SYSTEM_INFO ''IsSysPrlMatchValid'' = 11"
  "off CDMA_SYSTEM_INFO ''IsSysPrlMatch'' = 12"
  "off CDMA_SYSTEM_INFO ''PRevInUseValid'' = 13"
  "off CDMA_SYSTEM_INFO ''PRevInUse'' = 14"
  "off CDMA_SYSTEM_INFO ''BSPRevValid'' = 15"
  "off CDMA_SYSTEM_INFO ''BSPRev'' = 16"
  "off CDMA_SYSTEM_INFO ''CCSSupportedValid'' = 17"
  "off CDMA_SYSTEM_INFO ''CCSSupported'' = 18"
  "off CDMA_SYSTEM_INFO ''CDMASysIdValid'' = 19"
  "off CDMA_SYSTEM_INFO ''SID'' = 20"
  "off CDMA_SYSTEM_INFO ''NID'' = 22"
  "off CDMA_SYSTEM_INFO ''BSInfoValid'' = 24"
  "off CDMA_SYSTEM_INFO ''BaseID'' = 25"
  "off CDMA_SYSTEM_INFO ''BaseLAT'' = 27"
  "off CDMA_SYSTEM_INFO ''BaseLONG'' = 31"
  "off CDMA_SYSTEM_INFO ''PacketZoneValid'' = 35"
  "off CDMA_SYSTEM_INFO ''PacketZone'' = 36"
  "off CDMA_SYSTEM_INFO ''NetworkIdValid'' = 38"
  "off CDMA_SYSTEM_INFO ''MCC'' = 39"
  "off CDMA_SYSTEM_INFO ''MNC'' = 42"
  by (simp_all add: CDMA_SYSTEM_INFO_def sizeof_def)

definition HDR_SYSTEM_INFO :: layout where
  "HDR_SYSTEM_INFO =
    [(''TLVType'', 1), (''TLVLength'', 2), (''SrvDomainValid'', 1), (''SrvDomain'', 1),
     (''SrvCapabilityValid'', 1), (''SrvCapability'', 1), (''RoamStatusValid'', 1),
     (''RoamStatus'', 1), (''IsSysForbiddenValid'', 1), (''IsSysForbidden'', 1),
     (''IsSysPrlMatchValid'', 1), (''IsSysPrlMatch'', 1), (''HdrPersonalityValid'', 1),
     (''HdrPersonality'', 1), (''HdrActiveProtValid'', 1), (''HdrActiveProt'', 1),
     (''is856SysIdValid'', 1), (''is856SysId'', 16)]"

lemma HDR_SYSTEM_INFO_layout [simp]:
  "sizeof HDR_SYSTEM_INFO = 34"
  "off HDR_SYSTEM_INFO ''TLVType'' = 0"
  "off HDR_SYSTEM_INFO ''TLVLength'' = 1"
  "off HDR_SYSTEM_INFO ''SrvDomainValid'' = 3"
  "off HDR_SYSTEM_INFO ''SrvDomain'' = 4"
  "off HDR_SYSTEM_INFO ''SrvCapabilityValid'' = 5"
  "off HDR_SYSTEM_INFO ''SrvCapability'' = 6"
  "off HDR_SYSTEM_INFO ''RoamStatusValid'' = 7"
  "off HDR_SYSTEM_INFO ''RoamStatus'' = 8"
  "off HDR_SYSTEM_INFO ''IsSysForbiddenValid'' = 9"
  "off HDR_SYSTEM_INFO ''IsSysForbidden'' = 10"
  "off HDR_SYSTEM_INFO ''IsSysPrlMatchValid'' = 11"
  "off HDR_SYSTEM_INFO ''IsSysPrlMatch'' = 12"
  "off HDR_SYSTEM_INFO ''HdrPersonalityValid'' = 13"
  "off HDR_SYSTEM_INFO ''HdrPersonality'' = 14"
  "off HDR_SYSTEM_INFO ''HdrActiveProtValid'' = 15"
  "off HDR_SYSTEM_INFO ''HdrActiveProt'' = 16"
  "off HDR_SYSTEM_INFO ''is856SysIdValid'' = 17"
  "off HDR_SYSTEM_INFO ''is856SysId'' = 18"
  by (simp_all add: HDR_SYSTEM_INFO_def sizeof_def)

definition GSM_SYSTEM_INFO :: layout where
  "GSM_SYSTEM_INFO =
    [(''TLVType'', 1), (''TLVLength'', 2), (''SrvDomainValid'', 1), (''SrvDomain'', 1),
     (''SrvCapabilityValid'', 1), (''SrvCapability'', 1), (''RoamStatusValid'', 1),
     (''RoamStatus'', 1), (''IsSysForbiddenValid'', 1), (''IsSysForbidden'', 1),
     (''LacValid'', 1), (''Lac'', 2), (''CellIdValid'', 1), (''CellId'', 4),
     (''RegRejectInfoValid'', 1), (''RejectSrvDomain'', 1), (''RejCause'', 1),
     (''NetworkIdValid'', 1), (''MCC'', 3), (''MNC'', 3), (''EgprsSuppValid'', 1),
     (''EgprsSupp'', 1), (''DtmSuppValid'', 1), (''DtmSupp'', 1)]"

lemma GSM_SYSTEM_INFO_layout [simp]:
  "sizeof GSM_SYSTEM_INFO = 33"
  "off GSM_SYSTEM_INFO ''TLVType'' = 0"
  "off GSM_SYSTEM_INFO ''TLVLength'' = 1"
  "off GSM_SYSTEM_INFO ''SrvDomainValid'' = 3"
  "off GSM_SYSTEM_INFO ''SrvDomain'' = 4"
  "off GSM_SYSTEM_INFO ''SrvCapabilityValid'' = 5"
  "off GSM_SYSTEM_INFO ''SrvCapability'' = 6"
  "off GSM_SYSTEM_INFO ''RoamStatusValid'' = 7"
  "off GSM_SYSTEM_INFO ''RoamStatus'' = 8"
  "off GSM_SYSTEM_INFO ''IsSysForbiddenValid'' = 9"
  "off GSM_SYSTEM_INFO ''IsSysForbidden'' = 10"
  "off GSM_SYSTEM_INFO ''LacValid'' = 11"
  "off GSM_SYSTEM_INFO ''Lac'' = 12"
  "off GSM_SYSTEM_INFO ''CellIdValid'' = 14"
  "off GSM_SYSTEM_INFO ''CellId'' = 15"
  "off GSM_SYSTEM_INFO ''RegRejectInfoValid'' = 19"
  "off GSM_SYSTEM_INFO ''RejectSrvDomain'' = 20"
  "off GSM_SYSTEM_INFO ''RejCause'' = 21"
  "off GSM_SYSTEM_INFO ''NetworkIdValid'' = 22"
  "off GSM_SYSTEM_INFO ''MCC'' = 23"
  "off GSM_SYSTEM_INFO ''MNC'' = 26"
  "off GSM_SYSTEM_INFO ''EgprsSuppValid'' = 29"
  "off GSM_SYSTEM_INFO ''EgprsSupp'' = 30"
  "off GSM_SYSTEM_INFO ''DtmSuppValid'' = 31"
  "off GSM_SYSTEM_INFO ''DtmSupp'' = 32"
  by (simp_all add: GSM_SYSTEM_INFO_def sizeof_def)

definition WCDMA_SYSTEM_INFO :: layout where
  "WCDMA_SYSTEM_INFO =
    [(''TLVType'', 1), (''TLVLength'', 2), (''SrvDomainValid'', 1), (''SrvDomain'', 1),
     (''SrvCapabilityValid'', 1), (''SrvCapability'', 1), (''RoamStatusValid'', 1),
     (''RoamStatus'', 1), (''IsSysForbiddenValid'', 1), (''IsSysForbidden'', 1),
     (''LacValid'', 1), (''Lac'', 2), (''CellIdValid'', 1), (''CellId'', 4),
     (''RegRejectInfoValid'', 1), (''RejectSrvDomain'', 1), (''RejCause'', 1),
     (''NetworkIdValid'', 1), (''MCC'', 3), (''MNC'', 3), (''HsCallStatusValid'', 1),
     (''HsCallStatus'', 1), (''HsIndValid'', 1), (''HsInd'', 1), (''PscValid'', 1),
     (''Psc'', 1)]"

lemma WCDMA_SYSTEM_INFO_layout [simp]:
  "sizeof WCDMA_SYSTEM_INFO = 35"
  "off WCDMA_SYSTEM_INFO ''TLVType'' = 0"
  "off WCDMA_SYSTEM_INFO ''TLVLength'' = 1"
  "off WCDMA_SYSTEM_INFO ''SrvDomainValid'' = 3"
  "off WCDMA_SYSTEM_INFO ''SrvDomain'' = 4"
  "off WCDMA_SYSTEM_INFO ''SrvCapabilityValid'' = 5"
  "off WCDMA_SYSTEM_INFO ''SrvCapability'' = 6"
  "off WCDMA_SYSTEM_INFO ''RoamStatusValid'' = 7"
  "off WCDMA_SYSTEM_INFO ''RoamStatus'' = 8"
  "off WCDMA_SYSTEM_INFO ''IsSysForbiddenValid'' = 9"
  "off WCDMA_SYSTEM_INFO ''IsSysForbidden'' = 10"
  "off WCDMA_SYSTEM_INFO ''LacValid'' = 11"
  "off WCDMA_SYSTEM_INFO ''Lac'' = 12"
  "off WCDMA_SYSTEM_INFO ''CellIdValid'' = 14"
  "off WCDMA_SYSTEM_INFO ''CellId'' = 15"
  "off WCDMA_SYSTEM_INFO ''RegRejectInfoValid'' = 19"
  "off WCDMA_SYSTEM_INFO ''RejectSrvDomain'' = 20"
  "off WCDMA_SYSTEM_INFO ''RejCause'' = 21"
  "off WCDMA_SYSTEM_INFO ''NetworkIdValid'' = 22"
  "off WCDMA_SYSTEM_INFO ''MCC'' = 23"
  "off WCDMA_SYSTEM_INFO ''MNC'' = 26"
  "off WCDMA_SYSTEM_INFO ''HsCallStatusValid'' = 29"
  "off WCDMA_SYSTEM_INFO ''HsCallStatus'' = 30"
  "off WCDMA_SYSTEM_INFO ''HsIndValid'' = 31"
  "off WCDMA_SYSTEM_INFO ''HsInd'' = 32"
  "off WCDMA_SYSTEM_INFO ''PscValid'' = 33"
  "off WCDMA_SYSTEM_INFO ''Psc'' = 34"
  by (simp_all add: WCDMA_SYSTEM_INFO_def sizeof_def)

definition LTE_SYSTEM_INFO :: layout where
  "LTE_SYSTEM_INFO =
    [(''TLVType'', 1), (''TLVLength'', 2), (''SrvDomainValid'', 1), (''SrvDomain'', 1),
     (''SrvCapabilityValid'', 1), (''SrvCapability'', 1), (''RoamStatusValid'', 1),
     (''RoamStatus'', 1), (''IsSysForbiddenValid'', 1), (''IsSysForbidden'', 1),
     (''LacValid'', 1), (''Lac'', 2), (''CellIdValid'', 1), (''CellId'', 4),
     (''RegRejectInfoValid'', 1), (''RejectSrvDomain'', 1), (''RejCause'', 1),
     (''NetworkIdValid'', 1), (''MCC'', 3), (''MNC'', 3), (''TacValid'', 1), (''Tac'', 2)]"

lemma LTE_SYSTEM_INFO_layout [simp]:
  "sizeof LTE_SYSTEM_INFO = 32"
  "off LTE_SYSTEM_INFO ''TLVType'' = 0"
  "off LTE_SYSTEM_INFO ''TLVLength'' = 1"
  "off LTE_SYSTEM_INFO ''SrvDomainValid'' = 3"
  "off LTE_SYSTEM_INFO ''SrvDomain'' = 4"
  "off LTE_SYSTEM_INFO ''SrvCapabilityValid'' = 5"
  "off LTE_SYSTEM_INFO ''SrvCapability'' = 6"
  "off LTE_SYSTEM_INFO ''RoamStatusValid'' = 7"
  "off LTE_SYSTEM_INFO ''RoamStatus'' = 8"
  "off LTE_SYSTEM_INFO ''IsSysForbiddenValid'' = 9"
  "off LTE_SYSTEM_INFO ''IsSysForbidden'' = 10"
  "off LTE_SYSTEM_INFO ''LacValid'' = 11"
  "off LTE_SYSTEM_INFO ''Lac'' = 12"
  "off LTE_SYSTEM_INFO ''CellIdValid'' = 14"
  "off LTE_SYSTEM_INFO ''CellId'' = 15"
  "off LTE_SYSTEM_INFO ''RegRejectInfoValid'' = 19"
  "off LTE_SYSTEM_INFO ''RejectSrvDomain'' = 20"
  "off LTE_SYSTEM_INFO ''RejCause'' = 21"
  "off LTE_SYSTEM_INFO ''NetworkIdValid'' = 22"
  "off LTE_SYSTEM_INFO ''MCC'' = 23"
  "off LTE_SYSTEM_INFO ''MNC'' = 26"
  "off LTE_SYSTEM_INFO ''TacValid'' = 29"
  "off LTE_SYSTEM_INFO ''Tac'' = 30"
  by (simp_all add: LTE_SYSTEM_INFO_def sizeof_def)

definition TDSCDMA_SYSTEM_INFO :: layout where
  "TDSCDMA_SYSTEM_INFO =
    [(''TLVType'', 1), (''TLVLength'', 2), (''SrvDomainValid'', 1), (''SrvDomain'', 1),
     (''SrvCapabilityValid'', 1), (''SrvCapability'', 1), (''RoamStatusValid'', 1),
     (''RoamStatus'', 1), (''IsSysForbiddenValid'', 1), (''IsSysForbidden'', 1),
     (''LacValid'', 1), (''Lac'', 2), (''CellIdValid'', 1), (''CellId'', 4),
     (''RegRejectInfoValid'', 1), (''RejectSrvDomain'', 1), (''RejCause'', 1),
     (''NetworkIdValid'', 1), (''MCC'', 3), (''MNC'', 3), (''HsCallStatusValid'', 1),
     (''HsCallStatus'', 1), (''HsIndValid'', 1), (''HsInd'', 1), (''CellParameterIdValid'',
     1), (''CellParameterId'', 2), (''CellBroadcastCapValid'', 1), (''CellBroadcastCap'',
     4), (''CsBarStatusValid'', 1), (''CsBarStatus'', 4), (''PsBarStatusValid'', 1),
     (''PsBarStatus'', 4), (''CipherDomainValid'', 1), (''CipherDomain'', 1)]"

lemma TDSCDMA_SYSTEM_INFO_layout [simp]:
  "sizeof TDSCDMA_SYSTEM_INFO = 53"
  "off TDSCDMA_SYSTEM_INFO ''TLVType'' = 0"
  "off TDSCDMA_SYSTEM_INFO ''TLVLength'' = 1"
  "off TDSCDMA_SYSTEM_INFO ''SrvDomainValid'' = 3"
  "off TDSCDMA_SYSTEM_INFO ''SrvDomain'' = 4"
  "off TDSCDMA_SYSTEM_INFO ''SrvCapabilityValid'' = 5"
  "off TDSCDMA_SYSTEM_INFO ''SrvCapability'' = 6"
  "off TDSCDMA_SYSTEM_INFO ''RoamStatusValid'' = 7"
  "off TDSCDMA_SYSTEM_INFO ''RoamStatus'' = 8"
  "off TDSCDMA_SYSTEM_INFO ''IsSysForbiddenValid'' = 9"
  "off TDSCDMA_SYSTEM_INFO ''IsSysForbidden'' = 10"
  "off TDSCDMA_SYSTEM_INFO ''LacValid'' = 11"
  "off TDSCDMA_SYSTEM_INFO ''Lac'' = 12"
  "off TDSCDMA_SYSTEM_INFO ''CellIdValid'' = 14"
  "off TDSCDMA_SYSTEM_INFO ''CellId'' = 15"
  "off TDSCDMA_SYSTEM_INFO ''RegRejectInfoValid'' = 19"
  "off TDSCDMA_SYSTEM_INFO ''RejectSrvDomain'' = 20"
  "off TDSCDMA_SYSTEM_INFO ''RejCause'' = 21"
  "off TDSCDMA_SYSTEM_INFO ''NetworkIdValid'' = 22"
  "off TDSCDMA_SYSTEM_INFO ''MCC'' = 23"
  "off TDSCDMA_SYSTEM_INFO ''MNC'' = 26"
  "off TDSCDMA_SYSTEM_INFO ''HsCallStatusValid'' = 29"
  "off TDSCDMA_SYSTEM_INFO ''HsCallStatus'' = 30"
  "off TDSCDMA_SYSTEM_INFO ''HsIndValid'' = 31"
  "off TDSCDMA_SYSTEM_INFO ''HsInd'' = 32"
  "off TDSCDMA_SYSTEM_INFO ''CellParameterIdValid'' = 33"
  "off TDSCDMA_SYSTEM_INFO ''CellParameterId'' = 34"
  "off TDSCDMA_SYSTEM_INFO ''CellBroadcastCapValid'' = 36"
  "off TDSCDMA_SYSTEM_INFO ''CellBroadcastCap'' = 37"
  "off TDSCDMA_SYSTEM_INFO ''CsBarStatusValid'' = 41"
  "off TDSCDMA_SYSTEM_INFO ''CsBarStatus'' = 42"
  "off TDSCDMA_SYSTEM_INFO ''PsBarStatusValid'' = 46"
  "off TDSCDMA_SYSTEM_INFO ''PsBarStatus'' = 47"
  "off TDSCDMA_SYSTEM_INFO ''CipherDomainValid'' = 51"
  "off TDSCDMA_SYSTEM_INFO ''CipherDomain'' = 52"
  by (simp_all add: TDSCDMA_SYSTEM_INFO_def sizeof_def)

definition QMIUIM_CARD_STATUS :: layout where
  "QMIUIM_CARD_STATUS =
    [(''TLVType'', 1), (''TLVLength'', 2), (''IndexGWPri'', 2), (''Index1XPri'', 2),
     (''IndexGWSec'', 2), (''Index1XSec'', 2), (''NumSlot'', 1), (''CardState'', 1),
     (''UPINState'', 1), (''UPINRetries'', 1), (''UPUKRetries'', 1), (''ErrorCode'', 1),
     (''NumApp'', 1), (''AppType'', 1), (''AppState'', 1), (''PersoState'', 1),
     (''PersoFeature'', 1), (''PersoRetries'', 1), (''PersoUnblockRetries'', 1),
     (''AIDLength'', 1)]"

lemma QMIUIM_CARD_STATUS_layout [simp]:
  "sizeof QMIUIM_CARD_STATUS = 25"
  "off QMIUIM_CARD_STATUS ''TLVType'' = 0"
  "off QMIUIM_CARD_STATUS ''TLVLength'' = 1"
  "off QMIUIM_CARD_STATUS ''IndexGWPri'' = 3"
  "off QMIUIM_CARD_STATUS ''Index1XPri'' = 5"
  "off QMIUIM_CARD_STATUS ''IndexGWSec'' = 7"
  "off QMIUIM_CARD_STATUS ''Index1XSec'' = 9"
  "off QMIUIM_CARD_STATUS ''NumSlot'' = 11"
  "off QMIUIM_CARD_STATUS ''CardState'' = 12"
  "off QMIUIM_CARD_STATUS ''UPINState'' = 13"
  "off QMIUIM_CARD_STATUS ''UPINRetries'' = 14"
  "off QMIUIM_CARD_STATUS ''UPUKRetries'' = 15"
  "off QMIUIM_CARD_STATUS ''ErrorCode'' = 16"
  "off QMIUIM_CARD_STATUS ''NumApp'' = 17"
  "off QMIUIM_CARD_STATUS ''AppType'' = 18"
  "off QMIUIM_CARD_STATUS ''AppState'' = 19"
  "off QMIUIM_CARD_STATUS ''PersoState'' = 20"
  "off QMIUIM_CARD_STATUS ''PersoFeature'' = 21"
  "off QMIUIM_CARD_STATUS ''PersoRetries'' = 22"
  "off QMIUIM_CARD_STATUS ''PersoUnblockRetries'' = 23"
  "off QMIUIM_CARD_STATUS ''AIDLength'' = 24"
  by (simp_all add: QMIUIM_CARD_STATUS_def sizeof_def)

definition QMIUIM_PIN_STATE :: layout where
  "QMIUIM_PIN_STATE =
    [(''UnivPIN'', 1), (''PIN1State'', 1), (''PIN1Retries'', 1), (''PUK1Retries'', 1),
     (''PIN2State'', 1), (''PIN2Retries'', 1), (''PUK2Retries'', 1)]"

lemma QMIUIM_PIN_STATE_layout [simp]:
  "sizeof QMIUIM_PIN_STATE = 7"
  "off QMIUIM_PIN_STATE ''UnivPIN'' = 0"
  "off QMIUIM_PIN_STATE ''PIN1State'' = 1"
  "off QMIUIM_PIN_STATE ''PIN1Retries'' = 2"
  "off QMIUIM_PIN_STATE ''PUK1Retries'' = 3"
  "off QMIUIM_PIN_STATE ''PIN2State'' = 4"
  "off QMIUIM_PIN_STATE ''PIN2Retries'' = 5"
  "off QMIUIM_PIN_STATE ''PUK2Retries'' = 6"
  by (simp_all add: QMIUIM_PIN_STATE_def sizeof_def)

definition QMIUIM_VERIFY_PIN_REQ_MSG :: layout where
  "QMIUIM_VERIFY_PIN_REQ_MSG =
    [(''Type'', 2), (''Length'', 2), (''TLVType'', 1), (''TLVLength'', 2),
     (''Session_Type'', 1), (''Aid_Len'', 1), (''TLV2Type'', 1), (''TLV2Length'', 2),
     (''PINID'', 1), (''PINLen'', 1), (''PINValue'', 1)]"

lemma QMIUIM_VERIFY_PIN_REQ_MSG_layout [simp]:
  "sizeof QMIUIM_VERIFY_PIN_REQ_MSG = 15"
  "off QMIUIM_VERIFY_PIN_REQ_MSG ''Type'' = 0"
  "off QMIUIM_VERIFY_PIN_REQ_MSG ''Length'' = 2"
  "off QMIUIM_VERIFY_PIN_REQ_MSG ''TLVType'' = 4"
  "off QMIUIM_VERIFY_PIN_REQ_MSG ''TLVLength'' = 5"
  "off QMIUIM_VERIFY_PIN_REQ_MSG ''Session_Type'' = 7"
  "off QMIUIM_VERIFY_PIN_REQ_MSG ''Aid_Len'' = 8"
  "off QMIUIM_VERIFY_PIN_REQ_MSG ''TLV2Type'' = 9"
  "off QMIUIM_VERIFY_PIN_REQ_MSG ''TLV2Length'' = 10"
  "off QMIUIM_VERIFY_PIN_REQ_MSG ''PINID'' = 12"
  "off QMIUIM_VERIFY_PIN_REQ_MSG ''PINLen'' = 13"
  "off QMIUIM_VERIFY_PIN_REQ_MSG ''PINValue'' = 14"
  by (simp_all add: QMIUIM_VERIFY_PIN_REQ_MSG_def sizeof_def)

end
