(* ===== verification/Tlv.thy ===== *)
theory Tlv
  imports Wire
begin

text \<open>
  The type-length-value walk of \<open>QMIThread.c\<close> (\<open>GetTLV\<close>) on raw message bytes, and its
  specification: a payload is the concatenation of encoded TLVs, and \<open>GetTLV\<close> returns
  the first one of the asked type, or the ith one when asked with \<open>0x1000 + i\<close>. The
  remaining length is a \<open>USHORT\<close> as in the code, so that its wrap-around on a TLV that
  claims more bytes than the message has is part of the model.
\<close>

section \<open>The walk\<close>

function GetTLV_loop :: "byte list \<Rightarrow> nat \<Rightarrow> nat \<Rightarrow> u16 \<Rightarrow> nat \<Rightarrow> nat option option" where
  "GetTLV_loop m ty TLVFind Length p =
     (if of_nat (sizeof QMI_TLV_HDR) \<le> Length then
        (if 0x1000 < ty
         then (if Suc TLVFind + 0x1000 = ty then Some (Some p)
               else (case get16 m p QMI_TLV_HDR ''TLVLength'' of None \<Rightarrow> None
                     | Some l \<Rightarrow> GetTLV_loop m ty (Suc TLVFind)
                         (Length - (l + of_nat (sizeof QMI_TLV_HDR))) (p + unat l + sizeof QMI_TLV_HDR)))
         else (case get8 m p QMI_TLV_HDR ''TLVType'' of None \<Rightarrow> None
               | Some t \<Rightarrow>
                 if unat t = ty then Some (Some p)
                 else (case get16 m p QMI_TLV_HDR ''TLVLength'' of None \<Rightarrow> None
                       | Some l \<Rightarrow> GetTLV_loop m ty (Suc TLVFind)
                           (Length - (l + of_nat (sizeof QMI_TLV_HDR))) (p + unat l + sizeof QMI_TLV_HDR))))
      else Some None)"
  by pat_completeness auto
termination
  by (relation "measure (\<lambda>(m, ty, n, len, p). length m - p)")
     (auto simp: get16_def rd16_def rd8_def split: if_splits)

declare GetTLV_loop.simps [simp del]

text \<open>
  \<open>GetTLV m h ty\<close>: the message header \<open>QCQMUX_MSG_HDR\<close> stands at offset \<open>h\<close> of \<open>m\<close>.
  \<open>Some (Some p)\<close> is a pointer to offset \<open>p\<close>, \<open>Some None\<close> is \<open>NULL\<close>, \<open>None\<close> a read
  outside the buffer.
\<close>

definition GetTLV :: "byte list \<Rightarrow> nat \<Rightarrow> nat \<Rightarrow> nat option option" where
  "GetTLV m h ty = do {
     Length \<leftarrow> get16 m h QCQMUX_MSG_HDR ''Length'';
     GetTLV_loop m ty 0 Length (h + sizeof QCQMUX_MSG_HDR) }"

section \<open>Encoded TLVs\<close>

type_synonym tlv = "byte \<times> byte list"

definition encode_tlv :: "tlv \<Rightarrow> byte list" where
  "encode_tlv x = fst x # le16 (of_nat (length (snd x))) @ snd x"

definition encode_tlvs :: "tlv list \<Rightarrow> byte list" where
  "encode_tlvs xs = concat (map encode_tlv xs)"

lemma length_encode_tlv [simp]: "length (encode_tlv x) = 3 + length (snd x)"
  by (simp add: encode_tlv_def)

lemma encode_tlvs_Nil [simp]: "encode_tlvs [] = []"
  by (simp add: encode_tlvs_def)

lemma encode_tlvs_Cons [simp]: "encode_tlvs (x # xs) = encode_tlv x @ encode_tlvs xs"
  by (simp add: encode_tlvs_def)

lemma encode_tlvs_append [simp]: "encode_tlvs (xs @ ys) = encode_tlvs xs @ encode_tlvs ys"
  by (simp add: encode_tlvs_def)

fun tlv_pos :: "nat \<Rightarrow> tlv list \<Rightarrow> nat option" where
  "tlv_pos ty [] = None"
| "tlv_pos ty (x # xs) =
     (if unat (fst x) = ty then Some 0
      else map_option (\<lambda>n. n + length (encode_tlv x)) (tlv_pos ty xs))"

lemma tlv_pos_None: "tlv_pos ty xs = None \<longleftrightarrow> ty \<notin> unat ` fst ` set xs"
  by (induction xs) auto

lemma tlv_pos_SomeD:
  "tlv_pos ty xs = Some k \<Longrightarrow>
     \<exists>us v ws. xs = us @ v # ws \<and> unat (fst v) = ty \<and> ty \<notin> unat ` fst ` set us
               \<and> k = length (encode_tlvs us)"
proof (induction xs arbitrary: k)
  case (Cons x xs)
  show ?case
  proof (cases "unat (fst x) = ty")
    case True
    with Cons.prems show ?thesis
      by (intro exI [of _ "[]"] exI [of _ x] exI [of _ xs]) simp
  next
    case False
    with Cons.prems obtain n where n: "tlv_pos ty xs = Some n" and k: "k = n + length (encode_tlv x)"
      by auto
    obtain us v ws where "xs = us @ v # ws" "unat (fst v) = ty"
      "ty \<notin> unat ` fst ` set us" "n = length (encode_tlvs us)"
      using Cons.IH [OF n] by blast
    with False k show ?thesis
      by (intro exI [of _ "x # us"] exI [of _ v] exI [of _ ws]) auto
  qed
qed simp

lemma tlv_pos_append:
  "ty \<notin> unat ` fst ` set us \<Longrightarrow>
     tlv_pos ty (us @ ws) = map_option (\<lambda>k. k + length (encode_tlvs us)) (tlv_pos ty ws)"
  by (induction us) (auto simp: option.map_comp option.map_ident comp_def ac_simps)

text \<open>Reading the header and the value of an encoded TLV inside a buffer.\<close>

lemma get8_encode_tlv:
  "get8 (pre @ encode_tlv x @ rest) (length pre) QMI_TLV_HDR ''TLVType'' = Some (fst x)"
  by (simp add: get8_def encode_tlv_def rd8_append)

lemma get16_encode_tlv:
  "get16 (pre @ encode_tlv x @ rest) (length pre) QMI_TLV_HDR ''TLVLength''
     = Some (of_nat (length (snd x)))"
  using rd16_append2 [of "pre @ [fst x]" "le16 (of_nat (length (snd x))) @ snd x @ rest" 0]
  by (simp add: get16_def encode_tlv_def)

lemma unat_len16: "n < 65536 \<Longrightarrow> unat (of_nat n :: u16) = n"
  by (simp add: unat_of_nat take_bit_nat_eq_self)

lemma len16_le: "n < 65536 \<Longrightarrow> (3 :: u16) \<le> of_nat n \<longleftrightarrow> 3 \<le> n"
  by (simp add: word_le_nat_alt unat_len16)

section \<open>The walk finds the first TLV of a type\<close>

lemma GetTLV_loop_finds:
  assumes "length (encode_tlvs xs) < 65536" and "ty \<le> 0x1000"
  shows "GetTLV_loop (pre @ encode_tlvs xs @ post) ty n (of_nat (length (encode_tlvs xs))) (length pre)
           = Some (map_option (\<lambda>k. length pre + k) (tlv_pos ty xs))"
  using assms(1)
proof (induction xs arbitrary: pre n)
  case Nil
  then show ?case by (subst GetTLV_loop.simps) simp
next
  case (Cons x xs)
  let ?m = "pre @ encode_tlvs (x # xs) @ post"
  let ?len = "length (encode_tlvs (x # xs))"
  have lx: "length (snd x) < 65536" using Cons.prems by simp
  have three: "(3 :: u16) \<le> of_nat ?len"
    using Cons.prems by (subst len16_le) auto
  have t: "get8 ?m (length pre) QMI_TLV_HDR ''TLVType'' = Some (fst x)"
    and l: "get16 ?m (length pre) QMI_TLV_HDR ''TLVLength'' = Some (of_nat (length (snd x)))"
    using get8_encode_tlv [of pre x "encode_tlvs xs @ post"]
      get16_encode_tlv [of pre x "encode_tlvs xs @ post"] by simp_all
  have rest: "of_nat ?len - (of_nat (length (snd x)) + 3) = (of_nat (length (encode_tlvs xs)) :: u16)"
    by simp
  have IH: "GetTLV_loop ?m ty (Suc n) (of_nat (length (encode_tlvs xs))) (length pre + length (snd x) + 3)
      = Some (map_option (\<lambda>k. length pre + length (snd x) + 3 + k) (tlv_pos ty xs))"
    using Cons.IH [of "pre @ encode_tlv x" "Suc n"] Cons.prems by (simp add: ac_simps)
  show ?case
  proof (cases "unat (fst x) = ty")
    case True
    with three t assms(2) show ?thesis by (subst GetTLV_loop.simps) simp
  next
    case False
    have "GetTLV_loop ?m ty n (of_nat ?len) (length pre)
        = GetTLV_loop ?m ty (Suc n) (of_nat (length (encode_tlvs xs))) (length pre + length (snd x) + 3)"
      using False three t l assms(2) rest unat_len16 [OF lx]
      by (subst GetTLV_loop.simps) simp
    with IH False show ?thesis
      by (simp add: option.map_comp comp_def ac_simps)
  qed
qed

text \<open>
  A message body in its buffer: \<open>Type\<close>, \<open>Length\<close> and the encoded TLVs, at offset
  \<open>length pre\<close>.
\<close>

definition mux_body :: "u16 \<Rightarrow> tlv list \<Rightarrow> byte list" where
  "mux_body ty xs = le16 ty @ le16 (of_nat (length (encode_tlvs xs))) @ encode_tlvs xs"

lemma get_Length_mux_body:
  "get16 (pre @ mux_body ty xs @ post) (length pre) QCQMUX_MSG_HDR ''Length''
     = Some (of_nat (length (encode_tlvs xs)))"
  using rd16_append2 [of "pre @ le16 ty" "le16 (of_nat (length (encode_tlvs xs))) @ encode_tlvs xs @ post" 0]
  by (simp add: get16_def mux_body_def)

lemma GetTLV_finds:
  assumes "length (encode_tlvs xs) < 65536" and "ty \<le> 0x1000"
  shows "GetTLV (pre @ mux_body mt xs @ post) (length pre) ty
           = Some (map_option (\<lambda>k. length pre + 4 + k) (tlv_pos ty xs))"
  using GetTLV_loop_finds [OF assms, of "pre @ le16 mt @ le16 (of_nat (length (encode_tlvs xs)))" post 0]
    get_Length_mux_body [of pre mt xs post]
  by (simp add: GetTLV_def mux_body_def ac_simps)

section \<open>The walk by index\<close>

text \<open>Asked for \<open>0x1000 + i\<close>, the walk returns the ith TLV, counted from one.\<close>

lemma GetTLV_loop_index:
  assumes "length (encode_tlvs xs) < 65536" and "n < i" and "i \<le> n + length xs"
  shows "GetTLV_loop (pre @ encode_tlvs xs @ post) (0x1000 + i) n
           (of_nat (length (encode_tlvs xs))) (length pre)
         = Some (Some (length pre + length (encode_tlvs (take (i - n - 1) xs))))"
  using assms
proof (induction xs arbitrary: pre n)
  case (Cons x xs)
  let ?m = "pre @ encode_tlvs (x # xs) @ post"
  let ?len = "length (encode_tlvs (x # xs))"
  have lx: "length (snd x) < 65536" using Cons.prems by simp
  have three: "(3 :: u16) \<le> of_nat ?len"
    using Cons.prems by (subst len16_le) auto
  have l: "get16 ?m (length pre) QMI_TLV_HDR ''TLVLength'' = Some (of_nat (length (snd x)))"
    using get16_encode_tlv [of pre x "encode_tlvs xs @ post"] by simp
  have rest: "of_nat ?len - (of_nat (length (snd x)) + 3) = (of_nat (length (encode_tlvs xs)) :: u16)"
    by simp
  show ?case
  proof (cases "Suc n = i")
    case True
    with three show ?thesis by (subst GetTLV_loop.simps) auto
  next
    case False
    with Cons.prems obtain j where j: "i - n - 1 = Suc j" "i - Suc n - 1 = j" "i - Suc (Suc n) = j"
      by (cases "i - n - 1") auto
    have "GetTLV_loop ?m (0x1000 + i) n (of_nat ?len) (length pre)
        = GetTLV_loop ?m (0x1000 + i) (Suc n) (of_nat (length (encode_tlvs xs)))
            (length pre + length (snd x) + 3)"
      using False three l rest unat_len16 [OF lx] Cons.prems
      by (subst GetTLV_loop.simps) simp
    also have "\<dots> = Some (Some (length pre + 3 + length (snd x) + length (encode_tlvs (take j xs))))"
      using Cons.IH [of "Suc n" "pre @ encode_tlv x"] Cons.prems False j by (simp add: ac_simps)
    finally show ?thesis using j by (simp add: ac_simps)
  qed
qed simp

lemma GetTLV_loop_index_end:
  assumes "length (encode_tlvs xs) < 65536" and "n + length xs < i"
  shows "GetTLV_loop (pre @ encode_tlvs xs @ post) (0x1000 + i) n
           (of_nat (length (encode_tlvs xs))) (length pre) = Some None"
  using assms
proof (induction xs arbitrary: pre n)
  case Nil
  then show ?case by (subst GetTLV_loop.simps) simp
next
  case (Cons x xs)
  let ?m = "pre @ encode_tlvs (x # xs) @ post"
  have lx: "length (snd x) < 65536" using Cons.prems by simp
  have three: "(3 :: u16) \<le> of_nat (length (encode_tlvs (x # xs)))"
    using Cons.prems by (subst len16_le) auto
  have l: "get16 ?m (length pre) QMI_TLV_HDR ''TLVLength'' = Some (of_nat (length (snd x)))"
    using get16_encode_tlv [of pre x "encode_tlvs xs @ post"] by simp
  have "GetTLV_loop ?m (0x1000 + i) n (of_nat (length (encode_tlvs (x # xs)))) (length pre)
      = GetTLV_loop ?m (0x1000 + i) (Suc n) (of_nat (length (encode_tlvs xs)))
          (length pre + length (snd x) + 3)"
    using three l unat_len16 [OF lx] Cons.prems
    by (subst GetTLV_loop.simps) simp
  also have "\<dots> = Some None"
    using Cons.IH [of "Suc n" "pre @ encode_tlv x"] Cons.prems by (simp add: ac_simps)
  finally show ?case .
qed

lemma GetTLV_index:
  assumes "length (encode_tlvs xs) < 65536" and "0 < i"
  shows "GetTLV (pre @ mux_body mt xs @ post) (length pre) (0x1000 + i)
           = Some (if i \<le> length xs
                   then Some (length pre + 4 + length (encode_tlvs (take (i - 1) xs))) else None)"
proof -
  let ?pre = "pre @ le16 mt @ le16 (of_nat (length (encode_tlvs xs)))"
  have "GetTLV (pre @ mux_body mt xs @ post) (length pre) (0x1000 + i)
      = GetTLV_loop (?pre @ encode_tlvs xs @ post) (0x1000 + i) 0
          (of_nat (length (encode_tlvs xs))) (length ?pre)"
    using get_Length_mux_body [of pre mt xs post] by (simp add: GetTLV_def mux_body_def ac_simps)
  then show ?thesis
    using GetTLV_loop_index [OF assms(1), of 0 i ?pre post]
      GetTLV_loop_index_end [OF assms(1), of 0 i ?pre post] assms(2) by auto
qed

section \<open>A TLV that claims too much\<close>

text \<open>
  The walk does not check a TLV against the bytes that remain: the \<open>USHORT\<close> counter
  wraps, and the next header is read behind the message.
\<close>

lemma GetTLV_loop_overrun:
  assumes t: "unat t \<noteq> ty" and ty: "ty \<le> 0x1000"
    and v: "length v < unat L" and fits: "unat L + 6 \<le> 65536 + (3 + length v)"
    and len: "3 + length v < 65536"
  shows "GetTLV_loop (pre @ (t # le16 L @ v)) ty n (of_nat (3 + length v)) (length pre) = None"
proof -
  let ?m = "pre @ (t # le16 L @ v)"
  have rt: "get8 ?m (length pre) QMI_TLV_HDR ''TLVType'' = Some t"
    by (simp add: get8_def rd8_append)
  have rl: "get16 ?m (length pre) QMI_TLV_HDR ''TLVLength'' = Some L"
    using rd16_append2 [of "pre @ [t]" "le16 L @ v" 0] by (simp add: get16_def)
  have three: "(3 :: u16) \<le> of_nat (3 + length v)"
    by (subst len16_le [OF len]) simp
  have L: "unat L < 65536" using unsigned_less [of L, where ?'a = nat] by simp
  have u: "unat (of_nat (3 + length v) - (L + 3)) = 65536 + length v - unat L"
  proof -
    have "of_nat (3 + length v) - (L + 3) = of_nat (length v) - L" by simp
    moreover have "unat (of_nat (length v) - L :: u16) = 65536 + length v - unat L"
      using len v unat_sub_if' [of "of_nat (length v)" L] unat_len16 [of "length v"] by simp
    ultimately show ?thesis by simp
  qed
  have three': "(3 :: u16) \<le> of_nat (3 + length v) - (L + 3)"
    unfolding word_le_nat_alt u using fits L v by simp
  have out: "get8 ?m (length pre + unat L + 3) QMI_TLV_HDR ''TLVType'' = None"
    using v by (simp add: get8_def)
  have "GetTLV_loop ?m ty n (of_nat (3 + length v)) (length pre)
      = GetTLV_loop ?m ty (Suc n) (of_nat (3 + length v) - (L + 3)) (length pre + unat L + 3)"
    using three rt rl t ty by (subst GetTLV_loop.simps) simp
  also have "\<dots> = None"
    using three' out ty by (subst GetTLV_loop.simps) simp
  finally show ?thesis .
qed

section \<open>The claims about the walk\<close>

text \<open>
  C7: On a message whose payload is a list of encoded TLVs, \<open>GetTLV\<close> asked for a type
  returns a pointer to the first TLV of that type, or \<open>NULL\<close> if there is none, and reads
  nothing behind the message.
\<close>
theorem GetTLV_first:
  assumes "length (encode_tlvs xs) < 65536"
  shows "(ty \<notin> fst ` set xs \<longrightarrow> GetTLV (pre @ mux_body mt xs) (length pre) (unat ty) = Some None)
    \<and> (xs = us @ (ty, v) # ws \<and> ty \<notin> fst ` set us \<longrightarrow>
      GetTLV (pre @ mux_body mt xs) (length pre) (unat ty)
        = Some (Some (length pre + 4 + length (encode_tlvs us))))"
proof (intro conjI impI; (elim conjE)?)
  have ty: "unat ty \<le> 0x1000" using unsigned_less [of ty, where ?'a = nat] by simp
  have walk: "GetTLV (pre @ mux_body mt xs) (length pre) (unat ty)
      = Some (map_option (\<lambda>k. length pre + 4 + k) (tlv_pos (unat ty) xs))"
    using GetTLV_finds [OF assms ty, of pre mt "[]"] by simp
  have inj: "unat ty \<in> unat ` fst ` set zs \<longleftrightarrow> ty \<in> fst ` set zs" for zs :: "tlv list"
    by (force simp flip: word_unat_eq_iff)
  show "GetTLV (pre @ mux_body mt xs) (length pre) (unat ty) = Some None" if "ty \<notin> fst ` set xs"
    using walk that inj [of xs] tlv_pos_None [of "unat ty" xs] by simp
  show "GetTLV (pre @ mux_body mt xs) (length pre) (unat ty)
        = Some (Some (length pre + 4 + length (encode_tlvs us)))"
    if "xs = us @ (ty, v) # ws" "ty \<notin> fst ` set us"
    using walk that inj [of us] by (simp add: tlv_pos_append)
qed

theorem GetTLV_first_witness:
  "GetTLV ([0, 0] @ mux_body 0x20 [(2, [0, 0, 0, 0]), (1, [7]), (1, [8])]) 2 1 = Some (Some 13)"
proof -
  let ?xs = "[(2, [0, 0, 0, 0]), (1, [7]), (1, [8])] :: tlv list"
  have "length (encode_tlvs ?xs) < 65536" "?xs = [(2, [0, 0, 0, 0])] @ (1, [7]) # [(1, [8])]"
    "(1 :: byte) \<notin> fst ` set ([(2, [0, 0, 0, 0])] :: tlv list)" by simp_all
  from GetTLV_first [OF this(1), THEN conjunct2, THEN mp, OF conjI, OF this(2,3), of "[0, 0]" "0x20"]
  show ?thesis by (simp add: numeral_2_eq_2)
qed

text \<open>
  Asked with \<open>0x1000 + i\<close> for a positive \<open>i\<close>, \<open>GetTLV\<close> returns the ith TLV of the
  payload whatever its type, and \<open>NULL\<close> if there are fewer.
\<close>
theorem GetTLV_ith:
  assumes "length (encode_tlvs xs) < 65536" and "0 < i"
  shows "GetTLV (pre @ mux_body mt xs) (length pre) (0x1000 + i)
           = Some (if i \<le> length xs
                   then Some (length pre + 4 + length (encode_tlvs (take (i - 1) xs))) else None)"
  using GetTLV_index [OF assms, of pre mt "[]"] by simp

theorem GetTLV_ith_witness:
  "GetTLV (mux_body 0x20 [(2, [0, 0, 0, 0]), (1, [7])]) 0 0x1002 = Some (Some 11)"
  using GetTLV_ith [of "[(2, [0, 0, 0, 0]), (1, [7])]" 2 "[]" "0x20"] by simp

text \<open>
  A TLV that claims more bytes than the message has left makes the 16-bit counter of
  \<open>GetTLV\<close> wrap around: if its type is not the one asked for, the walk goes on behind the
  message and reads outside the buffer.
\<close>
theorem GetTLV_overrun:
  assumes "t \<noteq> ty" "length v < unat L" "unat L + 6 \<le> 65536 + (3 + length v)" "3 + length v < 65536"
  shows "GetTLV (pre @ le16 mt @ le16 (of_nat (3 + length v)) @ (t # le16 L @ v)) (length pre) (unat ty) = None"
proof -
  let ?h = "pre @ le16 mt @ le16 (of_nat (3 + length v))" and ?m = "t # le16 L @ v"
  have ty: "unat t \<noteq> unat ty" "unat ty \<le> 0x1000"
    using assms(1) unsigned_less [of ty, where ?'a = nat] by (simp_all add: word_unat_eq_iff)
  have "get16 (pre @ le16 mt @ le16 (of_nat (3 + length v)) @ ?m) (length pre) QCQMUX_MSG_HDR ''Length''
      = Some (of_nat (3 + length v))"
    using rd16_append2 [of "pre @ le16 mt" "le16 (of_nat (3 + length v)) @ ?m" 0] by (simp add: get16_def)
  moreover have "GetTLV_loop (?h @ ?m) (unat ty) 0 (of_nat (3 + length v)) (length ?h) = None"
    by (rule GetTLV_loop_overrun [OF ty assms(2-4)])
  ultimately show ?thesis by (simp add: GetTLV_def)
qed

theorem GetTLV_overrun_witness:
  "GetTLV (mux_body 0x20 [] @ []) 0 1 = Some None
   \<and> GetTLV (le16 0x20 @ le16 4 @ [2, 0xFF, 0x00, 0]) 0 1 = None"
  using GetTLV_overrun [of 2 1 "[0]" "0xFF" "[]" "0x20"]
  by (simp add: le16_def mux_body_def) (simp add: GetTLV_def GetTLV_loop.simps get16_def rd16_def mk16_def)

end
