(* ===== verification/Session.thy ===== *)
theory Session
  imports Tlv
begin

text \<open>
  The data of \<open>QMIThread.h\<close> and the global state of the QMI client: the profile given on
  the command line, the client identifiers, the connection handles, the transaction
  counters and the slot of the pending request. The modem and the operating system are
  an environment: a function from the requests sent so far (newest first) to what
  happens to the last one.
\<close>

section \<open>Constants of the headers\<close>

abbreviation (input) "QMUX_TYPE_CTL \<equiv> (0x00 :: byte)"
abbreviation (input) "QMUX_TYPE_WDS \<equiv> (0x01 :: byte)"
abbreviation (input) "QMUX_TYPE_DMS \<equiv> (0x02 :: byte)"
abbreviation (input) "QMUX_TYPE_NAS \<equiv> (0x03 :: byte)"
abbreviation (input) "QMUX_TYPE_QOS \<equiv> (0x04 :: byte)"
abbreviation (input) "QMUX_TYPE_WMS \<equiv> (0x05 :: byte)"
abbreviation (input) "QMUX_TYPE_PDS \<equiv> (0x06 :: byte)"
abbreviation (input) "QMUX_TYPE_UIM \<equiv> (0x0B :: byte)"
abbreviation (input) "QMUX_TYPE_WDS_IPV6 \<equiv> (0x11 :: byte)"
abbreviation (input) "QMUX_TYPE_WDS_ADMIN \<equiv> (0x1A :: byte)"
abbreviation (input) "QMUX_TYPE_ALL \<equiv> (0xFF :: byte)"

abbreviation (input) "IpFamilyV4 \<equiv> (0x04 :: int)"
abbreviation (input) "IpFamilyV6 \<equiv> (0x06 :: int)"

abbreviation (input) "QWDS_PKT_DATA_DISCONNECTED \<equiv> (0x01 :: byte)"
abbreviation (input) "QWDS_PKT_DATA_CONNECTED \<equiv> (0x02 :: byte)"

abbreviation (input) "RIL_REQUEST_QUIT \<equiv> (0x1000 :: int)"
abbreviation (input) "RIL_INDICATE_DEVICE_CONNECTED \<equiv> (0x1002 :: int)"
abbreviation (input) "RIL_INDICATE_DEVICE_DISCONNECTED \<equiv> (0x1003 :: int)"
abbreviation (input) "RIL_UNSOL_RESPONSE_VOICE_NETWORK_STATE_CHANGED \<equiv> (0x1004 :: int)"
abbreviation (input) "RIL_UNSOL_DATA_CALL_LIST_CHANGED \<equiv> (0x1005 :: int)"
abbreviation (input) "MODEM_REPORT_RESET_EVENT \<equiv> (0x1006 :: int)"

abbreviation (input) "EINVAL \<equiv> (22 :: int)"
abbreviation (input) "ENODEV \<equiv> (19 :: int)"
abbreviation (input) "ETIMEDOUT \<equiv> (110 :: int)"

section \<open>The profile\<close>

record IPV4_T =
  v4Address :: u32
  v4Gateway :: u32
  v4SubnetMask :: u32
  v4DnsPrimary :: u32
  v4DnsSecondary :: u32
  v4Mtu :: u32

record IPV6_T =
  v6Address :: "byte list"
  v6Gateway :: "byte list"
  v6SubnetMask :: "byte list"
  v6DnsPrimary :: "byte list"
  v6DnsSecondary :: "byte list"
  PrefixLengthIPAddr :: byte
  PrefixLengthGateway :: byte
  v6Mtu :: u32

text \<open>A \<open>char *\<close> field is \<open>None\<close> for \<open>NULL\<close>, else the characters before the terminating zero.\<close>

record PROFILE_T =
  qmichannel :: "string option"
  usbnet_adapter :: "string option"
  qmapnet_adapter :: "string option"
  driver_name :: "string option"
  qmap_mode :: int
  qmap_version :: int
  apn :: "string option"
  user :: "string option"
  password :: "string option"
  pincode :: "string option"
  auth :: int
  pdp :: int
  curIpFamily :: int
  rawIP :: int
  muxid :: int
  ipv4 :: IPV4_T
  ipv6 :: IPV6_T
  enable_ipv4 :: int
  enable_ipv6 :: int
  apntype :: int

definition zero_ipv4 :: IPV4_T where
  "zero_ipv4 = \<lparr>v4Address = 0, v4Gateway = 0, v4SubnetMask = 0, v4DnsPrimary = 0,
     v4DnsSecondary = 0, v4Mtu = 0\<rparr>"

definition zero_ipv6 :: IPV6_T where
  "zero_ipv6 = \<lparr>v6Address = replicate 16 0, v6Gateway = replicate 16 0,
     v6SubnetMask = replicate 16 0, v6DnsPrimary = replicate 16 0,
     v6DnsSecondary = replicate 16 0, PrefixLengthIPAddr = 0, PrefixLengthGateway = 0, v6Mtu = 0\<rparr>"

text \<open>\<open>memset(&profile, 0x00, sizeof(profile))\<close>\<close>

definition zero_profile :: PROFILE_T where
  "zero_profile = \<lparr>qmichannel = None, usbnet_adapter = None, qmapnet_adapter = None,
     driver_name = None, qmap_mode = 0, qmap_version = 0, apn = None, user = None,
     password = None, pincode = None, auth = 0, pdp = 0, curIpFamily = 0, rawIP = 0, muxid = 0,
     ipv4 = zero_ipv4, ipv6 = zero_ipv6, enable_ipv4 = 0, enable_ipv6 = 0, apntype = 0\<rparr>"

text \<open>The device name tests of \<open>QMIThread.h\<close> (\<open>strncmp\<close> with a prefix).\<close>

definition has_prefix :: "string \<Rightarrow> string \<Rightarrow> bool" where
  "has_prefix p s \<longleftrightarrow> take (length p) s = p"

definition qmidev_is_gobinet :: "string \<Rightarrow> bool" where
  "qmidev_is_gobinet ch = has_prefix ''/dev/qcqmi'' ch"

definition qmidev_is_qmiwwan :: "string \<Rightarrow> bool" where
  "qmidev_is_qmiwwan ch = has_prefix ''/dev/cdc-wdm'' ch"

definition qmidev_is_pciemhi :: "string \<Rightarrow> bool" where
  "qmidev_is_pciemhi ch = has_prefix ''/dev/mhi_'' ch"

section \<open>The SIM states\<close>

datatype SIM_Status = SIM_ABSENT | SIM_NOT_READY | SIM_READY | SIM_PIN | SIM_PUK
  | SIM_NETWORK_PERSONALIZATION | SIM_BAD

fun SIM_code :: "SIM_Status \<Rightarrow> nat" where
  "SIM_code SIM_ABSENT = 0"
| "SIM_code SIM_NOT_READY = 1"
| "SIM_code SIM_READY = 2"
| "SIM_code SIM_PIN = 3"
| "SIM_code SIM_PUK = 4"
| "SIM_code SIM_NETWORK_PERSONALIZATION = 5"
| "SIM_code SIM_BAD = 6"

lemma SIM_code_inj: "SIM_code a = SIM_code b \<Longrightarrow> a = b"
  by (cases a; cases b) simp_all

instantiation SIM_Status :: linorder
begin

definition less_eq_SIM_Status :: "SIM_Status \<Rightarrow> SIM_Status \<Rightarrow> bool" where
  "less_eq_SIM_Status a b \<longleftrightarrow> SIM_code a \<le> SIM_code b"

definition less_SIM_Status :: "SIM_Status \<Rightarrow> SIM_Status \<Rightarrow> bool" where
  "less_SIM_Status a b \<longleftrightarrow> SIM_code a < SIM_code b"

instance
  by standard (auto simp: less_eq_SIM_Status_def less_SIM_Status_def dest: SIM_code_inj)

end

section \<open>The environment and the client state\<close>

text \<open>
  What the operating system and the modem do with one request: the outcome of \<open>poll\<close>
  and \<open>write\<close>, the datagrams the reader thread receives while the sender waits, with the
  file descriptor they arrive on
  (\<open>None\<close> is the \<open>QmiThreadRecvQMI(NULL)\<close> of a quitting thread), and whether the
  condition variable wakes up spuriously.
\<close>

record exchange =
  poll_ret :: int
  poll_out :: bool
  write_ret :: int
  incoming :: "(int \<times> byte list) option list"
  spurious :: bool

type_synonym modem = "byte list list \<Rightarrow> exchange"

text \<open>
  The transport: the GobiNet driver, the QMI_WWAN driver opened directly, or (with
  \<open>qmap_mode > 1\<close>) the QMI_WWAN driver behind the local QMI proxy.
\<close>

datatype device = GobiNet | QmiWwan | QmiWwanProxy

record qmi =
  dev :: device
  cdc_wdm_fd :: int
  qmiclientId :: "int list"
  WdsConnectionIPv4Handle :: u32
  WdsConnectionIPv6Handle :: u32
  s_is_cdma :: int
  s_hdr_personality :: int
  s_9x07 :: int
  QMUXTransactionId :: int
  QCTLTransactionId :: int
  s_pRequest :: "byte list option"
  s_pResponse :: "byte list option"
  QMIBuf :: "byte list"
  sent :: "byte list list"
  to_main :: "int list"

text \<open>The state in which the program starts: zero-initialised statics and \<open>s_9x07 = -1\<close>.\<close>

definition qmi_init :: "device \<Rightarrow> int \<Rightarrow> qmi" where
  "qmi_init d fd = \<lparr>dev = d, cdc_wdm_fd = fd, qmiclientId = replicate 27 0,
     WdsConnectionIPv4Handle = 0, WdsConnectionIPv6Handle = 0, s_is_cdma = 0,
     s_hdr_personality = 0, s_9x07 = -1, QMUXTransactionId = 0, QCTLTransactionId = 0,
     s_pRequest = None, s_pResponse = None, QMIBuf = replicate 4096 0, sent = [], to_main = []\<rparr>"

definition client :: "qmi \<Rightarrow> byte \<Rightarrow> int option" where
  "client s ty = (if unat ty < length (qmiclientId s) then Some (qmiclientId s ! unat ty) else None)"

definition set_client :: "byte \<Rightarrow> int \<Rightarrow> qmi \<Rightarrow> qmi option" where
  "set_client ty v s =
     (if unat ty < length (qmiclientId s)
      then Some (s\<lparr>qmiclientId := (qmiclientId s)[unat ty := v]\<rparr>) else None)"

section \<open>Transaction identifiers\<close>

text \<open>The two static counters: \<open>if (++TransactionId > max) TransactionId = 1;\<close>\<close>

definition GetQMUXTransactionId :: "qmi \<Rightarrow> u16 \<times> qmi" where
  "GetQMUXTransactionId s =
     (let t = (if QMUXTransactionId s + 1 > 0xFFFF then 1 else QMUXTransactionId s + 1)
      in (word_of_int t, s\<lparr>QMUXTransactionId := t\<rparr>))"

definition GetQCTLTransactionId :: "qmi \<Rightarrow> byte \<times> qmi" where
  "GetQCTLTransactionId s =
     (let t = (if QCTLTransactionId s + 1 > 0xFF then 1 else QCTLTransactionId s + 1)
      in (word_of_int t, s\<lparr>QCTLTransactionId := t\<rparr>))"

text \<open>The identifiers that the next \<open>n\<close> calls return.\<close>

fun id_run :: "('s \<Rightarrow> 'w \<times> 's) \<Rightarrow> nat \<Rightarrow> 's \<Rightarrow> 'w list" where
  "id_run next_id 0 s = []"
| "id_run next_id (Suc n) s = fst (next_id s) # id_run next_id n (snd (next_id s))"

text \<open>
  The contract of a transaction counter over a component of the state: starting from 0 it
  runs through \<open>1, \<dots>, M\<close> and starts again at 1.
\<close>

locale txn_counter =
  fixes next_id :: "'s \<Rightarrow> 'w::len word \<times> 's"
    and cnt :: "'s \<Rightarrow> int"
    and M :: int
  assumes M: "1 \<le> M" "M < 2 ^ LENGTH('w)"
    and cnt_next: "cnt (snd (next_id s)) = (if M < cnt s + 1 then 1 else cnt s + 1)"
    and id_next: "fst (next_id s) = word_of_int (cnt (snd (next_id s)))"
begin

abbreviation ids :: "nat \<Rightarrow> 's \<Rightarrow> 'w word list" where
  "ids \<equiv> id_run next_id"

lemma cnt_range: "0 \<le> cnt s \<Longrightarrow> cnt s \<le> M \<Longrightarrow>
    1 \<le> cnt (snd (next_id s)) \<and> cnt (snd (next_id s)) \<le> M"
  using M by (auto simp: cnt_next)

lemma uint_id: "0 \<le> cnt s \<Longrightarrow> cnt s \<le> M \<Longrightarrow> uint (fst (next_id s)) = cnt (snd (next_id s))"
  using cnt_range [of s] M by (simp add: id_next uint_word_of_int_eq take_bit_int_eq_self)

lemma id_nonzero: "0 \<le> cnt s \<Longrightarrow> cnt s \<le> M \<Longrightarrow> fst (next_id s) \<noteq> 0"
  using uint_id [of s] cnt_range [of s] by auto

text \<open>The nth identifier from now, counted from 0.\<close>

lemma ids_nth:
  "0 \<le> cnt s \<Longrightarrow> cnt s \<le> M \<Longrightarrow> i < n \<Longrightarrow>
     uint (ids n s ! i) = (cnt s + int i) mod M + 1"
proof (induction n arbitrary: s i)
  case (Suc n)
  let ?s = "snd (next_id s)"
  have r: "1 \<le> cnt ?s" "cnt ?s \<le> M" using cnt_range [OF Suc.prems(1,2)] by auto
  have m: "cnt ?s = cnt s mod M + 1"
    using Suc.prems(1,2) M by (auto simp: cnt_next)
  show ?case
  proof (cases i)
    case 0
    then show ?thesis using uint_id [OF Suc.prems(1,2)] m by simp
  next
    case (Suc j)
    have "uint (ids n ?s ! j) = (cnt ?s + int j) mod M + 1"
      using Suc.IH [of ?s j] r Suc.prems Suc by simp
    also have "(cnt ?s + int j) mod M = (cnt s + int i) mod M"
      unfolding m Suc
      using mod_add_right_eq [of "1 + int j" "cnt s" M] by (simp add: ac_simps)
    finally show ?thesis using Suc by simp
  qed
qed simp

lemma length_ids [simp]: "length (ids n s) = n"
  by (induction n arbitrary: s) auto

lemma ids_distinct:
  assumes "0 \<le> cnt s" "cnt s \<le> M" "int n \<le> M"
  shows "distinct (ids n s)"
proof (rule distinct_conv_nth [THEN iffD2], intro allI impI)
  fix i j assume ij: "i < length (ids n s)" "j < length (ids n s)" "i \<noteq> j"
  show "ids n s ! i \<noteq> ids n s ! j"
  proof
    assume "ids n s ! i = ids n s ! j"
    with ids_nth [OF assms(1,2), of i n] ids_nth [OF assms(1,2), of j n] ij
    have "(cnt s + int i) mod M = (cnt s + int j) mod M" by simp
    then have "M dvd (cnt s + int i) - (cnt s + int j)" by (simp add: mod_eq_dvd_iff)
    then have "M dvd int i - int j" by simp
    moreover have "\<bar>int i - int j\<bar> < M" using ij assms(3) by simp
    ultimately show False using ij(3) zdvd_not_zless [of "\<bar>int i - int j\<bar>" M] by auto
  qed
qed

end

interpretation qmux: txn_counter GetQMUXTransactionId QMUXTransactionId "0xFFFF"
  by unfold_locales (auto simp: GetQMUXTransactionId_def Let_def)

interpretation qctl: txn_counter GetQCTLTransactionId QCTLTransactionId "0xFF"
  by unfold_locales (auto simp: GetQCTLTransactionId_def Let_def)

text \<open>
  The transaction identifiers of consecutive QMUX requests (and of consecutive control
  requests) are never 0, and no two of 65535 (of 255) consecutive ones are equal, so that
  a response is matched with the request it answers unless it is that many requests late.
\<close>
theorem transaction_ids_distinct:
  assumes "0 \<le> QMUXTransactionId s" "QMUXTransactionId s \<le> 0xFFFF"
    and "0 \<le> QCTLTransactionId s" "QCTLTransactionId s \<le> 0xFF"
  shows "(n \<le> 65535 \<longrightarrow> distinct (id_run GetQMUXTransactionId n s))
    \<and> (k \<le> 255 \<longrightarrow> distinct (id_run GetQCTLTransactionId k s))
    \<and> fst (GetQMUXTransactionId s) \<noteq> 0 \<and> fst (GetQCTLTransactionId s) \<noteq> 0"
  using assms qmux.ids_distinct [of s n] qctl.ids_distinct [of s k]
    qmux.id_nonzero [of s] qctl.id_nonzero [of s] by simp_all

theorem transaction_ids_distinct_witness:
  "distinct (id_run GetQMUXTransactionId 65535 (qmi_init QmiWwan 3))
     \<and> distinct (id_run GetQCTLTransactionId 255 (qmi_init QmiWwan 3))"
  using transaction_ids_distinct [of "qmi_init QmiWwan 3" 65535 255] by (simp add: qmi_init_def)

end
