(* ===== verification/Compose.thy ===== *)
theory Compose
  imports Session
begin

text \<open>
  The request builders of \<open>QMIThread.c\<close> and \<open>ComposeQMUXMsg\<close>, which puts the headers
  around what a builder writes into a 256-byte stack buffer. A builder takes the buffer
  and returns the \<open>USHORT\<close> the C function returns and the buffer with its writes; a
  write outside the buffer is \<open>None\<close>. The abstract result of a builder is a list of
  TLVs.
\<close>

section \<open>The message frame\<close>

definition WDM_DEFAULT_BUFSIZE :: nat where
  "WDM_DEFAULT_BUFSIZE = 256"

text \<open>Offsets in the buffer: \<open>MUXMsg\<close> stands behind \<open>QCQMI_HDR\<close>, its union behind \<open>QCQMUX_HDR\<close>.\<close>

definition MUXMsg :: nat where "MUXMsg = sizeof QCQMI_HDR"

definition MUXHdr :: nat where "MUXHdr = MUXMsg + sizeof QCQMUX_HDR"

lemma MUX_offsets [simp]: "MUXMsg = 6" "MUXHdr = 9"
  by (simp_all add: MUXMsg_def MUXHdr_def)

type_synonym builder = "byte list \<Rightarrow> (u16 \<times> byte list) option"

definition ComposeQMUXMsg ::
    "byte \<Rightarrow> u16 \<Rightarrow> builder option \<Rightarrow> qmi \<Rightarrow> (byte list option \<times> qmi) option" where
  "ComposeQMUXMsg QMIType Type custom s = do {
     b \<leftarrow> put8 0 QCQMI_HDR ''IFType'' 0x01 (replicate WDM_DEFAULT_BUFSIZE 0);
     b \<leftarrow> put8 0 QCQMI_HDR ''CtlFlags'' 0x00 b;
     b \<leftarrow> put8 0 QCQMI_HDR ''QMIType'' QMIType b;
     cid \<leftarrow> client s QMIType;
     b \<leftarrow> put8 0 QCQMI_HDR ''ClientId'' (word_of_int cid AND 0xFF) b;
     if cid = 0 then Some (None, s)
     else do {
       b \<leftarrow> put8 MUXMsg QCQMUX_HDR ''CtlFlags'' 0x00 b;
       let (tid, s) = GetQMUXTransactionId s;
       b \<leftarrow> put16 MUXMsg QCQMUX_HDR ''TransactionId'' tid b;
       b \<leftarrow> put16 MUXHdr QCQMUX_MSG_HDR ''Type'' Type b;
       b \<leftarrow> (case custom of
              Some f \<Rightarrow> do { (n, b) \<leftarrow> f b;
                             put16 MUXHdr QCQMUX_MSG_HDR ''Length'' (n - of_nat (sizeof QCQMUX_MSG_HDR)) b }
            | None \<Rightarrow> put16 MUXHdr QCQMUX_MSG_HDR ''Length'' 0 b);
       len \<leftarrow> get16 b MUXHdr QCQMUX_MSG_HDR ''Length'';
       b \<leftarrow> put16 0 QCQMI_HDR ''Length''
              (len + of_nat (sizeof QCQMUX_MSG_HDR + sizeof QCQMUX_HDR + sizeof QCQMI_HDR - 1)) b;
       Length \<leftarrow> get16 b 0 QCQMI_HDR ''Length'';
       m \<leftarrow> rdn b 0 (unat Length + 1);
       Some (Some m, s)
     }
   }"

text \<open>The request a list of TLVs is to become.\<close>

definition qmux_request :: "byte \<Rightarrow> byte \<Rightarrow> u16 \<Rightarrow> u16 \<Rightarrow> tlv list \<Rightarrow> byte list" where
  "qmux_request QMIType ClientId tid Type tlvs =
     0x01 # le16 (of_nat (12 + length (encode_tlvs tlvs))) @ [0x00, QMIType, ClientId]
     @ (0x00 # le16 tid) @ mux_body Type tlvs"

lemma length_mux_body [simp]: "length (mux_body ty xs) = 4 + length (encode_tlvs xs)"
  by (simp add: mux_body_def)

lemma length_qmux_request [simp]:
  "length (qmux_request q c t ty xs) = 13 + length (encode_tlvs xs)"
  by (simp add: qmux_request_def)

section \<open>The builder contract\<close>

text \<open>
  A builder of the TLVs \<open>tlvs\<close>: on any 256-byte buffer it returns the size of the message
  header and the encoded TLVs, leaves everything before the \<open>Length\<close> field of the message
  header alone and puts the encoded TLVs behind that header.
\<close>

locale tlv_builder =
  fixes f :: builder and tlvs :: "tlv list"
  assumes fits: "13 + length (encode_tlvs tlvs) \<le> WDM_DEFAULT_BUFSIZE"
    and builds: "length b = WDM_DEFAULT_BUFSIZE \<Longrightarrow>
      \<exists>b'. f b = Some (of_nat (4 + length (encode_tlvs tlvs)), b')
         \<and> length b' = WDM_DEFAULT_BUFSIZE \<and> take 11 b' = take 11 b
         \<and> take (length (encode_tlvs tlvs)) (drop 13 b') = encode_tlvs tlvs"

lemma list_256_cases:
  fixes b :: "byte list"
  assumes "length b = 256" and "take 11 b = hd11" and "take n (drop 13 b) = xs" "n \<le> 243"
  shows "\<exists>l h rest. b = hd11 @ [l, h] @ xs @ rest \<and> length rest = 243 - n"
proof -
  have "b = take 11 b @ take 2 (drop 11 b) @ take n (drop 13 b) @ drop (13 + n) b"
    using append_take_drop_id [of 11 b] append_take_drop_id [of 2 "drop 11 b"]
      append_take_drop_id [of n "drop 13 b"] by (simp add: add.commute)
  moreover have "length (take 2 (drop 11 b)) = 2" using assms by simp
  then obtain l h where "take 2 (drop 11 b) = [l, h]" by (rule length_2E)
  ultimately show ?thesis using assms
    by (intro exI [of _ l] exI [of _ h] exI [of _ "drop (13 + n) b"]) simp
qed

lemma compose_frame:
  assumes b: "length b = 256" "take 11 b = [0x01, l0, h0, 0x00, q, c, 0x00] @ le16 tid @ le16 ty"
    and x: "take (length (encode_tlvs xs)) (drop 13 b) = encode_tlvs xs"
    and n: "13 + length (encode_tlvs xs) \<le> 256"
  shows "do { b \<leftarrow> put16 9 QCQMUX_MSG_HDR ''Length'' (of_nat (length (encode_tlvs xs))) b;
       len \<leftarrow> get16 b 9 QCQMUX_MSG_HDR ''Length'';
       b \<leftarrow> put16 0 QCQMI_HDR ''Length'' (len + 12) b;
       Length \<leftarrow> get16 b 0 QCQMI_HDR ''Length'';
       m \<leftarrow> rdn b 0 (unat Length + 1);
       Some (Some m, s) } = Some (Some (qmux_request q c tid ty xs), s)"
proof -
  let ?n = "length (encode_tlvs xs)"
  obtain l h rest where bb: "b = ([0x01, l0, h0, 0x00, q, c, 0x00] @ le16 tid @ le16 ty) @ [l, h]
      @ encode_tlvs xs @ rest"
    using list_256_cases [OF b x] n by auto
  have u: "unat (of_nat (?n + 12) :: u16) = ?n + 12"
    using n by (intro unat_len16) simp
  show ?thesis
    unfolding bb using u n
    by (simp add: field_defs le16_def rd16_def rd8_append rdn_def qmux_request_def mux_body_def
        nth_append add.commute) (simp add: numeral_eq_Suc)
qed

text \<open>The buffer after the headers are written, before the builder runs.\<close>

definition header_buf :: "byte \<Rightarrow> byte \<Rightarrow> u16 \<Rightarrow> u16 \<Rightarrow> byte list" where
  "header_buf q c tid ty = (replicate 256 0)[0 := 0x01, 3 := 0x00, 4 := q, 5 := c, 6 := 0x00,
     7 := ucast tid, 8 := ucast (drop_bit 8 tid), 9 := ucast ty, 10 := ucast (drop_bit 8 ty)]"

lemma length_header_buf [simp]: "length (header_buf q c tid ty) = 256"
  by (simp add: header_buf_def)

lemma take_header_buf: "take 11 (header_buf q c tid ty)
    = [0x01, 0x00, 0x00, 0x00, q, c, 0x00] @ le16 tid @ le16 ty"
  by (simp add: take_eq_map_nth header_buf_def nth_list_update wire le16_def)

lemma compose_header:
  assumes "client s q = Some c" "c \<noteq> 0"
  shows "ComposeQMUXMsg q ty custom s =
    (let (tid, s') = GetQMUXTransactionId s; b = header_buf q (word_of_int c AND 0xFF) tid ty in do {
       b \<leftarrow> (case custom of
              Some f \<Rightarrow> do { (n, b) \<leftarrow> f b; put16 9 QCQMUX_MSG_HDR ''Length'' (n - 4) b }
            | None \<Rightarrow> put16 9 QCQMUX_MSG_HDR ''Length'' 0 b);
       len \<leftarrow> get16 b 9 QCQMUX_MSG_HDR ''Length'';
       b \<leftarrow> put16 0 QCQMI_HDR ''Length'' (len + 12) b;
       Length \<leftarrow> get16 b 0 QCQMI_HDR ''Length'';
       m \<leftarrow> rdn b 0 (unat Length + 1);
       Some (Some m, s') })"
  using assms
  by (cases custom) (simp_all add: ComposeQMUXMsg_def field_defs WDM_DEFAULT_BUFSIZE_def
      header_buf_def le16_def split_beta Let_def)

lemma compose_no_client:
  assumes "client s q = Some 0"
  shows "ComposeQMUXMsg q ty custom s = Some (None, s)"
  using assms by (simp add: ComposeQMUXMsg_def field_defs WDM_DEFAULT_BUFSIZE_def)

lemma compose_overflow:
  assumes "client s q = Some c" "c \<noteq> 0" "\<And>b. length b = 256 \<Longrightarrow> f b = None"
  shows "ComposeQMUXMsg q ty (Some f) s = None"
  by (simp add: compose_header [OF assms(1,2)] split_beta Let_def assms(3))

lemma drop_qmux_request: "drop 13 (qmux_request q c tid mt xs) = encode_tlvs xs"
  by (simp add: qmux_request_def mux_body_def le16_def)

text \<open>A TLV of a request is found again by \<open>GetTLV\<close>, with its bytes.\<close>

lemma GetTLV_qmux_request:
  assumes "length (encode_tlvs (us @ (ty, v) # ws)) < 65536" "ty \<notin> fst ` set us"
  shows "GetTLV (qmux_request q c tid mt (us @ (ty, v) # ws)) MUXHdr (unat ty)
      = Some (Some (13 + length (encode_tlvs us)))"
    and "rdn (qmux_request q c tid mt (us @ (ty, v) # ws)) (13 + length (encode_tlvs us)) (3 + length v)
      = Some (encode_tlv (ty, v))"
proof -
  let ?xs = "us @ (ty, v) # ws"
  let ?h = "0x01 # le16 (of_nat (12 + length (encode_tlvs ?xs))) @ [0x00, q, c] @ (0x00 # le16 tid)"
  have ty: "unat ty \<le> 0x1000" using unsigned_less [of ty, where ?'a = nat] by simp
  have "unat ty \<notin> unat ` fst ` set us" using assms(2) by (force simp flip: word_unat_eq_iff)
  then have pos: "tlv_pos (unat ty) ?xs = Some (length (encode_tlvs us))"
    by (simp add: tlv_pos_append)
  have "GetTLV (?h @ mux_body mt ?xs @ []) (length ?h) (unat ty) = Some (Some (13 + length (encode_tlvs us)))"
    unfolding GetTLV_finds [OF assms(1) ty] by (simp add: pos)
  moreover have "?h @ mux_body mt ?xs @ [] = qmux_request q c tid mt ?xs" "length ?h = MUXHdr"
    by (simp_all add: qmux_request_def le16_def)
  ultimately show "GetTLV (qmux_request q c tid mt ?xs) MUXHdr (unat ty)
      = Some (Some (13 + length (encode_tlvs us)))"
    by (simp only:)
  show "rdn (qmux_request q c tid mt ?xs) (13 + length (encode_tlvs us)) (3 + length v)
      = Some (encode_tlv (ty, v))"
    by (simp add: rdn_def drop_qmux_request add.commute [of 13] flip: drop_drop)
qed

text \<open>A request without a builder has no TLVs.\<close>

lemma compose_plain:
  assumes "client s q = Some c" "c \<noteq> 0"
  shows "ComposeQMUXMsg q ty None s =
    Some (Some (qmux_request q (word_of_int c AND 0xFF) (fst (GetQMUXTransactionId s)) ty []),
      snd (GetQMUXTransactionId s))"
  using compose_frame [OF length_header_buf, of q "word_of_int c AND 0xFF"
      "fst (GetQMUXTransactionId s)" ty 0 0 q "word_of_int c AND 0xFF"
      "fst (GetQMUXTransactionId s)" ty "[]" "snd (GetQMUXTransactionId s)"]
  by (simp add: compose_header [OF assms] take_header_buf split_beta Let_def)

context tlv_builder
begin

lemma compose:
  assumes "client s q = Some c" "c \<noteq> 0"
  shows "ComposeQMUXMsg q ty (Some f) s =
    Some (Some (qmux_request q (word_of_int c AND 0xFF) (fst (GetQMUXTransactionId s)) ty tlvs),
      snd (GetQMUXTransactionId s))"
proof -
  let ?c = "word_of_int c AND 0xFF" and ?tid = "fst (GetQMUXTransactionId s)"
  let ?s = "snd (GetQMUXTransactionId s)" and ?b = "header_buf q (word_of_int c AND 0xFF)
    (fst (GetQMUXTransactionId s)) ty"
  obtain b' where b': "f ?b = Some (of_nat (4 + length (encode_tlvs tlvs)), b')"
      "length b' = 256" "take 11 b' = take 11 ?b"
      "take (length (encode_tlvs tlvs)) (drop 13 b') = encode_tlvs tlvs"
    using builds [of ?b] by (auto simp: WDM_DEFAULT_BUFSIZE_def)
  have "ComposeQMUXMsg q ty (Some f) s = do {
       b \<leftarrow> put16 9 QCQMUX_MSG_HDR ''Length'' (of_nat (length (encode_tlvs tlvs))) b';
       len \<leftarrow> get16 b 9 QCQMUX_MSG_HDR ''Length'';
       b \<leftarrow> put16 0 QCQMI_HDR ''Length'' (len + 12) b;
       Length \<leftarrow> get16 b 0 QCQMI_HDR ''Length'';
       m \<leftarrow> rdn b 0 (unat Length + 1);
       Some (Some m, ?s) }"
    by (simp add: compose_header [OF assms] b' split_beta Let_def)
  also have "\<dots> = Some (Some (qmux_request q ?c ?tid ty tlvs), ?s)"
    using b' fits take_header_buf [of q ?c ?tid ty]
    by (intro compose_frame) (auto simp: WDM_DEFAULT_BUFSIZE_def)
  finally show ?thesis .
qed

end

section \<open>Builders of fixed size\<close>

type_synonym 'a cbuilder = "'a \<Rightarrow> builder"

definition WdsStopNwInterfaceReq :: "qmi \<Rightarrow> int \<Rightarrow> builder" where
  "WdsStopNwInterfaceReq s arg b = do {
     b \<leftarrow> put8 MUXHdr QMIWDS_STOP_NETWORK_INTERFACE_REQ_MSG ''TLVType'' 0x01 b;
     b \<leftarrow> put16 MUXHdr QMIWDS_STOP_NETWORK_INTERFACE_REQ_MSG ''TLVLength'' 0x04 b;
     b \<leftarrow> put32 MUXHdr QMIWDS_STOP_NETWORK_INTERFACE_REQ_MSG ''Handle''
            (if arg = IpFamilyV4 then WdsConnectionIPv4Handle s else WdsConnectionIPv6Handle s) b;
     Some (of_nat (sizeof QMIWDS_STOP_NETWORK_INTERFACE_REQ_MSG), b) }"

definition WdsSetClientIPFamilyPref :: "byte \<Rightarrow> builder" where
  "WdsSetClientIPFamilyPref arg b = do {
     b \<leftarrow> put8 MUXHdr QMIWDS_SET_CLIENT_IP_FAMILY_PREF_REQ_MSG ''TLVType'' 0x01 b;
     b \<leftarrow> put16 MUXHdr QMIWDS_SET_CLIENT_IP_FAMILY_PREF_REQ_MSG ''TLVLength'' 0x01 b;
     b \<leftarrow> put8 MUXHdr QMIWDS_SET_CLIENT_IP_FAMILY_PREF_REQ_MSG ''IpPreference'' arg b;
     Some (of_nat (sizeof QMIWDS_SET_CLIENT_IP_FAMILY_PREF_REQ_MSG), b) }"

definition WdsSetAutoConnect :: "byte \<Rightarrow> builder" where
  "WdsSetAutoConnect arg b = do {
     b \<leftarrow> put8 MUXHdr QMIWDS_SET_AUTO_CONNECT_REQ_MSG ''TLVType'' 0x01 b;
     b \<leftarrow> put16 MUXHdr QMIWDS_SET_AUTO_CONNECT_REQ_MSG ''TLVLength'' 0x01 b;
     b \<leftarrow> put8 MUXHdr QMIWDS_SET_AUTO_CONNECT_REQ_MSG ''autoconnect_setting'' arg b;
     Some (of_nat (sizeof QMIWDS_SET_AUTO_CONNECT_REQ_MSG), b) }"

datatype peripheral_ep_type = DATA_EP_TYPE_RESERVED | DATA_EP_TYPE_HSIC | DATA_EP_TYPE_HSUSB
  | DATA_EP_TYPE_PCIE | DATA_EP_TYPE_EMBEDDED | DATA_EP_TYPE_BAM_DMUX

fun ep_code :: "peripheral_ep_type \<Rightarrow> u32" where
  "ep_code DATA_EP_TYPE_RESERVED = 0x0"
| "ep_code DATA_EP_TYPE_HSIC = 0x1"
| "ep_code DATA_EP_TYPE_HSUSB = 0x2"
| "ep_code DATA_EP_TYPE_PCIE = 0x3"
| "ep_code DATA_EP_TYPE_EMBEDDED = 0x4"
| "ep_code DATA_EP_TYPE_BAM_DMUX = 0x5"

record QMAP_SETTING =
  rx_urb_size :: u32
  ep_type :: peripheral_ep_type
  iface_id :: u32
  MuxId :: byte

definition WdsSetQMUXBindMuxDataPort :: "QMAP_SETTING \<Rightarrow> builder" where
  "WdsSetQMUXBindMuxDataPort qs b = do {
     b \<leftarrow> put8 MUXHdr QMIWDS_BIND_MUX_DATA_PORT_REQ_MSG ''TLVType'' 0x10 b;
     b \<leftarrow> put16 MUXHdr QMIWDS_BIND_MUX_DATA_PORT_REQ_MSG ''TLVLength'' 0x08 b;
     b \<leftarrow> put32 MUXHdr QMIWDS_BIND_MUX_DATA_PORT_REQ_MSG ''ep_type'' (ep_code (ep_type qs)) b;
     b \<leftarrow> put32 MUXHdr QMIWDS_BIND_MUX_DATA_PORT_REQ_MSG ''iface_id'' (iface_id qs) b;
     b \<leftarrow> put8 MUXHdr QMIWDS_BIND_MUX_DATA_PORT_REQ_MSG ''TLV2Type'' 0x11 b;
     b \<leftarrow> put16 MUXHdr QMIWDS_BIND_MUX_DATA_PORT_REQ_MSG ''TLV2Length'' 0x01 b;
     b \<leftarrow> put8 MUXHdr QMIWDS_BIND_MUX_DATA_PORT_REQ_MSG ''MuxId'' (MuxId qs) b;
     b \<leftarrow> put8 MUXHdr QMIWDS_BIND_MUX_DATA_PORT_REQ_MSG ''TLV3Type'' 0x13 b;
     b \<leftarrow> put16 MUXHdr QMIWDS_BIND_MUX_DATA_PORT_REQ_MSG ''TLV3Length'' 0x04 b;
     b \<leftarrow> put32 MUXHdr QMIWDS_BIND_MUX_DATA_PORT_REQ_MSG ''client_type'' 1 b;
     Some (of_nat (sizeof QMIWDS_BIND_MUX_DATA_PORT_REQ_MSG), b) }"

definition WdsGetRuntimeSettingReq :: builder where
  "WdsGetRuntimeSettingReq b = do {
     b \<leftarrow> put8 MUXHdr QMIWDS_GET_RUNTIME_SETTINGS_REQ_MSG ''TLVType'' 0x10 b;
     b \<leftarrow> put16 MUXHdr QMIWDS_GET_RUNTIME_SETTINGS_REQ_MSG ''TLVLength'' 0x04 b;
     b \<leftarrow> put32 MUXHdr QMIWDS_GET_RUNTIME_SETTINGS_REQ_MSG ''Mask''
            (0x0010 OR 0x0100 OR 0x2000 OR 0x0200) b;
     Some (of_nat (sizeof QMIWDS_GET_RUNTIME_SETTINGS_REQ_MSG), b) }"

definition WdsGetProfileSettingsReqSend :: "PROFILE_T \<Rightarrow> builder" where
  "WdsGetProfileSettingsReqSend profile b = do {
     b \<leftarrow> put16 MUXHdr QMIWDS_GET_PROFILE_SETTINGS_REQ_MSG ''Length''
            (of_nat (sizeof QMIWDS_GET_PROFILE_SETTINGS_REQ_MSG - 4)) b;
     b \<leftarrow> put8 MUXHdr QMIWDS_GET_PROFILE_SETTINGS_REQ_MSG ''TLVType'' 0x01 b;
     b \<leftarrow> put16 MUXHdr QMIWDS_GET_PROFILE_SETTINGS_REQ_MSG ''TLVLength'' 0x02 b;
     b \<leftarrow> put8 MUXHdr QMIWDS_GET_PROFILE_SETTINGS_REQ_MSG ''ProfileType'' 0x00 b;
     b \<leftarrow> put8 MUXHdr QMIWDS_GET_PROFILE_SETTINGS_REQ_MSG ''ProfileIndex'' (word_of_int (pdp profile)) b;
     Some (of_nat (sizeof QMIWDS_GET_PROFILE_SETTINGS_REQ_MSG), b) }"

definition WdaSetDataFormat :: "QMAP_SETTING \<Rightarrow> builder" where
  "WdaSetDataFormat qs b =
     (if rx_urb_size qs = 0 then
        (let qos = MUXHdr + sizeof QCQMUX_MSG_HDR;
             linkProto = qos + sizeof QMIWDS_ADMIN_SET_DATA_FORMAT_TLV_QOS;
             dlTlp = linkProto + sizeof QMIWDS_ADMIN_SET_DATA_FORMAT_TLV in do {
          b \<leftarrow> put8 qos QMIWDS_ADMIN_SET_DATA_FORMAT_TLV_QOS ''TLVType'' 0x10 b;
          b \<leftarrow> put16 qos QMIWDS_ADMIN_SET_DATA_FORMAT_TLV_QOS ''TLVLength'' 0x0001 b;
          b \<leftarrow> put8 qos QMIWDS_ADMIN_SET_DATA_FORMAT_TLV_QOS ''QOSSetting'' 0 b;
          b \<leftarrow> put8 linkProto QMIWDS_ADMIN_SET_DATA_FORMAT_TLV ''TLVType'' 0x11 b;
          b \<leftarrow> put16 linkProto QMIWDS_ADMIN_SET_DATA_FORMAT_TLV ''TLVLength'' 4 b;
          b \<leftarrow> put32 linkProto QMIWDS_ADMIN_SET_DATA_FORMAT_TLV ''Value'' 0x01 b;
          b \<leftarrow> put8 dlTlp QMIWDS_ADMIN_SET_DATA_FORMAT_TLV ''TLVType'' 0x13 b;
          b \<leftarrow> put16 dlTlp QMIWDS_ADMIN_SET_DATA_FORMAT_TLV ''TLVLength'' 4 b;
          b \<leftarrow> put32 dlTlp QMIWDS_ADMIN_SET_DATA_FORMAT_TLV ''Value'' 0x00 b;
          Some (of_nat (sizeof QCQMUX_MSG_HDR + sizeof QMIWDS_ADMIN_SET_DATA_FORMAT_TLV_QOS
                + sizeof QMIWDS_ADMIN_SET_DATA_FORMAT_TLV + sizeof QMIWDS_ADMIN_SET_DATA_FORMAT_TLV), b) })
      else
        (let fld = (\<lambda>f. MUXHdr + off QMIWDS_ADMIN_SET_DATA_FORMAT_REQ_MSG f) in do {
          b \<leftarrow> put8 (fld ''QosDataFormatTlv'') QMIWDS_ADMIN_SET_DATA_FORMAT_TLV_QOS ''TLVType'' 0x10 b;
          b \<leftarrow> put16 (fld ''QosDataFormatTlv'') QMIWDS_ADMIN_SET_DATA_FORMAT_TLV_QOS ''TLVLength'' 0x0001 b;
          b \<leftarrow> put8 (fld ''QosDataFormatTlv'') QMIWDS_ADMIN_SET_DATA_FORMAT_TLV_QOS ''QOSSetting'' 0 b;
          b \<leftarrow> put8 (fld ''UnderlyingLinkLayerProtocolTlv'') QMIWDS_ADMIN_SET_DATA_FORMAT_TLV ''TLVType'' 0x11 b;
          b \<leftarrow> put16 (fld ''UnderlyingLinkLayerProtocolTlv'') QMIWDS_ADMIN_SET_DATA_FORMAT_TLV ''TLVLength'' 4 b;
          b \<leftarrow> put32 (fld ''UnderlyingLinkLayerProtocolTlv'') QMIWDS_ADMIN_SET_DATA_FORMAT_TLV ''Value'' 0x02 b;
          b \<leftarrow> put8 (fld ''UplinkDataAggregationProtocolTlv'') QMIWDS_ADMIN_SET_DATA_FORMAT_TLV ''TLVType'' 0x12 b;
          b \<leftarrow> put16 (fld ''UplinkDataAggregationProtocolTlv'') QMIWDS_ADMIN_SET_DATA_FORMAT_TLV ''TLVLength'' 4 b;
          b \<leftarrow> put32 (fld ''UplinkDataAggregationProtocolTlv'') QMIWDS_ADMIN_SET_DATA_FORMAT_TLV ''Value'' 0x05 b;
          b \<leftarrow> put8 (fld ''DownlinkDataAggregationProtocolTlv'') QMIWDS_ADMIN_SET_DATA_FORMAT_TLV ''TLVType'' 0x13 b;
          b \<leftarrow> put16 (fld ''DownlinkDataAggregationProtocolTlv'') QMIWDS_ADMIN_SET_DATA_FORMAT_TLV ''TLVLength'' 4 b;
          b \<leftarrow> put32 (fld ''DownlinkDataAggregationProtocolTlv'') QMIWDS_ADMIN_SET_DATA_FORMAT_TLV ''Value'' 0x05 b;
          b \<leftarrow> put8 (fld ''DownlinkDataAggregationMaxDatagramsTlv'') QMIWDS_ADMIN_SET_DATA_FORMAT_TLV ''TLVType'' 0x15 b;
          b \<leftarrow> put16 (fld ''DownlinkDataAggregationMaxDatagramsTlv'') QMIWDS_ADMIN_SET_DATA_FORMAT_TLV ''TLVLength'' 4 b;
          b \<leftarrow> put32 (fld ''DownlinkDataAggregationMaxDatagramsTlv'') QMIWDS_ADMIN_SET_DATA_FORMAT_TLV ''Value'' (rx_urb_size qs div 512) b;
          b \<leftarrow> put8 (fld ''DownlinkDataAggregationMaxSizeTlv'') QMIWDS_ADMIN_SET_DATA_FORMAT_TLV ''TLVType'' 0x16 b;
          b \<leftarrow> put16 (fld ''DownlinkDataAggregationMaxSizeTlv'') QMIWDS_ADMIN_SET_DATA_FORMAT_TLV ''TLVLength'' 4 b;
          b \<leftarrow> put32 (fld ''DownlinkDataAggregationMaxSizeTlv'') QMIWDS_ADMIN_SET_DATA_FORMAT_TLV ''Value'' (rx_urb_size qs) b;
          b \<leftarrow> put8 (fld ''epTlv'') QMIWDS_ENDPOINT_TLV ''TLVType'' 0x17 b;
          b \<leftarrow> put16 (fld ''epTlv'') QMIWDS_ENDPOINT_TLV ''TLVLength'' 8 b;
          b \<leftarrow> put32 (fld ''epTlv'') QMIWDS_ENDPOINT_TLV ''ep_type'' (ep_code (ep_type qs)) b;
          b \<leftarrow> put32 (fld ''epTlv'') QMIWDS_ENDPOINT_TLV ''iface_id'' (iface_id qs) b;
          Some (of_nat (sizeof QMIWDS_ADMIN_SET_DATA_FORMAT_REQ_MSG), b) }))"

text \<open>
  Every builder of fixed size meets the contract: its writes evaluate to updates of the
  buffer at known offsets behind the header.
\<close>

lemma take_drop_map: "k + n \<le> length b \<Longrightarrow> take n (drop k b) = map (\<lambda>i. b ! (k + i)) [0..<n]"
  by (rule nth_equalityI) auto

lemmas fixed_builder = field_defs WDM_DEFAULT_BUFSIZE_def le16_def le32_def encode_tlv_def
  take_drop_map wire nth_list_update

interpretation stop_network: tlv_builder "WdsStopNwInterfaceReq s fam"
    "[(0x01, le32 (if fam = IpFamilyV4 then WdsConnectionIPv4Handle s else WdsConnectionIPv6Handle s))]"
  for s fam
  by unfold_locales (simp_all add: WdsStopNwInterfaceReq_def fixed_builder)

interpretation ip_family_pref: tlv_builder "WdsSetClientIPFamilyPref fam" "[(0x01, [fam])]" for fam
  by unfold_locales (simp_all add: WdsSetClientIPFamilyPref_def fixed_builder)

interpretation auto_connect: tlv_builder "WdsSetAutoConnect a" "[(0x01, [a])]" for a
  by unfold_locales (simp_all add: WdsSetAutoConnect_def fixed_builder)

interpretation bind_mux: tlv_builder "WdsSetQMUXBindMuxDataPort qs"
    "[(0x10, le32 (ep_code (ep_type qs)) @ le32 (iface_id qs)), (0x11, [MuxId qs]), (0x13, le32 1)]" for qs
  by unfold_locales (simp_all add: WdsSetQMUXBindMuxDataPort_def fixed_builder)

interpretation runtime_settings: tlv_builder WdsGetRuntimeSettingReq "[(0x10, le32 0x2310)]"
  by unfold_locales (simp_all add: WdsGetRuntimeSettingReq_def fixed_builder)

interpretation get_profile: tlv_builder "WdsGetProfileSettingsReqSend profile"
    "[(0x01, [0, word_of_int (pdp profile)])]" for profile
  by unfold_locales (simp_all add: WdsGetProfileSettingsReqSend_def fixed_builder)

definition data_format_tlvs :: "QMAP_SETTING \<Rightarrow> tlv list" where
  "data_format_tlvs qs =
     (if rx_urb_size qs = 0 then [(0x10, [0]), (0x11, le32 1), (0x13, le32 0)]
      else [(0x10, [0]), (0x11, le32 2), (0x12, le32 5), (0x13, le32 5),
            (0x15, le32 (rx_urb_size qs div 512)), (0x16, le32 (rx_urb_size qs)),
            (0x17, le32 (ep_code (ep_type qs)) @ le32 (iface_id qs))])"

interpretation data_format: tlv_builder "WdaSetDataFormat qs" "data_format_tlvs qs" for qs
proof (unfold_locales, goal_cases)
  case 1 then show ?case by (simp add: data_format_tlvs_def WDM_DEFAULT_BUFSIZE_def)
next
  case (2 b) then show ?case
    by (cases "rx_urb_size qs = 0")
       (simp_all add: WdaSetDataFormat_def data_format_tlvs_def fixed_builder)
qed

end
