(* ===== verification/Builders.thy ===== *)
theory Builders
  imports Compose
begin

text \<open>
  The request builders of \<open>QMIThread.c\<close> whose size depends on the strings of the profile:
  start network, modify profile and the two PIN verifications. They append TLVs with
  \<open>qstrcpy\<close>, which does not know the size of the 256-byte stack buffer, so the contract of
  each says exactly for which strings the writes stay inside.
\<close>

section \<open>Appending TLVs\<close>

text \<open>\<open>qstrcpy\<close> copies the characters and the terminating zero.\<close>

definition qstrcpy :: "nat \<Rightarrow> string \<Rightarrow> byte list \<Rightarrow> byte list option" where
  "qstrcpy p str b = wr b p (cstr str @ [0])"

text \<open>
  The local variables of a builder are \<open>TLVLength\<close> and the buffer. The three statements that
  fill one TLV at \<open>pTLV + TLVLength\<close>, with a one-byte value or a string, and advance
  \<open>TLVLength\<close>:
\<close>

type_synonym tlv_state = "u16 \<times> byte list"

fun put_byte_tlv :: "nat \<Rightarrow> layout \<Rightarrow> string \<Rightarrow> byte \<Rightarrow> byte \<Rightarrow> tlv_state \<Rightarrow> tlv_state option" where
  "put_byte_tlv pTLV L f ty v (TLVLength, b) = do {
     b \<leftarrow> put8 (pTLV + unat TLVLength) L ''TLVType'' ty b;
     b \<leftarrow> put16 (pTLV + unat TLVLength) L ''TLVLength'' 0x01 b;
     b \<leftarrow> put8 (pTLV + unat TLVLength) L f v b;
     l \<leftarrow> get16 b (pTLV + unat TLVLength) L ''TLVLength'';
     Some (TLVLength + (l + of_nat (sizeof QCQMICTL_TLV_HDR)), b) }"

fun put_str_tlv :: "nat \<Rightarrow> layout \<Rightarrow> string \<Rightarrow> byte \<Rightarrow> string \<Rightarrow> tlv_state \<Rightarrow> tlv_state option" where
  "put_str_tlv pTLV L f ty str (TLVLength, b) = do {
     b \<leftarrow> put8 (pTLV + unat TLVLength) L ''TLVType'' ty b;
     b \<leftarrow> put16 (pTLV + unat TLVLength) L ''TLVLength'' (of_nat (length str)) b;
     b \<leftarrow> qstrcpy (pTLV + unat TLVLength + off L f) str b;
     l \<leftarrow> get16 b (pTLV + unat TLVLength) L ''TLVLength'';
     Some (TLVLength + (l + of_nat (sizeof QCQMICTL_TLV_HDR)), b) }"

declare put_byte_tlv.simps [simp del] put_str_tlv.simps [simp del]

text \<open>
  \<open>tlv_built pTLV b0 xs st\<close>: behind the header stand the encoded \<open>xs\<close>, nothing before the
  \<open>Length\<close> field differs from \<open>b0\<close>, and \<open>TLVLength\<close> counts from \<open>pTLV\<close>.
\<close>

fun tlv_built :: "nat \<Rightarrow> byte list \<Rightarrow> tlv list \<Rightarrow> tlv_state \<Rightarrow> bool" where
  "tlv_built pTLV b0 xs (TL, b) \<longleftrightarrow>
     length b = 256 \<and> take 11 b = take 11 b0 \<and> pTLV + unat TL = 13 + length (encode_tlvs xs)
     \<and> 13 + length (encode_tlvs xs) \<le> 256
     \<and> take (length (encode_tlvs xs)) (drop 13 b) = encode_tlvs xs"

text \<open>
  \<open>appends pTLV g ys z\<close>: the step \<open>g\<close> appends \<open>ys\<close>, and has a defined execution exactly if
  they and \<open>z\<close> bytes more fit into the buffer (\<open>z = 1\<close> for the zero behind a string).
\<close>

definition appends :: "nat \<Rightarrow> (tlv_state \<Rightarrow> tlv_state option) \<Rightarrow> tlv list \<Rightarrow> nat \<Rightarrow> bool" where
  "appends pTLV g ys z \<longleftrightarrow> (\<forall>b0 xs st. tlv_built pTLV b0 xs st \<longrightarrow>
     (if 13 + length (encode_tlvs (xs @ ys)) + z \<le> 256
      then \<exists>st'. g st = Some st' \<and> tlv_built pTLV b0 (xs @ ys) st' else g st = None))"

lemma appends_Some: "appends pTLV Some [] 0"
  by (auto simp: appends_def)

lemma appends_bind:
  assumes g: "appends pTLV g ys z" and h: "appends pTLV h ws z'"
  shows "appends pTLV (\<lambda>st. Option.bind (g st) h) (ys @ ws)
           (max (z - length (encode_tlvs ws)) z')"
  unfolding appends_def
proof (intro allI impI)
  fix b0 xs st assume st: "tlv_built pTLV b0 xs st"
  show "if 13 + length (encode_tlvs (xs @ ys @ ws)) + max (z - length (encode_tlvs ws)) z' \<le> 256
      then \<exists>st'. Option.bind (g st) h = Some st' \<and> tlv_built pTLV b0 (xs @ ys @ ws) st'
      else Option.bind (g st) h = None"
  proof (cases "13 + length (encode_tlvs (xs @ ys)) + z \<le> 256")
    case True
    then obtain st' where st': "g st = Some st'" "tlv_built pTLV b0 (xs @ ys) st'"
      using g st unfolding appends_def by (metis (full_types))
    have "if 13 + length (encode_tlvs ((xs @ ys) @ ws)) + z' \<le> 256
        then \<exists>st''. h st' = Some st'' \<and> tlv_built pTLV b0 ((xs @ ys) @ ws) st'' else h st' = None"
      using h st'(2) unfolding appends_def by blast
    with True st'(1) show ?thesis by (auto split: if_splits)
  next
    case False
    then have "g st = None" using g st unfolding appends_def by (metis (full_types))
    with False show ?thesis by auto
  qed
qed

lemma appends_then:
  "appends pTLV g ys z \<Longrightarrow> appends pTLV h ws 0 \<Longrightarrow> z \<le> length (encode_tlvs ws) \<Longrightarrow>
     appends pTLV (\<lambda>st. Option.bind (g st) h) (ys @ ws) 0"
  using appends_bind [of pTLV g ys z h ws 0] by simp

lemma appends_cong:
  "appends pTLV g ys z \<Longrightarrow> ys = ys' \<Longrightarrow> z = z' \<Longrightarrow> appends pTLV g ys' z'"
  by simp

text \<open>Writing one TLV at the end.\<close>

lemma built_append:
  assumes "tlv_built pTLV b0 xs (TL, b)" "13 + length (encode_tlvs (xs @ [x])) + length zs \<le> 256"
    and w: "wr b (pTLV + unat TL) (encode_tlv x @ zs) = Some b'"
  shows "tlv_built pTLV b0 (xs @ [x]) (TL + of_nat (length (encode_tlv x)), b')"
proof -
  let ?n = "length (encode_tlvs xs)" and ?e = "encode_tlv x"
  have p: "pTLV + unat TL = 13 + ?n" using assms(1) by simp
  have b: "length b = 256" using assms(1) by simp
  have b': "b' = take (13 + ?n) b @ ?e @ zs @ drop (13 + ?n + length (?e @ zs)) b"
    using w p by (auto simp: wr_Some_iff encode_tlv_def simp del: wr.simps(2))
  have fit: "unat TL + length ?e < 65536" using p assms(2) by simp
  have u: "unat (TL + of_nat (length ?e)) = unat TL + length ?e"
    using fit unat_len16 [of "length ?e"]
    by (subst unat_add_lem [THEN iffD1]) (auto simp del: length_encode_tlv)
  have "take ?n (drop 13 b) = encode_tlvs xs" using assms(1) by simp
  then have d: "drop 13 (take (13 + ?n) b) = encode_tlvs xs" by (simp add: drop_take)
  have "take 11 b' = take 11 b" using b assms(1) by (simp add: b' min_def)
  moreover have "drop 13 b' = encode_tlvs xs @ ?e @ zs @ drop (13 + ?n + length (?e @ zs)) b"
    using b assms(1) d by (simp add: b' del: length_encode_tlv)
  ultimately show ?thesis
    using assms b u p length_wr [OF w] by (simp del: length_encode_tlv)
qed


text \<open>The three statements write the encoded TLV in one piece.\<close>

lemma put_tlv_wr:
  assumes "off L ''TLVType'' = 0" "off L ''TLVLength'' = 1"
  shows "do { b \<leftarrow> put8 p L ''TLVType'' ty b; b \<leftarrow> put16 p L ''TLVLength'' n b;
              b \<leftarrow> wr b (p + 3) v; l \<leftarrow> get16 b p L ''TLVLength''; g b l }
    = do { b \<leftarrow> wr b p (ty # le16 n @ v); g b n }" (is "?L = _")
proof -
  have w: "wr b p (ty # le16 n @ v)
      = do { b \<leftarrow> put8 p L ''TLVType'' ty b; b \<leftarrow> put16 p L ''TLVLength'' n b; wr b (p + 3) v }"
    using wr_append [of b p "[ty]" "le16 n @ v"] assms
    by (simp add: put8_def put16_def wr_append numeral_3_eq_3 del: wr.simps)
  have r: "get16 b' p L ''TLVLength'' = Some n" if "wr b p (ty # le16 n @ v) = Some b'" for b'
  proof -
    have "b' = (take p b @ [ty]) @ le16 n @ v @ drop (Suc (Suc (Suc (p + length v)))) b" "length (take p b) = p"
      using that by (auto simp: wr_Some_iff simp del: wr.simps(2))
    then show ?thesis
      using rd16_append2 [of "take p b @ [ty]" "le16 n @ v @ drop (Suc (Suc (Suc (p + length v)))) b" 0] assms
      by (simp add: get16_def)
  qed
  show ?thesis
  proof -
    have "?L = do { b \<leftarrow> wr b p (ty # le16 n @ v); l \<leftarrow> get16 b p L ''TLVLength''; g b l }"
      by (simp add: w del: wr.simps)
    with r show ?thesis
      by (cases "wr b p (ty # le16 n @ v)") (simp_all del: wr_None wr.simps)
  qed
qed

lemma appends_tlv:
  assumes "\<And>TL b. g (TL, b) = do {
      b \<leftarrow> wr b (pTLV + unat TL) (encode_tlv x @ zs);
      Some (TL + (of_nat (length (snd x)) + 3), b) }"
  shows "appends pTLV g [x] (length zs)"
  unfolding appends_def
proof (intro allI impI)
  fix b0 xs st assume st: "tlv_built pTLV b0 xs st"
  obtain TL b where s: "st = (TL, b)" by fastforce
  let ?w = "wr b (pTLV + unat TL) (encode_tlv x @ zs)"
  have len: "pTLV + unat TL = 13 + length (encode_tlvs xs)" "length b = 256"
    using st by (simp_all add: s)
  show "if 13 + length (encode_tlvs (xs @ [x])) + length zs \<le> 256
      then \<exists>st'. g st = Some st' \<and> tlv_built pTLV b0 (xs @ [x]) st' else g st = None"
  proof (cases "13 + length (encode_tlvs (xs @ [x])) + length zs \<le> 256")
    case True
    then have "?w \<noteq> None" using len by simp
    then obtain b' where b': "?w = Some b'" by blast
    with built_append [of pTLV b0 xs TL b x zs b'] True st show ?thesis
      by (simp add: assms s add.commute)
  next
    case False
    then have "?w = None" using len by (auto simp: encode_tlv_def le16_def)
    with False show ?thesis by (simp add: assms s del: wr_None)
  qed
qed

lemma appends_byte:
  assumes "off L ''TLVType'' = 0" "off L ''TLVLength'' = 1" "off L f = 3"
  shows "appends pTLV (put_byte_tlv pTLV L f ty v) [(ty, [v])] 0"
  using appends_tlv [of "put_byte_tlv pTLV L f ty v" pTLV "(ty, [v])" "[]"] assms
  by (simp add: put_byte_tlv.simps put8_def [of _ L f] encode_tlv_def put_tlv_wr [OF assms(1,2)] del: wr.simps)

lemma appends_str:
  assumes "off L ''TLVType'' = 0" "off L ''TLVLength'' = 1" "off L f = 3"
  shows "appends pTLV (put_str_tlv pTLV L f ty str) [(ty, cstr str)] (Suc 0)"
  using appends_tlv [of "put_str_tlv pTLV L f ty str" pTLV "(ty, cstr str)" "[0]"] assms
  by (simp add: put_str_tlv.simps qstrcpy_def encode_tlv_def put_tlv_wr [OF assms(1,2)] del: wr.simps)


text \<open>
  \<open>builds_exactly f tlvs z\<close>: the builder \<open>f\<close> has a defined execution exactly if the message
  and \<open>z\<close> bytes more fit into the buffer, and then it builds \<open>tlvs\<close>.
\<close>

definition builds_exactly :: "builder \<Rightarrow> tlv list \<Rightarrow> nat \<Rightarrow> bool" where
  "builds_exactly f tlvs z \<longleftrightarrow> (\<forall>b. length b = WDM_DEFAULT_BUFSIZE \<longrightarrow>
     (if 13 + length (encode_tlvs tlvs) + z \<le> WDM_DEFAULT_BUFSIZE
      then \<exists>b'. f b = Some (of_nat (4 + length (encode_tlvs tlvs)), b')
         \<and> length b' = WDM_DEFAULT_BUFSIZE \<and> take 11 b' = take 11 b
         \<and> take (length (encode_tlvs tlvs)) (drop 13 b') = encode_tlvs tlvs
      else f b = None))"

lemma builds_exactly_builder:
  assumes "builds_exactly f tlvs z" "13 + length (encode_tlvs tlvs) + z \<le> WDM_DEFAULT_BUFSIZE"
  shows "tlv_builder f tlvs"
  using assms by unfold_locales (auto simp: builds_exactly_def)

lemma builds_exactly_None:
  assumes "builds_exactly f tlvs z" "WDM_DEFAULT_BUFSIZE < 13 + length (encode_tlvs tlvs) + z"
    and "length b = WDM_DEFAULT_BUFSIZE"
  shows "f b = None"
  using assms by (auto simp: builds_exactly_def)

lemma builder_appends:
  assumes g: "appends (9 + n) g ys z"
    and b1: "\<And>b. length b = 256 \<Longrightarrow> tlv_built (9 + n) b xs (0, init b)"
    and f: "\<And>b. length b = 256 \<Longrightarrow>
      f b = do { (TLVLength, b) \<leftarrow> g (0, init b); Some (of_nat n + TLVLength, b) }"
  shows "builds_exactly f (xs @ ys) z"
  unfolding builds_exactly_def WDM_DEFAULT_BUFSIZE_def
proof (intro allI impI, goal_cases)
  case (1 b)
  show ?case
  proof (cases "13 + length (encode_tlvs (xs @ ys)) + z \<le> 256")
    case True
    then obtain TL b' where s: "g (0, init b) = Some (TL, b')" "tlv_built (9 + n) b (xs @ ys) (TL, b')"
      using g b1 [OF 1] unfolding appends_def by (metis (full_types) surj_pair)
    then have "4 + length (encode_tlvs (xs @ ys)) = n + unat TL" by simp
    then have "of_nat (4 + length (encode_tlvs (xs @ ys))) = (of_nat (n + unat TL) :: u16)"
      by (simp only:)
    then have "of_nat (4 + length (encode_tlvs (xs @ ys))) = of_nat n + TL" by simp
    with True s f [OF 1] show ?thesis by simp
  next
    case False
    then have "g (0, init b) = None" using g b1 [OF 1] unfolding appends_def by (metis (full_types))
    with False f [OF 1] show ?thesis by auto
  qed
qed

section \<open>Starting a data call\<close>

text \<open>
  On CDMA an empty user and password are replaced by the carrier's. The last \<open>if\<close> of the C
  function cannot be taken, since its block requires \<open>!s_is_cdma\<close>.
\<close>

definition no_string :: "string option \<Rightarrow> bool" where
  "no_string x \<longleftrightarrow> x = None \<or> x = Some []"

definition credentials :: "qmi \<Rightarrow> PROFILE_T \<Rightarrow> string option \<times> string option \<times> int" where
  "credentials s profile =
     (if s_is_cdma s \<noteq> 0 \<and> no_string (user profile) \<and> no_string (password profile)
      then (Some ''ctnet@mycdma.cn'', Some ''vnet.mobi'', 2)
      else (user profile, password profile, auth profile))"

definition WdsStartNwInterfaceReq :: "qmi \<Rightarrow> PROFILE_T \<Rightarrow> builder" where
  "WdsStartNwInterfaceReq s profile b = (
     let (profile_user, profile_password, profile_auth) = credentials s profile;
         pTLV = MUXHdr + sizeof QMIWDS_START_NETWORK_INTERFACE_REQ_MSG
     in do {
       b \<leftarrow> put16 MUXHdr QMIWDS_START_NETWORK_INTERFACE_REQ_MSG ''Length'' 0 b;
       (TLVLength, b) \<leftarrow> do {
         st \<leftarrow> put_byte_tlv pTLV QMIWDS_TECHNOLOGY_PREFERECE ''TechPreference'' 0x30
                 (if s_is_cdma s = 0 then 0x01 else 0x02) (0, b);
         st \<leftarrow> (if apn profile \<noteq> None \<and> s_is_cdma s = 0
                then put_str_tlv pTLV QMIWDS_APNNAME ''ApnName'' 0x14 (the (apn profile)) else Some) st;
         st \<leftarrow> (if profile_user \<noteq> None
                then put_str_tlv pTLV QMIWDS_USERNAME ''UserName'' 0x17 (the profile_user) else Some) st;
         st \<leftarrow> (if profile_password \<noteq> None
                then put_str_tlv pTLV QMIWDS_PASSWD ''Passwd'' 0x18 (the profile_password) else Some) st;
         st \<leftarrow> (if profile_user \<noteq> None \<and> profile_password \<noteq> None
                then put_byte_tlv pTLV QMIWDS_AUTH_PREFERENCE ''AuthPreference'' 0x16
                       (word_of_int profile_auth) else Some) st;
         st \<leftarrow> put_byte_tlv pTLV QMIWDS_IP_FAMILY_TLV ''IpFamily'' 0x19
                 (word_of_int (curIpFamily profile)) st;
         (if pdp profile \<noteq> 0 \<and> s_is_cdma s = 0
          then put_byte_tlv pTLV QMIWDS_PROFILE_IDENTIFIER ''ProfileIndex'' 0x31
                 (word_of_int (pdp profile)) else Some) st };
       Some (of_nat (sizeof QMIWDS_START_NETWORK_INTERFACE_REQ_MSG) + TLVLength, b) })"

text \<open>What the request contains.\<close>

definition opt_str :: "byte \<Rightarrow> string option \<Rightarrow> tlv list" where
  "opt_str ty x = (case x of None \<Rightarrow> [] | Some str \<Rightarrow> [(ty, cstr str)])"

definition start_tlvs :: "qmi \<Rightarrow> PROFILE_T \<Rightarrow> tlv list" where
  "start_tlvs s profile = (let (u, p, a) = credentials s profile in
     [(0x30, [if s_is_cdma s = 0 then 0x01 else 0x02])]
     @ (if s_is_cdma s = 0 then opt_str 0x14 (apn profile) else [])
     @ opt_str 0x17 u @ opt_str 0x18 p
     @ (if u \<noteq> None \<and> p \<noteq> None then [(0x16, [word_of_int a])] else [])
     @ [(0x19, [word_of_int (curIpFamily profile)])]
     @ (if pdp profile \<noteq> 0 \<and> s_is_cdma s = 0 then [(0x31, [word_of_int (pdp profile)])] else []))"

lemma appends_opt_str:
  assumes "off L ''TLVType'' = 0" "off L ''TLVLength'' = 1" "off L f = 3"
  shows "appends pTLV (if x \<noteq> None then put_str_tlv pTLV L f ty (the x) else Some)
           (opt_str ty x) (if x = None then 0 else Suc 0)"
  by (cases x) (simp_all add: appends_Some appends_str assms opt_str_def)

lemma appends_opt_byte:
  assumes "off L ''TLVType'' = 0" "off L ''TLVLength'' = 1" "off L f = 3"
  shows "appends pTLV (if c then put_byte_tlv pTLV L f ty v else Some) (if c then [(ty, [v])] else []) 0"
  by (simp add: appends_Some appends_byte assms)

lemmas then_byte = appends_then [OF appends_byte, OF _ _ _ _ le0]
  and then_opt_byte = appends_then [OF appends_opt_byte, OF _ _ _ _ le0]
  and then_opt_str = appends_then [OF appends_opt_str]

lemma appends_start:
  "appends pTLV (\<lambda>st. do {
     st \<leftarrow> put_byte_tlv pTLV QMIWDS_TECHNOLOGY_PREFERECE ''TechPreference'' 0x30 tech st;
     st \<leftarrow> (if nm \<noteq> None \<and> gsm then put_str_tlv pTLV QMIWDS_APNNAME ''ApnName'' 0x14 (the nm) else Some) st;
     st \<leftarrow> (if u \<noteq> None then put_str_tlv pTLV QMIWDS_USERNAME ''UserName'' 0x17 (the u) else Some) st;
     st \<leftarrow> (if p \<noteq> None then put_str_tlv pTLV QMIWDS_PASSWD ''Passwd'' 0x18 (the p) else Some) st;
     st \<leftarrow> (if u \<noteq> None \<and> p \<noteq> None
            then put_byte_tlv pTLV QMIWDS_AUTH_PREFERENCE ''AuthPreference'' 0x16 a else Some) st;
     st \<leftarrow> put_byte_tlv pTLV QMIWDS_IP_FAMILY_TLV ''IpFamily'' 0x19 fam st;
     (if idx then put_byte_tlv pTLV QMIWDS_PROFILE_IDENTIFIER ''ProfileIndex'' 0x31 i else Some) st })
   ([(0x30, [tech])] @ (if gsm then opt_str 0x14 nm else []) @ opt_str 0x17 u @ opt_str 0x18 p
     @ (if u \<noteq> None \<and> p \<noteq> None then [(0x16, [a])] else []) @ [(0x19, [fam])]
     @ (if idx then [(0x31, [i])] else [])) 0"
proof -
  have apn: "appends pTLV (if nm \<noteq> None \<and> gsm
      then put_str_tlv pTLV QMIWDS_APNNAME ''ApnName'' 0x14 (the nm) else Some)
      (if gsm then opt_str 0x14 nm else []) (if nm \<noteq> None \<and> gsm then Suc 0 else 0)"
    by (cases nm) (simp_all add: appends_Some appends_str opt_str_def)
  show ?thesis
    by (intro then_byte appends_then [OF apn] then_opt_str then_opt_byte appends_opt_byte) auto
qed

lemma start_network_builds: "builds_exactly (WdsStartNwInterfaceReq s profile) (start_tlvs s profile) 0"
proof -
  obtain u p a where c: "credentials s profile = (u, p, a)" by (metis prod_cases3)
  have "builds_exactly (WdsStartNwInterfaceReq s profile) ([] @ start_tlvs s profile) 0"
    unfolding start_tlvs_def c Let_def prod.case
    by (rule builder_appends [OF appends_start, where n = 4 and init = "\<lambda>b. b[11 := 0, 12 := 0]"])
       (simp_all add: WdsStartNwInterfaceReq_def put16_def le16_def c)
  then show ?thesis by simp
qed

section \<open>Modifying a profile\<close>

definition PdpType :: "PROFILE_T \<Rightarrow> byte" where
  "PdpType profile =
     (if enable_ipv4 profile \<noteq> 0 \<and> enable_ipv6 profile \<noteq> 0 then 3
      else if enable_ipv6 profile \<noteq> 0 then 2 else 0)"

definition WdsModifyProfileSettingsReq :: "PROFILE_T \<Rightarrow> builder" where
  "WdsModifyProfileSettingsReq profile b = (
     let pTLV = MUXHdr + sizeof QMIWDS_MODIFY_PROFILE_SETTINGS_REQ_MSG in do {
       b \<leftarrow> put16 MUXHdr QMIWDS_MODIFY_PROFILE_SETTINGS_REQ_MSG ''Length''
              (of_nat (sizeof QMIWDS_MODIFY_PROFILE_SETTINGS_REQ_MSG - 4)) b;
       b \<leftarrow> put8 MUXHdr QMIWDS_MODIFY_PROFILE_SETTINGS_REQ_MSG ''TLVType'' 0x01 b;
       b \<leftarrow> put16 MUXHdr QMIWDS_MODIFY_PROFILE_SETTINGS_REQ_MSG ''TLVLength'' 0x02 b;
       b \<leftarrow> put8 MUXHdr QMIWDS_MODIFY_PROFILE_SETTINGS_REQ_MSG ''ProfileType'' 0x00 b;
       b \<leftarrow> put8 MUXHdr QMIWDS_MODIFY_PROFILE_SETTINGS_REQ_MSG ''ProfileIndex''
              (word_of_int (pdp profile)) b;
       (TLVLength, b) \<leftarrow> do {
         st \<leftarrow> put_byte_tlv pTLV QMIWDS_PDPTYPE ''PdpType'' 0x11 (PdpType profile) (0, b);
         st \<leftarrow> (if apn profile \<noteq> None
                then put_str_tlv pTLV QMIWDS_APNNAME ''ApnName'' 0x14 (the (apn profile)) else Some) st;
         st \<leftarrow> (if user profile \<noteq> None
                then put_str_tlv pTLV QMIWDS_USERNAME ''UserName'' 0x1B (the (user profile)) else Some) st;
         st \<leftarrow> (if password profile \<noteq> None
                then put_str_tlv pTLV QMIWDS_PASSWD ''Passwd'' 0x1C (the (password profile)) else Some) st;
         (if user profile \<noteq> None \<and> password profile \<noteq> None
          then put_byte_tlv pTLV QMIWDS_AUTH_PREFERENCE ''AuthPreference'' 0x1D
                 (word_of_int (auth profile)) else Some) st };
       Some (of_nat (sizeof QMIWDS_MODIFY_PROFILE_SETTINGS_REQ_MSG) + TLVLength, b) })"

definition modify_tlvs :: "PROFILE_T \<Rightarrow> tlv list" where
  "modify_tlvs profile =
     [(0x01, [0x00, word_of_int (pdp profile)]), (0x11, [PdpType profile])]
     @ opt_str 0x14 (apn profile) @ opt_str 0x1B (user profile) @ opt_str 0x1C (password profile)
     @ (if user profile \<noteq> None \<and> password profile \<noteq> None
        then [(0x1D, [word_of_int (auth profile)])] else [])"

text \<open>The zero behind the last string of the request, when no TLV follows it.\<close>

definition modify_slack :: "PROFILE_T \<Rightarrow> nat" where
  "modify_slack profile =
     (if user profile \<noteq> None \<and> password profile \<noteq> None
         \<or> apn profile = None \<and> user profile = None \<and> password profile = None then 0 else 1)"

lemmas mod_byte = appends_byte [OF QMIWDS_PDPTYPE_layout(2-4)]
  and mod_auth = appends_opt_byte [OF QMIWDS_AUTH_PREFERENCE_layout(2-4)]
  and mod_apn = appends_opt_str [OF QMIWDS_APNNAME_layout(2-4)]
  and mod_user = appends_opt_str [OF QMIWDS_USERNAME_layout(2-4)]
  and mod_pass = appends_opt_str [OF QMIWDS_PASSWD_layout(2-4)]

lemma appends_modify:
  "appends pTLV (\<lambda>st. do {
     st \<leftarrow> put_byte_tlv pTLV QMIWDS_PDPTYPE ''PdpType'' 0x11 (PdpType profile) st;
     st \<leftarrow> (if apn profile \<noteq> None
            then put_str_tlv pTLV QMIWDS_APNNAME ''ApnName'' 0x14 (the (apn profile)) else Some) st;
     st \<leftarrow> (if user profile \<noteq> None
            then put_str_tlv pTLV QMIWDS_USERNAME ''UserName'' 0x1B (the (user profile)) else Some) st;
     st \<leftarrow> (if password profile \<noteq> None
            then put_str_tlv pTLV QMIWDS_PASSWD ''Passwd'' 0x1C (the (password profile)) else Some) st;
     (if user profile \<noteq> None \<and> password profile \<noteq> None
      then put_byte_tlv pTLV QMIWDS_AUTH_PREFERENCE ''AuthPreference'' 0x1D
             (word_of_int (auth profile)) else Some) st })
   (tl (modify_tlvs profile)) (modify_slack profile)"
proof -
  note steps = appends_bind [OF mod_byte appends_bind [OF mod_apn appends_bind [OF mod_user
      appends_bind [OF mod_pass mod_auth]]]]
  show ?thesis
    by (rule appends_cong [OF steps])
       (cases "apn profile"; cases "user profile"; cases "password profile";
        simp add: modify_tlvs_def modify_slack_def opt_str_def)+
qed

lemma modify_profile_builds:
  "builds_exactly (WdsModifyProfileSettingsReq profile) (modify_tlvs profile) (modify_slack profile)"
proof -
  have split: "modify_tlvs profile = [(0x01, [0x00, word_of_int (pdp profile)])] @ tl (modify_tlvs profile)"
    by (simp add: modify_tlvs_def)
  show ?thesis
    by (subst split, rule builder_appends [OF appends_modify, where n = 9 and
        init = "\<lambda>b. b[11 := 5, 12 := 0, 13 := 1, 14 := 2, 15 := 0, 16 := 0, 17 := word_of_int (pdp profile)]"])
       (simp_all add: WdsModifyProfileSettingsReq_def fixed_builder)
qed

section \<open>Verifying the PIN\<close>

definition DmsUIMVerifyPinReqSend :: "string \<Rightarrow> builder" where
  "DmsUIMVerifyPinReqSend pin b = do {
     b \<leftarrow> put8 MUXHdr QMIDMS_UIM_VERIFY_PIN_REQ_MSG ''TLVType'' 0x01 b;
     b \<leftarrow> put8 MUXHdr QMIDMS_UIM_VERIFY_PIN_REQ_MSG ''PINID'' 0x01 b;
     b \<leftarrow> put8 MUXHdr QMIDMS_UIM_VERIFY_PIN_REQ_MSG ''PINLen'' (of_nat (length pin)) b;
     b \<leftarrow> qstrcpy (MUXHdr + off QMIDMS_UIM_VERIFY_PIN_REQ_MSG ''PINValue'') pin b;
     b \<leftarrow> put16 MUXHdr QMIDMS_UIM_VERIFY_PIN_REQ_MSG ''TLVLength'' (of_nat (2 + length pin)) b;
     Some (of_nat (sizeof QMIDMS_UIM_VERIFY_PIN_REQ_MSG) + (of_nat (length pin) - 1), b) }"

definition UimVerifyPinReqSend :: "string \<Rightarrow> builder" where
  "UimVerifyPinReqSend pin b = do {
     b \<leftarrow> put8 MUXHdr QMIUIM_VERIFY_PIN_REQ_MSG ''TLVType'' 0x01 b;
     b \<leftarrow> put16 MUXHdr QMIUIM_VERIFY_PIN_REQ_MSG ''TLVLength'' 0x02 b;
     b \<leftarrow> put8 MUXHdr QMIUIM_VERIFY_PIN_REQ_MSG ''Session_Type'' 0x00 b;
     b \<leftarrow> put8 MUXHdr QMIUIM_VERIFY_PIN_REQ_MSG ''Aid_Len'' 0x00 b;
     b \<leftarrow> put8 MUXHdr QMIUIM_VERIFY_PIN_REQ_MSG ''TLV2Type'' 0x02 b;
     b \<leftarrow> put16 MUXHdr QMIUIM_VERIFY_PIN_REQ_MSG ''TLV2Length'' (of_nat (2 + length pin)) b;
     b \<leftarrow> put8 MUXHdr QMIUIM_VERIFY_PIN_REQ_MSG ''PINID'' 0x01 b;
     b \<leftarrow> put8 MUXHdr QMIUIM_VERIFY_PIN_REQ_MSG ''PINLen'' (of_nat (length pin)) b;
     b \<leftarrow> qstrcpy (MUXHdr + off QMIUIM_VERIFY_PIN_REQ_MSG ''PINValue'') pin b;
     Some (of_nat (sizeof QMIUIM_VERIFY_PIN_REQ_MSG) + (of_nat (length pin) - 1), b) }"

definition dms_pin_tlvs :: "string \<Rightarrow> tlv list" where
  "dms_pin_tlvs pin = [(0x01, [0x01, of_nat (length pin)] @ cstr pin)]"

definition uim_pin_tlvs :: "string \<Rightarrow> tlv list" where
  "uim_pin_tlvs pin = [(0x01, [0x00, 0x00]), (0x02, [0x01, of_nat (length pin)] @ cstr pin)]"

text \<open>The bytes around a string copied to offset 18 or 23.\<close>

lemma take_18: "length b = 256 \<Longrightarrow> take 18 b = take 13 b @ map (\<lambda>i. b ! (13 + i)) [0..<5]"
  using take_add [of 13 5 b] take_drop_map [of 13 5 b] by simp

lemma take_23: "length b = 256 \<Longrightarrow> take 23 b = take 13 b @ map (\<lambda>i. b ! (13 + i)) [0..<10]"
  using take_add [of 13 10 b] take_drop_map [of 13 10 b] by simp

lemma qstrcpy_eq: "p + length str < length b \<Longrightarrow>
    qstrcpy p str b = Some (take p b @ cstr str @ 0 # drop (Suc (p + length str)) b)"
  by (simp add: qstrcpy_def wr_eq)

lemma qstrcpy_None: "length b \<le> p + length str \<Longrightarrow> qstrcpy p str b = None"
  by (simp add: qstrcpy_def)

lemma dms_pin_builds: "builds_exactly (DmsUIMVerifyPinReqSend pin) (dms_pin_tlvs pin) 1"
  unfolding builds_exactly_def
proof (intro allI impI, goal_cases)
  case (1 b)
  then have b: "length b = 256" by (simp add: WDM_DEFAULT_BUFSIZE_def)
  show ?case
  proof (cases "length pin \<le> 237")
    case True
    with b show ?thesis
      by (simp add: DmsUIMVerifyPinReqSend_def dms_pin_tlvs_def qstrcpy_eq field_defs
        WDM_DEFAULT_BUFSIZE_def encode_tlv_def le16_def take_18 wire nth_list_update list_update_append)
  next
    case False
    with b show ?thesis
      by (simp add: DmsUIMVerifyPinReqSend_def dms_pin_tlvs_def qstrcpy_None field_defs
        WDM_DEFAULT_BUFSIZE_def)
  qed
qed

lemma uim_pin_builds: "builds_exactly (UimVerifyPinReqSend pin) (uim_pin_tlvs pin) 1"
  unfolding builds_exactly_def
proof (intro allI impI, goal_cases)
  case (1 b)
  then have b: "length b = 256" by (simp add: WDM_DEFAULT_BUFSIZE_def)
  show ?case
  proof (cases "length pin \<le> 232")
    case True
    with b show ?thesis
      by (simp add: UimVerifyPinReqSend_def uim_pin_tlvs_def qstrcpy_eq field_defs
        WDM_DEFAULT_BUFSIZE_def encode_tlv_def le16_def take_23 wire nth_list_update list_update_append)
  next
    case False
    with b show ?thesis
      by (simp add: UimVerifyPinReqSend_def uim_pin_tlvs_def qstrcpy_None field_defs
        WDM_DEFAULT_BUFSIZE_def le16_def)
  qed
qed

section \<open>The composed requests\<close>

lemma compose_exactly:
  assumes "builds_exactly f tlvs z" "client s q = Some c" "c \<noteq> 0"
  shows "ComposeQMUXMsg q ty (Some f) s =
    (if 13 + length (encode_tlvs tlvs) + z \<le> WDM_DEFAULT_BUFSIZE
     then Some (Some (qmux_request q (word_of_int c AND 0xFF) (fst (GetQMUXTransactionId s)) ty tlvs),
            snd (GetQMUXTransactionId s))
     else None)"
proof (cases "13 + length (encode_tlvs tlvs) + z \<le> WDM_DEFAULT_BUFSIZE")
  case True
  then show ?thesis
    using tlv_builder.compose [OF builds_exactly_builder [OF assms(1) True] assms(2,3)] by simp
next
  case False
  then show ?thesis
    using compose_overflow [OF assms(2,3)] builds_exactly_None [OF assms(1)]
    by (simp add: WDM_DEFAULT_BUFSIZE_def)
qed

text \<open>
  C29: The start-network request. If the message fits into the 256-byte stack buffer the
  composed request is the header with the next transaction identifier and exactly the
  TLVs of \<open>start_tlvs\<close> (technology, APN, user, password, authentication, IP family,
  profile index, with the CDMA substitutions). If APN, user and password are too long
  together, the builder writes outside the stack buffer: it has no defined execution.
\<close>
theorem start_network_request:
  assumes "client s q = Some c" "c \<noteq> 0"
  shows "ComposeQMUXMsg q 0x0020 (Some (WdsStartNwInterfaceReq s profile)) s =
    (if 13 + length (encode_tlvs (start_tlvs s profile)) \<le> 256
     then Some (Some (qmux_request q (word_of_int c AND 0xFF) (fst (GetQMUXTransactionId s)) 0x0020
              (start_tlvs s profile)), snd (GetQMUXTransactionId s))
     else None)"
  using compose_exactly [OF start_network_builds assms] by (simp add: WDM_DEFAULT_BUFSIZE_def)

text \<open>A client state with all identifiers allocated, for the examples.\<close>

definition clients_ready :: qmi where
  "clients_ready = (qmi_init QmiWwan 3)\<lparr>qmiclientId := replicate 27 7\<rparr>"

lemma client_ready [simp]: "client clients_ready ty = (if unat ty < 27 then Some 7 else None)"
  by (simp add: client_def clients_ready_def qmi_init_def)

lemma ready_id: "fst (GetQMUXTransactionId clients_ready) = 1"
  by (simp add: GetQMUXTransactionId_def clients_ready_def qmi_init_def)

theorem start_network_request_witness:
  "ComposeQMUXMsg 1 0x0020 (Some (WdsStartNwInterfaceReq clients_ready
       (zero_profile\<lparr>apn := Some (replicate 233 CHR ''a'')\<rparr>))) clients_ready = None"
proof -
  have "s_is_cdma clients_ready = 0" by (simp add: clients_ready_def qmi_init_def)
  then have "\<not> 13 + length (encode_tlvs (start_tlvs clients_ready
      (zero_profile\<lparr>apn := Some (replicate 233 CHR ''a'')\<rparr>))) \<le> 256"
    by (simp add: start_tlvs_def credentials_def opt_str_def zero_profile_def)
  then show ?thesis
    using start_network_request [of clients_ready 1 7] by simp
qed

text \<open>
  The modify-profile request carries the profile index, the PDP type that the enabled IP
  families give, and APN, user, password and authentication where they are set; it is
  composed exactly when it and the zero behind a trailing string fit into the buffer.
\<close>
theorem modify_profile_request:
  assumes "client s q = Some c" "c \<noteq> 0"
  shows "ComposeQMUXMsg q 0x0028 (Some (WdsModifyProfileSettingsReq profile)) s =
    (if 13 + length (encode_tlvs (modify_tlvs profile)) + modify_slack profile \<le> 256
     then Some (Some (qmux_request q (word_of_int c AND 0xFF) (fst (GetQMUXTransactionId s)) 0x0028
              (modify_tlvs profile)), snd (GetQMUXTransactionId s))
     else None)"
  using compose_exactly [OF modify_profile_builds assms] by (simp add: WDM_DEFAULT_BUFSIZE_def)

theorem modify_profile_request_witness:
  "ComposeQMUXMsg 1 0x0028 (Some (WdsModifyProfileSettingsReq
       (zero_profile\<lparr>apn := Some (replicate 231 CHR ''a'')\<rparr>))) clients_ready = None"
  by (simp add: modify_profile_request [of clients_ready 1 7] modify_tlvs_def modify_slack_def
      opt_str_def zero_profile_def)

text \<open>
  Both PIN verification requests carry the identifier of PIN 1, the length and the digits
  of the PIN, and are composed for every PIN of up to 237 (UIM: 232) characters; a longer
  one writes outside the buffer.
\<close>
theorem verify_pin_requests:
  assumes "client s q = Some c" "c \<noteq> 0"
  shows "ComposeQMUXMsg q 0x0028 (Some (DmsUIMVerifyPinReqSend pin)) s =
      (if length pin \<le> 237
       then Some (Some (qmux_request q (word_of_int c AND 0xFF) (fst (GetQMUXTransactionId s)) 0x0028
              [(0x01, [0x01, of_nat (length pin)] @ cstr pin)]), snd (GetQMUXTransactionId s))
       else None)
    \<and> ComposeQMUXMsg q 0x0026 (Some (UimVerifyPinReqSend pin)) s =
      (if length pin \<le> 232
       then Some (Some (qmux_request q (word_of_int c AND 0xFF) (fst (GetQMUXTransactionId s)) 0x0026
              [(0x01, [0x00, 0x00]), (0x02, [0x01, of_nat (length pin)] @ cstr pin)]),
            snd (GetQMUXTransactionId s))
       else None)"
  using compose_exactly [OF dms_pin_builds assms] compose_exactly [OF uim_pin_builds assms]
  by (simp_all add: WDM_DEFAULT_BUFSIZE_def dms_pin_tlvs_def uim_pin_tlvs_def)

theorem verify_pin_requests_witness:
  "ComposeQMUXMsg QMUX_TYPE_DMS 0x0028 (Some (DmsUIMVerifyPinReqSend ''1234'')) clients_ready =
     Some (Some [1, 21, 0, 0, 2, 7, 0, 1, 0, 0x28, 0, 9, 0, 1, 6, 0, 1, 4, 49, 50, 51, 52],
       snd (GetQMUXTransactionId clients_ready))"
  using verify_pin_requests [of clients_ready QMUX_TYPE_DMS 7 "''1234''"]
  by (simp add: qmux_request_def mux_body_def encode_tlv_def le16_def cstr_def of_char_def ready_id)

text \<open>
  What the start-network builder put into a request, \<open>GetTLV\<close> finds there: the walk
  stops at the APN TLV of the composed request, and its bytes are the APN given on the
  command line.
\<close>
theorem start_network_apn_roundtrip:
  assumes "client s q = Some c" "c \<noteq> 0" "s_is_cdma s = 0" "apn profile = Some name"
    and "ComposeQMUXMsg q 0x0020 (Some (WdsStartNwInterfaceReq s profile)) s = Some (Some m, s')"
  shows "GetTLV m MUXHdr 0x14 = Some (Some 17)
    \<and> rdn m 17 (3 + length name) = Some (encode_tlv (0x14, cstr name))"
proof -
  have fit: "13 + length (encode_tlvs (start_tlvs s profile)) \<le> 256"
    using assms(5) compose_exactly [OF start_network_builds [of s profile] assms(1,2), of "0x20"]
    by (auto simp: WDM_DEFAULT_BUFSIZE_def split: if_splits)
  with assms(5) have m: "m = qmux_request q (word_of_int c AND 0xFF) (fst (GetQMUXTransactionId s)) 0x0020
      (start_tlvs s profile)"
    using compose_exactly [OF start_network_builds [of s profile] assms(1,2), of "0x20"]
    by (simp add: WDM_DEFAULT_BUFSIZE_def)
  obtain rest where st: "start_tlvs s profile = [(0x30, [0x01])] @ (0x14, cstr name) # rest"
    using assms(3,4) by (auto simp: start_tlvs_def opt_str_def split_beta Let_def)
  show ?thesis
    using GetTLV_qmux_request [of "[(0x30, [0x01])]" "0x14" "cstr name" rest] fit
    by (simp add: m st)
qed

theorem start_network_apn_roundtrip_witness:
  "\<exists>m s'. ComposeQMUXMsg 1 0x0020 (Some (WdsStartNwInterfaceReq clients_ready
       (zero_profile\<lparr>apn := Some ''web''\<rparr>))) clients_ready = Some (Some m, s')
     \<and> GetTLV m MUXHdr 0x14 = Some (Some 17)
     \<and> rdn m 17 6 = Some (encode_tlv (0x14, cstr ''web''))"
proof -
  have s: "s_is_cdma clients_ready = 0" by (simp add: clients_ready_def qmi_init_def)
  have c: "13 + length (encode_tlvs (start_tlvs clients_ready (zero_profile\<lparr>apn := Some ''web''\<rparr>))) \<le> 256"
    by (simp add: start_tlvs_def credentials_def opt_str_def s zero_profile_def)
  obtain m s' where m: "ComposeQMUXMsg 1 0x0020 (Some (WdsStartNwInterfaceReq clients_ready
       (zero_profile\<lparr>apn := Some ''web''\<rparr>))) clients_ready = Some (Some m, s')"
    using c compose_exactly [OF start_network_builds, where q = 1 and c = 7 and ty = "0x20"]
    by (simp add: WDM_DEFAULT_BUFSIZE_def)
  then show ?thesis
    using start_network_apn_roundtrip [of clients_ready 1 7 "zero_profile\<lparr>apn := Some ''web''\<rparr>" "''web''" m s'] s
    by simp
qed

end
