(* ===== verification/Transport.thy ===== *)
theory Transport
  imports Builders
begin

text \<open>
  Requests and responses on the wire: the device-specific send and receive functions of
  \<open>QmiWwanCM.c\<close> and \<open>GobiNetCM.c\<close>, the slot of the pending request that
  \<open>QmiThreadSendQMI\<close> and \<open>QmiThreadRecvQMI\<close> share, and the dispatch of indications.
\<close>

section \<open>Receiving\<close>

abbreviation (input) "QMICTL_REVOKE_CLIENT_ID_IND \<equiv> (0x0024 :: u16)"
abbreviation (input) "QMINAS_SERVING_SYSTEM_IND \<equiv> (0x0024 :: u16)"
abbreviation (input) "QMINAS_SYS_INFO_IND \<equiv> (0x004D :: u16)"
abbreviation (input) "QMIWDS_GET_PKT_SRVC_STATUS_IND \<equiv> (0x0022 :: u16)"

definition is_response :: "byte list \<Rightarrow> byte list \<Rightarrow> bool option" where
  "is_response req rsp = do {
     qt \<leftarrow> get8 req 0 QCQMI_HDR ''QMIType''; pt \<leftarrow> get8 rsp 0 QCQMI_HDR ''QMIType'';
     qc \<leftarrow> get8 req 0 QCQMI_HDR ''ClientId''; pc \<leftarrow> get8 rsp 0 QCQMI_HDR ''ClientId'';
     if qt = pt \<and> qc = pc then
       if qt = QMUX_TYPE_CTL then do {
         requestTID \<leftarrow> get8 req MUXMsg QCQMICTL_MSG_HDR ''TransactionId'';
         responseTID \<leftarrow> get8 rsp MUXMsg QCQMICTL_MSG_HDR ''TransactionId'';
         Some (requestTID = responseTID) }
       else do {
         requestTID \<leftarrow> get16 req MUXMsg QCQMUX_HDR ''TransactionId'';
         responseTID \<leftarrow> get16 rsp MUXMsg QCQMUX_HDR ''TransactionId'';
         Some (requestTID = responseTID) }
     else Some False }"

definition qmidevice_send_event_to_main :: "int \<Rightarrow> qmi \<Rightarrow> qmi" where
  "qmidevice_send_event_to_main ev s = s\<lparr>to_main := to_main s @ [ev]\<rparr>"

text \<open>
  \<open>QmiThreadRecvQMI\<close> on \<open>NULL\<close> (the reader thread quits) or on the reader's buffer. The
  comparison with \<open>QMICTL_REVOKE_CLIENT_ID_IND\<close> stands inside \<open>le16_to_cpu\<close> in the C code,
  which is the identity on the little-endian host of the model.
\<close>

definition QmiThreadRecvQMI :: "byte list option \<Rightarrow> qmi \<Rightarrow> qmi option" where
  "QmiThreadRecvQMI pResponse s = (case pResponse of
     None \<Rightarrow> Some (if s_pRequest s \<noteq> None then s\<lparr>s_pRequest := None, s_pResponse := None\<rparr> else s)
   | Some b \<Rightarrow> do {
       answer \<leftarrow> (case s_pRequest s of None \<Rightarrow> Some False | Some req \<Rightarrow> is_response req b);
       if answer then do {
         Length \<leftarrow> get16 b 0 QCQMI_HDR ''Length'';
         copy \<leftarrow> rdn b 0 (unat Length + 1);
         Some (s\<lparr>s_pRequest := None, s_pResponse := Some copy\<rparr>) }
       else do {
         ty \<leftarrow> get8 b 0 QCQMI_HDR ''QMIType'';
         ctl \<leftarrow> get16 b MUXMsg QCQMICTL_MSG_HDR_RESP ''QMICTLType'';
         mux \<leftarrow> get16 b MUXHdr QCQMUX_MSG_HDR_RESP ''Type'';
         Some (
           if ty = QMUX_TYPE_CTL \<and> ctl = QMICTL_REVOKE_CLIENT_ID_IND
           then qmidevice_send_event_to_main MODEM_REPORT_RESET_EVENT s
           else if ty = QMUX_TYPE_NAS \<and> mux = QMINAS_SERVING_SYSTEM_IND
           then qmidevice_send_event_to_main RIL_UNSOL_RESPONSE_VOICE_NETWORK_STATE_CHANGED s
           else if ty = QMUX_TYPE_WDS \<and> mux = QMIWDS_GET_PKT_SRVC_STATUS_IND
           then qmidevice_send_event_to_main RIL_UNSOL_DATA_CALL_LIST_CHANGED s
           else if ty = QMUX_TYPE_NAS \<and> mux = QMINAS_SYS_INFO_IND
           then qmidevice_send_event_to_main RIL_UNSOL_RESPONSE_VOICE_NETWORK_STATE_CHANGED s
           else s) } })"

text \<open>
  One readable event of the device in the thread's loop: \<open>read\<close> fills the front of the
  static buffer, what stands behind is left from earlier messages.
\<close>

definition read_into :: "nat \<Rightarrow> byte list \<Rightarrow> byte list \<Rightarrow> byte list" where
  "read_into p d b = take p b @ take (length b - p) d @ drop (p + length d) b"

definition QmiWwan_readable :: "int \<times> byte list \<Rightarrow> qmi \<Rightarrow> qmi option" where
  "QmiWwan_readable fd_d s = (
     let d = take 4096 (snd fd_d); b = read_into 0 d (QMIBuf s); nreads = length d
     in if nreads = 0 then Some s
        else do {
          Length \<leftarrow> get16 b 0 QCQMI_HDR ''Length'';
          let s = s\<lparr>QMIBuf := b\<rparr>;
          if nreads \<noteq> unat Length + 1 then Some s else QmiThreadRecvQMI (Some b) s })"

text \<open>
  \<open>qmi_proxy_read\<close> reads a header and then as many bytes as the header's \<open>Length\<close> asks
  for, without regard to the size of the buffer: \<open>d\<close> is what the socket holds.
\<close>

definition qmi_proxy_read :: "byte list \<Rightarrow> byte list \<Rightarrow> (nat \<times> byte list) option" where
  "qmi_proxy_read d b = (
     let h = take (sizeof QCQMI_HDR) d in do {
       b \<leftarrow> wr b 0 h;
       if length h = sizeof QCQMI_HDR then do {
         Length \<leftarrow> get16 b 0 QCQMI_HDR ''Length'';
         let rest = (if sizeof QCQMI_HDR \<le> unat Length + 1
                     then take (unat Length + 1 - sizeof QCQMI_HDR) (drop (sizeof QCQMI_HDR) d)
                     else drop (sizeof QCQMI_HDR) d);
         b \<leftarrow> wr b (sizeof QCQMI_HDR) rest;
         Some (length h + length rest, b) }
       else Some (length h, b) })"

definition QmiWwanProxy_readable :: "int \<times> byte list \<Rightarrow> qmi \<Rightarrow> qmi option" where
  "QmiWwanProxy_readable fd_d s = do {
     (nreads, b) \<leftarrow> qmi_proxy_read (snd fd_d) (QMIBuf s);
     if nreads = 0 then Some s
     else do {
       Length \<leftarrow> get16 b 0 QCQMI_HDR ''Length'';
       let s = s\<lparr>QMIBuf := b\<rparr>;
       if nreads \<noteq> unat Length + 1 then Some s else QmiThreadRecvQMI (Some b) s } }"

fun fd_type :: "int \<Rightarrow> nat \<Rightarrow> int list \<Rightarrow> byte \<Rightarrow> byte" where
  \<comment> \<open>\<open>for (i = 0; ...) if (qmiclientId[i] == fd) pResponse->QMIHdr.QMIType = i;\<close>\<close>
  "fd_type fd i [] ty = ty"
| "fd_type fd i (c # cs) ty = fd_type fd (Suc i) cs (if c = fd then of_nat i else ty)"

definition GobiNet_readable :: "int \<times> byte list \<Rightarrow> qmi \<Rightarrow> qmi option" where
  "GobiNet_readable fd_d s = (
     let fd = fst fd_d; d = take (4096 - sizeof QCQMI_HDR) (snd fd_d); nreads = length d;
         b = read_into MUXMsg d (QMIBuf s)
     in if nreads = 0 then Some s
        else do {
          old \<leftarrow> get8 b 0 QCQMI_HDR ''QMIType'';
          b \<leftarrow> put8 0 QCQMI_HDR ''QMIType'' (fd_type fd 0 (qmiclientId s) old) b;
          b \<leftarrow> put8 0 QCQMI_HDR ''IFType'' 0x01 b;
          b \<leftarrow> put16 0 QCQMI_HDR ''Length'' (of_nat (nreads + sizeof QCQMI_HDR - 1)) b;
          b \<leftarrow> put8 0 QCQMI_HDR ''CtlFlags'' 0x00 b;
          b \<leftarrow> put8 0 QCQMI_HDR ''ClientId'' (word_of_int fd AND 0xFF) b;
          QmiThreadRecvQMI (Some b) (s\<lparr>QMIBuf := b\<rparr>) })"

definition device_readable :: "int \<times> byte list \<Rightarrow> qmi \<Rightarrow> qmi option" where
  "device_readable x s = (case dev s of
     QmiWwan \<Rightarrow> QmiWwan_readable x s
   | QmiWwanProxy \<Rightarrow> QmiWwanProxy_readable x s
   | GobiNet \<Rightarrow> GobiNet_readable x s)"

section \<open>Sending\<close>

text \<open>
  The send functions return their result and the request, whose \<open>QMIType\<close> the QmiWwan
  function rewrites in place. A poll without \<open>POLLOUT\<close> returns the result of \<open>poll\<close>.
\<close>

definition QmiWwanSendQMI :: "exchange \<Rightarrow> byte list \<Rightarrow> qmi \<Rightarrow> (int \<times> byte list) option" where
  "QmiWwanSendQMI e m s =
     (if cdc_wdm_fd s = -1 then Some (-ENODEV, m)
      else do {
        ty \<leftarrow> get8 m 0 QCQMI_HDR ''QMIType'';
        m \<leftarrow> (if ty = QMUX_TYPE_WDS_IPV6 then put8 0 QCQMI_HDR ''QMIType'' QMUX_TYPE_WDS m else Some m);
        if poll_out e then do {
          Length \<leftarrow> get16 m 0 QCQMI_HDR ''Length'';
          _ \<leftarrow> rdn m 0 (unat Length + 1);
          Some (if write_ret e = int (unat Length) + 1 then 0 else write_ret e, m) }
        else Some (poll_ret e, m) })"

definition GobiNetSendQMI :: "exchange \<Rightarrow> byte list \<Rightarrow> qmi \<Rightarrow> (int \<times> byte list) option" where
  "GobiNetSendQMI e m s = do {
     ty \<leftarrow> get8 m 0 QCQMI_HDR ''QMIType'';
     fd \<leftarrow> client s ty;
     if fd \<le> 0 then Some (-ENODEV, m)
     else do {
       Length \<leftarrow> get16 m 0 QCQMI_HDR ''Length'';
       _ \<leftarrow> (if sizeof QCQMI_HDR \<le> unat Length + 1
            then rdn m MUXMsg (unat Length + 1 - sizeof QCQMI_HDR) else None);
       Some (if write_ret e = int (unat Length) + 1 - int (sizeof QCQMI_HDR) then 0 else write_ret e, m) } }"

definition qmidev_send :: "exchange \<Rightarrow> byte list \<Rightarrow> qmi \<Rightarrow> (int \<times> byte list) option" where
  "qmidev_send e m s = (case dev s of
     QmiWwan \<Rightarrow> QmiWwanSendQMI e m s
   | QmiWwanProxy \<Rightarrow> QmiWwanSendQMI e m s
   | GobiNet \<Rightarrow> GobiNetSendQMI e m s)"

text \<open>
  What the reader thread does while the sender waits on the condition variable: a readable
  device, or (\<open>None\<close>) the \<open>QmiThreadRecvQMI(NULL)\<close> of a thread that is asked to quit.
\<close>

fun reader_step :: "(int \<times> byte list) option \<Rightarrow> qmi \<Rightarrow> qmi option" where
  "reader_step (Some x) s = device_readable x s"
| "reader_step None s = QmiThreadRecvQMI None s"

definition reader_run :: "(int \<times> byte list) option list \<Rightarrow> qmi \<Rightarrow> qmi option" where
  "reader_run xs s = run_steps reader_step xs s"

text \<open>
  \<open>QmiThreadSendQMITimeout\<close>. The condition variable is signalled when the reader clears
  \<open>s_pRequest\<close>; otherwise the wait ends with \<open>ETIMEDOUT\<close>, or with 0 on a spurious wake-up.
  \<open>want\<close> says whether \<open>ppResponse\<close> is given, and \<open>p\<close> is what \<open>*ppResponse\<close> holds before:
  a \<open>NULL\<close> request returns before it is overwritten.
\<close>

definition QmiThreadSendQMITimeout ::
    "modem \<Rightarrow> byte list option \<Rightarrow> bool \<Rightarrow> cptr \<Rightarrow> qmi \<Rightarrow> (int \<times> cptr \<times> qmi) option" where
  "QmiThreadSendQMITimeout env pRequest want p s = (case pRequest of
     None \<Rightarrow> Some (-EINVAL, p, s)
   | Some m \<Rightarrow> (
       let p = (if want then PNull else p);
           s = s\<lparr>s_pRequest := Some m, s_pResponse := None, sent := m # sent s\<rparr>;
           e = env (sent s)
       in do {
         (ret, m) \<leftarrow> qmidev_send e m s;
         let s = s\<lparr>s_pRequest := Some m\<rparr>;
         if ret \<noteq> 0 then Some (ret, p, s)
         else do {
           s \<leftarrow> reader_run (incoming e) s;
           if s_pRequest s = None \<or> spurious e then
             (case s_pResponse s of
                None \<Rightarrow> Some (0, p, s)
              | Some r \<Rightarrow> if want then Some (0, PLive r, s) else Some (0, p, s\<lparr>s_pResponse := None\<rparr>))
           else Some (ETIMEDOUT, p, s) } }))"

definition QmiThreadSendQMI ::
    "modem \<Rightarrow> byte list option \<Rightarrow> bool \<Rightarrow> cptr \<Rightarrow> qmi \<Rightarrow> (int \<times> cptr \<times> qmi) option" where
  "QmiThreadSendQMI env pRequest want p s = QmiThreadSendQMITimeout env pRequest want p s"

section \<open>The invariant and the reader contract\<close>

text \<open>
  A request is well formed if its buffer holds the message that its header announces, with
  a complete QMUX header and a service type that has a slot in \<open>qmiclientId\<close>.
\<close>

definition wf_request :: "byte list \<Rightarrow> bool" where
  "wf_request m \<longleftrightarrow> 9 \<le> length m \<and> length m \<le> 65536 \<and> rd16 m 1 = Some (of_nat (length m - 1))
     \<and> unat (m ! 4) < 27"

definition wf_qmi :: "qmi \<Rightarrow> bool" where
  "wf_qmi s \<longleftrightarrow> length (QMIBuf s) = 4096 \<and> length (qmiclientId s) = 27
     \<and> (\<forall>r. s_pRequest s = Some r \<longrightarrow> 9 \<le> length r)"

text \<open>What delivery may change: the slot, the buffer of the reader and the events.\<close>

definition frame :: "qmi \<Rightarrow> qmi" where
  "frame s = s\<lparr>s_pRequest := None, s_pResponse := None, QMIBuf := [], to_main := []\<rparr>"

text \<open>
  \<open>answers r p\<close>: \<open>p\<close> is the message of a reader's buffer that \<open>is_response\<close> takes for the
  response to \<open>r\<close>.
\<close>

definition answers :: "byte list \<Rightarrow> byte list \<Rightarrow> bool" where
  "answers r p \<longleftrightarrow> (\<exists>b L. length b = 4096 \<and> is_response r b = Some True
     \<and> get16 b 0 QCQMI_HDR ''Length'' = Some L \<and> p = take (unat L + 1) b \<and> unat L + 1 \<le> 4096)"

definition delivers :: "qmi \<Rightarrow> qmi \<Rightarrow> bool" where
  "delivers s s' \<longleftrightarrow> wf_qmi s' \<and> frame s' = frame s \<and>
     (s_pRequest s' = s_pRequest s \<and> s_pResponse s' = s_pResponse s
      \<or> (\<exists>r. s_pRequest s = Some r \<and> s_pRequest s' = None
            \<and> (s_pResponse s' = None \<or> (\<exists>p. s_pResponse s' = Some p \<and> answers r p))))"

text \<open>
  The contract of one step of a reader thread: it has a defined execution and either leaves
  the slot alone or empties it, with a message that answers the pending request.
\<close>

locale reader =
  fixes step :: "'m \<Rightarrow> qmi \<Rightarrow> qmi option"
    and ready :: "qmi \<Rightarrow> bool"
  assumes step_delivers: "wf_qmi s \<Longrightarrow> ready s \<Longrightarrow> \<exists>s'. step x s = Some s' \<and> delivers s s'"
    and ready_frame: "frame s' = frame s \<Longrightarrow> ready s' = ready s"
begin

text \<open>A run is defined, and a response that is in the slot stays there.\<close>

lemma run_delivers: "wf_qmi s \<Longrightarrow> ready s \<Longrightarrow> \<exists>s'. run_steps step xs s = Some s' \<and> delivers s s'"
proof (induction xs arbitrary: s)
  case Nil
  then show ?case by (simp add: delivers_def)
next
  case (Cons x xs)
  obtain t where t: "step x s = Some t" "delivers s t" using step_delivers [OF Cons.prems] by blast
  then have "wf_qmi t" "ready t"
    using ready_frame [of t s] Cons.prems by (auto simp: delivers_def)
  then obtain u where "run_steps step xs t = Some u" "delivers t u" using Cons.IH by blast
  with t show ?case by (auto simp: delivers_def)
qed

end


section \<open>The readers meet the contract\<close>

lemma is_response_defined:
  "9 \<le> length r \<Longrightarrow> 9 \<le> length b \<Longrightarrow> \<exists>a. is_response r b = Some a"
  by (auto simp: is_response_def get8_def get16_def rd16_def)

lemma unat_u16: "unat (L :: u16) < 65536"
  using unsigned_less [of L, where ?'a = nat] by simp

lemma delivers_refl: "wf_qmi s \<Longrightarrow> length b = 4096 \<Longrightarrow> delivers s (s\<lparr>QMIBuf := b\<rparr>)"
  by (simp add: delivers_def wf_qmi_def frame_def)

lemma delivers_event: "delivers s t \<Longrightarrow> delivers s (qmidevice_send_event_to_main ev t)"
  by (simp add: delivers_def wf_qmi_def frame_def qmidevice_send_event_to_main_def)

text \<open>What \<open>QmiThreadRecvQMI\<close> copies is inside the buffer when \<open>Length\<close> was checked.\<close>

lemma recv_delivers:
  assumes "wf_qmi s" "length b = 4096" "get16 b 0 QCQMI_HDR ''Length'' = Some L" "unat L + 1 \<le> 4096"
  shows "\<exists>s'. QmiThreadRecvQMI (Some b) (s\<lparr>QMIBuf := b\<rparr>) = Some s' \<and> delivers s s'"
proof -
  have rest: "\<exists>ty ctl mux. get8 b 0 QCQMI_HDR ''QMIType'' = Some ty
      \<and> get16 b MUXMsg QCQMICTL_MSG_HDR_RESP ''QMICTLType'' = Some ctl
      \<and> get16 b MUXHdr QCQMUX_MSG_HDR_RESP ''Type'' = Some mux"
    using assms(2) by (simp add: get8_def get16_def rd16_def)
  have copy: "rdn b 0 (unat L + 1) = Some (take (unat L + 1) b)"
    using assms(2,4) by (simp add: rdn_def)
  show ?thesis
  proof (cases "\<exists>r. s_pRequest s = Some r \<and> is_response r b = Some True")
    case True
    then obtain r where r: "s_pRequest s = Some r" "is_response r b = Some True" by blast
    then have "QmiThreadRecvQMI (Some b) (s\<lparr>QMIBuf := b\<rparr>)
        = Some (s\<lparr>QMIBuf := b, s_pRequest := None, s_pResponse := Some (take (unat L + 1) b)\<rparr>)"
      using copy assms(3) by (simp add: QmiThreadRecvQMI_def)
    moreover have "answers r (take (unat L + 1) b)"
      using assms r by (auto simp: answers_def)
    ultimately show ?thesis
      using assms r by (simp add: delivers_def wf_qmi_def frame_def)
  next
    case False
    have "\<exists>a. (case s_pRequest s of None \<Rightarrow> Some False | Some req \<Rightarrow> is_response req b) = Some a"
      using assms is_response_defined by (cases "s_pRequest s") (auto simp: wf_qmi_def)
    with False have "(case s_pRequest s of None \<Rightarrow> Some False | Some req \<Rightarrow> is_response req b) = Some False"
      by (auto split: option.splits)
    moreover have "delivers s (s\<lparr>QMIBuf := b\<rparr>)" using assms by (simp add: delivers_refl)
    ultimately show ?thesis
      using rest by (auto simp: QmiThreadRecvQMI_def delivers_event simp del: bind_Some_iff)
  qed
qed

lemma recv_null_delivers: "wf_qmi s \<Longrightarrow> \<exists>s'. QmiThreadRecvQMI None s = Some s' \<and> delivers s s'"
  by (auto simp: QmiThreadRecvQMI_def delivers_def wf_qmi_def frame_def)

lemma qmiwwan_delivers:
  assumes "wf_qmi s" shows "\<exists>s'. QmiWwan_readable x s = Some s' \<and> delivers s s'"
proof -
  let ?d = "take 4096 (snd x)" let ?b = "read_into 0 ?d (QMIBuf s)"
  have b: "length ?b = 4096" using assms by (simp add: read_into_def wf_qmi_def)
  then obtain L where L: "get16 ?b 0 QCQMI_HDR ''Length'' = Some L"
    by (auto simp: get16_def rd16_def)
  show ?thesis
  proof (cases "?d = []")
    case True
    with assms show ?thesis by (auto simp: QmiWwan_readable_def delivers_def)
  next
    case False
    show ?thesis
    proof (cases "length ?d = unat L + 1")
      case True
      then have "unat L + 1 \<le> 4096" by simp
      with recv_delivers [OF assms b L] True False L show ?thesis
        by (simp add: QmiWwan_readable_def Let_def)
    next
      case neq: False
      with False L delivers_refl [OF assms b] show ?thesis
        by (simp add: QmiWwan_readable_def Let_def)
    qed
  qed
qed

lemma gobinet_delivers:
  assumes "wf_qmi s" shows "\<exists>s'. GobiNet_readable x s = Some s' \<and> delivers s s'"
proof -
  let ?d = "take 4090 (snd x)" let ?b = "read_into 6 ?d (QMIBuf s)"
  have len: "length ?b = 4096" using assms by (simp add: read_into_def wf_qmi_def)
  show ?thesis
  proof (cases "?d = []")
    case True
    with assms show ?thesis by (auto simp: GobiNet_readable_def delivers_def)
  next
    case False
    define ty where "ty = fd_type (fst x) 0 (qmiclientId s) (?b ! 4)"
    define L :: u16 where "L = of_nat (length ?d + 5)"
    define b where "b = ?b[4 := ty, 0 := 1, 1 := ucast L, 2 := ucast (drop_bit 8 L), 3 := 0,
      5 := word_of_int (fst x) AND 255]"
    have b: "length b = 4096" using len by (simp add: b_def)
    have "get16 b 0 QCQMI_HDR ''Length'' = Some L"
      using len by (simp add: b_def get16_def rd16_def numeral_2_eq_2)
    moreover have "unat L + 1 \<le> 4096"
      unfolding L_def by (subst unat_len16) auto
    moreover have "GobiNet_readable x s = QmiThreadRecvQMI (Some b) (s\<lparr>QMIBuf := b\<rparr>)"
    proof -
      have "?b \<noteq> []" using len by auto
      then show ?thesis
        using False len by (simp add: GobiNet_readable_def Let_def field_defs le16_def b_def ty_def L_def
            numeral_2_eq_2 add.commute)
    qed
    ultimately show ?thesis
      using recv_delivers [OF assms b] by simp
  qed
qed

interpretation qmiwwan: reader QmiWwan_readable "\<lambda>s. True"
  by unfold_locales (simp_all add: qmiwwan_delivers)

interpretation gobinet: reader GobiNet_readable "\<lambda>s. True"
  by unfold_locales (simp_all add: gobinet_delivers)

lemma dev_frame: "frame s' = frame s \<Longrightarrow> dev s' = dev s"
  by (drule arg_cong [of _ _ dev]) (simp add: frame_def)

lemma frame_clients: "frame s' = frame s \<Longrightarrow> qmiclientId s' = qmiclientId s"
  by (drule arg_cong [of _ _ qmiclientId]) (simp add: frame_def)

lemma frame_9x07: "frame s' = frame s \<Longrightarrow> s_9x07 s' = s_9x07 s"
  by (drule arg_cong [of _ _ s_9x07]) (simp add: frame_def)

lemma frame_handle4: "frame s' = frame s \<Longrightarrow> WdsConnectionIPv4Handle s' = WdsConnectionIPv4Handle s"
  by (drule arg_cong [of _ _ WdsConnectionIPv4Handle]) (simp add: frame_def)

lemma frame_handle6: "frame s' = frame s \<Longrightarrow> WdsConnectionIPv6Handle s' = WdsConnectionIPv6Handle s"
  by (drule arg_cong [of _ _ WdsConnectionIPv6Handle]) (simp add: frame_def)

lemma frame_log: "frame s' = frame s \<Longrightarrow> sent s' = sent s"
  by (drule arg_cong [of _ _ sent]) (simp add: frame_def)

lemma frame_fd: "frame s' = frame s \<Longrightarrow> cdc_wdm_fd s' = cdc_wdm_fd s"
  by (drule arg_cong [of _ _ cdc_wdm_fd]) (simp add: frame_def)

lemma frame_tid: "frame s' = frame s \<Longrightarrow> QMUXTransactionId s' = QMUXTransactionId s"
  by (drule arg_cong [of _ _ QMUXTransactionId]) (simp add: frame_def)

lemmas frame_fields = dev_frame frame_clients frame_9x07 frame_handle4 frame_handle6 frame_log
  frame_fd frame_tid

interpretation thread: reader reader_step "\<lambda>s. dev s \<noteq> QmiWwanProxy"
proof (unfold_locales, goal_cases)
  case (1 s x)
  then show ?case
    using qmiwwan_delivers [of s] gobinet_delivers [of s] recv_null_delivers [of s]
    by (cases x; cases "dev s") (simp_all add: device_readable_def)
qed (use dev_frame in metis)

section \<open>Requests and their responses\<close>

text \<open>The request as it stands in \<open>s_pRequest\<close> after the device has sent it.\<close>

definition wire_request :: "qmi \<Rightarrow> byte list \<Rightarrow> byte list" where
  "wire_request s m = (if dev s \<noteq> GobiNet \<and> cdc_wdm_fd s \<noteq> -1 \<and> m ! 4 = QMUX_TYPE_WDS_IPV6
     then m[4 := QMUX_TYPE_WDS] else m)"

lemma wf_request_Length:
  "wf_request m \<Longrightarrow> \<exists>L. get16 m 0 QCQMI_HDR ''Length'' = Some L \<and> unat L + 1 = length m"
  using unat_len16 [of "length m - 1"]
  by (auto simp: wf_request_def get16_def simp del: of_nat_diff)

lemma length_wire_request [simp]: "length (wire_request s m) = length m"
  by (simp add: wire_request_def)

lemma wf_wire_request: "wf_request m \<Longrightarrow> wf_request (wire_request s m)"
  by (auto simp: wire_request_def wf_request_def rd16_def)

lemma qmidev_send_defined:
  assumes "wf_qmi s" "wf_request m"
  shows "\<exists>ret. qmidev_send e m s = Some (ret, wire_request s m)"
proof -
  obtain L where L: "get16 m 0 QCQMI_HDR ''Length'' = Some L" "unat L + 1 = length m"
    using wf_request_Length [OF assms(2)] by blast
  obtain L' where L': "get16 (m[4 := 1]) 0 QCQMI_HDR ''Length'' = Some L'" "unat L' + 1 = length m"
    using wf_request_Length [of "m[4 := 1]"] assms(2) by (auto simp: wf_request_def rd16_def)
  have ty: "get8 m 0 QCQMI_HDR ''QMIType'' = Some (m ! 4)" "4 < length m" "5 < length m"
    using assms(2) by (auto simp: get8_def wf_request_def)
  have put: "put8 0 QCQMI_HDR ''QMIType'' 1 m = Some (m[4 := 1])" using ty by (simp add: put8_def)
  have cl: "client s (m ! 4) = Some (qmiclientId s ! unat (m ! 4))"
    using assms by (simp add: client_def wf_qmi_def wf_request_def)
  have "rdn m 0 (unat L + 1) \<noteq> None" "rdn (m[4 := 1]) 0 (unat L' + 1) \<noteq> None"
    "rdn m 6 (unat L + 1 - 6) \<noteq> None" "6 \<le> unat L + 1"
    using L(2) L'(2) ty by (auto simp: rdn_def)
  with L(1) L'(1) ty put cl show ?thesis
    by (cases "dev s") (auto simp: qmidev_send_def QmiWwanSendQMI_def GobiNetSendQMI_def wire_request_def)
qed

text \<open>The state when the reader starts, and the outcome of the wait.\<close>

definition pending :: "qmi \<Rightarrow> byte list \<Rightarrow> qmi" where
  "pending s m = s\<lparr>s_pRequest := Some (wire_request s m), s_pResponse := None, sent := m # sent s\<rparr>"

lemma wf_pending: "wf_qmi s \<Longrightarrow> wf_request m \<Longrightarrow> wf_qmi (pending s m)"
  by (simp add: wf_qmi_def pending_def wf_request_def)

lemma send_outcome:
  assumes "wf_qmi s" "wf_request m" "dev s \<noteq> QmiWwanProxy"
  shows "\<exists>ret p s'. QmiThreadSendQMI env (Some m) want p0 s = Some (ret, p, s') \<and> wf_qmi s'
     \<and> frame s' = frame (s\<lparr>sent := m # sent s\<rparr>)
     \<and> (if want then p = PNull \<or> ret = 0 \<and> (\<exists>r. p = PLive r \<and> answers (wire_request s m) r)
        else p = p0)"
proof -
  let ?e = "env (m # sent s)" and ?s = "s\<lparr>s_pRequest := Some m, s_pResponse := None, sent := m # sent s\<rparr>"
  have "wf_qmi ?s" using assms by (simp add: wf_qmi_def wf_request_def)
  then obtain ret where snd: "qmidev_send ?e m ?s = Some (ret, wire_request s m)"
    using qmidev_send_defined [of ?s m ?e] assms by (auto simp: wire_request_def)
  let ?t = "pending s m"
  have t: "?s\<lparr>s_pRequest := Some (wire_request s m)\<rparr> = ?t" by (simp add: pending_def)
  obtain u where u: "reader_run (incoming ?e) ?t = Some u" "delivers ?t u"
    using thread.run_delivers [OF wf_pending [OF assms(1,2)], of "incoming ?e"] assms(3)
    by (auto simp: reader_run_def pending_def)
  have frame_t: "frame ?t = frame (s\<lparr>sent := m # sent s\<rparr>)" by (simp add: frame_def pending_def)
  have frame_u: "frame u = frame (s\<lparr>sent := m # sent s\<rparr>)" using u(2) frame_t by (simp add: delivers_def)
  have resp: "s_pResponse u = None \<or> (\<exists>r. s_pResponse u = Some r \<and> answers (wire_request s m) r)"
    using u(2) by (auto simp: delivers_def pending_def)
  show ?thesis
  proof (cases "ret = 0")
    case False
    then have "QmiThreadSendQMI env (Some m) want p0 s = Some (ret, if want then PNull else p0, ?t)"
      using snd t by (simp add: QmiThreadSendQMI_def QmiThreadSendQMITimeout_def Let_def)
    then show ?thesis using wf_pending [OF assms(1,2)] frame_t by simp
  next
    case True
    have wf_u: "wf_qmi u" "wf_qmi (u\<lparr>s_pResponse := None\<rparr>)" "frame (u\<lparr>s_pResponse := None\<rparr>) = frame u"
      using u(2) by (simp_all add: delivers_def wf_qmi_def frame_def)
    have run: "QmiThreadSendQMI env (Some m) want p0 s =
       (if s_pRequest u = None \<or> spurious ?e then
          (case s_pResponse u of None \<Rightarrow> Some (0, if want then PNull else p0, u)
           | Some r \<Rightarrow> if want then Some (0, PLive r, u) else Some (0, p0, u\<lparr>s_pResponse := None\<rparr>))
        else Some (ETIMEDOUT, if want then PNull else p0, u))"
      using snd t u(1) True by (cases want; cases "s_pResponse u")
        (simp_all add: QmiThreadSendQMI_def QmiThreadSendQMITimeout_def Let_def)
    from resp show ?thesis
    proof
      assume "s_pResponse u = None"
      with run wf_u frame_u show ?thesis by simp
    next
      assume "\<exists>r. s_pResponse u = Some r \<and> answers (wire_request s m) r"
      then obtain r where "s_pResponse u = Some r" "answers (wire_request s m) r" by blast
      with run wf_u frame_u show ?thesis by simp
    qed
  qed
qed

text \<open>The header of an answer.\<close>

lemma answers_header:
  assumes "answers r p" "9 \<le> length p" "9 \<le> length r"
  shows "p ! 4 = r ! 4 \<and> p ! 5 = r ! 5
    \<and> (if r ! 4 = QMUX_TYPE_CTL then p ! 7 = r ! 7 else rd16 p 7 = rd16 r 7)"
proof -
  obtain b and L :: u16 where b: "length b = 4096" "is_response r b = Some True" "p = take (unat L + 1) b"
    using assms(1) unfolding answers_def by blast
  have L: "9 \<le> unat L + 1" using assms(2) b by simp
  then have nth: "p ! i = b ! i" if "i < 9" for i using b that by simp
  have len: "9 \<le> length p" by (rule assms(2))
  show ?thesis
    using b(1,2) nth [of 4] nth [of 5] nth [of 7] nth [of 8] len assms(3)
    by (auto simp: is_response_def get8_def get16_def rd16_def split: if_splits)
qed


text \<open>A modem that answers a request for the PIN status after an unrelated indication.\<close>

definition example_request :: "byte list" where
  "example_request = qmux_request QMUX_TYPE_DMS 7 1 0x002B []"

definition example_response :: "byte list" where
  "example_response = 0x01 # le16 19 @ [0x80, QMUX_TYPE_DMS, 7] @ (0x02 # le16 1)
     @ mux_body 0x002B [(0x02, [0, 0, 0, 0])]"

definition example_indication :: "byte list" where
  "example_indication = 0x01 # le16 12 @ [0x80, QMUX_TYPE_NAS, 7] @ (0x04 # le16 1) @ mux_body 0x0024 []"

definition example_modem :: "(int \<times> byte list) option list \<Rightarrow> modem" where
  "example_modem xs reqs = (case reqs of
     m # _ \<Rightarrow> \<lparr>poll_ret = 1, poll_out = True, write_ret = int (length m), incoming = xs, spurious = False\<rparr>
   | [] \<Rightarrow> \<lparr>poll_ret = 0, poll_out = False, write_ret = 0, incoming = [], spurious = False\<rparr>)"

lemma example_wf: "wf_request example_request" "wf_qmi clients_ready" "dev clients_ready \<noteq> QmiWwanProxy"
  by (simp_all add: wf_request_def example_request_def qmux_request_def mux_body_def le16_def rd16_def
      wf_qmi_def clients_ready_def qmi_init_def mk16_def)


section \<open>The first answer is the result\<close>

text \<open>A datagram that the QMI_WWAN reader takes for a complete message of its own bytes.\<close>

definition complete :: "byte list \<Rightarrow> bool" where
  "complete d \<longleftrightarrow> 9 \<le> length d \<and> length d \<le> 4096 \<and> rd16 d 1 = Some (of_nat (length d - 1))"

lemma complete_Length:
  "complete d \<Longrightarrow> \<exists>L. get16 d 0 QCQMI_HDR ''Length'' = Some L \<and> unat L + 1 = length d"
  using unat_len16 [of "length d - 1"] by (auto simp: complete_def get16_def simp del: of_nat_diff)

lemma read_into_front: "length d \<le> length b \<Longrightarrow> read_into 0 d b = d @ drop (length d) b"
  by (simp add: read_into_def)

lemma front_reads:
  assumes "9 \<le> length d"
  shows "get8 (d @ b) 0 QCQMI_HDR ''QMIType'' = get8 d 0 QCQMI_HDR ''QMIType''"
    "get16 (d @ b) 0 QCQMI_HDR ''Length'' = get16 d 0 QCQMI_HDR ''Length''"
    "is_response r (d @ b) = is_response r d"
proof -
  have f: "get8 (d @ b) 0 QCQMI_HDR ''QMIType'' = get8 d 0 QCQMI_HDR ''QMIType''"
    "get8 (d @ b) 0 QCQMI_HDR ''ClientId'' = get8 d 0 QCQMI_HDR ''ClientId''"
    "get8 (d @ b) MUXMsg QCQMICTL_MSG_HDR ''TransactionId'' = get8 d MUXMsg QCQMICTL_MSG_HDR ''TransactionId''"
    "get16 (d @ b) MUXMsg QCQMUX_HDR ''TransactionId'' = get16 d MUXMsg QCQMUX_HDR ''TransactionId''"
    using assms by (simp_all add: get8_def get16_def rd16_def rd8_append)
  then show "get8 (d @ b) 0 QCQMI_HDR ''QMIType'' = get8 d 0 QCQMI_HDR ''QMIType''"
    and "is_response r (d @ b) = is_response r d"
    unfolding is_response_def by (simp_all only:)
  show "get16 (d @ b) 0 QCQMI_HDR ''Length'' = get16 d 0 QCQMI_HDR ''Length''"
    using assms by (simp add: get16_def rd16_def rd8_append)
qed

lemma complete_read:
  assumes "wf_qmi s" "complete d"
  shows "QmiWwan_readable (fd, d) s
    = (let b = d @ drop (length d) (QMIBuf s) in QmiThreadRecvQMI (Some b) (s\<lparr>QMIBuf := b\<rparr>))"
proof -
  obtain L where L: "get16 d 0 QCQMI_HDR ''Length'' = Some L" "unat L + 1 = length d"
    using complete_Length [OF assms(2)] by blast
  have d: "take 4096 d = d" "d \<noteq> []" "length d \<le> length (QMIBuf s)" "9 \<le> length d"
    using assms by (auto simp: complete_def wf_qmi_def)
  show ?thesis
    using L d front_reads(2) [OF d(4), of "drop (length d) (QMIBuf s)"]
    by (simp add: QmiWwan_readable_def Let_def read_into_front)
qed

text \<open>A complete message that does not answer the request leaves it pending.\<close>

lemma recv_other:
  assumes "s_pRequest s = Some r" "is_response r b = Some False" "QmiThreadRecvQMI (Some b) s = Some s'"
  shows "s_pRequest s' = Some r"
  using assms by (auto simp: QmiThreadRecvQMI_def qmidevice_send_event_to_main_def split: if_splits)

lemma other_message:
  assumes "wf_qmi s" "s_pRequest s = Some r" "9 \<le> length r" "complete d" "is_response r d = Some False"
  shows "\<exists>s'. QmiWwan_readable (fd, d) s = Some s' \<and> wf_qmi s' \<and> s_pRequest s' = Some r
     \<and> frame s' = frame s"
proof -
  obtain s' where s': "QmiWwan_readable (fd, d) s = Some s'" "delivers s s'"
    using qmiwwan_delivers [OF assms(1)] by blast
  let ?b = "d @ drop (length d) (QMIBuf s)"
  have "is_response r ?b = Some False"
    using assms(4,5) front_reads(3) by (simp add: complete_def)
  then have "s_pRequest s' = Some r"
    using s'(1) assms(2) recv_other [of "s\<lparr>QMIBuf := ?b\<rparr>" r ?b s']
    unfolding complete_read [OF assms(1,4)] Let_def by simp
  with s' show ?thesis by (auto simp: delivers_def)
qed

lemma other_messages:
  assumes "wf_qmi s" "dev s = QmiWwan" "s_pRequest s = Some r" "9 \<le> length r"
    and "\<forall>d \<in> set ds. complete d \<and> is_response r d = Some False"
  shows "\<exists>s'. reader_run (map (\<lambda>d. Some (fd, d)) ds) s = Some s' \<and> wf_qmi s' \<and> s_pRequest s' = Some r
     \<and> frame s' = frame s"
  using assms(1-3,5)
proof (induction ds arbitrary: s)
  case (Cons d ds)
  obtain t where t: "QmiWwan_readable (fd, d) s = Some t" "wf_qmi t" "s_pRequest t = Some r"
    "frame t = frame s"
    using other_message [OF Cons.prems(1,3) assms(4)] Cons.prems(4) by fastforce
  moreover have "dev t = QmiWwan" using dev_frame [OF t(4)] Cons.prems(2) by simp
  ultimately obtain u where "reader_run (map (\<lambda>d. Some (fd, d)) ds) t = Some u" "wf_qmi u"
    "s_pRequest u = Some r" "frame u = frame t"
    using Cons.IH [of t] Cons.prems(4) by auto
  with t Cons.prems(2) show ?case
    by (simp add: reader_run_def device_readable_def)
qed (simp add: reader_run_def)

lemma answer_message:
  assumes "wf_qmi s" "s_pRequest s = Some r" "complete d" "is_response r d = Some True"
  shows "\<exists>b. QmiWwan_readable (fd, d) s
    = Some (s\<lparr>QMIBuf := b, s_pRequest := None, s_pResponse := Some d\<rparr>)"
proof -
  let ?b = "d @ drop (length d) (QMIBuf s)"
  obtain L where L: "get16 d 0 QCQMI_HDR ''Length'' = Some L" "unat L + 1 = length d"
    using complete_Length [OF assms(3)] by blast
  have d: "9 \<le> length d" using assms(3) by (simp add: complete_def)
  have "rdn ?b 0 (unat L + 1) = Some d" using L(2) by (simp add: rdn_def)
  then show ?thesis
    using complete_read [OF assms(1,3), of fd] assms(2,4) L(1) front_reads(2,3) [OF d]
    by (intro exI [of _ ?b]) (simp add: QmiThreadRecvQMI_def Let_def)
qed

lemma settled_messages:
  assumes "wf_qmi s" "dev s \<noteq> QmiWwanProxy" "s_pRequest s = None"
  shows "\<exists>s'. reader_run xs s = Some s' \<and> s_pRequest s' = None \<and> s_pResponse s' = s_pResponse s"
  using thread.run_delivers [OF assms(1,2), of xs] assms(3)
  by (auto simp: delivers_def reader_run_def)

lemma wf_send_ok:
  assumes "wf_request m" "dev s = QmiWwan" "cdc_wdm_fd s \<noteq> -1" "wf_qmi s" "poll_out e"
    and "write_ret e = int (length m)"
  shows "qmidev_send e m s = Some (0, wire_request s m)"
proof -
  obtain L where L: "get16 (wire_request s m) 0 QCQMI_HDR ''Length'' = Some L" "unat L + 1 = length m"
    using wf_request_Length [OF wf_wire_request [OF assms(1)], of s] by auto
  have "get8 m 0 QCQMI_HDR ''QMIType'' = Some (m ! 4)" "4 < length m"
    using assms(1) by (auto simp: get8_def wf_request_def)
  then have w: "(if m ! 4 = 17 then put8 0 QCQMI_HDR ''QMIType'' 1 m else Some m) = Some (wire_request s m)"
    using assms(2,3) by (simp add: put8_def wire_request_def)
  have "rdn (wire_request s m) 0 (unat L + 1) \<noteq> None" using L(2) by (auto simp: rdn_def)
  moreover have "write_ret e = int (unat L) + 1"
    unfolding assms(6) L(2) [symmetric] by (simp only: of_nat_add of_nat_1)
  ultimately show ?thesis
    using L(1) w assms \<open>get8 m 0 _ _ = _\<close> by (auto simp: qmidev_send_def QmiWwanSendQMI_def)
qed

lemma first_answer:
  assumes "wf_qmi s" "wf_request m" "dev s = QmiWwan" "cdc_wdm_fd s \<noteq> -1"
    and "poll_out (env (m # sent s))" "write_ret (env (m # sent s)) = int (length m)"
    and "incoming (env (m # sent s)) = map (\<lambda>d. Some (fd, d)) ds @ Some (fd, d) # later"
    and "\<forall>d \<in> set ds. complete d \<and> is_response (wire_request s m) d = Some False"
    and "complete d" "is_response (wire_request s m) d = Some True"
  shows "\<exists>s'. QmiThreadSendQMI env (Some m) True p0 s = Some (0, PLive d, s')"
proof -
  let ?t = "pending s m" and ?s = "s\<lparr>s_pRequest := Some m, s_pResponse := None, sent := m # sent s\<rparr>"
  have "wf_qmi ?s" using assms(1,2) by (simp add: wf_qmi_def wf_request_def)
  then have snd: "qmidev_send (env (m # sent s)) m ?s = Some (0, wire_request s m)"
    using wf_send_ok [of m ?s "env (m # sent s)"] assms by (simp add: wire_request_def)
  have t: "wf_qmi ?t" "dev ?t = QmiWwan" "s_pRequest ?t = Some (wire_request s m)"
    using wf_pending [OF assms(1,2)] assms(3) by (simp_all add: pending_def)
  have len: "9 \<le> length (wire_request s m)" using assms(2) by (simp add: wf_request_def)
  obtain u where u: "reader_run (map (\<lambda>d. Some (fd, d)) ds) ?t = Some u" "wf_qmi u"
    "s_pRequest u = Some (wire_request s m)" "frame u = frame ?t"
    using other_messages [OF t len assms(8)] by blast
  have du: "dev u = QmiWwan" using dev_frame [OF u(4)] t(2) by simp
  obtain v where v: "QmiWwan_readable (fd, d) u = Some v" "s_pRequest v = None" "s_pResponse v = Some d"
    using answer_message [OF u(2,3) assms(9,10), of fd] by auto
  have wv: "wf_qmi v" "dev v = QmiWwan"
    using qmiwwan_delivers [OF u(2), of "(fd, d)"] v(1) dev_frame [of v u] du by (auto simp: delivers_def)
  obtain w where "reader_run later v = Some w" "s_pRequest w = None" "s_pResponse w = Some d"
    using settled_messages [OF wv(1) _ v(2), of later] wv(2) v(3) by auto
  then have run: "reader_run (incoming (env (m # sent s))) ?t = Some w"
    using u(1) v(1) du assms(7) by (simp add: reader_run_def run_steps_append device_readable_def)
  have "?s\<lparr>s_pRequest := Some (wire_request s m)\<rparr> = ?t" by (simp add: pending_def)
  with snd run \<open>s_pRequest w = None\<close> \<open>s_pResponse w = Some d\<close> show ?thesis
    by (simp add: QmiThreadSendQMI_def QmiThreadSendQMITimeout_def Let_def)
qed

text \<open>
  C9: With the QMI_WWAN driver, the first complete message that answers the request is
  returned unchanged with the result 0: messages before it that do not answer are
  dispatched and skipped, and nothing that arrives after it, further answers and the
  shutdown of the reader thread included, replaces it.
\<close>
theorem first_answer_wins:
  assumes "wf_qmi s" "wf_request m" "dev s = QmiWwan" "cdc_wdm_fd s \<noteq> -1"
    and "poll_out (env (m # sent s))" "write_ret (env (m # sent s)) = int (length m)"
    and "incoming (env (m # sent s)) = map (\<lambda>d. Some (fd, d)) ds @ Some (fd, d) # later"
    and "\<forall>d \<in> set ds. complete d \<and> is_response (wire_request s m) d = Some False"
    and "complete d" "is_response (wire_request s m) d = Some True"
  shows "\<exists>s'. QmiThreadSendQMI env (Some m) True p0 s = Some (0, PLive d, s')"
  using assms by (rule first_answer)

lemma example_answer:
  "complete example_response" "is_response example_request example_response = Some True"
  "complete example_indication" "is_response example_request example_indication = Some False"
  by (simp_all add: example_request_def example_response_def example_indication_def complete_def
      qmux_request_def mux_body_def le16_def rd16_def mk16_def is_response_def field_defs encode_tlv_def)

theorem first_answer_wins_witness:
  "\<exists>s'. QmiThreadSendQMI (example_modem [Some (3, example_indication), Some (3, example_response), None])
     (Some example_request) True PDead clients_ready = Some (0, PLive example_response, s')"
proof -
  let ?env = "example_modem [Some (3, example_indication), Some (3, example_response), None]"
  have w: "wire_request clients_ready example_request = example_request"
    by (simp add: wire_request_def clients_ready_def qmi_init_def example_request_def qmux_request_def le16_def)
  have c: "dev clients_ready = QmiWwan" "cdc_wdm_fd clients_ready \<noteq> -1"
    by (simp_all add: clients_ready_def qmi_init_def)
  show ?thesis
    using first_answer_wins [where env = ?env and s = clients_ready and m = example_request
        and fd = 3 and ds = "[example_indication]" and d = example_response and later = "[None]"]
      example_wf(1,2) example_answer c by (simp add: w example_modem_def)
qed

text \<open>
  When the reader thread quits while a request is pending, the sender wakes up with the
  result 0 and no response, so the result alone does not tell success: the callers have to
  test the response as well, as \<open>qmi_rsp_check\<close> does.
\<close>
theorem quit_wakes_sender_without_response:
  assumes "wf_qmi s" "wf_request m" "dev s = QmiWwan" "cdc_wdm_fd s \<noteq> -1"
    and "poll_out (env (m # sent s))" "write_ret (env (m # sent s)) = int (length m)"
    and "incoming (env (m # sent s)) = map (\<lambda>d. Some (fd, d)) ds @ [None]"
    and "\<forall>d \<in> set ds. complete d \<and> is_response (wire_request s m) d = Some False"
  shows "\<exists>s'. QmiThreadSendQMI env (Some m) True p0 s = Some (0, PNull, s') \<and> s_pRequest s' = None"
proof -
  let ?t = "pending s m" and ?s = "s\<lparr>s_pRequest := Some m, s_pResponse := None, sent := m # sent s\<rparr>"
  have "wf_qmi ?s" using assms(1,2) by (simp add: wf_qmi_def wf_request_def)
  then have snd: "qmidev_send (env (m # sent s)) m ?s = Some (0, wire_request s m)"
    using wf_send_ok [of m ?s "env (m # sent s)"] assms by (simp add: wire_request_def)
  have t: "wf_qmi ?t" "dev ?t = QmiWwan" "s_pRequest ?t = Some (wire_request s m)"
    using wf_pending [OF assms(1,2)] assms(3) by (simp_all add: pending_def)
  have len: "9 \<le> length (wire_request s m)" using assms(2) by (simp add: wf_request_def)
  obtain u where u: "reader_run (map (\<lambda>d. Some (fd, d)) ds) ?t = Some u"
    "s_pRequest u = Some (wire_request s m)"
    using other_messages [OF t len assms(8)] by blast
  then have run: "reader_run (incoming (env (m # sent s))) ?t
      = Some (u\<lparr>s_pRequest := None, s_pResponse := None\<rparr>)"
    using assms(7) by (simp add: reader_run_def run_steps_append QmiThreadRecvQMI_def)
  have "?s\<lparr>s_pRequest := Some (wire_request s m)\<rparr> = ?t" by (simp add: pending_def)
  with snd run show ?thesis
    by (simp add: QmiThreadSendQMI_def QmiThreadSendQMITimeout_def Let_def)
qed

theorem quit_wakes_sender_without_response_witness:
  "\<exists>s'. QmiThreadSendQMI (example_modem [Some (3, example_indication), None])
     (Some example_request) True PDead clients_ready = Some (0, PNull, s') \<and> s_pRequest s' = None"
proof -
  let ?env = "example_modem [Some (3, example_indication), None]"
  have w: "wire_request clients_ready example_request = example_request"
    by (simp add: wire_request_def clients_ready_def qmi_init_def example_request_def qmux_request_def le16_def)
  have c: "dev clients_ready = QmiWwan" "cdc_wdm_fd clients_ready \<noteq> -1"
    by (simp_all add: clients_ready_def qmi_init_def)
  show ?thesis
    using quit_wakes_sender_without_response [where env = ?env and s = clients_ready and m = example_request
        and fd = 3 and ds = "[example_indication]"]
      example_wf(1,2) example_answer c by (simp add: w example_modem_def)
qed

text \<open>
  \<open>qmi_proxy_read\<close> takes a message from the socket of the QMI proxy: it returns the
  message that the header announces as far as the socket holds it, and what stood behind
  it in the buffer stays; but it does not check the announced length against the size of
  the buffer, and a longer message overwrites what lies behind the buffer.
\<close>
theorem qmi_proxy_read_result:
  assumes "length b = 4096" "6 \<le> length d" "rd16 d 1 = Some L" "5 \<le> unat L"
  shows "qmi_proxy_read d b = (let n = min (unat L + 1) (length d) in
     if n \<le> 4096 then Some (n, take n d @ drop n b) else None)"
proof -
  define n where "n = min (unat L + 1) (length d)"
  let ?h = "take 6 d @ drop 6 b"
  have w: "wr b 0 (take 6 d) = Some ?h" using assms by (simp add: wr_eq)
  have L: "get16 ?h 0 QCQMI_HDR ''Length'' = Some L"
    using assms by (auto simp: get16_def rd16_def rd8_append rd8_def nth_append)
  have rest: "take (unat L - 5) (drop 6 d) = drop 6 (take n d)"
    by (simp add: drop_take min_def n_def)
  have six: "6 \<le> n" "n \<le> length d" using assms by (simp_all add: n_def)
  then have len: "length (drop 6 (take n d)) = n - 6" by simp
  have "take 6 d @ drop 6 (take n d) = take n d"
    using append_take_drop_id [of 6 "take n d"] six by (simp add: min_def)
  then have fit: "n \<le> 4096 \<Longrightarrow> wr ?h 6 (drop 6 (take n d)) = Some (take n d @ drop n b)"
    using assms(1,2) six len by (simp add: wr_eq)
  have over: "\<not> n \<le> 4096 \<Longrightarrow> wr ?h 6 (drop 6 (take n d)) = None"
    using assms(1,2) six len by simp
  have "qmi_proxy_read d b = do { b \<leftarrow> wr ?h 6 (drop 6 (take n d)); Some (n, b) }"
    using w L rest six len assms(2,4) by (simp add: qmi_proxy_read_def Let_def)
  then show ?thesis
    unfolding n_def [symmetric] Let_def using fit over by (cases "n \<le> 4096") (simp_all del: wr_None)
qed

theorem qmi_proxy_read_result_witness:
  "qmi_proxy_read ([1, 0xFF, 0x1F, 0, 1, 7] @ replicate 8186 0) (replicate 4096 0) = None"
proof -
  have "rd16 ([1, 0xFF, 0x1F, 0, 1, 7] @ replicate 8186 0) 1 = Some 0x1FFF"
    by (simp add: rd16_def rd8_append mk16_def)
  then show ?thesis
    using qmi_proxy_read_result [of "replicate 4096 0" "[1, 0xFF, 0x1F, 0, 1, 7] @ replicate 8186 0" "0x1FFF"]
    by (simp add: Let_def)
qed

end
