(* ===== verification/Requests.thy ===== *)
theory Requests
  imports Transport
begin

text \<open>
  The requests of \<open>QMIThread.c\<close> that the main loop makes: data format, SIM and PIN, data
  call and IP address, profile, firmware version. Each composes a QMUX request, sends it,
  checks the response and copies what it finds into the caller's variables. A use of a
  freed or never assigned response pointer and a read behind the response are \<open>None\<close>.
\<close>

section \<open>Sending and checking\<close>

definition send_qmux :: "modem \<Rightarrow> byte \<Rightarrow> u16 \<Rightarrow> builder option \<Rightarrow> cptr \<Rightarrow> qmi \<Rightarrow> (int \<times> cptr \<times> qmi) option" where
  \<comment> \<open>\<open>pRequest = ComposeQMUXMsg(...); err = QmiThreadSendQMI(pRequest, &pResponse);\<close>\<close>
  "send_qmux env QMIType Type custom pResponse s = do {
     (pRequest, s) \<leftarrow> ComposeQMUXMsg QMIType Type custom s;
     QmiThreadSendQMI env pRequest True pResponse s }"

text \<open>
  \<open>qmi_rsp_check_and_return()\<close>: \<open>Inl e\<close> is an early return of \<open>e\<close>, \<open>Inr r\<close> goes on with the
  response. The result and the error code are read without regard to the response's size.
\<close>

definition qmi_rsp_check_and_return :: "int \<Rightarrow> cptr \<Rightarrow> (int + byte list) option" where
  "qmi_rsp_check_and_return err pResponse =
     (if err < 0 \<or> pResponse = PNull then Some (Inl err)
      else do {
        r \<leftarrow> deref pResponse;
        QMUXResult \<leftarrow> get16 r MUXHdr QCQMUX_MSG_HDR_RESP ''QMUXResult'';
        QMUXError \<leftarrow> get16 r MUXHdr QCQMUX_MSG_HDR_RESP ''QMUXError'';
        Some (if QMUXResult \<noteq> 0 \<or> QMUXError \<noteq> 0 then Inl (uint QMUXError) else Inr r) })"

definition on_tlv :: "byte list \<Rightarrow> nat \<Rightarrow> 'a \<Rightarrow> (nat \<Rightarrow> 'a option) \<Rightarrow> 'a option" where
  \<comment> \<open>\<open>p = GetTLV(&pResponse->MUXMsg.QMUXMsgHdr, ty); if (p) ...\<close>\<close>
  "on_tlv r ty dflt f = do {
     p \<leftarrow> GetTLV r MUXHdr ty;
     case p of None \<Rightarrow> Some dflt | Some p \<Rightarrow> f p }"

section \<open>SIM and PIN\<close>

abbreviation (input) "QMI_PIN_STATUS_NOT_INIT \<equiv> (0 :: byte)"
abbreviation (input) "QMI_PIN_STATUS_NOT_VERIF \<equiv> (1 :: byte)"
abbreviation (input) "QMI_PIN_STATUS_VERIFIED \<equiv> (2 :: byte)"
abbreviation (input) "QMI_PIN_STATUS_DISABLED \<equiv> (3 :: byte)"
abbreviation (input) "QMI_PIN_STATUS_BLOCKED \<equiv> (4 :: byte)"
abbreviation (input) "QMI_PIN_STATUS_PERM_BLOCKED \<equiv> (5 :: byte)"

definition uses_uim :: "qmi \<Rightarrow> bool option" where
  \<comment> \<open>\<open>s_9x07 && qmiclientId[QMUX_TYPE_UIM]\<close>\<close>
  "uses_uim s = do { c \<leftarrow> client s QMUX_TYPE_UIM; Some (s_9x07 s \<noteq> 0 \<and> c \<noteq> 0) }"

definition requestGetPINStatus :: "modem \<Rightarrow> SIM_Status \<Rightarrow> qmi \<Rightarrow> (int \<times> SIM_Status \<times> qmi) option" where
  "requestGetPINStatus env sim s = do {
     uim \<leftarrow> uses_uim s;
     (err, p, s) \<leftarrow> (if uim then send_qmux env QMUX_TYPE_UIM 0x002F None PDead s
                     else send_qmux env QMUX_TYPE_DMS 0x002B None PDead s);
     c \<leftarrow> qmi_rsp_check_and_return err p;
     case c of Inl e \<Rightarrow> Some (e, sim, s)
     | Inr r \<Rightarrow> do {
         sim \<leftarrow> on_tlv r 0x11 sim (\<lambda>p. do {
           st \<leftarrow> get8 r p QMIDMS_UIM_PIN_STATUS ''PINStatus'';
           Some (if st = QMI_PIN_STATUS_NOT_VERIF then SIM_PIN
                 else if st = QMI_PIN_STATUS_BLOCKED then SIM_PUK
                 else if st = QMI_PIN_STATUS_PERM_BLOCKED then SIM_BAD else sim) });
         Some (0, sim, s) } }"

text \<open>The table that the debug output at the end of \<open>requestGetSIMStatus\<close> indexes.\<close>

definition SIM_Status_String :: "string list" where
  "SIM_Status_String = [''SIM_ABSENT'', ''SIM_NOT_READY'', ''SIM_READY'', ''SIM_PIN'', ''SIM_PUK'',
     ''SIM_NETWORK_PERSONALIZATION'']"

definition SIM_string :: "SIM_Status \<Rightarrow> string option" where
  "SIM_string st = (if SIM_code st < length SIM_Status_String
     then Some (SIM_Status_String ! SIM_code st) else None)"

definition card_PIN_state :: "byte list \<Rightarrow> (byte \<times> byte) option" where
  \<comment> \<open>\<open>CardState\<close> and \<open>PIN1State\<close> from TLV 0x10\<close>
  "card_PIN_state r = on_tlv r 0x10 (0x01, QMI_PIN_STATUS_NOT_VERIF) (\<lambda>pCardStatus. do {
     AIDLength \<leftarrow> get8 r pCardStatus QMIUIM_CARD_STATUS ''AIDLength'';
     let pPINState = pCardStatus + sizeof QMIUIM_CARD_STATUS + unat AIDLength;
     CardState \<leftarrow> get8 r pCardStatus QMIUIM_CARD_STATUS ''CardState'';
     UnivPIN \<leftarrow> get8 r pPINState QMIUIM_PIN_STATE ''UnivPIN'';
     PIN1State \<leftarrow> (if UnivPIN = 1 then get8 r pCardStatus QMIUIM_CARD_STATUS ''UPINState''
                  else get8 r pPINState QMIUIM_PIN_STATE ''PIN1State'');
     Some (CardState, PIN1State) })"

definition card_SIM :: "byte \<Rightarrow> byte \<Rightarrow> SIM_Status" where
  "card_SIM CardState PIN1State = (
     let sim = SIM_ABSENT in
     if CardState = 0x01 \<and> (PIN1State = QMI_PIN_STATUS_VERIFIED \<or> PIN1State = QMI_PIN_STATUS_DISABLED)
     then SIM_READY
     else if CardState = 0x01 then (
       let sim = (if PIN1State = QMI_PIN_STATUS_NOT_VERIF then SIM_PIN else sim) in
       if PIN1State = QMI_PIN_STATUS_BLOCKED then SIM_PUK
       else if PIN1State = QMI_PIN_STATUS_PERM_BLOCKED then SIM_BAD
       else if PIN1State = QMI_PIN_STATUS_NOT_INIT \<or> PIN1State = QMI_PIN_STATUS_VERIFIED
            \<or> PIN1State = QMI_PIN_STATUS_DISABLED then SIM_READY
       else sim)
     else sim)"

definition requestGetSIMStatus ::
    "modem \<Rightarrow> SIM_Status option \<Rightarrow> qmi \<Rightarrow> (int \<times> SIM_Status option \<times> qmi) option" where
  "requestGetSIMStatus env sim s = do {
     uim \<leftarrow> uses_uim s;
     (err, p, s) \<leftarrow> (if uim then send_qmux env QMUX_TYPE_UIM 0x002F None PDead s
                     else send_qmux env QMUX_TYPE_DMS 0x0044 None PDead s);
     c \<leftarrow> qmi_rsp_check_and_return err p;
     case c of Inl e \<Rightarrow> Some (e, sim, s)
     | Inr r \<Rightarrow> do {
         uim \<leftarrow> uses_uim s;
         (sim, s) \<leftarrow> (if uim then do {
             (CardState, PIN1State) \<leftarrow> card_PIN_state r;
             Some (card_SIM CardState PIN1State, s) }
           else do {
             UIMState \<leftarrow> get8 r MUXHdr QMIDMS_UIM_GET_STATE_RESP_MSG ''UIMState'';
             if UIMState = 0x00 then Some (SIM_READY, s)
             else if UIMState = 0x01 then do {
               (_, sim, s) \<leftarrow> requestGetPINStatus env SIM_ABSENT s;
               Some (sim, s) }
             else Some (SIM_ABSENT, s) });
         _ \<leftarrow> SIM_string sim;
         Some (0, Some sim, s) } }"

definition requestEnterSimPin :: "modem \<Rightarrow> string \<Rightarrow> qmi \<Rightarrow> (int \<times> qmi) option" where
  "requestEnterSimPin env pPinCode s = do {
     uim \<leftarrow> uses_uim s;
     (err, p, s) \<leftarrow>
       (if uim then send_qmux env QMUX_TYPE_UIM 0x0026 (Some (UimVerifyPinReqSend pPinCode)) PDead s
        else send_qmux env QMUX_TYPE_DMS 0x0028 (Some (DmsUIMVerifyPinReqSend pPinCode)) PDead s);
     c \<leftarrow> qmi_rsp_check_and_return err p;
     Some (case c of Inl e \<Rightarrow> e | Inr r \<Rightarrow> 0, s) }"

section \<open>The data call\<close>

definition wds_type :: "int \<Rightarrow> byte" where
  \<comment> \<open>\<open>(curIpFamily == IpFamilyV4) ? QMUX_TYPE_WDS : QMUX_TYPE_WDS_IPV6\<close>\<close>
  "wds_type fam = (if fam = IpFamilyV4 then QMUX_TYPE_WDS else QMUX_TYPE_WDS_IPV6)"

definition set_handle :: "int \<Rightarrow> u32 \<Rightarrow> qmi \<Rightarrow> qmi" where
  "set_handle fam h s =
     (if fam = IpFamilyV4 then s\<lparr>WdsConnectionIPv4Handle := h\<rparr> else s\<lparr>WdsConnectionIPv6Handle := h\<rparr>)"

definition requestQueryDataCall :: "modem \<Rightarrow> byte \<Rightarrow> int \<Rightarrow> qmi \<Rightarrow> (int \<times> byte \<times> qmi) option" where
  "requestQueryDataCall env status fam s = do {
     (err, p, s) \<leftarrow> send_qmux env (wds_type fam) 0x0022 None PDead s;
     c \<leftarrow> qmi_rsp_check_and_return err p;
     case c of Inl e \<Rightarrow> Some (e, status, s)
     | Inr r \<Rightarrow> do {
         status \<leftarrow> on_tlv r 0x01 QWDS_PKT_DATA_DISCONNECTED (\<lambda>p. do {
           ConnectionStatus \<leftarrow> get8 r p QMIWDS_PKT_SRVC_TLV ''ConnectionStatus'';
           TLVLength \<leftarrow> get16 r p QMIWDS_PKT_SRVC_TLV ''TLVLength'';
           reconfig \<leftarrow> (if TLVLength = 2 then do {
                ReconfigReqd \<leftarrow> get8 r p QMIWDS_PKT_SRVC_TLV ''ReconfigReqd'';
                Some (ReconfigReqd = 0x01) } else Some False);
           Some (if reconfig then QWDS_PKT_DATA_DISCONNECTED else ConnectionStatus) });
         Some (0, status, if status = QWDS_PKT_DATA_DISCONNECTED then set_handle fam 0 s else s) } }"

definition requestSetupDataCall :: "modem \<Rightarrow> PROFILE_T \<Rightarrow> int \<Rightarrow> qmi \<Rightarrow> (int \<times> PROFILE_T \<times> qmi) option" where
  "requestSetupDataCall env profile fam s = do {
     let profile = profile\<lparr>curIpFamily := fam\<rparr>;
     (err, p, s) \<leftarrow> send_qmux env (wds_type fam) 0x0020 (Some (WdsStartNwInterfaceReq s profile)) PDead s;
     if err < 0 \<or> p = PNull then Some (err, profile, s)
     else do {
       r \<leftarrow> deref p;
       QMUXResult \<leftarrow> get16 r MUXHdr QCQMUX_MSG_HDR_RESP ''QMUXResult'';
       QMUXError \<leftarrow> get16 r MUXHdr QCQMUX_MSG_HDR_RESP ''QMUXError'';
       if QMUXResult \<noteq> 0 \<or> QMUXError \<noteq> 0 then do {
         _ \<leftarrow> on_tlv r 0x10 () (\<lambda>p. do { _ \<leftarrow> rd16 r (p + sizeof QMI_TLV_HDR); Some () });
         _ \<leftarrow> on_tlv r 0x11 () (\<lambda>p. do { _ \<leftarrow> rd16 r (p + sizeof QMI_TLV_HDR);
                                       _ \<leftarrow> rd16 r (p + sizeof QMI_TLV_HDR + 2); Some () });
         p \<leftarrow> cfree p;
         r \<leftarrow> deref p; \<comment> \<open>\<open>pMUXMsg\<close> points into the block that was freed\<close>
         QMUXError \<leftarrow> get16 r MUXHdr QCQMUX_MSG_HDR_RESP ''QMUXError'';
         Some (uint QMUXError, profile, s) }
       else do {
         Handle \<leftarrow> get32 r MUXHdr QMIWDS_START_NETWORK_INTERFACE_RESP_MSG ''Handle'';
         Some (0, profile, set_handle fam Handle s) } } }"

definition requestDeactivateDefaultPDP :: "modem \<Rightarrow> int \<Rightarrow> qmi \<Rightarrow> (int \<times> qmi) option" where
  "requestDeactivateDefaultPDP env fam s =
     (if fam = IpFamilyV4 \<and> WdsConnectionIPv4Handle s = 0 then Some (0, s)
      else if fam = IpFamilyV6 \<and> WdsConnectionIPv6Handle s = 0 then Some (0, s)
      else do {
        (err, p, s) \<leftarrow> send_qmux env (wds_type fam) 0x0021 (Some (WdsStopNwInterfaceReq s fam)) PDead s;
        c \<leftarrow> qmi_rsp_check_and_return err p;
        Some (case c of Inl e \<Rightarrow> (e, s) | Inr r \<Rightarrow> (0, set_handle fam 0 s)) })"

section \<open>The IP address\<close>

definition ipv4_tlv :: "byte list \<Rightarrow> nat \<Rightarrow> u32 \<Rightarrow> u32 option" where
  \<comment> \<open>\<open>pIpv4Addr = GetTLV(..., ty); if (pIpv4Addr) field = pIpv4Addr->IPV4Address;\<close>\<close>
  "ipv4_tlv r ty old = on_tlv r ty old
     (\<lambda>p. get32 r p QMIWDS_GET_RUNTIME_SETTINGS_TLV_IPV4_ADDR ''IPV4Address'')"

definition ipv6_tlv :: "byte list \<Rightarrow> nat \<Rightarrow> byte list \<Rightarrow> byte list option" where
  \<comment> \<open>\<open>pIpv6Addr = GetTLV(..., ty); if (pIpv6Addr) memcpy(field, pIpv6Addr->IPV6Address, 16);\<close>\<close>
  "ipv6_tlv r ty old = on_tlv r ty old
     (\<lambda>p. rdn r (p + off QMIWDS_GET_RUNTIME_SETTINGS_TLV_IPV6_ADDR ''IPV6Address'') 16)"

definition ipv6_prefix :: "byte list \<Rightarrow> nat \<Rightarrow> byte \<Rightarrow> byte option" where
  "ipv6_prefix r ty old = on_tlv r ty old
     (\<lambda>p. get8 r p QMIWDS_GET_RUNTIME_SETTINGS_TLV_IPV6_ADDR ''PrefixLength'')"

definition read_runtime_settings :: "int \<Rightarrow> byte list \<Rightarrow> PROFILE_T \<Rightarrow> PROFILE_T option" where
  "read_runtime_settings fam r profile = do {
     let v4 = ipv4 profile; let v6 = ipv6 profile;
     a \<leftarrow> ipv4_tlv r 0x15 (v4DnsPrimary v4);    let v4 = v4\<lparr>v4DnsPrimary := a\<rparr>;
     a \<leftarrow> ipv4_tlv r 0x16 (v4DnsSecondary v4);  let v4 = v4\<lparr>v4DnsSecondary := a\<rparr>;
     a \<leftarrow> ipv4_tlv r 0x20 (v4Gateway v4);       let v4 = v4\<lparr>v4Gateway := a\<rparr>;
     a \<leftarrow> ipv4_tlv r 0x21 (v4SubnetMask v4);    let v4 = v4\<lparr>v4SubnetMask := a\<rparr>;
     a \<leftarrow> ipv4_tlv r 0x1E (v4Address v4);       let v4 = v4\<lparr>v4Address := a\<rparr>;
     a \<leftarrow> ipv6_tlv r 0x27 (v6DnsPrimary v6);    let v6 = v6\<lparr>v6DnsPrimary := a\<rparr>;
     a \<leftarrow> ipv6_tlv r 0x28 (v6DnsSecondary v6);  let v6 = v6\<lparr>v6DnsSecondary := a\<rparr>;
     a \<leftarrow> ipv6_tlv r 0x26 (v6Gateway v6);       let v6 = v6\<lparr>v6Gateway := a\<rparr>;
     l \<leftarrow> ipv6_prefix r 0x26 (PrefixLengthGateway v6); let v6 = v6\<lparr>PrefixLengthGateway := l\<rparr>;
     a \<leftarrow> ipv6_tlv r 0x25 (v6Address v6);       let v6 = v6\<lparr>v6Address := a\<rparr>;
     l \<leftarrow> ipv6_prefix r 0x25 (PrefixLengthIPAddr v6);  let v6 = v6\<lparr>PrefixLengthIPAddr := l\<rparr>;
     mtu \<leftarrow> on_tlv r 0x29 (if fam = IpFamilyV4 then v4Mtu v4 else v6Mtu v6)
              (\<lambda>p. get32 r p QMIWDS_GET_RUNTIME_SETTINGS_TLV_MTU ''Mtu'');
     Some (if fam = IpFamilyV4 then profile\<lparr>ipv4 := v4\<lparr>v4Mtu := mtu\<rparr>, ipv6 := v6\<rparr>
           else profile\<lparr>ipv4 := v4, ipv6 := v6\<lparr>v6Mtu := mtu\<rparr>\<rparr>) }"

definition requestGetIPAddress :: "modem \<Rightarrow> PROFILE_T \<Rightarrow> int \<Rightarrow> qmi \<Rightarrow> (int \<times> PROFILE_T \<times> qmi) option" where
  "requestGetIPAddress env profile fam s = do {
     let profile = (if fam = IpFamilyV4 then profile\<lparr>ipv4 := zero_ipv4\<rparr>
                    else if fam = IpFamilyV6 then profile\<lparr>ipv6 := zero_ipv6\<rparr> else profile);
     if fam = IpFamilyV4 \<and> WdsConnectionIPv4Handle s = 0 then Some (0, profile, s)
     else if fam = IpFamilyV6 \<and> WdsConnectionIPv6Handle s = 0 then Some (0, profile, s)
     else do {
       (err, p, s) \<leftarrow> send_qmux env (wds_type fam) 0x002D (Some WdsGetRuntimeSettingReq) PDead s;
       c \<leftarrow> qmi_rsp_check_and_return err p;
       case c of Inl e \<Rightarrow> Some (e, profile, s)
       | Inr r \<Rightarrow> do { profile \<leftarrow> read_runtime_settings fam r profile; Some (0, profile, s) } } }"

section \<open>Profiles and the firmware version\<close>

definition requestSetProfile :: "modem \<Rightarrow> PROFILE_T \<Rightarrow> qmi \<Rightarrow> (int \<times> qmi) option" where
  "requestSetProfile env profile s =
     (if pdp profile = 0 then Some (0, s)
      else do {
        (err, p, s) \<leftarrow> send_qmux env QMUX_TYPE_WDS 0x0028 (Some (WdsModifyProfileSettingsReq profile)) PDead s;
        c \<leftarrow> qmi_rsp_check_and_return err p;
        Some (case c of Inl e \<Rightarrow> e | Inr r \<Rightarrow> 0, s) })"

text \<open>\<open>strndup(p, n)\<close> reads up to a zero or \<open>n\<close> bytes.\<close>

fun strndup_loop :: "byte list \<Rightarrow> nat \<Rightarrow> nat \<Rightarrow> string option" where
  "strndup_loop r p 0 = Some []"
| "strndup_loop r p (Suc n) = do {
     c \<leftarrow> rd8 r p;
     if c = 0 then Some [] else do { rest \<leftarrow> strndup_loop r (p + 1) n; Some (char_of (unat c) # rest) } }"

definition strndup_tlv :: "byte list \<Rightarrow> nat \<Rightarrow> layout \<Rightarrow> string \<Rightarrow> string option option" where
  \<comment> \<open>\<open>if (p = GetTLV(..., ty)) v = strndup(&p->field, le16_to_cpu(p->TLVLength));\<close>\<close>
  "strndup_tlv r ty L f = on_tlv r ty None (\<lambda>p. do {
     n \<leftarrow> get16 r p L ''TLVLength'';
     str \<leftarrow> strndup_loop r (p + off L f) (unat n);
     Some (Some str) })"

text \<open>The profile that the modem reports goes to the debug output only; it is the second result.\<close>

definition requestGetProfile :: "modem \<Rightarrow> PROFILE_T \<Rightarrow> qmi \<Rightarrow>
    (int \<times> (string option \<times> string option \<times> string option \<times> int) option \<times> qmi) option" where
  "requestGetProfile env profile s =
     (if pdp profile = 0 then Some (0, None, s)
      else do {
        (err, p, s) \<leftarrow> send_qmux env QMUX_TYPE_WDS 0x002B (Some (WdsGetProfileSettingsReqSend profile)) PDead s;
        c \<leftarrow> qmi_rsp_check_and_return err p;
        case c of Inl e \<Rightarrow> Some (e, None, s)
        | Inr r \<Rightarrow> do {
            apn \<leftarrow> strndup_tlv r 0x14 QMIWDS_APNNAME ''ApnName'';
            user \<leftarrow> strndup_tlv r 0x1B QMIWDS_USERNAME ''UserName'';
            password \<leftarrow> strndup_tlv r 0x1C QMIWDS_PASSWD ''Passwd'';
            auth \<leftarrow> on_tlv r 0x1D 0 (\<lambda>p. do {
              a \<leftarrow> get8 r p QMIWDS_AUTH_PREFERENCE ''AuthPreference''; Some (uint a) });
            Some (0, Some (apn, user, password, auth), s) } })"

text \<open>\<open>DeviceRevisionID[i]\<close> of a string with its terminating zero.\<close>

definition str_at :: "string \<Rightarrow> nat \<Rightarrow> char option" where
  "str_at str i = (if i < length str then Some (str ! i) else if i = length str then Some (CHR 0x00) else None)"

definition requestBaseBandVersion :: "modem \<Rightarrow> qmi \<Rightarrow> (int \<times> string option \<times> qmi) option" where
  "requestBaseBandVersion env s = do {
     (err, p, s) \<leftarrow> send_qmux env QMUX_TYPE_DMS 0x0023 None PDead s;
     c \<leftarrow> qmi_rsp_check_and_return err p;
     case c of Inl e \<Rightarrow> Some (e, None, s)
     | Inr r \<Rightarrow> on_tlv r 0x01 (0, None, s) (\<lambda>revId. do {
         n \<leftarrow> get16 r revId DEVICE_REV_ID ''TLVLength'';
         if n = 0 then Some (0, None, s)
         else do {
           DeviceRevisionID \<leftarrow> strndup_loop r (revId + off DEVICE_REV_ID ''RevisionID'') (unat n);
           s \<leftarrow> (if s_9x07 s \<noteq> -1 then Some s
                else if \<not> has_prefix ''EC20'' DeviceRevisionID then Some (s\<lparr>s_9x07 := 1\<rparr>)
                else do {
                  c5 \<leftarrow> str_at DeviceRevisionID 5;
                  if c5 = CHR ''F'' then Some (s\<lparr>s_9x07 := 1\<rparr>)
                  else do {
                    c6 \<leftarrow> str_at DeviceRevisionID 6;
                    Some (s\<lparr>s_9x07 := if c6 = CHR ''F'' then 1 else 0\<rparr>) } });
           Some (0, Some DeviceRevisionID, s) } }) }"

section \<open>The data format\<close>

definition eth_settings :: "string \<Rightarrow> PROFILE_T \<Rightarrow> QMAP_SETTING" where
  "eth_settings ch profile = \<lparr>rx_urb_size = 32 * 1024,
     ep_type = (if qmidev_is_pciemhi ch then DATA_EP_TYPE_PCIE else DATA_EP_TYPE_HSUSB),
     iface_id = 0x04, MuxId = word_of_int (muxid profile)\<rparr>"

definition no_settings :: QMAP_SETTING where
  "no_settings = \<lparr>rx_urb_size = 0, ep_type = DATA_EP_TYPE_RESERVED, iface_id = 0, MuxId = 0\<rparr>"

text \<open>\<open>Inl e\<close>: the function returns \<open>e\<close>; \<open>Inr p\<close>: it goes on, and \<open>pResponse\<close> holds \<open>p\<close>.\<close>

type_synonym flow = "((int + cptr) \<times> PROFILE_T \<times> QMAP_SETTING \<times> qmi) option"

definition SetEthMode_format :: "modem \<Rightarrow> PROFILE_T \<Rightarrow> QMAP_SETTING \<Rightarrow> cptr \<Rightarrow> qmi \<Rightarrow> flow" where
  "SetEthMode_format env profile qs p s = do {
     (err, p, s) \<leftarrow> send_qmux env QMUX_TYPE_WDS_ADMIN 0x0020 (Some (WdaSetDataFormat qs)) p s;
     c \<leftarrow> qmi_rsp_check_and_return err p;
     case c of Inl e \<Rightarrow> Some (Inl e, profile, qs, s)
     | Inr r \<Rightarrow> do {
         (profile, s) \<leftarrow> on_tlv r 0x11 (profile, s) (\<lambda>q. do {
           v \<leftarrow> get32 r q QMIWDS_ADMIN_SET_DATA_FORMAT_TLV ''Value'';
           let raw = (if v = 2 then 1 else 0);
           Some (profile\<lparr>rawIP := raw\<rparr>, s\<lparr>s_9x07 := raw\<rparr>) });
         qs \<leftarrow> on_tlv r 0x16 qs (\<lambda>q.
           if qmap_mode profile \<noteq> 0 then do {
             v \<leftarrow> get32 r q QMIWDS_ADMIN_SET_DATA_FORMAT_TLV ''Value'';
             Some (qs\<lparr>rx_urb_size := v\<rparr>) } else Some qs);
         p \<leftarrow> cfree p;
         Some (Inr p, profile, qs, s) } }"

definition bind_mux_port :: "modem \<Rightarrow> byte \<Rightarrow> PROFILE_T \<Rightarrow> QMAP_SETTING \<Rightarrow> cptr \<Rightarrow> qmi \<Rightarrow> ((int + cptr) \<times> qmi) option" where
  "bind_mux_port env QMIType profile qs p s =
     (if qmapnet_adapter profile = None then Some (Inr p, s)
      else do {
        (err, p, s) \<leftarrow> send_qmux env QMIType 0x00A2 (Some (WdsSetQMUXBindMuxDataPort qs)) p s;
        c \<leftarrow> qmi_rsp_check_and_return err p;
        case c of Inl e \<Rightarrow> Some (Inl e, s)
        | Inr r \<Rightarrow> do { p \<leftarrow> if_free p; Some (Inr p, s) } })"

definition SetEthMode_ipv4 :: "modem \<Rightarrow> PROFILE_T \<Rightarrow> QMAP_SETTING \<Rightarrow> cptr \<Rightarrow> qmi \<Rightarrow> ((int + cptr) \<times> qmi) option" where
  "SetEthMode_ipv4 env profile qs p s =
     (if enable_ipv4 profile = 0 then Some (Inr p, s)
      else do {
        (c, s) \<leftarrow> bind_mux_port env QMUX_TYPE_WDS profile qs p s;
        case c of Inl e \<Rightarrow> Some (Inl e, s)
        | Inr p \<Rightarrow> do {
            (_, p, s) \<leftarrow> send_qmux env QMUX_TYPE_WDS 0x004D
                          (Some (WdsSetClientIPFamilyPref (word_of_int IpFamilyV4))) p s;
            p \<leftarrow> if_free p;
            Some (Inr p, s) } })"

definition SetEthMode_ipv6 :: "modem \<Rightarrow> PROFILE_T \<Rightarrow> QMAP_SETTING \<Rightarrow> cptr \<Rightarrow> qmi \<Rightarrow> ((int + cptr) \<times> qmi) option" where
  "SetEthMode_ipv6 env profile qs p s =
     (if enable_ipv6 profile = 0 then Some (Inr p, s)
      else do {
        (c, s) \<leftarrow> bind_mux_port env QMUX_TYPE_WDS_IPV6 profile qs p s;
        case c of Inl e \<Rightarrow> Some (Inl e, s)
        | Inr p \<Rightarrow> do {
            (err, p, s) \<leftarrow> send_qmux env QMUX_TYPE_WDS_IPV6 0x004D
                          (Some (WdsSetClientIPFamilyPref (word_of_int IpFamilyV6))) p s;
            c \<leftarrow> qmi_rsp_check_and_return err p;
            case c of Inl e \<Rightarrow> Some (Inl e, s)
            | Inr r \<Rightarrow> do { p \<leftarrow> if_free p; Some (Inr p, s) } } })"

definition requestSetEthMode :: "modem \<Rightarrow> PROFILE_T \<Rightarrow> qmi \<Rightarrow> (int \<times> PROFILE_T \<times> qmi) option" where
  "requestSetEthMode env profile s = do {
     (c, profile, qs, s) \<leftarrow>
       (if qmap_mode profile \<noteq> 0 then do {
          ch \<leftarrow> qmichannel profile;
          let profile = profile\<lparr>rawIP := 1\<rparr>; let s = s\<lparr>s_9x07 := 1\<rparr>;
          let qs = eth_settings ch profile;
          if qmidev_is_gobinet ch \<or> 1 < qmap_mode profile then Some (Inr PNull, profile, qs, s)
          else SetEthMode_format env profile qs PNull s }
        else SetEthMode_format env profile no_settings PNull s);
     case c of Inl e \<Rightarrow> Some (e, profile, s)
     | Inr p \<Rightarrow> do {
         (c, s) \<leftarrow> SetEthMode_ipv4 env profile qs p s;
         case c of Inl e \<Rightarrow> Some (e, profile, s)
         | Inr p \<Rightarrow> do {
             (c, s) \<leftarrow> SetEthMode_ipv6 env profile qs p s;
             case c of Inl e \<Rightarrow> Some (e, profile, s)
             | Inr p \<Rightarrow> do {
                 (_, p, s) \<leftarrow> send_qmux env QMUX_TYPE_WDS 0x0051 (Some (WdsSetAutoConnect 0)) p s;
                 p \<leftarrow> if_free p;
                 Some (0, profile, s) } } } }"

end
