(* ===== verification/Replies.thy ===== *)
theory Replies
  imports Requests
begin

text \<open>
  What the requests of \<open>Requests\<close> do with the responses of the modem. A response is
  described as the modem builds it, a result TLV and a list of TLVs, and the request's
  outcome as a function of that list: the walk of \<open>GetTLV\<close> over raw bytes is refined to a
  lookup in an association list.
\<close>

section \<open>Responses\<close>

definition qmux_response :: "byte \<Rightarrow> byte \<Rightarrow> u16 \<Rightarrow> u16 \<Rightarrow> u16 \<Rightarrow> u16 \<Rightarrow> tlv list \<Rightarrow> byte list" where
  "qmux_response QMIType ClientId tid Type res err tlvs =
     0x01 # le16 (of_nat (19 + length (encode_tlvs tlvs))) @ [0x80, QMIType, ClientId]
     @ (0x02 # le16 tid) @ mux_body Type ((0x02, le16 res @ le16 err) # tlvs)"

lemma length_qmux_response [simp]:
  "length (qmux_response q c t ty res err tlvs) = 20 + length (encode_tlvs tlvs)"
  by (simp add: qmux_response_def)

lemma rsp_check_response:
  assumes "0 \<le> ret"
  shows "qmi_rsp_check_and_return ret (PLive (qmux_response q c t ty res err tlvs))
    = Some (if res \<noteq> 0 \<or> err \<noteq> 0 then Inl (uint err) else Inr (qmux_response q c t ty res err tlvs))"
  using assms
  by (simp add: qmi_rsp_check_and_return_def qmux_response_def mux_body_def encode_tlv_def le16_def
      get16_def rd16_def)

lemma rsp_check_null [simp]: "qmi_rsp_check_and_return ret PNull = Some (Inl ret)"
  by (simp add: qmi_rsp_check_and_return_def)

lemma rsp_check_neg [simp]: "ret < 0 \<Longrightarrow> qmi_rsp_check_and_return ret p = Some (Inl ret)"
  by (simp add: qmi_rsp_check_and_return_def)

lemma drop_response: "drop 20 (qmux_response q c t ty res err tlvs) = encode_tlvs tlvs"
  by (simp add: qmux_response_def mux_body_def encode_tlv_def le16_def)

lemma map_of_tlv_pos:
  "map_of tlvs ty = Some v \<Longrightarrow> \<exists>us ws. tlvs = us @ (ty, v) # ws \<and> ty \<notin> fst ` set us"
proof (induction tlvs)
  case (Cons x xs)
  show ?case
  proof (cases "fst x = ty")
    case True
    with Cons.prems show ?thesis by (intro exI [of _ "[]"] exI [of _ xs]) (cases x, simp)
  next
    case False
    with Cons.prems obtain us ws where "xs = us @ (ty, v) # ws" "ty \<notin> fst ` set us"
      using Cons.IH by (cases x) auto
    with False show ?thesis by (intro exI [of _ "x # us"] exI [of _ ws]) auto
  qed
qed simp

lemma map_of_None_pos: "map_of tlvs ty = None \<Longrightarrow> tlv_pos (unat ty) tlvs = None"
  by (induction tlvs) (auto simp: word_unat_eq_iff split: if_splits)

text \<open>The TLV at an offset of a response has the value \<open>v\<close>.\<close>

definition tlv_at :: "byte list \<Rightarrow> nat \<Rightarrow> byte list \<Rightarrow> bool" where
  "tlv_at r p v \<longleftrightarrow> rd16 r (p + 1) = Some (of_nat (length v))
     \<and> (\<exists>pre post. r = pre @ v @ post \<and> length pre = p + 3)"

lemma tlv_at_rd8: "tlv_at r p v \<Longrightarrow> i < length v \<Longrightarrow> rd8 r (p + 3 + i) = Some (v ! i)"
  by (auto simp: tlv_at_def rd8_append nth_append)

lemma GetTLV_response:
  assumes "length (encode_tlvs tlvs) < 65529" "ty \<noteq> 0x02"
  shows "map_of tlvs ty = None \<Longrightarrow>
      GetTLV (qmux_response q c t mt res err tlvs) MUXHdr (unat ty) = Some None"
    and "map_of tlvs ty = Some v \<Longrightarrow>
      \<exists>p. GetTLV (qmux_response q c t mt res err tlvs) MUXHdr (unat ty) = Some (Some p)
        \<and> tlv_at (qmux_response q c t mt res err tlvs) p v"
proof -
  let ?xs = "(0x02, le16 res @ le16 err) # tlvs" and ?r = "qmux_response q c t mt res err tlvs"
  let ?h = "0x01 # le16 (of_nat (19 + length (encode_tlvs tlvs))) @ [0x80, q, c] @ (0x02 # le16 t)"
  have r: "?h @ mux_body mt ?xs @ [] = ?r" "length ?h = MUXHdr"
    by (simp_all add: qmux_response_def le16_def)
  have len: "length (encode_tlvs ?xs) < 65536" using assms(1) by simp
  have ty: "unat ty \<le> 0x1000" using unsigned_less [of ty, where ?'a = nat] by simp
  have walk: "GetTLV ?r MUXHdr (unat ty) = Some (map_option (\<lambda>k. 13 + k) (tlv_pos (unat ty) ?xs))"
    using GetTLV_finds [OF len ty, of ?h mt "[]"] unfolding r by simp
  have skip: "unat ty \<noteq> 2" using assms(2) by (auto simp: word_unat_eq_iff)
  show "GetTLV ?r MUXHdr (unat ty) = Some None" if "map_of tlvs ty = None"
    using walk map_of_None_pos [OF that] skip by simp
  show "\<exists>p. GetTLV ?r MUXHdr (unat ty) = Some (Some p) \<and> tlv_at ?r p v" if v: "map_of tlvs ty = Some v"
  proof -
    obtain us ws where xs: "tlvs = us @ (ty, v) # ws" "ty \<notin> fst ` set us"
      using map_of_tlv_pos [OF v] by blast
    have "unat ty \<notin> unat ` fst ` set us" using xs(2) by (force simp flip: word_unat_eq_iff)
    then have pos: "tlv_pos (unat ty) ?xs = Some (7 + length (encode_tlvs us))"
      using skip by (simp add: xs(1) tlv_pos_append)
    let ?p = "20 + length (encode_tlvs us)"
    let ?pre = "take 20 ?r @ encode_tlvs us @ [ty]"
    have "?r = take 20 ?r @ encode_tlvs tlvs"
      using drop_response [of q c t mt res err tlvs] append_take_drop_id [of 20 ?r] by simp
    then have s: "?r = ?pre @ le16 (of_nat (length v)) @ v @ encode_tlvs ws"
      by (simp add: xs(1) encode_tlv_def)
    have lp: "length ?pre = ?p + 1" by simp
    have "rd16 ?r (?p + 1) = Some (of_nat (length v))"
      by (subst s, subst lp [symmetric]) (use rd16_append2 [of ?pre "le16 (of_nat (length v)) @ v @ encode_tlvs ws" 0] in simp)
    moreover have "?r = (?pre @ le16 (of_nat (length v))) @ v @ encode_tlvs ws"
      "length (?pre @ le16 (of_nat (length v))) = ?p + 3"
      using s by simp_all
    ultimately have "tlv_at ?r ?p v" unfolding tlv_at_def by blast
    with walk pos show ?thesis by simp
  qed
qed

text \<open>Following a TLV of a response: the statement's effect is a function of the value.\<close>

lemma on_tlv_response:
  assumes "length (encode_tlvs tlvs) < 65529" "ty \<noteq> 0x02" "nty = unat ty"
    and "\<And>p v. map_of tlvs ty = Some v \<Longrightarrow> tlv_at (qmux_response q c t mt res err tlvs) p v \<Longrightarrow> f p = Some (g v)"
  shows "on_tlv (qmux_response q c t mt res err tlvs) nty d f
    = Some (case map_of tlvs ty of None \<Rightarrow> d | Some v \<Rightarrow> g v)"
  using GetTLV_response [OF assms(1,2), where q = q and c = c and t = t and mt = mt and res = res and err = err]
    assms(3,4)
  by (cases "map_of tlvs ty") (auto simp: on_tlv_def)

lemma tlv_at_get8: "tlv_at r p v \<Longrightarrow> off L f = 3 + i \<Longrightarrow> i < length v \<Longrightarrow> get8 r p L f = Some (v ! i)"
  using tlv_at_rd8 [of r p v i] by (simp add: get8_def add.assoc)

lemma tlv_at_get16: "tlv_at r p v \<Longrightarrow> off L f = 1 \<Longrightarrow> get16 r p L f = Some (of_nat (length v))"
  by (simp add: get16_def tlv_at_def)

lemma tlv_at_get32:
  assumes "tlv_at r p (le32 w)" "off L f = 3" shows "get32 r p L f = Some w"
  using tlv_at_rd8 [OF assms(1), of 0] tlv_at_rd8 [OF assms(1), of 1] tlv_at_rd8 [OF assms(1), of 2]
    tlv_at_rd8 [OF assms(1), of 3] assms(2)
  by (simp add: get32_def rd32_def le32_def add.assoc)

lemma tlv_at_rdn: "tlv_at r p v \<Longrightarrow> n \<le> length v \<Longrightarrow> rdn r (p + 3) n = Some (take n v)"
  by (auto simp: tlv_at_def rdn_def)

section \<open>A request that is answered\<close>

lemma complete_response:
  "length (encode_tlvs tlvs) \<le> 4076 \<Longrightarrow> complete (qmux_response q c t mt res err tlvs)"
  by (simp add: complete_def) (simp add: qmux_response_def rd16_def le16_def)

lemma response_answers:
  assumes "q' = (if q = QMUX_TYPE_WDS_IPV6 then QMUX_TYPE_WDS else q)" "q \<noteq> QMUX_TYPE_CTL"
    and "dev s = QmiWwan" "cdc_wdm_fd s \<noteq> -1"
  shows "is_response (wire_request s (qmux_request q c t mt xs)) (qmux_response q' c t mt res err tlvs)
    = Some True"
  using assms by (auto simp: is_response_def wire_request_def qmux_request_def qmux_response_def le16_def
      field_defs rd16_def)

lemma wf_qmux_request:
  assumes "13 + length (encode_tlvs xs) \<le> 256" "unat q < 27"
  shows "wf_request (qmux_request q c t mt xs)"
  using assms by (simp add: wf_request_def) (simp add: qmux_request_def rd16_def le16_def)

text \<open>
  Over QMI_WWAN, a composed request that the modem answers at once gives the answer, and
  nothing of the client state but the log and the reader's part changes.
\<close>

lemma send_qmux_answered:
  assumes "wf_qmi s" "dev s = QmiWwan" "cdc_wdm_fd s \<noteq> -1"
    and "ComposeQMUXMsg q mt f s = Some (Some m, s1)" "s1 = snd (GetQMUXTransactionId s)"
    and "m = qmux_request q c t mt xs" "13 + length (encode_tlvs xs) \<le> 256"
    and "q \<noteq> QMUX_TYPE_CTL" "unat q < 27"
    and "r = qmux_response (if q = QMUX_TYPE_WDS_IPV6 then QMUX_TYPE_WDS else q) c t mt res err tlvs"
    and "length (encode_tlvs tlvs) \<le> 4076"
    and "env (m # sent s) = \<lparr>poll_ret = 1, poll_out = True, write_ret = int (length m),
       incoming = [Some (3, r)], spurious = False\<rparr>"
  shows "\<exists>s'. send_qmux env q mt f p s = Some (0, PLive r, s') \<and> wf_qmi s'
     \<and> frame s' = frame (s1\<lparr>sent := m # sent s\<rparr>)"
proof -
  have s1: "wf_qmi s1" "dev s1 = QmiWwan" "cdc_wdm_fd s1 \<noteq> -1" "sent s1 = sent s"
    using assms(1-3) by (simp_all add: assms(5) GetQMUXTransactionId_def Let_def wf_qmi_def)
  have wf: "wf_request m" unfolding assms(6) by (rule wf_qmux_request [OF assms(7,9)])
  have ans: "is_response (wire_request s1 m) r = Some True"
    unfolding assms(6,10) by (rule response_answers [OF refl assms(8) s1(2,3)])
  have comp: "complete r" unfolding assms(10) by (rule complete_response [OF assms(11)])
  obtain s' where s': "QmiThreadSendQMI env (Some m) True p s1 = Some (0, PLive r, s')"
    using first_answer [where env = env and s = s1 and m = m and fd = 3 and ds = "[]" and d = r
        and later = "[]" and ?p0.0 = p] s1 wf ans comp assms(12) by auto
  with send_outcome [OF s1(1) wf, of env True p] s1(2,4) assms(4) show ?thesis
    by (auto simp: send_qmux_def)
qed

text \<open>A modem that answers every request alike, and a state in which both connections are up.\<close>

definition answering :: "(byte list \<Rightarrow> byte list) \<Rightarrow> modem" where
  "answering f reqs = (case reqs of
     [] \<Rightarrow> \<lparr>poll_ret = 0, poll_out = False, write_ret = 0, incoming = [], spurious = False\<rparr>
   | m # _ \<Rightarrow> \<lparr>poll_ret = 1, poll_out = True, write_ret = int (length m),
       incoming = [Some (3, f m)], spurious = False\<rparr>)"

definition both_up :: qmi where
  "both_up = clients_ready\<lparr>WdsConnectionIPv4Handle := 0x11, WdsConnectionIPv6Handle := 0x22\<rparr>"

lemma both_up_simps [simp]:
  "wf_qmi both_up" "dev both_up = QmiWwan" "cdc_wdm_fd both_up = 3"
  "client both_up ty = (if unat ty < 27 then Some 7 else None)"
  "fst (GetQMUXTransactionId both_up) = 1" "s_9x07 both_up = -1" "s_is_cdma both_up = 0"
  "WdsConnectionIPv4Handle both_up = 0x11" "WdsConnectionIPv6Handle both_up = 0x22"
  by (auto simp: both_up_def clients_ready_def qmi_init_def wf_qmi_def GetQMUXTransactionId_def client_def)

lemma send_plain_both_up:
  assumes "q \<noteq> QMUX_TYPE_CTL" "unat q < 27" "length (encode_tlvs tlvs) \<le> 4076"
  shows "\<exists>s'. send_qmux (answering (\<lambda>m. qmux_response (if q = QMUX_TYPE_WDS_IPV6 then QMUX_TYPE_WDS else q)
      7 1 mt res err tlvs)) q mt None p both_up
    = Some (0, PLive (qmux_response (if q = QMUX_TYPE_WDS_IPV6 then QMUX_TYPE_WDS else q) 7 1 mt res err tlvs), s')
     \<and> wf_qmi s' \<and> frame s' = frame (snd (GetQMUXTransactionId both_up)\<lparr>sent := qmux_request q 7 1 mt [] # sent both_up\<rparr>)"
  by (rule send_qmux_answered [where c = 7 and t = 1 and xs = "[]"])
     (use assms compose_plain [of both_up q 7 mt] in \<open>simp_all add: answering_def\<close>)

lemma send_builder_both_up:
  assumes "tlv_builder f xs" "q \<noteq> QMUX_TYPE_CTL" "unat q < 27" "length (encode_tlvs tlvs) \<le> 4076"
  shows "\<exists>s'. send_qmux (answering (\<lambda>m. qmux_response (if q = QMUX_TYPE_WDS_IPV6 then QMUX_TYPE_WDS else q)
      7 1 mt res err tlvs)) q mt (Some f) p both_up
    = Some (0, PLive (qmux_response (if q = QMUX_TYPE_WDS_IPV6 then QMUX_TYPE_WDS else q) 7 1 mt res err tlvs), s')
     \<and> wf_qmi s' \<and> frame s' = frame (snd (GetQMUXTransactionId both_up)\<lparr>sent := qmux_request q 7 1 mt xs # sent both_up\<rparr>)"
  by (rule send_qmux_answered [where c = 7 and t = 1 and xs = xs])
     (use assms tlv_builder.compose [OF assms(1), of both_up q 7 mt] tlv_builder.fits [OF assms(1)]
      in \<open>simp_all add: answering_def WDM_DEFAULT_BUFSIZE_def\<close>)

section \<open>The status of the data call\<close>

text \<open>What a response says about the connection: the reconfiguration flag counts only in a two-byte value.\<close>

definition call_status :: "tlv list \<Rightarrow> byte" where
  "call_status tlvs = (case map_of tlvs 0x01 of
     None \<Rightarrow> QWDS_PKT_DATA_DISCONNECTED
   | Some v \<Rightarrow> if length v = 2 \<and> v ! 1 = 1 then QWDS_PKT_DATA_DISCONNECTED else v ! 0)"

text \<open>
  C4: Querying a data call. A response without error sets the caller's status to what the
  packet service TLV says (disconnected if it is missing or asks for reconfiguration) and
  clears the handle of the queried family exactly when the status is disconnected; a
  response with an error returns the modem's code and changes neither.
\<close>
theorem query_data_call:
  assumes "send_qmux env (wds_type fam) 0x0022 None PDead s
      = Some (ret, PLive (qmux_response q c t 0x0022 res err tlvs), s')" "0 \<le> ret"
    and "length (encode_tlvs tlvs) < 65529" "\<forall>v. map_of tlvs 0x01 = Some v \<longrightarrow> v \<noteq> []"
  shows "requestQueryDataCall env st fam s =
    (if res \<noteq> 0 \<or> err \<noteq> 0 then Some (uint err, st, s')
     else Some (0, call_status tlvs,
            if call_status tlvs = QWDS_PKT_DATA_DISCONNECTED then set_handle fam 0 s' else s'))"
proof (cases "res \<noteq> 0 \<or> err \<noteq> 0")
  case True
  then show ?thesis
    using assms(1) by (auto simp: requestQueryDataCall_def rsp_check_response [OF assms(2)])
next
  case False
  then have z: "res = 0" "err = 0" by simp_all
  let ?r = "qmux_response q c t 0x0022 0 0 tlvs"
  have "on_tlv ?r 0x01 QWDS_PKT_DATA_DISCONNECTED (\<lambda>p. do {
           ConnectionStatus \<leftarrow> get8 ?r p QMIWDS_PKT_SRVC_TLV ''ConnectionStatus'';
           TLVLength \<leftarrow> get16 ?r p QMIWDS_PKT_SRVC_TLV ''TLVLength'';
           reconfig \<leftarrow> (if TLVLength = 2 then do {
                ReconfigReqd \<leftarrow> get8 ?r p QMIWDS_PKT_SRVC_TLV ''ReconfigReqd'';
                Some (ReconfigReqd = 0x01) } else Some False);
           Some (if reconfig then QWDS_PKT_DATA_DISCONNECTED else ConnectionStatus) })
    = Some (call_status tlvs)"
    unfolding call_status_def
  proof (rule on_tlv_response [OF assms(3)])
    fix p v assume v: "map_of tlvs 0x01 = Some v" "tlv_at ?r p v"
    have len: "0 < length v" "length v < 65536"
      using assms(4) v(1) map_of_tlv_pos [OF v(1)] assms(3) by auto
    then have two: "(of_nat (length v) :: u16) = 2 \<longleftrightarrow> length v = 2"
      using unat_len16 [OF len(2)] by (auto simp: word_unat_eq_iff)
    have "get8 ?r p QMIWDS_PKT_SRVC_TLV ''ConnectionStatus'' = Some (v ! 0)"
      "get16 ?r p QMIWDS_PKT_SRVC_TLV ''TLVLength'' = Some (of_nat (length v))"
      using v(2) len by (auto intro: tlv_at_get8 tlv_at_get16)
    moreover have "get8 ?r p QMIWDS_PKT_SRVC_TLV ''ReconfigReqd'' = Some (v ! 1)" if "length v = 2"
      using v(2) that by (auto intro: tlv_at_get8)
    ultimately show "do {
           ConnectionStatus \<leftarrow> get8 ?r p QMIWDS_PKT_SRVC_TLV ''ConnectionStatus'';
           TLVLength \<leftarrow> get16 ?r p QMIWDS_PKT_SRVC_TLV ''TLVLength'';
           reconfig \<leftarrow> (if TLVLength = 2 then do {
                ReconfigReqd \<leftarrow> get8 ?r p QMIWDS_PKT_SRVC_TLV ''ReconfigReqd'';
                Some (ReconfigReqd = 0x01) } else Some False);
           Some (if reconfig then QWDS_PKT_DATA_DISCONNECTED else ConnectionStatus) }
      = Some (if length v = 2 \<and> v ! 1 = 1 then QWDS_PKT_DATA_DISCONNECTED else v ! 0)"
      by (auto simp: two)
  qed simp_all
  with assms(1) show ?thesis
    by (simp add: z requestQueryDataCall_def rsp_check_response [OF assms(2)])
qed

theorem query_data_call_witness:
  "\<exists>s'. requestQueryDataCall (answering (\<lambda>m. qmux_response 1 7 1 0x0022 0 0 [(0x01, [2, 1])])) 2 IpFamilyV4 both_up
     = Some (0, 1, set_handle IpFamilyV4 0 s')"
proof -
  have w: "wds_type 4 = 1" by (simp add: wds_type_def)
  obtain s' where s': "send_qmux (answering (\<lambda>m. qmux_response 1 7 1 0x0022 0 0 [(0x01, [2, 1])])) (wds_type 4) 0x0022 None PDead both_up
      = Some (0, PLive (qmux_response 1 7 1 0x0022 0 0 [(0x01, [2, 1])]), s')"
    using send_plain_both_up [of 1 "[(0x01, [2, 1])]" "0x0022" 0 0 PDead] by (auto simp: w)
  show ?thesis
    using query_data_call [OF s', of 2] by (intro exI [of _ s']) (simp add: call_status_def)
qed

section \<open>Starting and stopping the data call\<close>

text \<open>
  C31: A data call that the modem starts stores the handle of its response for the asked
  family. When the modem rejects the call, the function has no defined execution: it
  returns the error code through \<open>pMUXMsg\<close>, which points into the response it has freed.
\<close>
theorem setup_data_call:
  assumes "send_qmux env (wds_type fam) 0x0020
        (Some (WdsStartNwInterfaceReq s (profile\<lparr>curIpFamily := fam\<rparr>))) PDead s
      = Some (ret, PLive (qmux_response q c t 0x0020 res err tlvs), s')" "0 \<le> ret"
  shows "(res = 0 \<and> err = 0 \<and> tlvs = (0x01, le32 h) # later \<longrightarrow>
      requestSetupDataCall env profile fam s
        = Some (0, profile\<lparr>curIpFamily := fam\<rparr>, set_handle fam h s'))
    \<and> (res \<noteq> 0 \<or> err \<noteq> 0 \<longrightarrow> requestSetupDataCall env profile fam s = None)"
proof (intro conjI impI; (elim conjE)?)
  let ?r = "qmux_response q c t 0x0020 res err tlvs"
  have re: "get16 ?r MUXHdr QCQMUX_MSG_HDR_RESP ''QMUXResult'' = Some res"
    "get16 ?r MUXHdr QCQMUX_MSG_HDR_RESP ''QMUXError'' = Some err"
    by (simp_all add: qmux_response_def mux_body_def encode_tlv_def le16_def get16_def rd16_def)
  show "requestSetupDataCall env profile fam s = None" if "res \<noteq> 0 \<or> err \<noteq> 0"
    using that assms re
    by (cases "on_tlv ?r 0x10 () (\<lambda>p. do { _ \<leftarrow> rd16 ?r (p + 3); Some () })";
        cases "on_tlv ?r 0x11 () (\<lambda>p. do { _ \<leftarrow> rd16 ?r (p + 3); _ \<leftarrow> rd16 ?r (p + 3 + 2); Some () })")
       (auto simp: requestSetupDataCall_def Let_def)
  show "requestSetupDataCall env profile fam s
      = Some (0, profile\<lparr>curIpFamily := fam\<rparr>, set_handle fam h s')"
    if ok: "res = 0" "err = 0" and tlvs: "tlvs = (0x01, le32 h) # later"
  proof -
    have "get32 ?r MUXHdr QMIWDS_START_NETWORK_INTERFACE_RESP_MSG ''Handle'' = Some h"
      by (simp add: tlvs qmux_response_def mux_body_def encode_tlv_def le16_def le32_def get32_def
          rd32_def)
    with ok assms re show ?thesis by (simp add: requestSetupDataCall_def Let_def)
  qed
qed

text \<open>The empty profile's start request.\<close>

lemma start_tlvs_zero: "s_is_cdma s = 0 \<Longrightarrow>
    start_tlvs s (zero_profile\<lparr>curIpFamily := 4\<rparr>) = [(0x30, [1]), (0x19, [4])]"
  by (simp add: start_tlvs_def credentials_def opt_str_def zero_profile_def)

theorem setup_data_call_witness:
  "requestSetupDataCall (answering (\<lambda>m. qmux_response 1 7 1 0x0020 1 14 [])) zero_profile IpFamilyV4 both_up = None
   \<and> (\<exists>s'. requestSetupDataCall (answering (\<lambda>m. qmux_response 1 7 1 0x0020 0 0 [(0x01, le32 0x33)]))
          zero_profile IpFamilyV4 both_up
        = Some (0, zero_profile\<lparr>curIpFamily := 4\<rparr>, set_handle IpFamilyV4 0x33 s'))"
proof -
  have w: "wds_type 4 = 1" by (simp add: wds_type_def)
  have b: "tlv_builder (WdsStartNwInterfaceReq both_up (zero_profile\<lparr>curIpFamily := 4\<rparr>))
      (start_tlvs both_up (zero_profile\<lparr>curIpFamily := 4\<rparr>))"
    by (rule builds_exactly_builder [OF start_network_builds])
       (simp add: start_tlvs_zero WDM_DEFAULT_BUFSIZE_def)
  obtain s1 where s1: "send_qmux (answering (\<lambda>m. qmux_response 1 7 1 0x0020 1 14 [])) (wds_type 4) 0x0020
      (Some (WdsStartNwInterfaceReq both_up (zero_profile\<lparr>curIpFamily := 4\<rparr>))) PDead both_up
      = Some (0, PLive (qmux_response 1 7 1 0x0020 1 14 []), s1)"
    using send_builder_both_up [OF b, of 1 "[]" "0x0020" 1 14 PDead] by (auto simp: w)
  obtain s2 where s2: "send_qmux (answering (\<lambda>m. qmux_response 1 7 1 0x0020 0 0 [(0x01, le32 0x33)])) (wds_type 4) 0x0020
      (Some (WdsStartNwInterfaceReq both_up (zero_profile\<lparr>curIpFamily := 4\<rparr>))) PDead both_up
      = Some (0, PLive (qmux_response 1 7 1 0x0020 0 0 [(0x01, le32 0x33)]), s2)"
    using send_builder_both_up [OF b, of 1 "[(0x01, le32 0x33)]" "0x0020" 0 0 PDead] by (auto simp: w)
  show ?thesis
    using setup_data_call [OF s1] setup_data_call [OF s2, of "0x33" "[]"] by auto
qed

text \<open>
  Stopping a data call. Without a handle of the family nothing is sent and 0 is
  returned. Otherwise the handle is cleared exactly when the modem reports success, and an
  error of the modem or of the transport is returned with the handle kept.
\<close>
theorem deactivate_default_pdp:
  assumes "fam = IpFamilyV4 \<or> fam = IpFamilyV6"
    and "handle = (if fam = IpFamilyV4 then WdsConnectionIPv4Handle s else WdsConnectionIPv6Handle s)"
  shows "(handle = 0 \<longrightarrow> requestDeactivateDefaultPDP env fam s = Some (0, s))
    \<and> (handle \<noteq> 0 \<and> send_qmux env (wds_type fam) 0x0021 (Some (WdsStopNwInterfaceReq s fam)) PDead s
        = Some (ret, PLive (qmux_response q c t 0x0021 res err tlvs), s') \<and> 0 \<le> ret \<longrightarrow>
      requestDeactivateDefaultPDP env fam s =
        Some (if res = 0 \<and> err = 0 then (0, set_handle fam 0 s') else (uint err, s')))
    \<and> (handle \<noteq> 0 \<and> send_qmux env (wds_type fam) 0x0021 (Some (WdsStopNwInterfaceReq s fam)) PDead s
        = Some (ret, p, s') \<and> (ret < 0 \<or> p = PNull) \<longrightarrow>
      requestDeactivateDefaultPDP env fam s = Some (ret, s'))"
proof (intro conjI impI; (elim conjE)?)
  show "requestDeactivateDefaultPDP env fam s = Some (0, s)" if "handle = 0"
    using that assms by (auto simp: requestDeactivateDefaultPDP_def)
  show "requestDeactivateDefaultPDP env fam s =
        Some (if res = 0 \<and> err = 0 then (0, set_handle fam 0 s') else (uint err, s'))"
    if "handle \<noteq> 0" "send_qmux env (wds_type fam) 0x0021 (Some (WdsStopNwInterfaceReq s fam)) PDead s
        = Some (ret, PLive (qmux_response q c t 0x0021 res err tlvs), s')" "0 \<le> ret"
    using assms that by (auto simp: requestDeactivateDefaultPDP_def rsp_check_response split: if_splits)
  show "requestDeactivateDefaultPDP env fam s = Some (ret, s')"
    if "handle \<noteq> 0" "send_qmux env (wds_type fam) 0x0021 (Some (WdsStopNwInterfaceReq s fam)) PDead s
        = Some (ret, p, s')" "ret < 0 \<or> p = PNull"
    using assms that by (auto simp: requestDeactivateDefaultPDP_def split: if_splits)
qed

theorem deactivate_default_pdp_witness:
  "\<exists>s'. requestDeactivateDefaultPDP (answering (\<lambda>m. qmux_response 1 7 1 0x0021 0 0 [])) IpFamilyV6 both_up
     = Some (0, set_handle IpFamilyV6 0 s')"
proof -
  have w: "wds_type 6 = 0x11" by (simp add: wds_type_def)
  have b: "tlv_builder (WdsStopNwInterfaceReq both_up 6)
    [(0x01, le32 (if (6 :: int) = IpFamilyV4 then WdsConnectionIPv4Handle both_up else WdsConnectionIPv6Handle both_up))]"
    by (rule stop_network.tlv_builder_axioms)
  obtain s' where s': "send_qmux (answering (\<lambda>m. qmux_response 1 7 1 0x0021 0 0 [])) (wds_type 6) 0x0021
      (Some (WdsStopNwInterfaceReq both_up 6)) PDead both_up
      = Some (0, PLive (qmux_response 1 7 1 0x0021 0 0 []), s')"
    using send_builder_both_up [OF b, of "0x11" "[]" "0x0021" 0 0 PDead] by (auto simp: w)
  show ?thesis
    using deactivate_default_pdp [OF _ refl, of 6 both_up] s' by fastforce
qed

section \<open>The SIM\<close>


text \<open>A card whose only application's PIN is permanently blocked.\<close>

definition blocked_card :: "byte list" where
  "blocked_card = replicate 9 0 @ [1, 0] @ replicate 11 0 @ [0, 5] @ replicate 5 0"


section \<open>The IP address\<close>

text \<open>The runtime settings as a function of the TLVs: a missing one leaves the field as it is.\<close>

definition val32 :: "byte list \<Rightarrow> u32" where
  "val32 v = mk32 (v ! 0) (v ! 1) (v ! 2) (v ! 3)"

definition setting :: "(byte list \<Rightarrow> 'a) \<Rightarrow> tlv list \<Rightarrow> byte \<Rightarrow> 'a \<Rightarrow> 'a" where
  "setting f tlvs ty old = (case map_of tlvs ty of None \<Rightarrow> old | Some v \<Rightarrow> f v)"

definition settings_of :: "int \<Rightarrow> tlv list \<Rightarrow> PROFILE_T \<Rightarrow> PROFILE_T" where
  "settings_of fam tlvs profile = (
     let v4 = ipv4 profile; v6 = ipv6 profile;
         mtu = (\<lambda>f old. if f = (fam = IpFamilyV4) then setting val32 tlvs 0x29 old else old)
     in profile\<lparr>
       ipv4 := \<lparr>v4Address = setting val32 tlvs 0x1E (v4Address v4),
         v4Gateway = setting val32 tlvs 0x20 (v4Gateway v4),
         v4SubnetMask = setting val32 tlvs 0x21 (v4SubnetMask v4),
         v4DnsPrimary = setting val32 tlvs 0x15 (v4DnsPrimary v4),
         v4DnsSecondary = setting val32 tlvs 0x16 (v4DnsSecondary v4),
         v4Mtu = mtu True (v4Mtu v4)\<rparr>,
       ipv6 := \<lparr>v6Address = setting (take 16) tlvs 0x25 (v6Address v6),
         v6Gateway = setting (take 16) tlvs 0x26 (v6Gateway v6),
         v6SubnetMask = v6SubnetMask v6,
         v6DnsPrimary = setting (take 16) tlvs 0x27 (v6DnsPrimary v6),
         v6DnsSecondary = setting (take 16) tlvs 0x28 (v6DnsSecondary v6),
         PrefixLengthIPAddr = setting (\<lambda>v. v ! 16) tlvs 0x25 (PrefixLengthIPAddr v6),
         PrefixLengthGateway = setting (\<lambda>v. v ! 16) tlvs 0x26 (PrefixLengthGateway v6),
         v6Mtu = mtu False (v6Mtu v6)\<rparr>\<rparr>)"

text \<open>The values are as long as the structures that the program lays over them.\<close>

definition settings_complete :: "tlv list \<Rightarrow> bool" where
  "settings_complete tlvs \<longleftrightarrow> length (encode_tlvs tlvs) < 65529 \<and> (\<forall>(ty, v) \<in> set tlvs.
     (ty \<in> {0x15, 0x16, 0x1E, 0x20, 0x21, 0x29} \<longrightarrow> 4 \<le> length v)
     \<and> (ty \<in> {0x27, 0x28} \<longrightarrow> 16 \<le> length v) \<and> (ty \<in> {0x25, 0x26} \<longrightarrow> 17 \<le> length v))"

lemma settings_complete_len:
  assumes "settings_complete tlvs" "map_of tlvs ty = Some v"
  shows "ty \<in> {0x15, 0x16, 0x1E, 0x20, 0x21, 0x29} \<Longrightarrow> 4 \<le> length v"
    "ty \<in> {0x25, 0x26, 0x27, 0x28} \<Longrightarrow> 16 \<le> length v" "ty \<in> {0x25, 0x26} \<Longrightarrow> 17 \<le> length v"
proof -
  have "(ty \<in> {0x15, 0x16, 0x1E, 0x20, 0x21, 0x29} \<longrightarrow> 4 \<le> length v)
     \<and> (ty \<in> {0x27, 0x28} \<longrightarrow> 16 \<le> length v) \<and> (ty \<in> {0x25, 0x26} \<longrightarrow> 17 \<le> length v)"
    using assms(1) map_of_SomeD [OF assms(2)] unfolding settings_complete_def by blast
  then show "ty \<in> {0x15, 0x16, 0x1E, 0x20, 0x21, 0x29} \<Longrightarrow> 4 \<le> length v"
    "ty \<in> {0x25, 0x26, 0x27, 0x28} \<Longrightarrow> 16 \<le> length v" "ty \<in> {0x25, 0x26} \<Longrightarrow> 17 \<le> length v"
    by (blast, (elim insertE emptyE; fastforce), blast)
qed

lemma get32_at: "tlv_at r p v \<Longrightarrow> 4 \<le> length v \<Longrightarrow> off L f = 3 \<Longrightarrow> get32 r p L f = Some (val32 v)"
  using tlv_at_rd8 [of r p v 0] tlv_at_rd8 [of r p v 1] tlv_at_rd8 [of r p v 2] tlv_at_rd8 [of r p v 3]
  by (cases "v = []") (simp_all add: get32_def rd32_def val32_def add.assoc)

lemma settings_tlvs:
  assumes "settings_complete tlvs" and r_def: "r = qmux_response q c t mt res err tlvs"
  shows "ty \<in> {0x15, 0x16, 0x1E, 0x20, 0x21} \<Longrightarrow> nty = unat ty \<Longrightarrow>
      ipv4_tlv r nty old = Some (setting val32 tlvs ty old)"
    and "ty \<in> {0x25, 0x26, 0x27, 0x28} \<Longrightarrow> nty = unat ty \<Longrightarrow>
      ipv6_tlv r nty old6 = Some (setting (take 16) tlvs ty old6)"
    and "ty \<in> {0x25, 0x26} \<Longrightarrow> nty = unat ty \<Longrightarrow>
      ipv6_prefix r nty oldp = Some (setting (\<lambda>v. v ! 16) tlvs ty oldp)"
    and "on_tlv r 0x29 old (\<lambda>p. get32 r p QMIWDS_GET_RUNTIME_SETTINGS_TLV_MTU ''Mtu'')
      = Some (setting val32 tlvs 0x29 old)"
proof -
  have len: "length (encode_tlvs tlvs) < 65529" using assms(1) by (simp add: settings_complete_def)
  note c = settings_complete_len [OF assms(1)]
  show "ipv4_tlv r nty old = Some (setting val32 tlvs ty old)"
    if "ty \<in> {0x15, 0x16, 0x1E, 0x20, 0x21}" "nty = unat ty"
    unfolding ipv4_tlv_def setting_def r_def
    by (rule on_tlv_response [OF len]) (use that c(1) [of ty] in \<open>auto intro: get32_at\<close>)
  show "ipv6_tlv r nty old6 = Some (setting (take 16) tlvs ty old6)"
    if "ty \<in> {0x25, 0x26, 0x27, 0x28}" "nty = unat ty"
    unfolding ipv6_tlv_def setting_def r_def
    by (rule on_tlv_response [OF len]) (use that c(2) [of ty] in \<open>auto intro: tlv_at_rdn\<close>)
  show "ipv6_prefix r nty oldp = Some (setting (\<lambda>v. v ! 16) tlvs ty oldp)"
    if "ty \<in> {0x25, 0x26}" "nty = unat ty"
    unfolding ipv6_prefix_def setting_def r_def
    by (rule on_tlv_response [OF len]) (use that c(3) [of ty] in \<open>auto intro!: tlv_at_get8\<close>)
  show "on_tlv r 0x29 old (\<lambda>p. get32 r p QMIWDS_GET_RUNTIME_SETTINGS_TLV_MTU ''Mtu'')
      = Some (setting val32 tlvs 0x29 old)"
    unfolding setting_def r_def
    by (rule on_tlv_response [OF len]) (use c(1) [of "0x29"] in \<open>auto intro: get32_at\<close>)
qed

lemma read_runtime_settings_response:
  assumes "settings_complete tlvs"
  shows "read_runtime_settings fam (qmux_response q c t mt res err tlvs) profile
    = Some (settings_of fam tlvs profile)"
proof -
  let ?r = "qmux_response q c t mt res err tlvs"
  note st = settings_tlvs [OF assms, of ?r q c t mt res err, OF refl]
  have v4: "ipv4_tlv ?r 0x15 a = Some (setting val32 tlvs 0x15 a)"
    "ipv4_tlv ?r 0x16 a = Some (setting val32 tlvs 0x16 a)"
    "ipv4_tlv ?r 0x1E a = Some (setting val32 tlvs 0x1E a)"
    "ipv4_tlv ?r 0x20 a = Some (setting val32 tlvs 0x20 a)"
    "ipv4_tlv ?r 0x21 a = Some (setting val32 tlvs 0x21 a)" for a
    by (rule st(1); simp)+
  have v6: "ipv6_tlv ?r 0x25 b = Some (setting (take 16) tlvs 0x25 b)"
    "ipv6_tlv ?r 0x26 b = Some (setting (take 16) tlvs 0x26 b)"
    "ipv6_tlv ?r 0x27 b = Some (setting (take 16) tlvs 0x27 b)"
    "ipv6_tlv ?r 0x28 b = Some (setting (take 16) tlvs 0x28 b)" for b
    by (rule st(2); simp)+
  have pf: "ipv6_prefix ?r 0x25 l = Some (setting (\<lambda>v. v ! 16) tlvs 0x25 l)"
    "ipv6_prefix ?r 0x26 l = Some (setting (\<lambda>v. v ! 16) tlvs 0x26 l)" for l
    by (rule st(3); simp)+
  show ?thesis
    by (simp add: read_runtime_settings_def settings_of_def v4 v6 pf st(4) Let_def)
qed

text \<open>
  C30: Fetching the IP address. The settings of the queried family start from zero; without a
  handle of the family they stay zero and nothing is sent. Otherwise a response without
  error sets address, gateway, mask, name servers, prefix lengths and MTU to the values of
  its TLVs, in whatever order they stand, and leaves a field without TLV as it was.
\<close>
theorem get_ip_address:
  assumes "profile' = (if fam = IpFamilyV4 then profile\<lparr>ipv4 := zero_ipv4\<rparr>
      else if fam = IpFamilyV6 then profile\<lparr>ipv6 := zero_ipv6\<rparr> else profile)"
    and "no_handle \<longleftrightarrow> fam = IpFamilyV4 \<and> WdsConnectionIPv4Handle s = 0
      \<or> fam = IpFamilyV6 \<and> WdsConnectionIPv6Handle s = 0"
  shows "(no_handle \<longrightarrow> requestGetIPAddress env profile fam s = Some (0, profile', s))
    \<and> (\<not> no_handle \<and> send_qmux env (wds_type fam) 0x002D (Some WdsGetRuntimeSettingReq) PDead s
        = Some (ret, PLive (qmux_response q c t 0x002D res err tlvs), s') \<and> 0 \<le> ret
      \<and> settings_complete tlvs \<longrightarrow>
      requestGetIPAddress env profile fam s =
        Some (if res = 0 \<and> err = 0 then (0, settings_of fam tlvs profile', s')
              else (uint err, profile', s')))"
proof (intro conjI impI; (elim conjE)?)
  show "requestGetIPAddress env profile fam s = Some (0, profile', s)" if no_handle
    using that assms by (auto simp: requestGetIPAddress_def Let_def)
  show "requestGetIPAddress env profile fam s =
        Some (if res = 0 \<and> err = 0 then (0, settings_of fam tlvs profile', s')
              else (uint err, profile', s'))"
    if "\<not> no_handle" "send_qmux env (wds_type fam) 0x002D (Some WdsGetRuntimeSettingReq) PDead s
        = Some (ret, PLive (qmux_response q c t 0x002D res err tlvs), s')" "0 \<le> ret"
      "settings_complete tlvs"
    using assms that read_runtime_settings_response [OF that(4)]
    by (auto simp: requestGetIPAddress_def Let_def rsp_check_response)
qed

theorem get_ip_address_witness:
  "\<exists>s'. requestGetIPAddress (answering (\<lambda>m. qmux_response 1 7 1 0x002D 0 0
       [(0x29, le32 1500), (0x1E, le32 0x0A000002), (0x15, le32 0x08080808)])) zero_profile IpFamilyV4 both_up
     = Some (0, zero_profile\<lparr>ipv4 := zero_ipv4\<lparr>v4Address := 0x0A000002, v4DnsPrimary := 0x08080808, v4Mtu := 1500\<rparr>\<rparr>, s')"
proof -
  let ?tlvs = "[(0x29, le32 1500), (0x1E, le32 0x0A000002), (0x15, le32 0x08080808)] :: tlv list"
  have w: "wds_type 4 = 1" by (simp add: wds_type_def)
  obtain s' where s': "send_qmux (answering (\<lambda>m. qmux_response 1 7 1 0x002D 0 0 ?tlvs)) (wds_type 4) 0x002D
      (Some WdsGetRuntimeSettingReq) PDead both_up = Some (0, PLive (qmux_response 1 7 1 0x002D 0 0 ?tlvs), s')"
    using send_builder_both_up [OF runtime_settings.tlv_builder_axioms, of 1 ?tlvs "0x002D" 0 0 PDead]
    by (auto simp: w)
  have c: "settings_complete ?tlvs" by (simp add: settings_complete_def)
  have n: "\<not> ((4 :: int) = IpFamilyV4 \<and> WdsConnectionIPv4Handle both_up = 0
      \<or> (4 :: int) = IpFamilyV6 \<and> WdsConnectionIPv6Handle both_up = 0)" by simp
  have "requestGetIPAddress (answering (\<lambda>m. qmux_response 1 7 1 0x002D 0 0 ?tlvs)) zero_profile 4 both_up
      = Some (0, settings_of 4 ?tlvs (zero_profile\<lparr>ipv4 := zero_ipv4\<rparr>), s')"
    using get_ip_address [OF refl refl, THEN conjunct2, THEN mp, OF conjI [OF n conjI [OF s' conjI [OF _ c]]],
        of zero_profile] by simp
  then show ?thesis
    by (simp add: settings_of_def setting_def val32_def le32_def zero_profile_def zero_ipv4_def zero_ipv6_def
        Let_def mk32_def)
qed

section \<open>The firmware version\<close>

lemma strndup_tlv_at:
  assumes "r = pre @ v @ post" "0 \<notin> set v" "length pre = p"
  shows "strndup_loop r p (length v) = Some (map (\<lambda>b. char_of (unat b)) v)"
  using assms
proof (induction v arbitrary: pre p)
  case (Cons a v)
  have "strndup_loop r (Suc p) (length v) = Some (map (\<lambda>b. char_of (unat b)) v)"
    using Cons.IH [of "pre @ [a]" "Suc p"] Cons.prems by simp
  moreover have "rd8 r p = Some a" using Cons.prems(1,3) by (simp add: rd8_append)
  ultimately show ?case using Cons.prems(2) by simp
qed simp

text \<open>What the version string says about the modem, when the data format could not tell.\<close>

definition fw_9x07 :: "string \<Rightarrow> int" where
  "fw_9x07 str = (if has_prefix ''EC20'' str
     then (if str ! 5 = CHR ''F'' \<or> str_at str 6 = Some (CHR ''F'') then 1 else 0) else 1)"

text \<open>
  The firmware version. The version string of the response is returned, and if the data
  format request has not decided it, the modem counts as one of the newer family unless its
  name starts with EC20 and has no F at its sixth or seventh place. For a name that starts
  with EC20 and is shorter than six characters the test reads behind the string.
\<close>
theorem base_band_version:
  assumes "send_qmux env QMUX_TYPE_DMS 0x0023 None PDead s
      = Some (ret, PLive (qmux_response q c t 0x0023 0 0 tlvs), s')" "0 \<le> ret"
    and "length (encode_tlvs tlvs) < 65529" "map_of tlvs 0x01 = Some v" "v \<noteq> []" "0 \<notin> set v"
    and "str = map (\<lambda>b. char_of (unat b)) v"
  shows "requestBaseBandVersion env s =
    (if s_9x07 s' \<noteq> -1 then Some (0, Some str, s')
     else if has_prefix ''EC20'' str \<and> length str < 6 then None
     else Some (0, Some str, s'\<lparr>s_9x07 := fw_9x07 str\<rparr>))"
proof -
  let ?r = "qmux_response q c t 0x0023 0 0 tlvs"
  obtain p where p: "GetTLV ?r MUXHdr 1 = Some (Some p)" "tlv_at ?r p v"
    using GetTLV_response(2) [OF assms(3) _ assms(4), of q c t "0x0023" 0 0] by auto
  obtain pre post where r: "?r = pre @ v @ post" "length pre = p + 3"
    using p(2) by (auto simp: tlv_at_def)
  have len: "length v < 65536" using map_of_tlv_pos [OF assms(4)] assms(3) by auto
  have n: "get16 ?r p DEVICE_REV_ID ''TLVLength'' = Some (of_nat (length v))"
    using tlv_at_get16 [OF p(2)] by simp
  have nz: "(of_nat (length v) :: u16) \<noteq> 0"
    using unat_len16 [OF len] assms(5) by (auto simp: word_unat_eq_iff)
  have s: "strndup_loop ?r (p + 3) (unat (of_nat (length v) :: u16)) = Some str"
    using strndup_tlv_at [OF r(1) assms(6) r(2)] unat_len16 [OF len] assms(7) by simp
  have i5: "str_at str 5 = (if length str < 5 then None else if length str = 5 then Some (CHR 0x00) else Some (str ! 5))"
    and i6: "str_at str 6 = None \<longleftrightarrow> length str < 6"
    by (auto simp: str_at_def)
  show ?thesis
    using assms(1,2) p(1) n nz s i5 i6
    by (cases "str_at str 6")
       (auto simp: requestBaseBandVersion_def rsp_check_response on_tlv_def fw_9x07_def simp del: bind_Some_iff)
qed

theorem base_band_version_witness:
  "requestBaseBandVersion (answering (\<lambda>m. qmux_response QMUX_TYPE_DMS 7 1 0x0023 0 0 [(0x01, cstr ''EC20'')])) both_up
     = None"
proof -
  let ?tlvs = "[(0x01, cstr ''EC20'')] :: tlv list"
  obtain s' where s': "send_qmux (answering (\<lambda>m. qmux_response QMUX_TYPE_DMS 7 1 0x0023 0 0 ?tlvs)) QMUX_TYPE_DMS 0x0023
      None PDead both_up = Some (0, PLive (qmux_response QMUX_TYPE_DMS 7 1 0x0023 0 0 ?tlvs), s')"
      "frame s' = frame (snd (GetQMUXTransactionId both_up)\<lparr>sent := qmux_request QMUX_TYPE_DMS 7 1 0x0023 [] # sent both_up\<rparr>)"
    using send_plain_both_up [of QMUX_TYPE_DMS ?tlvs "0x0023" 0 0 PDead] by auto
  have "s_9x07 s' = -1"
    using frame_9x07 [OF s'(2)] by (simp add: GetQMUXTransactionId_def Let_def)
  then show ?thesis
    using base_band_version [OF s'(1), of "cstr ''EC20''"] by (simp add: cstr_def of_char_def has_prefix_def char_of_def bit_Suc_0_iff)
qed

section \<open>The data format\<close>

text \<open>
  Without a client identifier for the WDS service, requesting the Ethernet mode has no
  defined execution: the response to the data format request has been freed, the send
  function returns before it overwrites the pointer, and the pointer is freed again.
\<close>
theorem set_eth_mode_double_free:
  assumes "qmap_mode profile = 0" "enable_ipv4 profile \<noteq> 0" "qmapnet_adapter profile = None"
    and "send_qmux env QMUX_TYPE_WDS_ADMIN 0x0020 (Some (WdaSetDataFormat no_settings)) PNull s
      = Some (ret, PLive (qmux_response q c t 0x0020 0 0 tlvs), s')" "0 \<le> ret"
    and "client s' QMUX_TYPE_WDS = Some 0"
  shows "requestSetEthMode env profile s = None"
proof -
  have send: "send_qmux env QMUX_TYPE_WDS 0x004D f PDead t = Some (-EINVAL, PDead, t)"
    if "client t QMUX_TYPE_WDS = Some 0" for f t
    using compose_no_client [OF that] by (simp add: send_qmux_def QmiThreadSendQMI_def QmiThreadSendQMITimeout_def)
  have v4: "SetEthMode_ipv4 env p qs PDead t = None"
    if "enable_ipv4 p \<noteq> 0" "qmapnet_adapter p = None" "client t QMUX_TYPE_WDS = Some 0" for p qs t
    using that send by (simp add: SetEthMode_ipv4_def bind_mux_port_def)
  have same: "client (t\<lparr>s_9x07 := x\<rparr>) QMUX_TYPE_WDS = client t QMUX_TYPE_WDS" for t x
    by (simp add: client_def)
  have fmt: "c' = Inr PDead \<and> enable_ipv4 p = enable_ipv4 profile \<and> qmapnet_adapter p = qmapnet_adapter profile
      \<and> client u QMUX_TYPE_WDS = Some 0"
    if "SetEthMode_format env profile no_settings PNull s = Some (c', p, qs, u)" for c' p qs u
    using that assms(4-6)
    by (auto simp: SetEthMode_format_def rsp_check_response on_tlv_def same Let_def split: option.splits)
  show ?thesis
  proof (cases "SetEthMode_format env profile no_settings PNull s")
    case None
    with assms(1) show ?thesis by (simp add: requestSetEthMode_def)
  next
    case (Some x)
    then obtain p qs u where "x = (Inr PDead, p, qs, u)" "enable_ipv4 p \<noteq> 0" "qmapnet_adapter p = None"
      "client u QMUX_TYPE_WDS = Some 0"
      using fmt assms(2,3) by (cases x) auto
    with Some assms(1) v4 show ?thesis by (simp add: requestSetEthMode_def)
  qed
qed

text \<open>The clients of the modem when the one for WDS could not be allocated.\<close>

definition no_wds_client :: qmi where
  "no_wds_client = both_up\<lparr>qmiclientId := (replicate 27 7)[1 := 0]\<rparr>"

theorem set_eth_mode_double_free_witness:
  "requestSetEthMode (answering (\<lambda>m. qmux_response QMUX_TYPE_WDS_ADMIN 7 1 0x0020 0 0 []))
     (zero_profile\<lparr>enable_ipv4 := 1\<rparr>) no_wds_client = None"
proof -
  let ?env = "answering (\<lambda>m. qmux_response QMUX_TYPE_WDS_ADMIN 7 1 0x0020 0 0 [])"
  have s: "wf_qmi no_wds_client" "dev no_wds_client = QmiWwan" "cdc_wdm_fd no_wds_client \<noteq> -1"
    "fst (GetQMUXTransactionId no_wds_client) = 1" "client no_wds_client QMUX_TYPE_WDS_ADMIN = Some 7"
    by (simp_all add: no_wds_client_def both_up_def clients_ready_def qmi_init_def wf_qmi_def
        GetQMUXTransactionId_def client_def)
  have comp: "ComposeQMUXMsg QMUX_TYPE_WDS_ADMIN 0x0020 (Some (WdaSetDataFormat no_settings)) no_wds_client
      = Some (Some (qmux_request QMUX_TYPE_WDS_ADMIN 7 1 0x0020 (data_format_tlvs no_settings)),
          snd (GetQMUXTransactionId no_wds_client))"
    using data_format.compose [OF s(5), of "0x0020" no_settings] s(4) by simp
  obtain s' where s': "send_qmux ?env QMUX_TYPE_WDS_ADMIN 0x0020 (Some (WdaSetDataFormat no_settings)) PNull no_wds_client
      = Some (0, PLive (qmux_response QMUX_TYPE_WDS_ADMIN 7 1 0x0020 0 0 []), s')"
    "frame s' = frame (snd (GetQMUXTransactionId no_wds_client)\<lparr>sent :=
        qmux_request QMUX_TYPE_WDS_ADMIN 7 1 0x0020 (data_format_tlvs no_settings) # sent no_wds_client\<rparr>)"
    using send_qmux_answered [OF s(1-3) comp refl refl, of _ 0 0 "[]" ?env PNull]
    by (auto simp: answering_def data_format_tlvs_def no_settings_def)
  have "qmiclientId s' = (replicate 27 7)[1 := 0]"
    using frame_clients [OF s'(2)] by (simp add: GetQMUXTransactionId_def no_wds_client_def Let_def)
  then show ?thesis
    using set_eth_mode_double_free [OF _ _ _ s'(1)] by (simp add: client_def zero_profile_def)
qed

end
