(* ===== verification/Registration.thy ===== *)
theory Registration
  imports Replies
begin

text \<open>
  The network registration of \<open>QMIThread.c\<close>: home network and the conversion of CDMA
  network codes, the serving system of older modems and the system information of newer
  ones, whose TLVs are walked by a second loop with a signed remaining length.
\<close>

section \<open>CDMA network codes\<close>

text \<open>
  A CDMA code counts each digit from 1 to 10 (10 for the digit 0), offset by 111 or 11. The
  unsigned subtractions in the C code do not wrap: a positive multiple of ten is at least 10.
\<close>

definition quectel_convert_cdma_mcc_2_ascii_mcc :: "u16 \<Rightarrow> u16" where
  "quectel_convert_cdma_mcc_2_ascii_mcc mcc = (
     let buf = unat mcc + 111 in
     if mcc = 0x3FF then 3
     else
       let d3 = buf mod 10; buf = (if d3 = 0 then (buf - 10) div 10 else buf div 10);
           d2 = buf mod 10; buf = (if d2 = 0 then (buf - 10) div 10 else buf div 10);
           d1 = (if buf = 10 then 0 else buf)
       in if d1 < 10 \<and> d2 < 10 \<and> d3 < 10 then of_nat (d1 * 100 + d2 * 10 + d3) else 0)"

definition quectel_convert_cdma_mnc_2_ascii_mnc :: "u16 \<Rightarrow> u16" where
  "quectel_convert_cdma_mnc_2_ascii_mnc imsi_11_12 = (
     let buf = unat imsi_11_12 + 11 in
     if imsi_11_12 = 0x7F then 7
     else
       let d2 = buf mod 10; buf = (if d2 = 0 then (buf - 10) div 10 else buf div 10);
           d1 = (if buf = 10 then 0 else buf)
       in if d1 < 10 \<and> d2 < 10 then of_nat (d1 * 10 + d2) else 0)"

text \<open>\<open>requestGetHomeNetwork(&mcc, &mnc, NULL, NULL)\<close>, the only way it is called.\<close>

definition requestGetHomeNetwork :: "modem \<Rightarrow> u16 \<Rightarrow> u16 \<Rightarrow> qmi \<Rightarrow> (int \<times> u16 \<times> u16 \<times> qmi) option" where
  "requestGetHomeNetwork env mcc mnc s = do {
     (err, p, s) \<leftarrow> send_qmux env QMUX_TYPE_NAS 0x0025 None PDead s;
     c \<leftarrow> qmi_rsp_check_and_return err p;
     case c of Inl e \<Rightarrow> Some (e, mcc, mnc, s)
     | Inr r \<Rightarrow> do {
         (mcc, mnc) \<leftarrow> on_tlv r 0x01 (mcc, mnc) (\<lambda>p. do {
           a \<leftarrow> get16 r p HOME_NETWORK ''MobileCountryCode'';
           b \<leftarrow> get16 r p HOME_NETWORK ''MobileNetworkCode'';
           Some (a, b) });
         _ \<leftarrow> GetTLV r MUXHdr 0x10;
         Some (0, mcc, mnc, s) } }"

definition cdma_home_network :: "modem \<Rightarrow> u16 \<Rightarrow> u16 \<Rightarrow> qmi \<Rightarrow> (u16 \<times> u16 \<times> qmi) option" where
  \<comment> \<open>\<open>if (!requestGetHomeNetwork(&cmda_mcc, &cdma_mnc, NULL, NULL) && cmda_mcc) ...\<close>\<close>
  "cdma_home_network env mcc mnc s = do {
     (err, cmda_mcc, cdma_mnc, s) \<leftarrow> requestGetHomeNetwork env 0 0 s;
     Some (if err = 0 \<and> cmda_mcc \<noteq> 0
           then (quectel_convert_cdma_mcc_2_ascii_mcc cmda_mcc,
                 quectel_convert_cdma_mnc_2_ascii_mnc cdma_mnc, s)
           else (mcc, mnc, s)) }"

section \<open>The names of the data classes\<close>

abbreviation (input) "WWAN_DATA_CLASS_GPRS \<equiv> (0x1 :: u32)"
abbreviation (input) "WWAN_DATA_CLASS_EDGE \<equiv> (0x2 :: u32)"
abbreviation (input) "WWAN_DATA_CLASS_UMTS \<equiv> (0x4 :: u32)"
abbreviation (input) "WWAN_DATA_CLASS_HSDPA \<equiv> (0x8 :: u32)"
abbreviation (input) "WWAN_DATA_CLASS_HSUPA \<equiv> (0x10 :: u32)"
abbreviation (input) "WWAN_DATA_CLASS_LTE \<equiv> (0x20 :: u32)"
abbreviation (input) "WWAN_DATA_CLASS_1XRTT \<equiv> (0x10000 :: u32)"
abbreviation (input) "WWAN_DATA_CLASS_1XEVDO \<equiv> (0x20000 :: u32)"
abbreviation (input) "WWAN_DATA_CLASS_1XEVDO_REVA \<equiv> (0x40000 :: u32)"
abbreviation (input) "WWAN_DATA_CLASS_1XEVDV \<equiv> (0x80000 :: u32)"
abbreviation (input) "WWAN_DATA_CLASS_3XRTT \<equiv> (0x100000 :: u32)"
abbreviation (input) "WWAN_DATA_CLASS_1XEVDO_REVB \<equiv> (0x200000 :: u32)"
abbreviation (input) "WWAN_DATA_CLASS_UMB \<equiv> (0x400000 :: u32)"

definition class2str :: "(u32 \<times> string) list" where
  "class2str = [(0x0, ''UNKNOWN''), (WWAN_DATA_CLASS_GPRS, ''GPRS''), (WWAN_DATA_CLASS_EDGE, ''EDGE''),
     (WWAN_DATA_CLASS_UMTS, ''UMTS''), (WWAN_DATA_CLASS_HSDPA, ''HSDPA''), (WWAN_DATA_CLASS_HSUPA, ''HSUPA''),
     (WWAN_DATA_CLASS_LTE, ''LTE''), (WWAN_DATA_CLASS_1XRTT, ''1XRTT''), (WWAN_DATA_CLASS_1XEVDO, ''1XEVDO''),
     (WWAN_DATA_CLASS_1XEVDO_REVA, ''1XEVDO_REVA''), (WWAN_DATA_CLASS_1XEVDV, ''1XEVDV''),
     (WWAN_DATA_CLASS_3XRTT, ''3XRTT''), (WWAN_DATA_CLASS_1XEVDO_REVB, ''1XEVDO_REVB''),
     (WWAN_DATA_CLASS_UMB, ''UMB''), (0x80000000, ''CUSTOM'')]"

definition wwan_data_class2str :: "u32 \<Rightarrow> string" where
  "wwan_data_class2str c = (case map_of class2str c of Some str \<Rightarrow> str | None \<Rightarrow> ''UNKNOWN'')"

datatype device_class = DEVICE_CLASS_UNKNOWN | DEVICE_CLASS_CDMA | DEVICE_CLASS_GSM

definition data_cap_str :: "device_class \<Rightarrow> int \<Rightarrow> u32 \<Rightarrow> string \<Rightarrow> string" where
  "data_cap_str DeviceClass hdr DataCapList str = (
     let has = (\<lambda>c. DataCapList AND c \<noteq> 0) in
     if DeviceClass = DEVICE_CLASS_CDMA then
       if hdr = 2 then ''eHRPD''
       else if has WWAN_DATA_CLASS_1XEVDO_REVB then wwan_data_class2str WWAN_DATA_CLASS_1XEVDO_REVB
       else if has WWAN_DATA_CLASS_1XEVDO_REVA then wwan_data_class2str WWAN_DATA_CLASS_1XEVDO_REVA
       else if has WWAN_DATA_CLASS_1XEVDO then wwan_data_class2str WWAN_DATA_CLASS_1XEVDO
       else if has WWAN_DATA_CLASS_1XRTT then wwan_data_class2str WWAN_DATA_CLASS_1XRTT
       else if has WWAN_DATA_CLASS_3XRTT then wwan_data_class2str WWAN_DATA_CLASS_3XRTT
       else if has WWAN_DATA_CLASS_UMB then wwan_data_class2str WWAN_DATA_CLASS_UMB
       else str
     else
       if has WWAN_DATA_CLASS_LTE then wwan_data_class2str WWAN_DATA_CLASS_LTE
       else if has WWAN_DATA_CLASS_HSDPA \<and> has WWAN_DATA_CLASS_HSUPA then ''HSDPA_HSUPA''
       else if has WWAN_DATA_CLASS_HSDPA then wwan_data_class2str WWAN_DATA_CLASS_HSDPA
       else if has WWAN_DATA_CLASS_HSUPA then wwan_data_class2str WWAN_DATA_CLASS_HSUPA
       else if has WWAN_DATA_CLASS_UMTS then wwan_data_class2str WWAN_DATA_CLASS_UMTS
       else if has WWAN_DATA_CLASS_EDGE then wwan_data_class2str WWAN_DATA_CLASS_EDGE
       else if has WWAN_DATA_CLASS_GPRS then wwan_data_class2str WWAN_DATA_CLASS_GPRS
       else str)"

section \<open>Network codes in ASCII\<close>

text \<open>
  \<open>strncpy(temp, p, 3); temp[3] = 0\<close>, the bytes \<open>0xFF\<close> replaced by zero, and \<open>atoi\<close>: white
  space, a sign and digits.
\<close>

fun strncpy_loop :: "byte list \<Rightarrow> nat \<Rightarrow> nat \<Rightarrow> byte list option" where
  "strncpy_loop r p 0 = Some []"
| "strncpy_loop r p (Suc n) = do {
     c \<leftarrow> rd8 r p;
     if c = 0 then Some (replicate (Suc n) 0)
     else do { rest \<leftarrow> strncpy_loop r (p + 1) n; Some (c # rest) } }"

fun atoi_digits :: "byte list \<Rightarrow> int \<Rightarrow> int" where
  "atoi_digits [] n = n"
| "atoi_digits (c # cs) n = (if 0x30 \<le> c \<and> c \<le> 0x39 then atoi_digits cs (10 * n + uint c - 0x30) else n)"

definition atoi :: "byte list \<Rightarrow> int" where
  "atoi bs = (case dropWhile (\<lambda>c. c = 0x20 \<or> 0x09 \<le> c \<and> c \<le> 0x0D) bs of
     [] \<Rightarrow> 0
   | c # cs \<Rightarrow> if c = 0x2D then - atoi_digits cs 0
               else if c = 0x2B then atoi_digits cs 0 else atoi_digits (c # cs) 0)"

definition plmn_code :: "byte list \<Rightarrow> nat \<Rightarrow> u16 option" where
  "plmn_code r p = do {
     temp \<leftarrow> strncpy_loop r p 3;
     let temp = map (\<lambda>c. if c = 0xFF then 0 else c) (temp @ [0]);
     Some (word_of_int (atoi (takeWhile (\<lambda>c. c \<noteq> 0) temp))) }"

section \<open>The system information\<close>

text \<open>The local variables that the walk over the TLVs sets.\<close>

record sysinfo =
  PSAttached :: byte
  is_lte :: bool
  DataCapList :: u32
  DeviceClass :: device_class
  MobileCountryCode :: u16
  MobileNetworkCode :: u16
  DataCapStr :: string

type_synonym reg_state = "sysinfo \<times> qmi"

definition set_cdma :: "reg_state \<Rightarrow> reg_state" where
  \<comment> \<open>\<open>s_is_cdma = (0 == is_lte);\<close>\<close>
  "set_cdma st = (fst st, (snd st)\<lparr>s_is_cdma := if is_lte (fst st) then 0 else 1\<rparr>)"

text \<open>The service status TLVs 0x10 to 0x14 and 0x24.\<close>

definition service_status :: "byte \<Rightarrow> reg_state \<Rightarrow> reg_state" where
  "service_status ty st = (let (i, s) = st in
     if ty = 0x10 then set_cdma (i\<lparr>DataCapList := WWAN_DATA_CLASS_1XRTT OR WWAN_DATA_CLASS_1XEVDO
         OR WWAN_DATA_CLASS_1XEVDO_REVA OR WWAN_DATA_CLASS_1XEVDV OR WWAN_DATA_CLASS_1XEVDO_REVB,
         DeviceClass := DEVICE_CLASS_CDMA\<rparr>, s)
     else if ty = 0x11 then set_cdma (i\<lparr>DataCapList := WWAN_DATA_CLASS_3XRTT OR WWAN_DATA_CLASS_UMB,
         DeviceClass := DEVICE_CLASS_CDMA\<rparr>, s)
     else if ty = 0x12 then (i\<lparr>DataCapList := WWAN_DATA_CLASS_GPRS OR WWAN_DATA_CLASS_EDGE,
         DeviceClass := DEVICE_CLASS_GSM\<rparr>, s)
     else if ty = 0x13 then (i\<lparr>DataCapList := WWAN_DATA_CLASS_UMTS, DeviceClass := DEVICE_CLASS_GSM\<rparr>, s)
     else if ty = 0x14 then (i\<lparr>DataCapList := WWAN_DATA_CLASS_LTE, DeviceClass := DEVICE_CLASS_GSM,
         is_lte := True\<rparr>, s\<lparr>s_is_cdma := 0\<rparr>)
     else (i\<lparr>DataCapStr := ''TD-SCDMA''\<rparr>, s))"

text \<open>The common part of the system information TLVs: packet domain and network codes.\<close>

definition srv_domain :: "byte list \<Rightarrow> nat \<Rightarrow> layout \<Rightarrow> (reg_state \<Rightarrow> reg_state) \<Rightarrow> reg_state \<Rightarrow> reg_state option" where
  "srv_domain r p L attached st = do {
     valid \<leftarrow> get8 r p L ''SrvDomainValid'';
     if valid = 0x01 then do {
       domain \<leftarrow> get8 r p L ''SrvDomain'';
       let st = ((fst st)\<lparr>PSAttached := 0\<rparr>, snd st);
       Some (if domain AND 0x02 \<noteq> 0 then attached ((fst st)\<lparr>PSAttached := 1\<rparr>, snd st) else st) }
     else Some st }"

definition network_id :: "byte list \<Rightarrow> nat \<Rightarrow> layout \<Rightarrow> reg_state \<Rightarrow> reg_state option" where
  "network_id r p L st = do {
     valid \<leftarrow> get8 r p L ''NetworkIdValid'';
     if valid = 0x01 then do {
       mcc \<leftarrow> plmn_code r (p + off L ''MCC'');
       mnc \<leftarrow> plmn_code r (p + off L ''MNC'');
       Some ((fst st)\<lparr>MobileCountryCode := mcc, MobileNetworkCode := mnc\<rparr>, snd st) }
     else Some st }"

definition hdr_info :: "modem \<Rightarrow> byte list \<Rightarrow> nat \<Rightarrow> reg_state \<Rightarrow> reg_state option" where
  "hdr_info env r p st = do {
     (i, s) \<leftarrow> srv_domain r p HDR_SYSTEM_INFO set_cdma st;
     s \<leftarrow> (if PSAttached i \<noteq> 0 then do {
            valid \<leftarrow> get8 r p HDR_SYSTEM_INFO ''HdrPersonalityValid'';
            if valid = 0x01 then do {
              pers \<leftarrow> get8 r p HDR_SYSTEM_INFO ''HdrPersonality'';
              Some (if pers = 0x03 then s\<lparr>s_hdr_personality := 0x02\<rparr> else s) }
            else Some s }
          else Some s);
     (mcc, mnc, s) \<leftarrow> cdma_home_network env (MobileCountryCode i) (MobileNetworkCode i) s;
     Some (i\<lparr>MobileCountryCode := mcc, MobileNetworkCode := mnc\<rparr>, s) }"

text \<open>The LTE branch, when the packet domain is attached.\<close>

definition set_lte :: "reg_state \<Rightarrow> reg_state" where
  "set_lte st = ((fst st)\<lparr>is_lte := True\<rparr>, (snd st)\<lparr>s_is_cdma := 0\<rparr>)"

text \<open>The system information TLVs, each cast to its own structure.\<close>

definition cdma_info :: "byte list \<Rightarrow> nat \<Rightarrow> reg_state \<Rightarrow> reg_state option" where
  "cdma_info r p st = do {
     st \<leftarrow> srv_domain r p CDMA_SYSTEM_INFO set_cdma st; network_id r p CDMA_SYSTEM_INFO st }"

definition gsm_info :: "byte list \<Rightarrow> nat \<Rightarrow> reg_state \<Rightarrow> reg_state option" where
  "gsm_info r p st = do {
     st \<leftarrow> srv_domain r p GSM_SYSTEM_INFO (\<lambda>st. st) st; network_id r p GSM_SYSTEM_INFO st }"

definition wcdma_info :: "byte list \<Rightarrow> nat \<Rightarrow> reg_state \<Rightarrow> reg_state option" where
  "wcdma_info r p st = do {
     st \<leftarrow> srv_domain r p WCDMA_SYSTEM_INFO (\<lambda>st. st) st; network_id r p WCDMA_SYSTEM_INFO st }"

definition lte_info :: "byte list \<Rightarrow> nat \<Rightarrow> reg_state \<Rightarrow> reg_state option" where
  "lte_info r p st = do {
     st \<leftarrow> srv_domain r p LTE_SYSTEM_INFO set_lte st; network_id r p LTE_SYSTEM_INFO st }"

definition tdscdma_info :: "byte list \<Rightarrow> nat \<Rightarrow> reg_state \<Rightarrow> reg_state option" where
  "tdscdma_info r p st = do {
     st \<leftarrow> srv_domain r p TDSCDMA_SYSTEM_INFO (\<lambda>st. st) st; network_id r p TDSCDMA_SYSTEM_INFO st }"

lemmas info_defs = cdma_info_def gsm_info_def wcdma_info_def lte_info_def tdscdma_info_def

definition sysinfo_tlv :: "modem \<Rightarrow> byte list \<Rightarrow> nat \<Rightarrow> reg_state \<Rightarrow> reg_state option" where
  "sysinfo_tlv env r p st = do {
     ty \<leftarrow> get8 r p SERVICE_STATUS_INFO ''TLVType'';
     if ty \<in> {0x10, 0x11, 0x12, 0x13, 0x14, 0x24} then do {
       status \<leftarrow> get8 r p SERVICE_STATUS_INFO ''SrvStatus'';
       Some (if status = 0x02 then service_status ty st else st) }
     else if ty = 0x15 then cdma_info r p st
     else if ty = 0x16 then hdr_info env r p st
     else if ty = 0x17 then gsm_info r p st
     else if ty = 0x18 then wcdma_info r p st
     else if ty = 0x19 then lte_info r p st
     else if ty = 0x25 then tdscdma_info r p st
     else Some st }"

text \<open>The walk: \<open>remainingLen\<close> is a \<open>LONG\<close>, so an oversized TLV ends it.\<close>

function sysinfo_loop :: "modem \<Rightarrow> byte list \<Rightarrow> int \<Rightarrow> nat \<Rightarrow> reg_state \<Rightarrow> reg_state option" where
  "sysinfo_loop env r remainingLen p st =
     (if remainingLen \<le> 0 then Some st
      else (case sysinfo_tlv env r p st of None \<Rightarrow> None
            | Some st \<Rightarrow> (case get16 r p SERVICE_STATUS_INFO ''TLVLength'' of None \<Rightarrow> None
              | Some l \<Rightarrow> sysinfo_loop env r (remainingLen - (uint l + 3)) (p + 3 + unat l) st)))"
  by pat_completeness auto
termination
proof (relation "measure (\<lambda>(env, r, remainingLen, p, st). nat remainingLen)", goal_cases)
  case (2 env r remainingLen p st st' l)
  have "- uint l < 3" using uint_ge_0 [of l] by linarith
  with 2 show ?case by simp
qed simp

declare sysinfo_loop.simps [simp del]

definition sysinfo_init :: sysinfo where
  "sysinfo_init = \<lparr>PSAttached = 0, is_lte = False, DataCapList = 0, DeviceClass = DEVICE_CLASS_UNKNOWN,
     MobileCountryCode = 0, MobileNetworkCode = 0, DataCapStr = ''UNKNOW''\<rparr>"

text \<open>The last result is the line of debug output: network codes and data class.\<close>

definition requestRegistrationState2 ::
    "modem \<Rightarrow> qmi \<Rightarrow> (int \<times> byte \<times> (u16 \<times> u16 \<times> string) \<times> qmi) option" where
  "requestRegistrationState2 env s = do {
     (err, p, s) \<leftarrow> send_qmux env QMUX_TYPE_NAS 0x004D None PDead s;
     c \<leftarrow> qmi_rsp_check_and_return err p;
     case c of Inl e \<Rightarrow> Some (e, 0, (0, 0, ''''), s)
     | Inr r \<Rightarrow> do {
         remainingLen \<leftarrow> get16 r MUXHdr QMINAS_GET_SYS_INFO_RESP_MSG ''Length'';
         (i, s) \<leftarrow> sysinfo_loop env r (uint remainingLen) (MUXHdr + sizeof QCQMUX_MSG_HDR)
                    (sysinfo_init, s\<lparr>s_is_cdma := 0, s_hdr_personality := 0\<rparr>);
         Some (0, PSAttached i, (MobileCountryCode i, MobileNetworkCode i,
           data_cap_str (DeviceClass i) (s_hdr_personality s) (DataCapList i) (DataCapStr i)), s) } }"

section \<open>The serving system of older modems\<close>

text \<open>\<open>DataCap[0] = DataCap[1]\<close> is written into the response, which is searched once more later.\<close>

definition serving_data_cap :: "byte list \<Rightarrow> (string \<times> byte list) option" where
  "serving_data_cap r = on_tlv r 0x11 (''UNKNOW'', r) (\<lambda>p. do {
     n \<leftarrow> get8 r p QMINAS_DATA_CAP ''DataCapListLen'';
     if n = 0 then Some (''UNKNOW'', r)
     else do {
       c0 \<leftarrow> get8 r p QMINAS_DATA_CAP ''DataCap'';
       (c0, r) \<leftarrow> (if n = 2 \<and> c0 = 0x06 then do {
                c1 \<leftarrow> rd8 r (p + off QMINAS_DATA_CAP ''DataCap'' + 1);
                if c1 = 0x08 \<or> c1 = 0x0A
                then do { r \<leftarrow> put8 p QMINAS_DATA_CAP ''DataCap'' c1 r; Some (c1, r) }
                else Some (c0, r) }
             else Some (c0, r));
       Some (case map_of [(0x01, ''GPRS''), (0x02, ''EDGE''), (0x03, ''HSDPA''), (0x04, ''HSUPA''),
           (0x05, ''UMTS''), (0x06, ''1XRTT''), (0x07, ''1XEVDO''), (0x08, ''1XEVDO_REVA''),
           (0x09, ''GPRS''), (0x0A, ''1XEVDO_REVB''), (0x0B, ''LTE''), (0x0C, ''HSDPA''), (0x0D, ''HSDPA'')] c0
         of Some str \<Rightarrow> str | None \<Rightarrow> ''UNKNOW'', r) } })"

definition requestRegistrationState ::
    "modem \<Rightarrow> byte \<Rightarrow> qmi \<Rightarrow> (int \<times> byte \<times> (u16 \<times> u16 \<times> string) \<times> qmi) option" where
  "requestRegistrationState env ps s =
     (if s_9x07 s \<noteq> 0 then requestRegistrationState2 env s
      else do {
        (err, p, s) \<leftarrow> send_qmux env QMUX_TYPE_NAS 0x0024 None PDead s;
        c \<leftarrow> qmi_rsp_check_and_return err p;
        case c of Inl e \<Rightarrow> Some (e, ps, (0, 0, ''''), s)
        | Inr r \<Rightarrow> do {
            (mcc, mnc) \<leftarrow> on_tlv r 0x12 (0, 0) (\<lambda>p. do {
              a \<leftarrow> get16 r p QMINAS_CURRENT_PLMN_MSG ''MobileCountryCode'';
              b \<leftarrow> get16 r p QMINAS_CURRENT_PLMN_MSG ''MobileNetworkCode'';
              Some (a, b) });
            (ps, registered, inuse, radio) \<leftarrow> on_tlv r 0x01 (0, False, 0, 0) (\<lambda>p. do {
              st \<leftarrow> get8 r p SERVING_SYSTEM ''RegistrationState'';
              if st = 0x01 then do {
                ps \<leftarrow> get8 r p SERVING_SYSTEM ''PSAttachedState'';
                inuse \<leftarrow> get8 r p SERVING_SYSTEM ''InUseRadioIF'';
                radio \<leftarrow> (if inuse \<noteq> 0 then get8 r p SERVING_SYSTEM ''RadioIF'' else Some 0);
                Some (ps, True, inuse, radio) }
              else Some (0x02, False, 0, 0) });
            (cap, r) \<leftarrow> serving_data_cap r;
            let cap = (if registered \<and> inuse \<noteq> 0 \<and> radio = 0x09 then ''TD-SCDMA'' else cap);
            let s = s\<lparr>s_is_cdma := 0\<rparr>;
            if registered \<and> inuse \<noteq> 0 \<and> (radio = 0x01 \<or> radio = 0x02) then do {
              let s = s\<lparr>s_is_cdma := 1\<rparr>;
              (mcc, mnc, s) \<leftarrow> cdma_home_network env mcc mnc s;
              hdr \<leftarrow> on_tlv r 0x23 0 (\<lambda>p. do { v \<leftarrow> get8 r p QCQMUX_TLV ''Value''; Some (uint v) });
              Some (0, ps, (mcc, mnc, if hdr = 2 then ''eHRPD'' else cap), s\<lparr>s_hdr_personality := hdr\<rparr>) }
            else Some (0, ps, (mcc, mnc, cap), s) } })"

section \<open>LTE excludes CDMA\<close>

definition settled :: "qmi \<Rightarrow> bool" where
  "settled s \<longleftrightarrow> wf_qmi s \<and> dev s \<noteq> QmiWwanProxy"

lemma frame_cdma: "frame s' = frame s \<Longrightarrow> s_is_cdma s' = s_is_cdma s"
  by (drule arg_cong [of _ _ s_is_cdma]) (simp add: frame_def)

lemma send_plain_keeps:
  assumes "settled s" "unat q < 27" "send_qmux env q mt None p s = Some (ret, p', s')"
  shows "settled s' \<and> s_is_cdma s' = s_is_cdma s"
proof -
  have "unat q < length (qmiclientId s)" using assms(1,2) by (simp add: settled_def wf_qmi_def)
  then obtain c where c: "client s q = Some c" by (auto simp: client_def)
  show ?thesis
  proof (cases "c = 0")
    case True
    with assms c show ?thesis
      by (auto simp: send_qmux_def compose_no_client QmiThreadSendQMI_def QmiThreadSendQMITimeout_def)
  next
    case False
    let ?t = "snd (GetQMUXTransactionId s)"
    let ?m = "qmux_request q (word_of_int c AND 0xFF) (fst (GetQMUXTransactionId s)) mt []"
    have t: "wf_qmi ?t" "dev ?t \<noteq> QmiWwanProxy" "s_is_cdma ?t = s_is_cdma s"
      using assms(1) by (simp_all add: GetQMUXTransactionId_def Let_def settled_def wf_qmi_def)
    have "wf_request ?m" using assms(2) by (simp add: wf_qmux_request)
    from send_outcome [OF t(1) this t(2), of env True p] assms(3)
    have "wf_qmi s'" "frame s' = frame (?t\<lparr>sent := ?m # sent ?t\<rparr>)"
      by (auto simp: send_qmux_def compose_plain [OF c False])
    with t dev_frame [OF this(2)] frame_cdma [OF this(2)] show ?thesis by (simp add: settled_def)
  qed
qed

definition lte_excludes_cdma :: "reg_state \<Rightarrow> bool" where
  "lte_excludes_cdma st \<longleftrightarrow> settled (snd st) \<and> (is_lte (fst st) \<longrightarrow> s_is_cdma (snd st) = 0)"

lemma settled_simps [simp]:
  "settled (s\<lparr>s_is_cdma := c\<rparr>) = settled s" "settled (s\<lparr>s_hdr_personality := h\<rparr>) = settled s"
  by (simp_all add: settled_def wf_qmi_def)

lemma excludes_set_cdma: "lte_excludes_cdma st \<Longrightarrow> lte_excludes_cdma (set_cdma st)"
  by (simp add: lte_excludes_cdma_def set_cdma_def)

lemma excludes_set_lte: "lte_excludes_cdma st \<Longrightarrow> lte_excludes_cdma (set_lte st)"
  by (simp add: lte_excludes_cdma_def set_lte_def)

lemma excludes_service_status: "lte_excludes_cdma st \<Longrightarrow> lte_excludes_cdma (service_status ty st)"
  by (cases st) (auto simp: lte_excludes_cdma_def set_cdma_def service_status_def)

lemma excludes_srv_domain:
  assumes "srv_domain r p L f st = Some st'" "lte_excludes_cdma st"
    and "\<And>st. lte_excludes_cdma st \<Longrightarrow> lte_excludes_cdma (f st)"
  shows "lte_excludes_cdma st'"
proof -
  have keep: "lte_excludes_cdma ((fst st)\<lparr>PSAttached := b\<rparr>, snd st)" for b
    using assms(2) by (simp add: lte_excludes_cdma_def)
  show ?thesis
    using assms(1,2) keep assms(3) [OF keep] by (auto simp: srv_domain_def Let_def split: if_splits)
qed

lemma excludes_network_id:
  "network_id r p L st = Some st' \<Longrightarrow> lte_excludes_cdma st \<Longrightarrow> lte_excludes_cdma st'"
  by (auto simp: network_id_def lte_excludes_cdma_def split: if_splits)

lemma get_home_network_sends:
  assumes "requestGetHomeNetwork env mcc mnc s = Some (e, mcc', mnc', s')"
  shows "\<exists>err p. send_qmux env QMUX_TYPE_NAS 0x0025 None PDead s = Some (err, p, s')"
  using assms unfolding requestGetHomeNetwork_def
  apply (clarsimp simp: bind_eq_Some_conv)
  subgoal for err p s1 c by (cases c) auto
  done

lemma home_network_keeps:
  assumes "cdma_home_network env mcc mnc s = Some (mcc', mnc', s')" "settled s"
  shows "settled s' \<and> s_is_cdma s' = s_is_cdma s"
proof -
  obtain e m n where "requestGetHomeNetwork env 0 0 s = Some (e, m, n, s')"
    using assms(1) by (auto simp: cdma_home_network_def split: if_splits)
  from get_home_network_sends [OF this] obtain err p
    where "send_qmux env QMUX_TYPE_NAS 0x0025 None PDead s = Some (err, p, s')" by blast
  from send_plain_keeps [OF assms(2) _ this] show ?thesis by simp
qed

lemma excludes_hdr_info:
  assumes "hdr_info env r p st = Some st'" "lte_excludes_cdma st"
  shows "lte_excludes_cdma st'"
proof -
  obtain i s s1 mcc mnc s2 where 1: "srv_domain r p HDR_SYSTEM_INFO set_cdma st = Some (i, s)"
    and s1: "s1 = s \<or> s1 = s\<lparr>s_hdr_personality := 2\<rparr>"
    and 2: "cdma_home_network env (MobileCountryCode i) (MobileNetworkCode i) s1 = Some (mcc, mnc, s2)"
    and st': "st' = (i\<lparr>MobileCountryCode := mcc, MobileNetworkCode := mnc\<rparr>, s2)"
    using assms(1) by (auto simp: hdr_info_def split: if_splits) blast+
  have "lte_excludes_cdma (i, s)" by (rule excludes_srv_domain [OF 1 assms(2) excludes_set_cdma])
  with s1 have "settled s1" "is_lte i \<longrightarrow> s_is_cdma s1 = 0" by (auto simp: lte_excludes_cdma_def)
  with home_network_keeps [OF 2] st' show ?thesis by (simp add: lte_excludes_cdma_def)
qed

lemma excludes_sysinfo_tlv:
  assumes "sysinfo_tlv env r p st = Some st'" "lte_excludes_cdma st"
  shows "lte_excludes_cdma st'"
  using assms
  by (auto simp: sysinfo_tlv_def info_defs split: if_splits
      intro: excludes_service_status excludes_hdr_info
        excludes_network_id [OF _ excludes_srv_domain, OF _ _ _ excludes_set_cdma]
        excludes_network_id [OF _ excludes_srv_domain, OF _ _ _ excludes_set_lte]
        excludes_network_id [OF _ excludes_srv_domain])

lemma excludes_sysinfo_loop:
  "sysinfo_loop env r n p st = Some st' \<Longrightarrow> lte_excludes_cdma st \<Longrightarrow> lte_excludes_cdma st'"
proof (induction env r n p st rule: sysinfo_loop.induct)
  case (1 env r n p st)
  from 1(2,3) show ?case
    by (subst (asm) sysinfo_loop.simps)
      (auto split: if_splits option.splits intro: 1(1) [OF _ _ _ _ excludes_sysinfo_tlv])
qed

section \<open>The walk over well-formed system information\<close>

text \<open>A buffer shows the bytes \<open>e\<close> at an offset: reads inside them are reads of \<open>e\<close>.\<close>

definition shows_at :: "byte list \<Rightarrow> nat \<Rightarrow> byte list \<Rightarrow> bool" where
  "shows_at r p e \<longleftrightarrow> (\<forall>i < length e. rd8 r (p + i) = rd8 e i)"

lemma shows_at_append: "shows_at (pre @ e @ post) (length pre) e"
  by (simp add: shows_at_def rd8_append nth_append)

lemma shows_rd8: "shows_at r p e \<Longrightarrow> i < length e \<Longrightarrow> rd8 r (p + i) = rd8 e i"
  by (simp add: shows_at_def del: rd8_Some)

lemma shows_get8: "shows_at r p e \<Longrightarrow> off L f < length e \<Longrightarrow> get8 r p L f = get8 e 0 L f"
  by (simp add: get8_def shows_rd8 del: rd8_Some)

lemma shows_get16: "shows_at r p e \<Longrightarrow> Suc (off L f) < length e \<Longrightarrow> get16 r p L f = get16 e 0 L f"
  using shows_rd8 [of r p e "off L f"] shows_rd8 [of r p e "Suc (off L f)"]
  by (simp add: get16_def rd16_def del: rd8_Some)

lemma shows_strncpy: "shows_at r p e \<Longrightarrow> i + n \<le> length e \<Longrightarrow> strncpy_loop r (p + i) n = strncpy_loop e i n"
proof (induction n arbitrary: i)
  case (Suc n)
  from Suc.IH [of "Suc i"] Suc.prems show ?case
    by (simp add: shows_rd8 add.assoc del: rd8_Some cong: Option.bind_cong if_cong)
qed simp

lemma shows_plmn: "shows_at r p e \<Longrightarrow> i + 3 \<le> length e \<Longrightarrow> plmn_code r (p + i) = plmn_code e i"
  by (simp add: plmn_code_def shows_strncpy del: strncpy_loop.simps cong: Option.bind_cong if_cong)

lemma shows_srv_domain:
  assumes "shows_at r p e" "off L ''SrvDomainValid'' < length e" "off L ''SrvDomain'' < length e"
  shows "srv_domain r p L f st = srv_domain e 0 L f st"
  using assms by (simp add: srv_domain_def shows_get8 cong: Option.bind_cong if_cong)

lemma shows_network_id:
  assumes "shows_at r p e" "off L ''NetworkIdValid'' < length e" "off L ''MCC'' + 3 \<le> length e"
    "off L ''MNC'' + 3 \<le> length e"
  shows "network_id r p L = network_id e 0 L"
  using assms by (simp add: fun_eq_iff network_id_def shows_get8 shows_plmn cong: Option.bind_cong if_cong)

lemma shows_hdr_info:
  assumes "shows_at r p e" "sizeof HDR_SYSTEM_INFO \<le> length e"
  shows "hdr_info env r p st = hdr_info env e 0 st"
  using assms by (simp add: hdr_info_def shows_get8 shows_srv_domain cong: Option.bind_cong if_cong)

text \<open>The size that the cast of each TLV to its structure assumes.\<close>

definition sysinfo_size :: "byte \<Rightarrow> nat" where
  "sysinfo_size ty =
     (if ty \<in> {0x10, 0x11, 0x12, 0x13, 0x14, 0x24} then sizeof SERVICE_STATUS_INFO
      else if ty = 0x15 then sizeof CDMA_SYSTEM_INFO else if ty = 0x16 then sizeof HDR_SYSTEM_INFO
      else if ty = 0x17 then sizeof GSM_SYSTEM_INFO else if ty = 0x18 then sizeof WCDMA_SYSTEM_INFO
      else if ty = 0x19 then sizeof LTE_SYSTEM_INFO else if ty = 0x25 then sizeof TDSCDMA_SYSTEM_INFO
      else 3)"

lemma tlv_type: "get8 (encode_tlv x) 0 SERVICE_STATUS_INFO ''TLVType'' = Some (fst x)"
  by (simp add: get8_def encode_tlv_def rd8_def)

lemma tlv_length: "get16 (encode_tlv x) 0 SERVICE_STATUS_INFO ''TLVLength'' = Some (of_nat (length (snd x)))"
  by (simp add: get16_def encode_tlv_def rd16_def le16_def)

lemma shows_sysinfo_tlv:
  assumes "shows_at r p (encode_tlv x)" "sysinfo_size (fst x) \<le> length (encode_tlv x)"
  shows "sysinfo_tlv env r p st = sysinfo_tlv env (encode_tlv x) 0 st"
proof -
  have ty: "get8 r p SERVICE_STATUS_INFO ''TLVType'' = Some (fst x)"
    using shows_get8 [OF assms(1), of SERVICE_STATUS_INFO "''TLVType''"] by (simp add: tlv_type)
  note [simp] = shows_get8 [OF assms(1)] shows_srv_domain [OF assms(1)] shows_network_id [OF assms(1)]
    shows_hdr_info [OF assms(1)]
  consider "fst x \<in> {0x10, 0x11, 0x12, 0x13, 0x14, 0x24}" | "fst x \<in> {0x15, 0x16, 0x17}"
    | "fst x \<in> {0x18, 0x19, 0x25}"
    | "fst x \<notin> {0x10, 0x11, 0x12, 0x13, 0x14, 0x24, 0x15, 0x16, 0x17, 0x18, 0x19, 0x25}" by blast
  then show ?thesis
    using assms(2)
    by cases (auto simp: sysinfo_tlv_def info_defs ty tlv_type sysinfo_size_def simp del: length_encode_tlv)
qed

lemma sysinfo_loop_refines:
  assumes "\<forall>x \<in> set tlvs. sysinfo_size (fst x) \<le> 3 + length (snd x) \<and> length (snd x) < 65536"
  shows "sysinfo_loop env (pre @ encode_tlvs tlvs @ post) (int (length (encode_tlvs tlvs))) (length pre) st
    = run_steps (\<lambda>x. sysinfo_tlv env (encode_tlv x) 0) tlvs st"
  using assms
proof (induction tlvs arbitrary: pre st)
  case Nil
  then show ?case by (simp add: sysinfo_loop.simps)
next
  case (Cons x tlvs)
  let ?r = "pre @ encode_tlv x @ encode_tlvs tlvs @ post"
  have at: "shows_at ?r (length pre) (encode_tlv x)" by (rule shows_at_append)
  have len: "get16 ?r (length pre) SERVICE_STATUS_INFO ''TLVLength'' = Some (of_nat (length (snd x)))"
    using shows_get16 [OF at, of SERVICE_STATUS_INFO "''TLVLength''"] by (simp add: tlv_length)
  have tlv: "sysinfo_tlv env ?r (length pre) st = sysinfo_tlv env (encode_tlv x) 0 st"
    using Cons.prems by (intro shows_sysinfo_tlv [OF at]) simp
  have l: "unat (of_nat (length (snd x)) :: u16) = length (snd x)"
    "uint (of_nat (length (snd x)) :: u16) = int (length (snd x))"
    using Cons.prems by (simp_all add: unat_len16 uint_nat)
  have step: "sysinfo_loop env ?r (int (length (encode_tlvs tlvs))) (length pre + 3 + length (snd x)) st'
      = run_steps (\<lambda>x. sysinfo_tlv env (encode_tlv x) 0) tlvs st'" for st'
    using Cons.IH [of "pre @ encode_tlv x" st'] Cons.prems by (simp add: add.assoc)
  show ?case
    using step by (subst sysinfo_loop.simps) (simp add: tlv len l split: option.split)
qed

section \<open>LTE is remembered\<close>

lemma lte_set_cdma [simp]: "is_lte (fst (set_cdma st)) = is_lte (fst st)"
  by (simp add: set_cdma_def)

lemma lte_srv_domain:
  assumes "srv_domain r p L f st = Some st'" "is_lte (fst st)"
    and "\<And>st. is_lte (fst st) \<Longrightarrow> is_lte (fst (f st))"
  shows "is_lte (fst st')"
  using assms(1,2) assms(3) [of "((fst st)\<lparr>PSAttached := 1\<rparr>, snd st)"]
  by (auto simp: srv_domain_def Let_def split: if_splits)

lemma lte_network_id: "network_id r p L st = Some st' \<Longrightarrow> is_lte (fst st') = is_lte (fst st)"
  by (auto simp: network_id_def split: if_splits)

lemma lte_hdr_info: "hdr_info env r p st = Some st' \<Longrightarrow> is_lte (fst st) \<Longrightarrow> is_lte (fst st')"
  using lte_srv_domain [of r p HDR_SYSTEM_INFO set_cdma st] by (auto simp: hdr_info_def)

lemma lte_sysinfo_tlv:
  assumes "sysinfo_tlv env r p st = Some st'" "is_lte (fst st)"
  shows "is_lte (fst st')"
proof -
  have status: "is_lte (fst (service_status ty st))" for ty
    using assms(2) by (cases st) (auto simp: service_status_def)
  have "is_lte (fst (set_lte st))" for st by (simp add: set_lte_def)
  then have domain: "is_lte a" if "srv_domain r p L f st = Some (a, b)"
      "f = set_cdma \<or> f = set_lte \<or> f = (\<lambda>st. st)" for L f a b
    using lte_srv_domain [OF that(1) assms(2)] that(2) by auto
  show ?thesis
    using assms status
    by (auto simp: sysinfo_tlv_def info_defs lte_network_id split: if_splits intro: lte_hdr_info domain)
qed

lemma run_steps_keeps:
  assumes "run_steps f xs st = Some st'" "P st" "\<And>x st st'. f x st = Some st' \<Longrightarrow> P st \<Longrightarrow> P st'"
  shows "P st'"
  using assms(1,2) by (induction xs arbitrary: st) (auto intro: assms(3))

lemma sysinfo_run_lte:
  assumes "run_steps (\<lambda>x. sysinfo_tlv env (encode_tlv x) 0) tlvs st = Some st'"
    and "(0x14, 0x02 # v) \<in> set tlvs"
  shows "is_lte (fst st')"
proof -
  let ?f = "\<lambda>x. sysinfo_tlv env (encode_tlv x) 0"
  obtain us ws where tlvs: "tlvs = us @ (0x14, 0x02 # v) # ws"
    using split_list [OF assms(2)] by blast
  obtain st1 st2 where 2: "?f (0x14, 0x02 # v) st1 = Some st2" and 3: "run_steps ?f ws st2 = Some st'"
    using assms(1) unfolding tlvs run_steps_append by auto
  have "get8 (encode_tlv (0x14, 0x02 # v)) 0 SERVICE_STATUS_INFO ''SrvStatus'' = Some 2"
    by (simp add: get8_def encode_tlv_def le16_def)
  with 2 have "is_lte (fst st2)"
    by (cases st1) (auto simp: sysinfo_tlv_def tlv_type service_status_def)
  with 3 show ?thesis by (rule run_steps_keeps) (rule lte_sysinfo_tlv)
qed

section \<open>A response with the system information\<close>

definition sysinfo_complete :: "tlv list \<Rightarrow> bool" where
  "sysinfo_complete tlvs \<longleftrightarrow> length (encode_tlvs tlvs) < 65529 \<and>
     (\<forall>x \<in> set tlvs. fst x \<noteq> 0x02 \<and> sysinfo_size (fst x) \<le> 3 + length (snd x))"

lemma length_tlv_le: "x \<in> set tlvs \<Longrightarrow> length (snd x) \<le> length (encode_tlvs tlvs)"
  by (induction tlvs) auto

lemma response_length:
  assumes "length (encode_tlvs tlvs) < 65529"
  shows "get16 (qmux_response q c t mt res err tlvs) MUXHdr QMINAS_GET_SYS_INFO_RESP_MSG ''Length''
    = Some (of_nat (7 + length (encode_tlvs tlvs)))"
  by (simp add: get16_def qmux_response_def mux_body_def encode_tlv_def le16_def rd16_def)

lemma sysinfo_loop_response:
  assumes "sysinfo_complete tlvs"
  shows "sysinfo_loop env (qmux_response q c t mt 0 0 tlvs)
      (uint (of_nat (7 + length (encode_tlvs tlvs)) :: u16)) (MUXHdr + sizeof QCQMUX_MSG_HDR) st
    = run_steps (\<lambda>x. sysinfo_tlv env (encode_tlv x) 0) tlvs st"
proof -
  let ?r = "qmux_response q c t mt 0 0 tlvs" and ?xs = "(0x02, le16 0 @ le16 0) # tlvs"
  have len: "length (encode_tlvs tlvs) < 65529" using assms by (simp add: sysinfo_complete_def)
  have u: "uint (of_nat (7 + length (encode_tlvs tlvs)) :: u16) = int (length (encode_tlvs ?xs))"
    using unat_len16 [of "7 + length (encode_tlvs tlvs)"] len by (simp add: uint_nat)
  have r: "?r = take 13 ?r @ encode_tlvs ?xs @ []"
    by (simp add: qmux_response_def mux_body_def encode_tlv_def le16_def)
  have sz: "\<forall>x \<in> set ?xs. sysinfo_size (fst x) \<le> 3 + length (snd x) \<and> length (snd x) < 65536"
  proof
    fix x assume "x \<in> set ?xs"
    then show "sysinfo_size (fst x) \<le> 3 + length (snd x) \<and> length (snd x) < 65536"
      using assms len length_tlv_le [of x tlvs] by (auto simp: sysinfo_complete_def sysinfo_size_def)
  qed
  have p: "MUXHdr + sizeof QCQMUX_MSG_HDR = length (take 13 ?r)" by simp
  have "sysinfo_loop env ?r (int (length (encode_tlvs ?xs))) (length (take 13 ?r)) st
      = run_steps (\<lambda>x. sysinfo_tlv env (encode_tlv x) 0) ?xs st"
    by (subst r, rule sysinfo_loop_refines [OF sz])
  moreover have "sysinfo_tlv env (encode_tlv (0x02, le16 0 @ le16 0)) 0 st = Some st"
    by (simp add: sysinfo_tlv_def tlv_type)
  ultimately show ?thesis unfolding u p by simp
qed

lemma sysinfo_response:
  assumes "send_qmux env QMUX_TYPE_NAS 0x004D None PDead s
      = Some (ret, PLive (qmux_response q c t 0x004D 0 0 tlvs), s')" "0 \<le> ret"
    and "sysinfo_complete tlvs"
  shows "requestRegistrationState2 env s = do {
     (i, s) \<leftarrow> run_steps (\<lambda>x. sysinfo_tlv env (encode_tlv x) 0) tlvs
                (sysinfo_init, s'\<lparr>s_is_cdma := 0, s_hdr_personality := 0\<rparr>);
     Some (0, PSAttached i, (MobileCountryCode i, MobileNetworkCode i,
       data_cap_str (DeviceClass i) (s_hdr_personality s) (DataCapList i) (DataCapStr i)), s) }"
proof -
  have len: "length (encode_tlvs tlvs) < 65529" using assms(3) by (simp add: sysinfo_complete_def)
  have L: "get16 (qmux_response q c t 0x004D 0 0 tlvs) 9 QMINAS_GET_SYS_INFO_RESP_MSG ''Length''
      = Some (of_nat (7 + length (encode_tlvs tlvs)))"
    using response_length [OF len] by simp
  show ?thesis
    unfolding requestRegistrationState2_def assms(1)
    by (simp add: rsp_check_response [OF assms(2)] L [simplified]
        sysinfo_loop_response [OF assms(3), simplified])
qed

section \<open>Properties\<close>

text \<open>The code that a CDMA network sends for a country or network code.\<close>

definition cdma_digit :: "nat \<Rightarrow> nat" where
  "cdma_digit d = (if d = 0 then 10 else d)"

definition cdma_mcc :: "nat \<Rightarrow> nat \<Rightarrow> nat \<Rightarrow> u16" where
  "cdma_mcc d1 d2 d3 = of_nat (100 * cdma_digit d1 + 10 * cdma_digit d2 + cdma_digit d3 - 111)"

definition cdma_mnc :: "nat \<Rightarrow> nat \<Rightarrow> u16" where
  "cdma_mnc d1 d2 = of_nat (10 * cdma_digit d1 + cdma_digit d2 - 11)"

lemma cdma_digit_range: "d < 10 \<Longrightarrow> 1 \<le> cdma_digit d \<and> cdma_digit d \<le> 10"
  by (simp add: cdma_digit_def)

definition digit_of :: "nat \<Rightarrow> nat" where
  "digit_of a = (if a = 10 then 0 else a)"

lemma cdma_last_digit:
  assumes "1 \<le> c" "c \<le> 10"
  shows "(10 * n + c) mod 10 = digit_of c"
    and "(if digit_of c = 0 then (10 * n + c - 10) div 10 else (10 * n + c) div 10) = n"
    and "(digit_of c < 10) = True"
  using assms by (cases "c = 10"; simp add: digit_of_def)+

lemma cdma_mcc_digits:
  assumes "1 \<le> a" "a \<le> 10" "1 \<le> b" "b \<le> 10" "1 \<le> c" "c \<le> 10"
    and "unat mcc = 100 * a + 10 * b + c - 111"
  shows "quectel_convert_cdma_mcc_2_ascii_mcc mcc = of_nat (digit_of a * 100 + digit_of b * 10 + digit_of c)"
proof -
  have u: "unat mcc + 111 = 10 * (10 * a + b) + c" using assms by simp
  have "unat mcc < 1023" using assms by simp
  then have m: "(mcc = 0x3FF) = False" by auto
  show ?thesis
    by (simp only: quectel_convert_cdma_mcc_2_ascii_mcc_def u m Let_def if_False if_True simp_thms
        cdma_last_digit [OF assms(5,6)] cdma_last_digit [OF assms(3,4)] cdma_last_digit [OF assms(1,2)]
        digit_of_def [symmetric])
qed

lemma cdma_mnc_digits:
  assumes "1 \<le> a" "a \<le> 10" "1 \<le> b" "b \<le> 10" "unat mnc = 10 * a + b - 11"
  shows "quectel_convert_cdma_mnc_2_ascii_mnc mnc = of_nat (digit_of a * 10 + digit_of b)"
proof -
  have u: "unat mnc + 11 = 10 * a + b" using assms by simp
  have "unat mnc < 127" using assms by simp
  then have m: "(mnc = 0x7F) = False" by auto
  show ?thesis
    by (simp only: quectel_convert_cdma_mnc_2_ascii_mnc_def u m Let_def if_False if_True simp_thms
        cdma_last_digit [OF assms(3,4)] cdma_last_digit [OF assms(1,2)] digit_of_def [symmetric])
qed

lemma cdma_digit_back: "d < 10 \<Longrightarrow> digit_of (cdma_digit d) = d"
  by (simp add: cdma_digit_def digit_of_def)

text \<open>
  The conversions of the CDMA codes invert the encoding of the network: the decimal
  digits of a country code and of a network code come back, zeros included.
\<close>
theorem cdma_codes_roundtrip:
  assumes "d1 < 10" "d2 < 10" "d3 < 10"
  shows "quectel_convert_cdma_mcc_2_ascii_mcc (cdma_mcc d1 d2 d3) = of_nat (100 * d1 + 10 * d2 + d3)
    \<and> quectel_convert_cdma_mnc_2_ascii_mnc (cdma_mnc d1 d2) = of_nat (10 * d1 + d2)"
proof
  note r = cdma_digit_range [OF assms(1)] cdma_digit_range [OF assms(2)] cdma_digit_range [OF assms(3)]
  have "unat (cdma_mcc d1 d2 d3) = 100 * cdma_digit d1 + 10 * cdma_digit d2 + cdma_digit d3 - 111"
    unfolding cdma_mcc_def using r by (intro unat_len16) linarith
  with r show "quectel_convert_cdma_mcc_2_ascii_mcc (cdma_mcc d1 d2 d3) = of_nat (100 * d1 + 10 * d2 + d3)"
    by (subst cdma_mcc_digits [of "cdma_digit d1" "cdma_digit d2" "cdma_digit d3"])
      (auto simp: cdma_digit_back [OF assms(1)] cdma_digit_back [OF assms(2)] cdma_digit_back [OF assms(3)]
        simp del: of_nat_add of_nat_mult intro!: arg_cong [of _ _ of_nat])
  have "unat (cdma_mnc d1 d2) = 10 * cdma_digit d1 + cdma_digit d2 - 11"
    unfolding cdma_mnc_def using r by (intro unat_len16) linarith
  with r show "quectel_convert_cdma_mnc_2_ascii_mnc (cdma_mnc d1 d2) = of_nat (10 * d1 + d2)"
    by (subst cdma_mnc_digits [of "cdma_digit d1" "cdma_digit d2"])
      (auto simp: cdma_digit_back [OF assms(1)] cdma_digit_back [OF assms(2)]
        simp del: of_nat_add of_nat_mult intro!: arg_cong [of _ _ of_nat])
qed

theorem cdma_codes_roundtrip_witness:
  "quectel_convert_cdma_mcc_2_ascii_mcc (cdma_mcc 4 6 0) = of_nat (100 * 4 + 10 * 6 + 0)
    \<and> quectel_convert_cdma_mnc_2_ascii_mnc (cdma_mnc 4 6) = of_nat (10 * 4 + 6)"
  by (rule cdma_codes_roundtrip) simp_all

text \<open>
  C34: The walk over a response with complete system information is the composition of
  the steps for its TLVs in their order, each a function of its own bytes only: the
  pointer arithmetic neither skips a TLV nor reads behind one.
\<close>
theorem system_info_walk:
  assumes "send_qmux env QMUX_TYPE_NAS 0x004D None PDead s
      = Some (ret, PLive (qmux_response q c t 0x004D 0 0 tlvs), s')" "0 \<le> ret"
    and "sysinfo_complete tlvs"
  shows "requestRegistrationState2 env s = do {
     (i, s) \<leftarrow> run_steps (\<lambda>x. sysinfo_tlv env (encode_tlv x) 0) tlvs
                (sysinfo_init, s'\<lparr>s_is_cdma := 0, s_hdr_personality := 0\<rparr>);
     Some (0, PSAttached i, (MobileCountryCode i, MobileNetworkCode i,
       data_cap_str (DeviceClass i) (s_hdr_personality s) (DataCapList i) (DataCapStr i)), s) }"
  by (rule sysinfo_response [OF assms])

text \<open>A card in LTE and CDMA service at once, LTE listed first.\<close>

definition lte_and_cdma :: "tlv list" where
  "lte_and_cdma = [(0x14, [2, 2, 1]), (0x10, [2, 2, 0])]"

lemma lte_and_cdma_complete: "sysinfo_complete lte_and_cdma"
  by (simp add: sysinfo_complete_def lte_and_cdma_def sysinfo_size_def)

lemma lte_and_cdma_sent:
  "\<exists>s'. send_qmux (answering (\<lambda>m. qmux_response 3 7 1 0x004D 0 0 lte_and_cdma)) QMUX_TYPE_NAS 0x004D None PDead both_up
     = Some (0, PLive (qmux_response 3 7 1 0x004D 0 0 lte_and_cdma), s') \<and> settled s'"
proof -
  have "length (encode_tlvs lte_and_cdma) \<le> 4076" by (simp add: lte_and_cdma_def)
  from send_plain_both_up [of QMUX_TYPE_NAS, OF _ _ this, of "0x004D" 0 0 PDead]
  obtain s' where s': "send_qmux (answering (\<lambda>m. qmux_response 3 7 1 0x004D 0 0 lte_and_cdma)) QMUX_TYPE_NAS 0x004D None PDead both_up
     = Some (0, PLive (qmux_response 3 7 1 0x004D 0 0 lte_and_cdma), s')" by auto
  have "settled both_up" by (simp add: settled_def)
  with send_plain_keeps [OF this _ s'] s' show ?thesis by simp
qed

lemma lte_and_cdma_run:
  "run_steps (\<lambda>x. sysinfo_tlv env (encode_tlv x) 0) lte_and_cdma (sysinfo_init, s)
    = Some (sysinfo_init\<lparr>DataCapList := 0x2F0000, DeviceClass := DEVICE_CLASS_CDMA, is_lte := True\<rparr>, s\<lparr>s_is_cdma := 0\<rparr>)"
  by (simp add: lte_and_cdma_def sysinfo_tlv_def tlv_type get8_def encode_tlv_def le16_def service_status_def set_cdma_def sysinfo_init_def)

theorem system_info_walk_witness:
  "\<exists>s'. requestRegistrationState2 (answering (\<lambda>m. qmux_response 3 7 1 0x004D 0 0 lte_and_cdma)) both_up
     = Some (0, 0, (0, 0, ''1XEVDO_REVB''), s')"
proof -
  obtain s' where s': "send_qmux (answering (\<lambda>m. qmux_response 3 7 1 0x004D 0 0 lte_and_cdma)) QMUX_TYPE_NAS 0x004D None PDead both_up
     = Some (0, PLive (qmux_response 3 7 1 0x004D 0 0 lte_and_cdma), s')"
    using lte_and_cdma_sent by blast
  show ?thesis
    using system_info_walk [OF s' _ lte_and_cdma_complete]
    by (simp add: lte_and_cdma_run) (simp add: sysinfo_init_def data_cap_str_def wwan_data_class2str_def class2str_def)
qed

text \<open>
  C5: LTE excludes CDMA whatever the order of the TLVs: when a complete response reports
  LTE in service, the request leaves \<open>s_is_cdma\<close> cleared, so that the next data call is
  set up as an LTE one, also when CDMA or HDR is in service and the home network is asked
  on the way.
\<close>
theorem lte_service_excludes_cdma:
  assumes "send_qmux env QMUX_TYPE_NAS 0x004D None PDead s
      = Some (ret, PLive (qmux_response q c t 0x004D 0 0 tlvs), s')" "0 \<le> ret"
    and "sysinfo_complete tlvs" "settled s'" "(0x14, 0x02 # v) \<in> set tlvs"
    and "requestRegistrationState2 env s = Some (err, ps, dbg, s'')"
  shows "err = 0 \<and> s_is_cdma s'' = 0"
proof -
  let ?f = "\<lambda>x. sysinfo_tlv env (encode_tlv x) 0"
  obtain i where run: "run_steps ?f tlvs (sysinfo_init, s'\<lparr>s_is_cdma := 0, s_hdr_personality := 0\<rparr>) = Some (i, s'')"
    and err: "err = 0"
    using assms(6) unfolding sysinfo_response [OF assms(1-3)] by auto
  have "lte_excludes_cdma (sysinfo_init, s'\<lparr>s_is_cdma := 0, s_hdr_personality := 0\<rparr>)"
    using assms(4) by (simp add: lte_excludes_cdma_def)
  with run have "lte_excludes_cdma (i, s'')"
    by (rule run_steps_keeps) (rule excludes_sysinfo_tlv)
  with sysinfo_run_lte [OF run assms(5)] err show ?thesis by (simp add: lte_excludes_cdma_def)
qed

theorem lte_service_excludes_cdma_witness:
  "\<exists>dbg s'. requestRegistrationState2 (answering (\<lambda>m. qmux_response 3 7 1 0x004D 0 0 lte_and_cdma)) both_up
     = Some (0, 0, dbg, s') \<and> s_is_cdma s' = 0"
proof -
  obtain s' where s': "send_qmux (answering (\<lambda>m. qmux_response 3 7 1 0x004D 0 0 lte_and_cdma)) QMUX_TYPE_NAS 0x004D None PDead both_up
     = Some (0, PLive (qmux_response 3 7 1 0x004D 0 0 lte_and_cdma), s')" "settled s'"
    using lte_and_cdma_sent by blast
  have "\<exists>dbg s'. requestRegistrationState2 (answering (\<lambda>m. qmux_response 3 7 1 0x004D 0 0 lte_and_cdma)) both_up
     = Some (0, 0, dbg, s')"
    using sysinfo_response [OF s'(1) _ lte_and_cdma_complete]
    by (simp add: lte_and_cdma_run) (simp add: sysinfo_init_def)
  then obtain dbg s'' where r: "requestRegistrationState2 (answering (\<lambda>m. qmux_response 3 7 1 0x004D 0 0 lte_and_cdma)) both_up
     = Some (0, 0, dbg, s'')" by blast
  have "(0x14, 0x02 # [2, 1]) \<in> set lte_and_cdma" by (simp add: lte_and_cdma_def)
  from lte_service_excludes_cdma [OF s'(1) _ lte_and_cdma_complete s'(2) this r] have "s_is_cdma s'' = 0" by simp
  with r show ?thesis by blast
qed

text \<open>What a serving-system response says about the packet domain and the radio in use.\<close>

definition serving_ps :: "tlv list \<Rightarrow> byte" where
  "serving_ps tlvs = (case map_of tlvs 0x01 of None \<Rightarrow> 0
     | Some v \<Rightarrow> if v ! 0 = 1 then v ! 2 else 2)"

definition serving_cdma :: "tlv list \<Rightarrow> bool" where
  "serving_cdma tlvs \<longleftrightarrow> (\<exists>v. map_of tlvs 0x01 = Some v \<and> v ! 0 = 1 \<and> v ! 4 \<noteq> 0 \<and> (v ! 5 = 1 \<or> v ! 5 = 2))"

definition serving_complete :: "tlv list \<Rightarrow> bool" where
  "serving_complete tlvs \<longleftrightarrow> length (encode_tlvs tlvs) < 65529
     \<and> (\<forall>v. map_of tlvs 0x01 = Some v \<longrightarrow> 6 \<le> length v) \<and> (\<forall>v. map_of tlvs 0x12 = Some v \<longrightarrow> 4 \<le> length v)
     \<and> (\<forall>v. map_of tlvs 0x11 = Some v \<longrightarrow> 3 \<le> length v)"

definition plmn_of :: "tlv list \<Rightarrow> u16 \<times> u16" where
  "plmn_of tlvs = (case map_of tlvs 0x12 of None \<Rightarrow> (0, 0)
     | Some v \<Rightarrow> (mk16 (v ! 0) (v ! 1), mk16 (v ! 2) (v ! 3)))"

lemma get16_at:
  assumes "tlv_at r p v" "off L f = 3 + i" "i + 1 < length v"
  shows "get16 r p L f = Some (mk16 (v ! i) (v ! (i + 1)))"
  using tlv_at_rd8 [OF assms(1), of i] tlv_at_rd8 [OF assms(1), of "i + 1"] assms(2,3)
  by (simp add: get16_def rd16_def add.assoc)

lemma put_DataCap: "tlv_at r p v \<Longrightarrow> 2 \<le> length v \<Longrightarrow> \<exists>r'. put8 p QMINAS_DATA_CAP ''DataCap'' x r = Some r'"
  by (auto simp: tlv_at_def put8_def)

lemma serving_data_cap_defined:
  assumes "serving_complete tlvs"
  shows "\<exists>cap r'. serving_data_cap (qmux_response q c t mt res err tlvs) = Some (cap, r')"
proof (cases "map_of tlvs 0x11")
  case None
  with assms GetTLV_response(1) [of tlvs "0x11"] show ?thesis
    by (simp add: serving_data_cap_def on_tlv_def serving_complete_def)
next
  case (Some v)
  let ?r = "qmux_response q c t mt res err tlvs"
  obtain p where p: "GetTLV ?r MUXHdr (unat (0x11 :: byte)) = Some (Some p)" "tlv_at ?r p v"
    using GetTLV_response(2) [of tlvs "0x11" v q c t mt res err] Some assms by (auto simp: serving_complete_def)
  have v: "3 \<le> length v" using assms Some by (simp add: serving_complete_def)
  have "get8 ?r p QMINAS_DATA_CAP ''DataCapListLen'' = Some (v ! 0)"
    "get8 ?r p QMINAS_DATA_CAP ''DataCap'' = Some (v ! 1)" "rd8 ?r (5 + p) = Some (v ! 2)"
    using tlv_at_rd8 [OF p(2), of 2] v by (auto intro: tlv_at_get8 [OF p(2)] simp: ac_simps)
  moreover obtain r1 where "put8 p QMINAS_DATA_CAP ''DataCap'' (v ! 2) ?r = Some r1"
    using put_DataCap [OF p(2), of "v ! 2"] v by auto
  ultimately show ?thesis
    using p(1) by (cases "v ! 2 = 0x08 \<or> v ! 2 = 0x0A")
      (auto simp: serving_data_cap_def on_tlv_def simp del: bind_Some_iff)
qed

text \<open>
  On an older modem, a complete serving-system response sets the caller's packet
  state to the reported one if the modem is registered, to detached (2) if it is not, and
  to unknown (0) if the TLV is missing; the network codes are those of the current PLMN;
  \<open>s_is_cdma\<close> is cleared unless a CDMA radio is in use.
\<close>
theorem serving_system_state:
  assumes "send_qmux env QMUX_TYPE_NAS 0x0024 None PDead s
      = Some (ret, PLive (qmux_response q c t 0x0024 0 0 tlvs), s')" "0 \<le> ret"
    and "s_9x07 s = 0" "serving_complete tlvs" "\<not> serving_cdma tlvs"
  shows "\<exists>cap. requestRegistrationState env ps0 s =
    Some (0, serving_ps tlvs, (fst (plmn_of tlvs), snd (plmn_of tlvs), cap), s'\<lparr>s_is_cdma := 0\<rparr>)"
proof -
  let ?r = "qmux_response q c t 0x0024 0 0 tlvs"
  have len: "length (encode_tlvs tlvs) < 65529" using assms(4) by (simp add: serving_complete_def)
  obtain cap r' where cap: "serving_data_cap ?r = Some (cap, r')"
    using serving_data_cap_defined [OF assms(4)] by blast
  have plmn: "on_tlv ?r 0x12 (0, 0) (\<lambda>p. do {
      a \<leftarrow> get16 ?r p QMINAS_CURRENT_PLMN_MSG ''MobileCountryCode'';
      b \<leftarrow> get16 ?r p QMINAS_CURRENT_PLMN_MSG ''MobileNetworkCode''; Some (a, b) }) = Some (plmn_of tlvs)"
    unfolding plmn_of_def
  proof (rule on_tlv_response [OF len])
    fix p v assume v: "map_of tlvs 0x12 = Some v" "tlv_at ?r p v"
    then have "4 \<le> length v" using assms(4) by (simp add: serving_complete_def)
    then show "do {
      a \<leftarrow> get16 ?r p QMINAS_CURRENT_PLMN_MSG ''MobileCountryCode'';
      b \<leftarrow> get16 ?r p QMINAS_CURRENT_PLMN_MSG ''MobileNetworkCode''; Some (a, b) }
      = Some (mk16 (v ! 0) (v ! 1), mk16 (v ! 2) (v ! 3))"
      using get16_at [OF v(2), of QMINAS_CURRENT_PLMN_MSG _ 0] get16_at [OF v(2), of QMINAS_CURRENT_PLMN_MSG _ 2]
      by (simp add: numeral_3_eq_3)
  qed simp_all
  have serving: "on_tlv ?r 0x01 (0, False, 0, 0) (\<lambda>p. do {
      st \<leftarrow> get8 ?r p SERVING_SYSTEM ''RegistrationState'';
      if st = 0x01 then do {
        ps \<leftarrow> get8 ?r p SERVING_SYSTEM ''PSAttachedState'';
        inuse \<leftarrow> get8 ?r p SERVING_SYSTEM ''InUseRadioIF'';
        radio \<leftarrow> (if inuse \<noteq> 0 then get8 ?r p SERVING_SYSTEM ''RadioIF'' else Some 0);
        Some (ps, True, inuse, radio) }
      else Some (0x02, False, 0, 0) })
    = Some (case map_of tlvs 0x01 of None \<Rightarrow> (0, False, 0, 0)
      | Some v \<Rightarrow> if v ! 0 = 1 then (v ! 2, True, v ! 4, if v ! 4 \<noteq> 0 then v ! 5 else 0) else (2, False, 0, 0))"
  proof (rule on_tlv_response [OF len])
    fix p v assume v: "map_of tlvs 0x01 = Some v" "tlv_at ?r p v"
    then have "6 \<le> length v" using assms(4) by (simp add: serving_complete_def)
    then have "get8 ?r p SERVING_SYSTEM ''RegistrationState'' = Some (v ! 0)"
      "get8 ?r p SERVING_SYSTEM ''PSAttachedState'' = Some (v ! 2)"
      "get8 ?r p SERVING_SYSTEM ''InUseRadioIF'' = Some (v ! 4)" "get8 ?r p SERVING_SYSTEM ''RadioIF'' = Some (v ! 5)"
      by (auto intro: tlv_at_get8 [OF v(2)])
    then show "do {
      st \<leftarrow> get8 ?r p SERVING_SYSTEM ''RegistrationState'';
      if st = 0x01 then do {
        ps \<leftarrow> get8 ?r p SERVING_SYSTEM ''PSAttachedState'';
        inuse \<leftarrow> get8 ?r p SERVING_SYSTEM ''InUseRadioIF'';
        radio \<leftarrow> (if inuse \<noteq> 0 then get8 ?r p SERVING_SYSTEM ''RadioIF'' else Some 0);
        Some (ps, True, inuse, radio) }
      else Some (0x02, False, 0, 0) }
      = Some (if v ! 0 = 1 then (v ! 2, True, v ! 4, if v ! 4 \<noteq> 0 then v ! 5 else 0) else (2, False, 0, 0))"
      by simp
  qed simp_all
  show ?thesis
  proof (cases "map_of tlvs 0x01")
    case None
    then show ?thesis
      using assms(3) unfolding requestRegistrationState_def assms(1)
      by (simp add: rsp_check_response [OF assms(2)] plmn [simplified] serving [simplified] cap serving_ps_def
          case_prod_beta)
  next
    case (Some v)
    with assms(5) have "v ! 0 = 1 \<and> v ! 4 \<noteq> 0 \<longrightarrow> v ! 5 \<noteq> 1 \<and> v ! 5 \<noteq> 2" by (auto simp: serving_cdma_def)
    with Some show ?thesis
      using assms(3) unfolding requestRegistrationState_def assms(1)
      by (auto simp: rsp_check_response [OF assms(2)] plmn [simplified] serving [simplified] cap serving_ps_def
          case_prod_beta)
  qed
qed

text \<open>An older modem that is registered on LTE radio 8 of network 460-01.\<close>

definition old_modem :: qmi where
  "old_modem = both_up\<lparr>s_9x07 := 0\<rparr>"

definition registered :: "tlv list" where
  "registered = [(0x01, [1, 1, 1, 2, 1, 8]), (0x12, [0xCC, 1, 1, 0, 0])]"

lemma old_modem_simps [simp]:
  "wf_qmi old_modem" "dev old_modem = QmiWwan" "cdc_wdm_fd old_modem = 3" "s_9x07 old_modem = 0"
  "client old_modem ty = (if unat ty < 27 then Some 7 else None)" "fst (GetQMUXTransactionId old_modem) = 1"
  by (auto simp: old_modem_def both_up_def clients_ready_def qmi_init_def wf_qmi_def
      GetQMUXTransactionId_def client_def)

theorem serving_system_state_witness:
  "\<exists>cap s'. requestRegistrationState (answering (\<lambda>m. qmux_response 3 7 1 0x0024 0 0 registered)) 0 old_modem
     = Some (0, 1, (460, 1, cap), s')"
proof -
  let ?env = "answering (\<lambda>m. qmux_response 3 7 1 0x0024 0 0 registered)"
  have len: "length (encode_tlvs registered) \<le> 4076" by (simp add: registered_def)
  have "\<exists>s'. send_qmux ?env QMUX_TYPE_NAS 0x0024 None PDead old_modem
      = Some (0, PLive (qmux_response (if QMUX_TYPE_NAS = QMUX_TYPE_WDS_IPV6 then QMUX_TYPE_WDS else QMUX_TYPE_NAS)
          7 1 0x0024 0 0 registered), s') \<and> wf_qmi s'
        \<and> frame s' = frame (snd (GetQMUXTransactionId old_modem)\<lparr>sent := qmux_request QMUX_TYPE_NAS 7 1 0x0024 [] # sent old_modem\<rparr>)"
    by (rule send_qmux_answered [where xs = "[]"])
      (use compose_plain [of old_modem QMUX_TYPE_NAS 7 "0x0024"] len in \<open>simp_all add: answering_def\<close>)
  then obtain s' where s': "send_qmux ?env QMUX_TYPE_NAS 0x0024 None PDead old_modem
      = Some (0, PLive (qmux_response QMUX_TYPE_NAS 7 1 0x0024 0 0 registered), s')" by auto
  have "serving_complete registered" "\<not> serving_cdma registered" "serving_ps registered = 1"
    "plmn_of registered = (460, 1)"
    by (simp_all add: serving_complete_def serving_cdma_def serving_ps_def registered_def plmn_of_def mk16_def)
  with serving_system_state [OF s', of 0] show ?thesis by auto
qed

end
