(* ===== verification/QmiWwan.thy ===== *)
theory QmiWwan
  imports Registration
begin

text \<open>
  \<open>QmiWwanCM.c\<close> beside its send function: the control messages that allocate and release
  client identifiers, and the start and end of the session. \<open>ComposeQCTLMsg\<close> fills a stack
  buffer that it does not clear: its old content is an argument of the model, a function of
  the state.
\<close>

section \<open>Control messages\<close>

abbreviation (input) "QMICTL_GET_VERSION_REQ \<equiv> (0x0021 :: u16)"
abbreviation (input) "QMICTL_GET_CLIENT_ID_REQ \<equiv> (0x0022 :: u16)"
abbreviation (input) "QMICTL_RELEASE_CLIENT_ID_REQ \<equiv> (0x0023 :: u16)"
abbreviation (input) "QMICTL_SYNC_REQ \<equiv> (0x0027 :: u16)"

type_synonym stack = "qmi \<Rightarrow> byte list"

definition stack_sized :: "stack \<Rightarrow> bool" where
  "stack_sized stk \<longleftrightarrow> (\<forall>s. length (stk s) = 256)"

definition ComposeQCTLMsg :: "stack \<Rightarrow> u16 \<Rightarrow> builder option \<Rightarrow> qmi \<Rightarrow> (byte list \<times> qmi) option" where
  "ComposeQCTLMsg stk QMICTLType custom s = do {
     b \<leftarrow> put8 0 QCQMI_HDR ''IFType'' 0x01 (stk s);
     b \<leftarrow> put8 0 QCQMI_HDR ''CtlFlags'' 0x00 b;
     b \<leftarrow> put8 0 QCQMI_HDR ''QMIType'' QMUX_TYPE_CTL b;
     b \<leftarrow> put8 0 QCQMI_HDR ''ClientId'' 0x00 b;
     b \<leftarrow> put8 MUXMsg QCQMICTL_MSG_HDR ''CtlFlags'' 0x00 b;
     let (tid, s) = GetQCTLTransactionId s;
     b \<leftarrow> put8 MUXMsg QCQMICTL_MSG_HDR ''TransactionId'' tid b;
     b \<leftarrow> put16 MUXMsg QCQMICTL_MSG_HDR ''QMICTLType'' QMICTLType b;
     b \<leftarrow> (case custom of
            Some f \<Rightarrow> do { (n, b) \<leftarrow> f b;
                           put16 MUXMsg QCQMICTL_MSG_HDR ''Length'' (n - of_nat (sizeof QCQMICTL_MSG_HDR)) b }
          | None \<Rightarrow> put16 MUXMsg QCQMICTL_MSG_HDR ''Length'' 0 b);
     len \<leftarrow> get16 b MUXMsg QCQMICTL_MSG_HDR ''Length'';
     b \<leftarrow> put16 0 QCQMI_HDR ''Length'' (len + of_nat (sizeof QCQMICTL_MSG_HDR + sizeof QCQMI_HDR - 1)) b;
     Length \<leftarrow> get16 b 0 QCQMI_HDR ''Length'';
     m \<leftarrow> rdn b 0 (unat Length + 1);
     Some (m, s) }"

definition CtlGetVersionReq :: builder where
  "CtlGetVersionReq b = do {
     b \<leftarrow> put8 MUXMsg QMICTL_GET_VERSION_REQ_MSG ''TLVType'' 0x01 b;
     b \<leftarrow> put16 MUXMsg QMICTL_GET_VERSION_REQ_MSG ''TLVLength'' 0x0001 b;
     b \<leftarrow> put8 MUXMsg QMICTL_GET_VERSION_REQ_MSG ''QMUXTypes'' QMUX_TYPE_ALL b;
     Some (of_nat (sizeof QMICTL_GET_VERSION_REQ_MSG), b) }"

definition CtlGetClientIdReq :: "byte \<Rightarrow> builder" where
  "CtlGetClientIdReq arg0 b = do {
     b \<leftarrow> put8 MUXMsg QMICTL_GET_CLIENT_ID_REQ_MSG ''TLVType'' 0x01 b;
     b \<leftarrow> put16 MUXMsg QMICTL_GET_CLIENT_ID_REQ_MSG ''TLVLength'' 0x0001 b;
     b \<leftarrow> put8 MUXMsg QMICTL_GET_CLIENT_ID_REQ_MSG ''QMIType'' arg0 b;
     Some (of_nat (sizeof QMICTL_GET_CLIENT_ID_REQ_MSG), b) }"

definition CtlReleaseClientIdReq :: "byte \<Rightarrow> byte \<Rightarrow> builder" where
  "CtlReleaseClientIdReq arg0 arg1 b = do {
     b \<leftarrow> put8 MUXMsg QMICTL_RELEASE_CLIENT_ID_REQ_MSG ''TLVType'' 0x01 b;
     b \<leftarrow> put16 MUXMsg QMICTL_RELEASE_CLIENT_ID_REQ_MSG ''TLVLength'' 0x0002 b;
     b \<leftarrow> put8 MUXMsg QMICTL_RELEASE_CLIENT_ID_REQ_MSG ''QMIType'' arg0 b;
     b \<leftarrow> put8 MUXMsg QMICTL_RELEASE_CLIENT_ID_REQ_MSG ''ClientId'' arg1 b;
     Some (of_nat (sizeof QMICTL_RELEASE_CLIENT_ID_REQ_MSG), b) }"

section \<open>Clients\<close>

definition send_qctl :: "modem \<Rightarrow> stack \<Rightarrow> u16 \<Rightarrow> builder option \<Rightarrow> bool \<Rightarrow> cptr \<Rightarrow> qmi \<Rightarrow> (int \<times> cptr \<times> qmi) option" where
  \<comment> \<open>\<open>QmiThreadSendQMI(ComposeQCTLMsg(...), ...)\<close>; with another timeout likewise\<close>
  "send_qctl env stk ty custom want p s = do {
     (m, s) \<leftarrow> ComposeQCTLMsg stk ty custom s;
     QmiThreadSendQMI env (Some m) want p s }"

text \<open>The response is never freed; a leak does not show in the model.\<close>

definition QmiWwanGetClientID :: "modem \<Rightarrow> stack \<Rightarrow> byte \<Rightarrow> qmi \<Rightarrow> (int \<times> qmi) option" where
  "QmiWwanGetClientID env stk QMIType s = do {
     (ret, p, s) \<leftarrow> send_qctl env stk QMICTL_GET_CLIENT_ID_REQ (Some (CtlGetClientIdReq QMIType)) True PDead s;
     if p = PNull then Some (0, s)
     else do {
       r \<leftarrow> deref p;
       QMUXResult \<leftarrow> get16 r MUXMsg QCQMICTL_MSG_HDR_RESP ''QMUXResult'';
       QMUXError \<leftarrow> get16 r MUXMsg QCQMICTL_MSG_HDR_RESP ''QMUXError'';
       ClientId \<leftarrow> get8 r MUXMsg QMICTL_GET_CLIENT_ID_RESP_MSG ''ClientId'';
       ty \<leftarrow> (if QMUXResult = 0 \<and> QMUXError = 0
              then get8 r MUXMsg QMICTL_GET_CLIENT_ID_RESP_MSG ''QMIType'' else Some 0);
       Some (if QMUXResult = 0 \<and> QMUXError = 0 \<and> QMIType = ty then uint ClientId else 0, s) } }"

definition QmiWwanReleaseClientID :: "modem \<Rightarrow> stack \<Rightarrow> byte \<Rightarrow> byte \<Rightarrow> qmi \<Rightarrow> qmi option" where
  "QmiWwanReleaseClientID env stk QMIType ClientId s = do {
     (ret, p, s) \<leftarrow> send_qctl env stk QMICTL_RELEASE_CLIENT_ID_REQ
       (Some (CtlReleaseClientIdReq QMIType ClientId)) False PNull s;
     Some s }"

section \<open>Start and end of the session\<close>

text \<open>The SYNC loop: the result of the last attempt, and 0 as soon as one succeeds.\<close>

fun sync_loop :: "modem \<Rightarrow> stack \<Rightarrow> nat \<Rightarrow> int \<Rightarrow> qmi \<Rightarrow> (int \<times> qmi) option" where
  "sync_loop env stk 0 ret s = Some (ret, s)"
| "sync_loop env stk (Suc n) ret s = do {
     (ret, p, s) \<leftarrow> send_qctl env stk QMICTL_SYNC_REQ None False PNull s;
     if ret = 0 then Some (0, s) else sync_loop env stk n ret s }"

text \<open>The walk over \<open>TypeVersion\<close>: the element that names the WDA service sets the version.\<close>

fun version_loop :: "byte list \<Rightarrow> nat \<Rightarrow> nat \<Rightarrow> int \<Rightarrow> int option" where
  "version_loop r p 0 v = Some v"
| "version_loop r p (Suc n) v = do {
     ty \<leftarrow> get8 r p QMUX_TYPE_VERSION_STRUCT ''QMUXType'';
     v \<leftarrow> (if ty = QMUX_TYPE_WDS_ADMIN then do {
            minor \<leftarrow> get16 r p QMUX_TYPE_VERSION_STRUCT ''MinorVersion'';
            Some (if 16 < minor then 1 else 0) }
          else Some v);
     version_loop r (p + sizeof QMUX_TYPE_VERSION_STRUCT) n v }"

definition read_version :: "byte list \<Rightarrow> int \<Rightarrow> int option" where
  "read_version r v = do {
     res \<leftarrow> get16 r MUXMsg QCQMICTL_MSG_HDR_RESP ''QMUXResult'';
     err \<leftarrow> (if res = 0 then get16 r MUXMsg QCQMICTL_MSG_HDR_RESP ''QMUXError'' else Some 1);
     if err = 0 then do {
       n \<leftarrow> get8 r MUXMsg QMICTL_GET_VERSION_RESP_MSG ''NumElements'';
       version_loop r (MUXMsg + off QMICTL_GET_VERSION_RESP_MSG ''TypeVersion'') (unat n) v }
     else Some v }"

definition alloc_client :: "modem \<Rightarrow> stack \<Rightarrow> byte \<Rightarrow> byte \<Rightarrow> qmi \<Rightarrow> qmi option" where
  \<comment> \<open>\<open>qmiclientId[slot] = QmiWwanGetClientID(ty);\<close>\<close>
  "alloc_client env stk slot ty s = do {
     (c, s) \<leftarrow> QmiWwanGetClientID env stk ty s; set_client slot c s }"

definition QmiWwanInit :: "modem \<Rightarrow> stack \<Rightarrow> PROFILE_T \<Rightarrow> qmi \<Rightarrow> (int \<times> PROFILE_T \<times> qmi) option" where
  "QmiWwanInit env stk profile s = (
     let direct = (qmap_mode profile = 0 \<or> qmap_mode profile = 1) in do {
       (ret, s) \<leftarrow> (if direct then sync_loop env stk 10 0 s else Some (0, s));
       if ret \<noteq> 0 then Some (ret, profile, s)
       else do {
         (_, p, s) \<leftarrow> send_qctl env stk QMICTL_GET_VERSION_REQ (Some CtlGetVersionReq) True PDead s;
         v \<leftarrow> (if qmap_mode profile \<noteq> 0 \<and> p \<noteq> PNull
               then do { r \<leftarrow> deref p; read_version r (qmap_version profile) }
               else Some (qmap_version profile));
         let profile = profile\<lparr>qmap_version := v\<rparr>;
         _ \<leftarrow> if_free p;
         s \<leftarrow> alloc_client env stk QMUX_TYPE_WDS QMUX_TYPE_WDS s;
         s \<leftarrow> (if enable_ipv6 profile \<noteq> 0
               then alloc_client env stk QMUX_TYPE_WDS_IPV6 QMUX_TYPE_WDS s else Some s);
         s \<leftarrow> alloc_client env stk QMUX_TYPE_DMS QMUX_TYPE_DMS s;
         s \<leftarrow> alloc_client env stk QMUX_TYPE_NAS QMUX_TYPE_NAS s;
         s \<leftarrow> alloc_client env stk QMUX_TYPE_UIM QMUX_TYPE_UIM s;
         s \<leftarrow> (if direct then alloc_client env stk QMUX_TYPE_WDS_ADMIN QMUX_TYPE_WDS_ADMIN s else Some s);
         Some (0, profile, s) } })"

fun release_loop :: "modem \<Rightarrow> stack \<Rightarrow> nat list \<Rightarrow> qmi \<Rightarrow> qmi option" where
  "release_loop env stk [] s = Some s"
| "release_loop env stk (i # is) s = (
     if i < length (qmiclientId s) then
       if qmiclientId s ! i \<noteq> 0 then do {
         s \<leftarrow> QmiWwanReleaseClientID env stk (of_nat i) (word_of_int (qmiclientId s ! i)) s;
         release_loop env stk is (s\<lparr>qmiclientId := (qmiclientId s)[i := 0]\<rparr>) }
       else release_loop env stk is s
     else None)"

definition QmiWwanDeInit :: "modem \<Rightarrow> stack \<Rightarrow> qmi \<Rightarrow> qmi option" where
  "QmiWwanDeInit env stk s = release_loop env stk [0..<length (qmiclientId s)] s"

section \<open>What a control message is\<close>

definition ctl_request :: "byte \<Rightarrow> u16 \<Rightarrow> tlv list \<Rightarrow> byte list" where
  "ctl_request tid Type tlvs =
     0x01 # le16 (of_nat (11 + length (encode_tlvs tlvs))) @ [0x00, QMUX_TYPE_CTL, 0x00]
     @ [0x00, tid] @ le16 Type @ le16 (of_nat (length (encode_tlvs tlvs))) @ encode_tlvs tlvs"

lemma length_ctl_request [simp]: "length (ctl_request tid ty xs) = 12 + length (encode_tlvs xs)"
  by (simp add: ctl_request_def)

lemma rdn_nth: "n \<le> length b \<Longrightarrow> rdn b 0 n = Some (map ((!) b) [0..<n])"
  by (simp add: rdn_def take_eq_map_nth)

text \<open>The old content of the stack buffer does not reach the message.\<close>

lemma compose_ctl:
  assumes "stack_sized stk"
  shows "ComposeQCTLMsg stk ty None s
      = Some (ctl_request (fst (GetQCTLTransactionId s)) ty [], snd (GetQCTLTransactionId s))"
    and "ComposeQCTLMsg stk ty (Some CtlGetVersionReq) s
      = Some (ctl_request (fst (GetQCTLTransactionId s)) ty [(0x01, [QMUX_TYPE_ALL])], snd (GetQCTLTransactionId s))"
    and "ComposeQCTLMsg stk ty (Some (CtlGetClientIdReq q)) s
      = Some (ctl_request (fst (GetQCTLTransactionId s)) ty [(0x01, [q])], snd (GetQCTLTransactionId s))"
    and "ComposeQCTLMsg stk ty (Some (CtlReleaseClientIdReq q c)) s
      = Some (ctl_request (fst (GetQCTLTransactionId s)) ty [(0x01, [q, c])], snd (GetQCTLTransactionId s))"
  using assms
  by (simp_all add: stack_sized_def mk16_def ComposeQCTLMsg_def CtlGetVersionReq_def CtlGetClientIdReq_def CtlReleaseClientIdReq_def
      field_defs le16_def rd16_def rdn_nth ctl_request_def encode_tlv_def split_beta Let_def nth_list_update wire)

section \<open>Sending control messages\<close>

lemma frame_qctl: "frame s' = frame s \<Longrightarrow> QCTLTransactionId s' = QCTLTransactionId s"
  by (drule arg_cong [of _ _ QCTLTransactionId]) (simp add: frame_def)

lemma wf_ctl_request: "length (encode_tlvs xs) < 1000 \<Longrightarrow> wf_request (ctl_request tid ty xs)"
  by (simp add: wf_request_def) (simp add: ctl_request_def le16_def rd16_def)

lemma settled_qctl [simp]: "settled (snd (GetQCTLTransactionId s)) = settled s"
  by (simp add: GetQCTLTransactionId_def Let_def settled_def wf_qmi_def)

lemma qctl_fields [simp]:
  "sent (snd (GetQCTLTransactionId s)) = sent s" "dev (snd (GetQCTLTransactionId s)) = dev s"
  "qmiclientId (snd (GetQCTLTransactionId s)) = qmiclientId s"
  "cdc_wdm_fd (snd (GetQCTLTransactionId s)) = cdc_wdm_fd s"
  by (simp_all add: GetQCTLTransactionId_def Let_def)

text \<open>What a control exchange keeps: everything but the log, the counter and the reader's part.\<close>

lemma send_qctl_frame:
  assumes "settled s" "length (encode_tlvs xs) < 1000"
    and "ComposeQCTLMsg stk ty custom s
      = Some (ctl_request (fst (GetQCTLTransactionId s)) ty xs, snd (GetQCTLTransactionId s))"
  shows "\<exists>ret p' s'. send_qctl env stk ty custom want p s = Some (ret, p', s') \<and> settled s'
     \<and> sent s' = ctl_request (fst (GetQCTLTransactionId s)) ty xs # sent s
     \<and> qmiclientId s' = qmiclientId s \<and> QCTLTransactionId s' = QCTLTransactionId (snd (GetQCTLTransactionId s))"
proof -
  let ?m = "ctl_request (fst (GetQCTLTransactionId s)) ty xs" and ?s = "snd (GetQCTLTransactionId s)"
  have "wf_qmi ?s" "dev ?s \<noteq> QmiWwanProxy"
    using assms(1) settled_qctl [of s] by (simp_all add: settled_def)
  from send_outcome [OF this(1) wf_ctl_request [OF assms(2)] this(2), where env = env and want = want and ?p0.0 = p]
  obtain ret p' s' where s': "QmiThreadSendQMI env (Some ?m) want p ?s = Some (ret, p', s')" "wf_qmi s'"
      "frame s' = frame (?s\<lparr>sent := ?m # sent ?s\<rparr>)" by blast
  with assms(1) dev_frame [OF s'(3)] frame_log [OF s'(3)] frame_clients [OF s'(3)] frame_qctl [OF s'(3)]
  show ?thesis by (simp add: send_qctl_def assms(3) settled_def)
qed

section \<open>Releasing the clients\<close>

definition allocated :: "nat list \<Rightarrow> int list \<Rightarrow> (byte \<times> byte) list" where
  "allocated is cs = map (\<lambda>i. (of_nat i, word_of_int (cs ! i))) (filter (\<lambda>i. cs ! i \<noteq> 0) is)"

definition release_request :: "byte \<Rightarrow> byte \<times> byte \<Rightarrow> byte list" where
  "release_request t x = ctl_request t QMICTL_RELEASE_CLIENT_ID_REQ [(0x01, [fst x, snd x])]"

lemma id_run_qctl:
  "QCTLTransactionId s = QCTLTransactionId t \<Longrightarrow>
     id_run GetQCTLTransactionId n s = id_run GetQCTLTransactionId n t"
  by (induction n arbitrary: s t) (simp_all add: GetQCTLTransactionId_def Let_def)

lemma release_client:
  assumes "settled s" "stack_sized stk"
  shows "\<exists>s'. QmiWwanReleaseClientID env stk q c s = Some s' \<and> settled s'
     \<and> sent s' = release_request (fst (GetQCTLTransactionId s)) (q, c) # sent s
     \<and> qmiclientId s' = qmiclientId s \<and> QCTLTransactionId s' = QCTLTransactionId (snd (GetQCTLTransactionId s))"
  using send_qctl_frame [OF assms(1), of "[(0x01, [q, c])]" stk "0x0023" "Some (CtlReleaseClientIdReq q c)" env
      False PNull] compose_ctl(4) [OF assms(2), of "0x0023" q c s]
  by (auto simp: QmiWwanReleaseClientID_def release_request_def)

lemma allocated_upd: "i \<notin> set is \<Longrightarrow> allocated is (cs[i := v]) = allocated is cs"
  unfolding allocated_def
proof (intro map_cong filter_cong refl)
  fix j assume "i \<notin> set is" "j \<in> set is"
  then show "(cs[i := v] ! j \<noteq> 0) = (cs ! j \<noteq> 0)" by (metis nth_list_update_neq)
next
  fix j assume "i \<notin> set is" "j \<in> set (filter (\<lambda>i. cs ! i \<noteq> 0) is)"
  then show "(of_nat j, word_of_int (cs[i := v] ! j)) = (of_nat j, word_of_int (cs ! j))"
    by (metis mem_Collect_eq nth_list_update_neq set_filter)
qed

lemma settled_clients [simp]:
  "settled (s\<lparr>qmiclientId := (qmiclientId s)[i := v]\<rparr>) = settled s"
  by (simp add: settled_def wf_qmi_def)

lemma release_loop_sends:
  assumes "settled s" "stack_sized stk" "distinct is" "\<forall>i \<in> set is. i < 27"
  shows "\<exists>s'. release_loop env stk is s = Some s' \<and> settled s'
     \<and> sent s' = rev (map2 release_request
         (id_run GetQCTLTransactionId (length (allocated is (qmiclientId s))) s) (allocated is (qmiclientId s))) @ sent s
     \<and> (\<forall>j < 27. qmiclientId s' ! j = (if j \<in> set is then 0 else qmiclientId s ! j))"
  using assms(1,3,4)
proof (induction "is" arbitrary: s)
  case Nil
  then show ?case by (simp add: allocated_def)
next
  case (Cons i "is")
  have len: "length (qmiclientId s) = 27" using Cons.prems(1) by (simp add: settled_def wf_qmi_def)
  have i: "i < 27" "i \<notin> set is" "distinct is" "\<forall>i \<in> set is. i < 27" using Cons.prems by auto
  show ?case
  proof (cases "qmiclientId s ! i = 0")
    case True
    with Cons.IH [OF Cons.prems(1) i(3,4)] i(1) show ?thesis by (auto simp: allocated_def len)
  next
    case False
    obtain t where t: "QmiWwanReleaseClientID env stk (of_nat i) (word_of_int (qmiclientId s ! i)) s = Some t"
      "settled t" "sent t = release_request (fst (GetQCTLTransactionId s)) (of_nat i, word_of_int (qmiclientId s ! i)) # sent s"
      "qmiclientId t = qmiclientId s" "QCTLTransactionId t = QCTLTransactionId (snd (GetQCTLTransactionId s))"
      using release_client [OF Cons.prems(1) assms(2)] by blast
    let ?t = "t\<lparr>qmiclientId := (qmiclientId t)[i := 0]\<rparr>"
    have ids: "id_run GetQCTLTransactionId n ?t = id_run GetQCTLTransactionId n (snd (GetQCTLTransactionId s))" for n
      by (rule id_run_qctl) (simp add: t(5))
    have st: "settled ?t" using t(2) by simp
    have cl: "qmiclientId ?t = (qmiclientId s)[i := 0]" by (simp add: t(4))
    have al: "allocated (i # is) (qmiclientId s)
        = (of_nat i, word_of_int (qmiclientId s ! i)) # allocated is (qmiclientId s)"
      using False by (simp add: allocated_def)
    obtain u where u: "release_loop env stk is ?t = Some u" "settled u"
        "sent u = rev (map2 release_request (id_run GetQCTLTransactionId (length (allocated is (qmiclientId s)))
           (snd (GetQCTLTransactionId s))) (allocated is (qmiclientId s))) @ sent ?t"
        "\<forall>j < 27. qmiclientId u ! j = (if j \<in> set is then 0 else (qmiclientId s)[i := 0] ! j)"
      using Cons.IH [OF st i(3,4)] unfolding ids cl allocated_upd [OF i(2)] by blast
    have "\<forall>j < 27. qmiclientId u ! j = (if j \<in> set (i # is) then 0 else qmiclientId s ! j)"
      using u(4) len by (auto simp: nth_list_update)
    with u t(1,3) i(1) False show ?thesis by (simp add: al len)
  qed
qed

text \<open>
  C12: Closing the session releases every allocated client exactly once and no other: the
  release requests go out in the order of the slots under fresh transaction identifiers,
  each naming its slot number as the service and the stored identifier, and afterwards no
  client is left. Slot 0x11 (the IPv6 data client, allocated from the service 0x01) is
  thus released under the service number 0x11 that it was never allocated for.
\<close>
theorem deinit_releases_clients:
  assumes "wf_qmi s" "dev s = QmiWwan" "stack_sized stk"
  shows "\<exists>s'. QmiWwanDeInit env stk s = Some s' \<and> qmiclientId s' = replicate 27 0
     \<and> sent s' = rev (map2 release_request
         (id_run GetQCTLTransactionId (length (allocated [0..<27] (qmiclientId s))) s)
         (allocated [0..<27] (qmiclientId s))) @ sent s"
proof -
  have st: "settled s" using assms by (simp add: settled_def)
  have len: "length (qmiclientId s) = 27" using assms(1) by (simp add: wf_qmi_def)
  obtain s' where s': "release_loop env stk [0..<27] s = Some s'" "settled s'"
     "sent s' = rev (map2 release_request
         (id_run GetQCTLTransactionId (length (allocated [0..<27] (qmiclientId s))) s)
         (allocated [0..<27] (qmiclientId s))) @ sent s"
     "\<forall>j < 27. qmiclientId s' ! j = (if j \<in> set [0..<27] then 0 else qmiclientId s ! j)"
    using release_loop_sends [OF st assms(3), where env = env and ?is = "[0..<27]"] by auto
  have "qmiclientId s' = replicate 27 0"
    using s'(2,4) by (intro nth_equalityI) (simp_all add: settled_def wf_qmi_def)
  with s' len show ?thesis by (simp add: QmiWwanDeInit_def del: upt_numeral)
qed

text \<open>A session with a data client 7 and an IPv6 data client 9.\<close>

definition two_clients :: qmi where
  "two_clients = (qmi_init QmiWwan 3)\<lparr>qmiclientId := (replicate 27 0)[1 := 7, 0x11 := 9]\<rparr>"

definition dirty :: stack where
  "dirty s = replicate 256 0xAA"

lemma stack_sized_dirty [simp]: "stack_sized dirty"
  by (simp add: stack_sized_def dirty_def)

lemma two_clients_simps [simp]:
  "wf_qmi two_clients" "dev two_clients = QmiWwan"
  "qmiclientId two_clients = (replicate 27 0)[1 := 7, 0x11 := 9]" "sent two_clients = []"
  "QCTLTransactionId two_clients = 0"
  by (simp_all add: two_clients_def qmi_init_def wf_qmi_def)

lemma two_clients_allocated:
  "allocated [0..<27] (qmiclientId two_clients) = [(1, 7), (0x11, 9)]"
  by (simp add: allocated_def wire nth_list_update)

theorem deinit_releases_clients_witness:
  "\<exists>s'. QmiWwanDeInit (answering (\<lambda>m. [])) dirty two_clients = Some s' \<and> qmiclientId s' = replicate 27 0
     \<and> sent s' = [release_request 2 (0x11, 9), release_request 1 (1, 7)]"
proof -
  have ids: "id_run GetQCTLTransactionId (length [(1 :: byte, 7 :: byte), (0x11, 9)]) two_clients = [1, 2]"
    by (simp add: GetQCTLTransactionId_def Let_def)
  obtain s' where "QmiWwanDeInit (answering (\<lambda>m. [])) dirty two_clients = Some s'"
    "qmiclientId s' = replicate 27 0"
    "sent s' = rev (map2 release_request [1, 2] [(1, 7), (0x11, 9)]) @ sent two_clients"
    using deinit_releases_clients [OF two_clients_simps(1,2) stack_sized_dirty, of "answering (\<lambda>m. [])"]
    unfolding two_clients_allocated ids by blast
  then show ?thesis by auto
qed

section \<open>The answer to an allocation\<close>

definition ctl_response :: "byte \<Rightarrow> u16 \<Rightarrow> u16 \<Rightarrow> u16 \<Rightarrow> tlv list \<Rightarrow> byte list" where
  "ctl_response tid Type res err tlvs =
     0x01 # le16 (of_nat (18 + length (encode_tlvs tlvs))) @ [0x80, QMUX_TYPE_CTL, 0x00]
     @ [0x01, tid] @ le16 Type @ le16 (of_nat (7 + length (encode_tlvs tlvs)))
     @ encode_tlvs ((0x02, le16 res @ le16 err) # tlvs)"

text \<open>
  A client allocation. An answer with a client TLV gives the client identifier if the
  modem reports success and names the asked service, and 0 otherwise. An answer that
  holds only a result, as a refusal does, has no defined evaluation: the identifier is
  read before the result is looked at, five bytes behind the copied message.
\<close>
theorem get_client_id:
  "(send_qctl env stk QMICTL_GET_CLIENT_ID_REQ (Some (CtlGetClientIdReq q)) True PDead s
      = Some (ret, PLive (ctl_response t ty res err [(0x01, [q', c])]), s') \<longrightarrow>
    QmiWwanGetClientID env stk q s
      = Some (if res = 0 \<and> err = 0 \<and> q' = q then uint c else 0, s'))
   \<and> (send_qctl env stk QMICTL_GET_CLIENT_ID_REQ (Some (CtlGetClientIdReq q)) True PDead s
      = Some (ret, PLive (ctl_response t ty res err []), s') \<longrightarrow> QmiWwanGetClientID env stk q s = None)
   \<and> (send_qctl env stk QMICTL_GET_CLIENT_ID_REQ (Some (CtlGetClientIdReq q)) True PDead s
      = Some (ret, PNull, s') \<longrightarrow> QmiWwanGetClientID env stk q s = Some (0, s'))"
  by (auto simp: QmiWwanGetClientID_def ctl_response_def encode_tlv_def le16_def field_defs rd16_def rd8_def)

theorem get_client_id_witness:
  "\<exists>s'. QmiWwanGetClientID (answering (\<lambda>m. ctl_response 1 0x0022 0 0 [(0x01, [3, 5])])) dirty QMUX_TYPE_NAS two_clients
     = Some (5, s')"
proof -
  let ?d = "ctl_response 1 0x0022 0 0 [(0x01, [3, 5])]" and ?s = "snd (GetQCTLTransactionId two_clients)"
  let ?env = "answering (\<lambda>m. ?d)"
  have tid: "fst (GetQCTLTransactionId two_clients) = 1" by (simp add: GetQCTLTransactionId_def)
  let ?m = "ctl_request 1 0x0022 [(0x01, [3])]"
  have fd: "cdc_wdm_fd ?s = 3" by (simp add: two_clients_def qmi_init_def)
  have wf: "wf_qmi ?s" "wf_request ?m" "dev ?s = QmiWwan"
    using settled_qctl [of two_clients] by (simp_all add: settled_def wf_ctl_request)
  have w: "wire_request ?s ?m = ?m" by (simp add: wire_request_def ctl_request_def le16_def)
  have d: "complete ?d" "is_response ?m ?d = Some True"
    by (simp_all add: complete_def ctl_response_def ctl_request_def encode_tlv_def le16_def rd16_def mk16_def
        is_response_def field_defs)
  obtain s' where "QmiThreadSendQMI ?env (Some ?m) True PDead ?s = Some (0, PLive ?d, s')"
    using first_answer [where env = ?env and s = ?s and m = ?m and fd = 3 and ds = "[]" and d = ?d and later = "[]"]
      wf fd d by (auto simp: w answering_def)
  then have "send_qctl ?env dirty 0x0022 (Some (CtlGetClientIdReq 3)) True PDead two_clients = Some (0, PLive ?d, s')"
    using compose_ctl(3) [OF stack_sized_dirty, of "0x0022" 3 two_clients] by (simp add: send_qctl_def tid)
  from get_client_id [THEN conjunct1, THEN mp, OF this] show ?thesis by simp
qed

section \<open>The SYNC loop\<close>

definition sync_request :: "byte \<Rightarrow> byte list" where
  "sync_request t = ctl_request t QMICTL_SYNC_REQ []"

lemma sync_loop_attempts:
  assumes "settled s" "stack_sized stk" "ret0 \<noteq> 0"
  shows "\<exists>ret s' k. sync_loop env stk n ret0 s = Some (ret, s') \<and> settled s' \<and> k \<le> n
     \<and> (ret = 0 \<longrightarrow> 1 \<le> k) \<and> (ret \<noteq> 0 \<longrightarrow> k = n)
     \<and> sent s' = rev (map sync_request (id_run GetQCTLTransactionId k s)) @ sent s
     \<and> qmiclientId s' = qmiclientId s"
  using assms(1,3)
proof (induction n arbitrary: s ret0)
  case 0
  then show ?case by auto
next
  case (Suc n)
  obtain ret p t where t: "send_qctl env stk QMICTL_SYNC_REQ None False PNull s = Some (ret, p, t)"
     "settled t" "sent t = sync_request (fst (GetQCTLTransactionId s)) # sent s"
     "qmiclientId t = qmiclientId s" "QCTLTransactionId t = QCTLTransactionId (snd (GetQCTLTransactionId s))"
    using send_qctl_frame [OF Suc.prems(1), of "[]" stk "0x0027" None env False PNull]
      compose_ctl(1) [OF assms(2), of "0x0027" s]
    by (auto simp: sync_request_def)
  show ?case
  proof (cases "ret = 0")
    case True
    with t show ?thesis by (intro exI [of _ 0] exI [of _ t] exI [of _ 1]) simp
  next
    case False
    obtain r u k where u: "sync_loop env stk n ret t = Some (r, u)" "settled u" "k \<le> n"
       "r = 0 \<longrightarrow> 1 \<le> k" "r \<noteq> 0 \<longrightarrow> k = n"
       "sent u = rev (map sync_request (id_run GetQCTLTransactionId k t)) @ sent t" "qmiclientId u = qmiclientId t"
      using Suc.IH [OF t(2) False] by blast
    have "id_run GetQCTLTransactionId k t = id_run GetQCTLTransactionId k (snd (GetQCTLTransactionId s))"
      by (rule id_run_qctl [OF t(5)])
    with u t False show ?thesis
      by (intro exI [of _ r] exI [of _ u] exI [of _ "Suc k"]) simp
  qed
qed

text \<open>
  Starting a session on a directly opened device makes at most ten SYNC attempts and
  stops at the first that succeeds. If all ten fail, the last error is returned and
  nothing else is sent and no client allocated.
\<close>
theorem init_sync:
  assumes "wf_qmi s" "dev s = QmiWwan" "stack_sized stk" "qmap_mode profile = 0 \<or> qmap_mode profile = 1"
  shows "\<exists>ret t k. sync_loop env stk 10 0 s = Some (ret, t) \<and> 1 \<le> k \<and> k \<le> 10 \<and> (ret \<noteq> 0 \<longrightarrow> k = 10)
     \<and> sent t = rev (map sync_request (id_run GetQCTLTransactionId k s)) @ sent s
     \<and> qmiclientId t = qmiclientId s
     \<and> (ret \<noteq> 0 \<longrightarrow> QmiWwanInit env stk profile s = Some (ret, profile, t))"
proof -
  have st: "settled s" using assms by (simp add: settled_def)
  have first: "sync_loop env stk 10 0 s = sync_loop env stk 10 1 s" by (simp add: eval_nat_numeral)
  obtain ret t k where t: "sync_loop env stk 10 1 s = Some (ret, t)" "k \<le> 10" "ret = 0 \<longrightarrow> 1 \<le> k"
    "ret \<noteq> 0 \<longrightarrow> k = 10" "sent t = rev (map sync_request (id_run GetQCTLTransactionId k s)) @ sent s"
    "qmiclientId t = qmiclientId s"
    using sync_loop_attempts [OF st assms(3), of 1 env 10] by auto
  have "1 \<le> k" using t(3,4) by (cases "ret = 0") auto
  with t show ?thesis
    unfolding first using assms(4)
    by (intro exI [of _ ret] exI [of _ t] exI [of _ k]) (auto simp: QmiWwanInit_def first simp del: sync_loop.simps)
qed

text \<open>A device that is gone: every attempt returns \<open>-ENODEV\<close>.\<close>

theorem init_sync_witness:
  "\<exists>ret t k. sync_loop (answering (\<lambda>m. [])) dirty 10 0 (two_clients\<lparr>cdc_wdm_fd := -1\<rparr>) = Some (ret, t)
     \<and> 1 \<le> k \<and> k \<le> 10 \<and> (ret \<noteq> 0 \<longrightarrow> k = 10)
     \<and> sent t = rev (map sync_request (id_run GetQCTLTransactionId k (two_clients\<lparr>cdc_wdm_fd := -1\<rparr>)))"
proof -
  have "wf_qmi (two_clients\<lparr>cdc_wdm_fd := -1\<rparr>)" "dev (two_clients\<lparr>cdc_wdm_fd := -1\<rparr>) = QmiWwan"
    by (simp_all add: two_clients_def qmi_init_def wf_qmi_def)
  from init_sync [OF this stack_sized_dirty, of zero_profile "answering (\<lambda>m. [])"]
  show ?thesis by (auto simp: zero_profile_def simp del: sync_loop.simps)
qed

text \<open>
  The control requests are exactly their headers and their one parameter, for every
  old content of the stack buffer they are built in: no byte of the stack is sent.
\<close>
theorem control_requests_exact:
  assumes "stack_sized stk"
  shows "ComposeQCTLMsg stk QMICTL_SYNC_REQ None s
       = Some (ctl_request (fst (GetQCTLTransactionId s)) QMICTL_SYNC_REQ [], snd (GetQCTLTransactionId s))
    \<and> ComposeQCTLMsg stk QMICTL_GET_VERSION_REQ (Some CtlGetVersionReq) s
       = Some (ctl_request (fst (GetQCTLTransactionId s)) QMICTL_GET_VERSION_REQ [(0x01, [QMUX_TYPE_ALL])], snd (GetQCTLTransactionId s))
    \<and> ComposeQCTLMsg stk QMICTL_GET_CLIENT_ID_REQ (Some (CtlGetClientIdReq q)) s
       = Some (ctl_request (fst (GetQCTLTransactionId s)) QMICTL_GET_CLIENT_ID_REQ [(0x01, [q])], snd (GetQCTLTransactionId s))
    \<and> ComposeQCTLMsg stk QMICTL_RELEASE_CLIENT_ID_REQ (Some (CtlReleaseClientIdReq q c)) s
       = Some (ctl_request (fst (GetQCTLTransactionId s)) QMICTL_RELEASE_CLIENT_ID_REQ [(0x01, [q, c])], snd (GetQCTLTransactionId s))"
  by (simp add: compose_ctl [OF assms])

theorem control_requests_exact_witness:
  "ComposeQCTLMsg dirty QMICTL_GET_CLIENT_ID_REQ (Some (CtlGetClientIdReq QMUX_TYPE_NAS)) two_clients
     = Some ([0x01, 0x0F, 0, 0, 0, 0, 0, 1, 0x22, 0, 4, 0, 0x01, 1, 0, 3], snd (GetQCTLTransactionId two_clients))"
  using control_requests_exact [OF stack_sized_dirty, of two_clients QMUX_TYPE_NAS 0]
  by (simp add: ctl_request_def encode_tlv_def le16_def) (simp add: GetQCTLTransactionId_def)

end
