(* ===== verification/Threads.thy ===== *)
theory Threads
  imports QmiWwan
begin

text \<open>
  The reader threads of the two drivers (\<open>QmiWwanThread\<close>, \<open>GobiNetThread\<close>) and the client
  files of GobiNet. A thread runs over the outcomes of its \<open>poll\<close> calls, one round each; at
  the end of the list it still waits. The loops have the same shape and meet one contract,
  a locale: the thread is always defined, tells the main loop its start and its end, obeys
  a request to quit and wakes a waiting sender.
\<close>

section \<open>One round of poll\<close>

abbreviation (input) "SIG_EVENT_START \<equiv> (0 :: int)"
abbreviation (input) "SIG_EVENT_CHECK \<equiv> (1 :: int)"
abbreviation (input) "SIG_EVENT_STOP \<equiv> (2 :: int)"

record fd_event =
  ev_err :: bool
  ev_hup :: bool
  ev_nval :: bool
  ev_in :: bool

text \<open>
  The result of \<open>poll\<close> (restarted after \<open>EINTR\<close>), the events of the control socket with
  what is read from it, and the events of a device file with what \<open>read\<close> gives (nothing
  for an end of file or an error).
\<close>

record poll_round =
  poll_result :: int
  control :: fd_event
  trigger :: "int option"
  device_event :: "int \<Rightarrow> fd_event"
  device_data :: "int \<Rightarrow> byte list"

datatype after = Quit | Go_on bool

definition thread_wait :: "poll_round \<Rightarrow> bool \<Rightarrow> bool" where
  \<comment> \<open>\<open>case SIG_EVENT_STOP: wait_for_request_quit = 1;\<close>\<close>
  "thread_wait r wait \<longleftrightarrow> wait \<or> ev_in (control r) \<and> trigger r = Some SIG_EVENT_STOP"

definition QmiWwan_round :: "poll_round \<Rightarrow> bool \<Rightarrow> qmi \<Rightarrow> (after \<times> qmi) option" where
  "QmiWwan_round r wait s = (
     let c = control r; d = device_event r (cdc_wdm_fd s); data = device_data r (cdc_wdm_fd s)
     in if ev_hup c \<or> ev_nval c then Some (Quit, s)
        else if ev_in c \<and> trigger r = Some RIL_REQUEST_QUIT then Some (Quit, s)
        else if ev_hup d \<or> ev_nval d then Some (Quit, s)
        else if \<not> ev_in d then Some (Go_on (thread_wait r wait), s)
        else if data = [] then Some (Go_on (thread_wait r wait), s)
        else do { s \<leftarrow> device_readable (cdc_wdm_fd s, data) s; Some (Go_on (thread_wait r wait), s) })"

text \<open>The device files of GobiNet: one per client, visited in the order of the slots.\<close>

fun GobiNet_fds :: "poll_round \<Rightarrow> bool \<Rightarrow> int list \<Rightarrow> qmi \<Rightarrow> (after \<times> qmi) option" where
  "GobiNet_fds r wait [] s = Some (Go_on wait, s)"
| "GobiNet_fds r wait (fd # fds) s = (
     let d = device_event r fd
     in if ev_err d \<or> ev_hup d \<or> ev_nval d then Some (Quit, s)
        else if \<not> ev_in d then GobiNet_fds r wait fds s
        else if device_data r fd = [] then Some (Go_on wait, s)
        else do { s \<leftarrow> device_readable (fd, device_data r fd) s; GobiNet_fds r wait fds s })"

definition GobiNet_round :: "poll_round \<Rightarrow> bool \<Rightarrow> qmi \<Rightarrow> (after \<times> qmi) option" where
  "GobiNet_round r wait s = (
     let c = control r
     in if ev_err c \<or> ev_hup c \<or> ev_nval c then Some (Quit, s)
        else if ev_in c \<and> trigger r = Some RIL_REQUEST_QUIT then Some (Quit, s)
        else GobiNet_fds r (thread_wait r wait) (filter (\<lambda>fd. fd \<noteq> 0) (qmiclientId s)) s)"

section \<open>The loop\<close>

text \<open>The result says whether the thread has ended, whether it is told to stop, and the state.\<close>

fun thread_loop ::
    "(poll_round \<Rightarrow> bool \<Rightarrow> qmi \<Rightarrow> (after \<times> qmi) option) \<Rightarrow> (qmi \<Rightarrow> qmi option) \<Rightarrow>
     poll_round list \<Rightarrow> bool \<Rightarrow> qmi \<Rightarrow> (bool \<times> bool \<times> qmi) option" where
  "thread_loop rnd quit [] wait s = Some (False, wait, s)"
| "thread_loop rnd quit (r # rs) wait s =
     (if poll_result r = 0 \<and> wait then do {
        s \<leftarrow> QmiThreadRecvQMI None s; thread_loop rnd quit rs wait s }
      else if poll_result r \<le> 0 then do { s \<leftarrow> quit s; Some (True, wait, s) }
      else do {
        (a, s) \<leftarrow> rnd r wait s;
        case a of Quit \<Rightarrow> do { s \<leftarrow> quit s; Some (True, wait, s) }
        | Go_on wait \<Rightarrow> thread_loop rnd quit rs wait s })"

definition QmiWwan_quit :: "qmi \<Rightarrow> qmi option" where
  "QmiWwan_quit s = (
     let s = (if cdc_wdm_fd s \<noteq> -1 then s\<lparr>cdc_wdm_fd := -1\<rparr> else s);
         s = qmidevice_send_event_to_main RIL_INDICATE_DEVICE_DISCONNECTED s
     in QmiThreadRecvQMI None s)"

text \<open>\<open>fd\<close> is the result of \<open>open\<close>, or of \<open>qmi_proxy_open\<close> when the proxy owns the device.\<close>

definition QmiWwanThread :: "int \<Rightarrow> poll_round list \<Rightarrow> qmi \<Rightarrow> (bool \<times> bool \<times> qmi) option" where
  "QmiWwanThread fd rs s = (
     let s = s\<lparr>cdc_wdm_fd := fd\<rparr>
     in if fd = -1 then Some (True, False, qmidevice_send_event_to_main RIL_INDICATE_DEVICE_DISCONNECTED s)
        else thread_loop QmiWwan_round QmiWwan_quit rs False
               (qmidevice_send_event_to_main RIL_INDICATE_DEVICE_CONNECTED s))"

text \<open>\<open>opened\<close> and \<open>attached\<close>: the results of \<open>open\<close> and of the ioctl for a service file.\<close>

definition GobiNetGetClientID :: "int \<Rightarrow> bool \<Rightarrow> int" where
  "GobiNetGetClientID opened attached = (if opened = -1 then -1 else if attached then opened else 0)"

definition GobiNetDeInit :: "qmi \<Rightarrow> qmi" where
  "GobiNetDeInit s = s\<lparr>qmiclientId := map (\<lambda>c. if c \<noteq> 0 then 0 else c) (qmiclientId s)\<rparr>"

definition GobiNet_quit :: "qmi \<Rightarrow> qmi option" where
  "GobiNet_quit s = QmiThreadRecvQMI None
     (qmidevice_send_event_to_main RIL_INDICATE_DEVICE_DISCONNECTED (GobiNetDeInit s))"

text \<open>The files are opened one after the other: \<open>files\<close> gives for each slot what the system does.\<close>

definition GobiNet_open :: "(byte \<Rightarrow> int \<times> bool) \<Rightarrow> byte \<Rightarrow> qmi \<Rightarrow> qmi option" where
  "GobiNet_open files slot s = set_client slot (GobiNetGetClientID (fst (files slot)) (snd (files slot))) s"

definition GobiNetThread ::
    "(byte \<Rightarrow> int \<times> bool) \<Rightarrow> PROFILE_T \<Rightarrow> poll_round list \<Rightarrow> qmi \<Rightarrow> (bool \<times> bool \<times> qmi) option" where
  "GobiNetThread files profile rs s = do {
     s \<leftarrow> GobiNet_open files QMUX_TYPE_WDS s;
     s \<leftarrow> (if enable_ipv6 profile \<noteq> 0 then GobiNet_open files QMUX_TYPE_WDS_IPV6 s else Some s);
     s \<leftarrow> GobiNet_open files QMUX_TYPE_DMS s;
     s \<leftarrow> GobiNet_open files QMUX_TYPE_NAS s;
     s \<leftarrow> GobiNet_open files QMUX_TYPE_UIM s;
     s \<leftarrow> (if qmap_mode profile = 0 then GobiNet_open files QMUX_TYPE_WDS_ADMIN s else Some s);
     wds \<leftarrow> client s QMUX_TYPE_WDS;
     if wds = 0 then
       Some (True, False, qmidevice_send_event_to_main RIL_INDICATE_DEVICE_DISCONNECTED (GobiNetDeInit s))
     else thread_loop GobiNet_round GobiNet_quit rs False
            (qmidevice_send_event_to_main RIL_INDICATE_DEVICE_CONNECTED s) }"

section \<open>The contract of a reader thread\<close>

definition reports :: "qmi \<Rightarrow> qmi \<Rightarrow> bool" where
  "reports s t \<longleftrightarrow> (\<exists>evs. to_main t = to_main s @ evs
     \<and> set evs \<subseteq> {MODEM_REPORT_RESET_EVENT, RIL_UNSOL_RESPONSE_VOICE_NETWORK_STATE_CHANGED,
         RIL_UNSOL_DATA_CALL_LIST_CHANGED})"

lemma reports_refl [simp]: "reports s s"
  by (simp add: reports_def)

lemma reports_trans: "reports s t \<Longrightarrow> reports t u \<Longrightarrow> reports s u"
  unfolding reports_def by force

definition asks :: "poll_round \<Rightarrow> int \<Rightarrow> bool" where
  "asks r ev \<longleftrightarrow> poll_result r > 0 \<and> ev_in (control r) \<and> trigger r = Some ev
     \<and> \<not> ev_err (control r) \<and> \<not> ev_hup (control r) \<and> \<not> ev_nval (control r)"

locale device_thread =
  fixes rnd :: "poll_round \<Rightarrow> bool \<Rightarrow> qmi \<Rightarrow> (after \<times> qmi) option"
    and quit :: "qmi \<Rightarrow> qmi option"
    and ok :: "qmi \<Rightarrow> bool"
  assumes rnd_ok: "ok s \<Longrightarrow> \<exists>a t. rnd r w s = Some (a, t) \<and> ok t \<and> reports s t"
    and rnd_waits: "rnd r w s = Some (Go_on w', t) \<Longrightarrow> w' = thread_wait r w"
    and rnd_quit: "asks r RIL_REQUEST_QUIT \<Longrightarrow> rnd r w s = Some (Quit, s)"
    and wake_ok: "ok s \<Longrightarrow> \<exists>t. QmiThreadRecvQMI None s = Some t \<and> ok t"
    and quit_ok: "ok s \<Longrightarrow> \<exists>t. quit s = Some t \<and> s_pRequest t = None
      \<and> to_main t = to_main s @ [RIL_INDICATE_DEVICE_DISCONNECTED]"
begin

abbreviation loop :: "poll_round list \<Rightarrow> bool \<Rightarrow> qmi \<Rightarrow> (bool \<times> bool \<times> qmi) option" where
  "loop \<equiv> thread_loop rnd quit"

definition ends_well :: "qmi \<Rightarrow> bool \<Rightarrow> qmi \<Rightarrow> bool" where
  "ends_well s ended t \<longleftrightarrow> (if ended
     then s_pRequest t = None \<and> (\<exists>u. reports s u \<and> to_main t = to_main u @ [RIL_INDICATE_DEVICE_DISCONNECTED])
     else ok t \<and> reports s t)"

lemma wake_reports: "QmiThreadRecvQMI None s = Some t \<Longrightarrow> s_pRequest t = None \<and> to_main t = to_main s"
  by (auto simp: QmiThreadRecvQMI_def split: if_splits)

lemma reports_ends: "reports s t \<Longrightarrow> ends_well t ended u \<Longrightarrow> ends_well s ended u"
  by (auto simp: ends_well_def intro: reports_trans split: if_splits)

lemma quit_ends: "ok s \<Longrightarrow> reports s0 s \<Longrightarrow> \<exists>t. quit s = Some t \<and> ends_well s0 True t"
  using quit_ok [of s] by (auto simp: ends_well_def)

lemma loop_defined: "ok s \<Longrightarrow> \<exists>ended w' t. loop rs w s = Some (ended, w', t) \<and> ends_well s ended t"
proof (induction rs arbitrary: w s)
  case Nil
  then show ?case by (simp add: ends_well_def exI [of _ False])
next
  case (Cons r rs)
  obtain u where u: "quit s = Some u" "ends_well s True u" using quit_ends [OF Cons.prems reports_refl] by blast
  show ?case
  proof (cases "poll_result r \<le> 0")
    case True
    obtain t where t: "QmiThreadRecvQMI None s = Some t" "ok t" using wake_ok [OF Cons.prems] by blast
    then have "reports s t" using wake_reports [OF t(1)] by (simp add: reports_def)
    with Cons.IH [OF t(2), of w] True t u reports_ends show ?thesis by fastforce
  next
    case False
    obtain a t where t: "rnd r w s = Some (a, t)" "ok t" "reports s t" using rnd_ok [OF Cons.prems] by blast
    obtain v where v: "quit t = Some v" "ends_well s True v" using quit_ends [OF t(2,3)] by blast
    show ?thesis
    proof (cases a)
      case Quit
      with t v(1) False have "loop (r # rs) w s = Some (True, w, v)" by simp
      with v(2) show ?thesis by blast
    next
      case (Go_on w')
      with Cons.IH [OF t(2), of w'] t False reports_ends show ?thesis by fastforce
    qed
  qed
qed

lemma loop_append: "loop (rs @ rs') w s = do {
    (ended, w, s) \<leftarrow> loop rs w s; if ended then Some (True, w, s) else loop rs' w s }"
proof (induction rs arbitrary: w s)
  case (Cons r rs)
  have IH: "loop (rs @ rs') w = (\<lambda>s. do {
      (ended, w, s) \<leftarrow> loop rs w s; if ended then Some (True, w, s) else loop rs' w s })" for w
    by (rule ext) (rule Cons.IH)
  show ?case
  proof (cases "rnd r w s")
    case None
    then show ?thesis by (cases "quit s") (simp_all add: IH del: bind_Some_iff)
  next
    case (Some p)
    obtain a t where p: "p = (a, t)" by (cases p)
    show ?thesis
      using Some by (cases "quit s"; cases "quit t"; cases a) (simp_all add: p IH del: bind_Some_iff)
  qed
qed simp

lemma loop_keeps_waiting: "loop rs w s = Some (ended, w', t) \<Longrightarrow> w \<Longrightarrow> w'"
proof (induction rs arbitrary: w s)
  case (Cons r rs)
  show ?case
  proof (cases "poll_result r \<le> 0")
    case True
    with Cons show ?thesis by (auto split: if_splits)
  next
    case False
    then obtain a u where u: "rnd r w s = Some (a, u)" using Cons.prems by (auto split: if_splits)
    show ?thesis
    proof (cases a)
      case Quit
      with u False Cons.prems show ?thesis by auto
    next
      case (Go_on w1)
      then have "w1 = thread_wait r w" using rnd_waits u by simp
      with u False Cons Go_on show ?thesis by (auto simp: thread_wait_def)
    qed
  qed
qed simp

text \<open>A request to quit ends the thread.\<close>

lemma quits:
  assumes "ok s" "r \<in> set rs" "asks r RIL_REQUEST_QUIT"
  shows "\<exists>w' t. loop rs w s = Some (True, w', t) \<and> ends_well s True t"
proof -
  obtain us vs where rs: "rs = us @ r # vs" using split_list [OF assms(2)] by blast
  obtain ended w1 t where t: "loop us w s = Some (ended, w1, t)" "ends_well s ended t"
    using loop_defined [OF assms(1)] by blast
  show ?thesis
  proof (cases ended)
    case True
    with t show ?thesis by (simp add: rs loop_append)
  next
    case False
    then have "ok t" "reports s t" using t(2) by (simp_all add: ends_well_def)
    then obtain u where "quit t = Some u" "ends_well s True u" using quit_ends by blast
    with t False assms(3) show ?thesis
      by (simp add: rs loop_append rnd_quit) (simp add: asks_def)
  qed
qed

text \<open>After a request to stop, a poll that times out leaves no sender waiting.\<close>

lemma stop_wakes:
  assumes "ok s" "asks r SIG_EVENT_STOP" "poll_result r' = 0"
  shows "\<exists>ended w' t. loop (r # rs @ [r']) w s = Some (ended, w', t) \<and> s_pRequest t = None"
proof -
  have p: "poll_result r > 0" using assms(2) by (simp add: asks_def)
  obtain a t where t: "rnd r w s = Some (a, t)" "ok t" "reports s t" using rnd_ok [OF assms(1)] by blast
  obtain v where v: "quit t = Some v" "ends_well s True v" using quit_ends [OF t(2,3)] by blast
  show ?thesis
  proof (cases a)
    case Quit
    with t v p show ?thesis by (auto simp: ends_well_def)
  next
    case (Go_on w1)
    then have w1: "w1" using rnd_waits [of r w s w1 t] t(1) assms(2) by (simp add: thread_wait_def asks_def)
    obtain ended w2 u where u: "loop rs w1 t = Some (ended, w2, u)" "ends_well t ended u"
      using loop_defined [OF t(2)] by blast
    have w2: "w2" using loop_keeps_waiting [OF u(1)] w1 by simp
    show ?thesis
    proof (cases ended)
      case True
      with u t p Go_on show ?thesis by (auto simp: loop_append ends_well_def)
    next
      case False
      then have "ok u" using u(2) by (simp add: ends_well_def)
      then obtain x where x: "QmiThreadRecvQMI None u = Some x" using wake_ok by blast
      with wake_reports [OF x] u t p Go_on False w2 assms(3) show ?thesis
        by (auto simp: loop_append)
    qed
  qed
qed

end

section \<open>The threads meet the contract\<close>

lemma reports_event [simp]:
  "reports s (qmidevice_send_event_to_main ev s) \<longleftrightarrow>
     ev \<in> {MODEM_REPORT_RESET_EVENT, RIL_UNSOL_RESPONSE_VOICE_NETWORK_STATE_CHANGED, RIL_UNSOL_DATA_CALL_LIST_CHANGED}"
  by (auto simp: reports_def qmidevice_send_event_to_main_def)

lemma reports_fields [simp]:
  "reports s (t\<lparr>s_pRequest := r\<rparr>) = reports s t" "reports s (t\<lparr>s_pResponse := p\<rparr>) = reports s t"
  "reports s (t\<lparr>QMIBuf := b\<rparr>) = reports s t"
  by (simp_all add: reports_def)

lemma recv_reports: "QmiThreadRecvQMI x s = Some t \<Longrightarrow> reports s t"
proof (cases x)
  case None
  then show "QmiThreadRecvQMI x s = Some t \<Longrightarrow> reports s t"
    by (auto simp: QmiThreadRecvQMI_def split: if_splits)
next
  case (Some b)
  assume t: "QmiThreadRecvQMI x s = Some t"
  obtain answer where "(case s_pRequest s of None \<Rightarrow> Some False | Some req \<Rightarrow> is_response req b) = Some answer"
    using t unfolding Some QmiThreadRecvQMI_def by (auto simp only: option.case bind_Some_iff)
  note t' = t [unfolded Some QmiThreadRecvQMI_def option.case this Option.bind.bind_lunit]
  show "reports s t"
  proof (cases answer)
    case True
    with t' show ?thesis by auto
  next
    case False
    with t' have "t \<in> {s} \<union> (\<lambda>ev. qmidevice_send_event_to_main ev s) ` {MODEM_REPORT_RESET_EVENT,
        RIL_UNSOL_RESPONSE_VOICE_NETWORK_STATE_CHANGED, RIL_UNSOL_DATA_CALL_LIST_CHANGED}"
      by (auto split: if_splits)
    then show ?thesis by auto
  qed
qed

lemma reports_buf: "reports (s\<lparr>QMIBuf := b\<rparr>) t \<Longrightarrow> reports s t"
  by (simp add: reports_def)

lemma device_reports: "device_readable x s = Some t \<Longrightarrow> reports s t"
  by (cases "dev s")
    (auto simp: device_readable_def QmiWwan_readable_def QmiWwanProxy_readable_def GobiNet_readable_def Let_def
      split: if_splits dest!: recv_reports intro: reports_buf)

definition wwan_ok :: "qmi \<Rightarrow> bool" where
  "wwan_ok s \<longleftrightarrow> wf_qmi s \<and> dev s = QmiWwan"

definition gobi_ok :: "qmi \<Rightarrow> bool" where
  "gobi_ok s \<longleftrightarrow> wf_qmi s \<and> dev s = GobiNet"

lemma device_ok:
  assumes "wf_qmi s" "dev s \<noteq> QmiWwanProxy"
  shows "\<exists>t. device_readable x s = Some t \<and> wf_qmi t \<and> frame t = frame s \<and> reports s t"
  using thread.step_delivers [of s "Some x", OF assms] device_reports [of x s] by (auto simp: delivers_def)

lemma wake_defined:
  assumes "wf_qmi s"
  shows "\<exists>t. QmiThreadRecvQMI None s = Some t \<and> wf_qmi t \<and> dev t = dev s"
proof -
  obtain t where t: "QmiThreadRecvQMI None s = Some t" "wf_qmi t" "frame t = frame s"
    using recv_null_delivers [OF assms] by (auto simp: delivers_def)
  with dev_frame [OF t(3)] show ?thesis by simp
qed

lemma wwan_round_ok:
  assumes "wwan_ok s"
  shows "\<exists>a t. QmiWwan_round r w s = Some (a, t) \<and> wwan_ok t \<and> reports s t"
proof -
  obtain t where t: "device_readable (cdc_wdm_fd s, device_data r (cdc_wdm_fd s)) s = Some t" "wf_qmi t"
      "frame t = frame s" "reports s t"
    using device_ok [of s "(cdc_wdm_fd s, device_data r (cdc_wdm_fd s))"] assms by (auto simp: wwan_ok_def)
  then have "wwan_ok t" using assms dev_frame [OF t(3)] by (simp add: wwan_ok_def)
  moreover have "QmiWwan_round r w s
      \<in> {Some (Quit, s), Some (Go_on (thread_wait r w), s), Some (Go_on (thread_wait r w), t)}"
    by (simp add: QmiWwan_round_def Let_def t(1))
  ultimately show ?thesis using t(4) assms by auto
qed

lemma wwan_quit_ok:
  assumes "wwan_ok s"
  shows "\<exists>t. QmiWwan_quit s = Some t \<and> s_pRequest t = None
     \<and> to_main t = to_main s @ [RIL_INDICATE_DEVICE_DISCONNECTED]"
  by (auto simp: QmiWwan_quit_def QmiThreadRecvQMI_def qmidevice_send_event_to_main_def Let_def)

lemma wwan_wake_ok: "wwan_ok s \<Longrightarrow> \<exists>t. QmiThreadRecvQMI None s = Some t \<and> wwan_ok t"
  using wake_defined [of s] by (auto simp: wwan_ok_def)

interpretation wwan: device_thread QmiWwan_round QmiWwan_quit wwan_ok
proof (unfold_locales, goal_cases)
  case (2 r w s w' t)
  then show ?case by (auto simp: QmiWwan_round_def Let_def split: if_splits)
next
  case (3 r w s)
  then show ?case by (simp add: QmiWwan_round_def asks_def Let_def)
qed (blast intro: wwan_round_ok wwan_wake_ok wwan_quit_ok)+

lemma gobi_fds_ok:
  "gobi_ok s \<Longrightarrow> \<exists>a t. GobiNet_fds r w fds s = Some (a, t) \<and> gobi_ok t \<and> reports s t \<and> (a = Quit \<or> a = Go_on w)"
proof (induction fds arbitrary: s)
  case (Cons fd fds)
  obtain t where t: "device_readable (fd, device_data r fd) s = Some t" "wf_qmi t" "frame t = frame s" "reports s t"
    using device_ok [of s "(fd, device_data r fd)"] Cons.prems by (auto simp: gobi_ok_def)
  then have "gobi_ok t" using Cons.prems dev_frame [OF t(3)] by (simp add: gobi_ok_def)
  from Cons.IH [OF this] obtain a u where u: "GobiNet_fds r w fds t = Some (a, u)" "gobi_ok u" "reports t u"
    "a = Quit \<or> a = Go_on w" by blast
  obtain a' u' where u': "GobiNet_fds r w fds s = Some (a', u')" "gobi_ok u'" "reports s u'"
    "a' = Quit \<or> a' = Go_on w" using Cons.IH [OF Cons.prems] by blast
  have "GobiNet_fds r w (fd # fds) s \<in> {Some (Quit, s), Some (Go_on w, s), Some (a, u), Some (a', u')}"
    by (simp add: Let_def t(1) u(1) u'(1))
  then show ?case
    using reports_trans [OF t(4) u(3)] u u' Cons.prems by (auto simp del: GobiNet_fds.simps)
qed simp

lemma gobi_round_cases:
  assumes "gobi_ok s"
  shows "\<exists>a t. GobiNet_round r w s = Some (a, t) \<and> gobi_ok t \<and> reports s t
    \<and> (a = Quit \<or> a = Go_on (thread_wait r w))"
proof -
  obtain a t where t: "GobiNet_fds r (thread_wait r w) (filter (\<lambda>fd. fd \<noteq> 0) (qmiclientId s)) s = Some (a, t)"
    "gobi_ok t" "reports s t" "a = Quit \<or> a = Go_on (thread_wait r w)"
    using gobi_fds_ok [OF assms] by blast
  have "GobiNet_round r w s \<in> {Some (Quit, s), Some (a, t)}"
    by (simp add: GobiNet_round_def Let_def t(1))
  with t assms show ?thesis by auto
qed

lemma gobi_fds_wait: "GobiNet_fds r w fds s = Some (Go_on w', t) \<Longrightarrow> w' = w"
  by (induction fds arbitrary: s) (auto simp: Let_def split: if_splits)

lemma gobi_quit_ok:
  "\<exists>t. GobiNet_quit s = Some t \<and> s_pRequest t = None \<and> to_main t = to_main s @ [RIL_INDICATE_DEVICE_DISCONNECTED]"
  by (auto simp: GobiNet_quit_def GobiNetDeInit_def QmiThreadRecvQMI_def qmidevice_send_event_to_main_def)

lemma gobi_wake_ok: "gobi_ok s \<Longrightarrow> \<exists>t. QmiThreadRecvQMI None s = Some t \<and> gobi_ok t"
  using wake_defined [of s] by (auto simp: gobi_ok_def)

interpretation gobi: device_thread GobiNet_round GobiNet_quit gobi_ok
proof (unfold_locales, goal_cases)
  case (1 s r w)
  then show ?case using gobi_round_cases by blast
next
  case (2 r w s w' t)
  then show ?case by (auto simp: GobiNet_round_def Let_def split: if_splits dest: gobi_fds_wait)
next
  case (3 r w s)
  then show ?case by (simp add: GobiNet_round_def asks_def Let_def)
qed (blast intro: gobi_wake_ok gobi_quit_ok)+

section \<open>Properties\<close>

text \<open>A round in which only the control socket is readable, and one in which the device is.\<close>

definition quiet :: fd_event where
  "quiet = \<lparr>ev_err = False, ev_hup = False, ev_nval = False, ev_in = False\<rparr>"

definition readable :: fd_event where
  "readable = quiet\<lparr>ev_in := True\<rparr>"

definition control_round :: "int \<Rightarrow> poll_round" where
  "control_round ev = \<lparr>poll_result = 1, control = readable, trigger = Some ev,
     device_event = (\<lambda>_. quiet), device_data = (\<lambda>_. [])\<rparr>"

definition data_round :: "byte list \<Rightarrow> poll_round" where
  "data_round d = \<lparr>poll_result = 1, control = quiet, trigger = None,
     device_event = (\<lambda>_. readable), device_data = (\<lambda>_. d)\<rparr>"

definition timeout_round :: poll_round where
  "timeout_round = (control_round 0)\<lparr>poll_result := 0\<rparr>"

lemma round_simps [simp]:
  "asks (control_round ev) ev' \<longleftrightarrow> ev = ev'" "poll_result timeout_round = 0" "poll_result (data_round d) = 1"
  by (auto simp: asks_def control_round_def timeout_round_def readable_def quiet_def data_round_def)

text \<open>What the main loop hears from a thread that was connected.\<close>

definition heard :: "qmi \<Rightarrow> bool \<Rightarrow> qmi \<Rightarrow> bool" where
  "heard s ended t \<longleftrightarrow> (\<exists>evs. to_main t = to_main s @ [RIL_INDICATE_DEVICE_CONNECTED] @ evs
       @ (if ended then [RIL_INDICATE_DEVICE_DISCONNECTED] else [])
     \<and> set evs \<subseteq> {MODEM_REPORT_RESET_EVENT, RIL_UNSOL_RESPONSE_VOICE_NETWORK_STATE_CHANGED,
         RIL_UNSOL_DATA_CALL_LIST_CHANGED})"

lemma heard_wwan:
  assumes "wwan.ends_well (qmidevice_send_event_to_main RIL_INDICATE_DEVICE_CONNECTED s) ended t"
  shows "heard s ended t \<and> (ended \<longrightarrow> s_pRequest t = None)"
  using assms
  by (auto simp: wwan.ends_well_def heard_def reports_def qmidevice_send_event_to_main_def split: if_splits)

lemma heard_gobi:
  assumes "gobi.ends_well (qmidevice_send_event_to_main RIL_INDICATE_DEVICE_CONNECTED s) ended t"
  shows "heard s ended t \<and> (ended \<longrightarrow> s_pRequest t = None)"
  using assms
  by (auto simp: gobi.ends_well_def heard_def reports_def qmidevice_send_event_to_main_def split: if_splits)

lemma wwan_started:
  "wf_qmi s \<Longrightarrow> dev s = QmiWwan \<Longrightarrow>
     wwan_ok (qmidevice_send_event_to_main RIL_INDICATE_DEVICE_CONNECTED (s\<lparr>cdc_wdm_fd := fd\<rparr>))"
  by (simp add: wwan_ok_def wf_qmi_def qmidevice_send_event_to_main_def)

lemma heard_fd [simp]: "heard (s\<lparr>cdc_wdm_fd := fd\<rparr>) ended t = heard s ended t"
  by (simp add: heard_def)


lemma fresh_wwan: "wf_qmi (qmi_init QmiWwan fd)" "dev (qmi_init QmiWwan fd) = QmiWwan"
  by (simp_all add: qmi_init_def wf_qmi_def)


text \<open>
  After the main loop has asked a thread to stop, a poll that times out leaves no
  request pending, so a sender that waits for a modem that no longer answers is released
  within one second; this holds for both drivers.
\<close>
theorem stop_releases_sender:
  assumes "asks r SIG_EVENT_STOP" "poll_result r' = 0"
  shows "(wwan_ok s \<longrightarrow> (\<exists>ended w' t. thread_loop QmiWwan_round QmiWwan_quit (r # rs @ [r']) w s = Some (ended, w', t)
        \<and> s_pRequest t = None))
    \<and> (gobi_ok s \<longrightarrow> (\<exists>ended w' t. thread_loop GobiNet_round GobiNet_quit (r # rs @ [r']) w s = Some (ended, w', t)
        \<and> s_pRequest t = None))"
  using wwan.stop_wakes [OF _ assms] gobi.stop_wakes [OF _ assms] by blast

theorem stop_releases_sender_witness:
  "\<exists>ended w' t. thread_loop QmiWwan_round QmiWwan_quit [control_round SIG_EVENT_STOP, data_round example_indication, timeout_round]
      False ((qmi_init QmiWwan 3)\<lparr>s_pRequest := Some example_request\<rparr>) = Some (ended, w', t) \<and> s_pRequest t = None"
proof -
  have "wwan_ok ((qmi_init QmiWwan 3)\<lparr>s_pRequest := Some example_request\<rparr>)"
    using example_wf(1) by (simp add: wwan_ok_def qmi_init_def wf_qmi_def wf_request_def)
  then show ?thesis
    using stop_releases_sender [of "control_round SIG_EVENT_STOP" timeout_round _ "[data_round example_indication]",
        THEN conjunct1, THEN mp]
    by (simp del: thread_loop.simps)
qed

lemma data_round_step:
  assumes "d \<noteq> []"
  shows "QmiWwan_round (data_round d) w s
    = map_option (\<lambda>t. (Go_on w, t)) (reader_step (Some (cdc_wdm_fd s, d)) s)"
  using assms
  by (cases "device_readable (cdc_wdm_fd s, d) s")
    (simp_all add: QmiWwan_round_def data_round_def quiet_def readable_def thread_wait_def)

lemma data_rounds:
  assumes "\<forall>d \<in> set ds. d \<noteq> []" "wwan_ok s"
  shows "thread_loop QmiWwan_round QmiWwan_quit (map data_round ds) w s
    = map_option (\<lambda>t. (False, w, t)) (reader_run (map (\<lambda>d. Some (cdc_wdm_fd s, d)) ds) s)"
  using assms
proof (induction ds arbitrary: s)
  case (Cons d ds)
  obtain t where t: "device_readable (cdc_wdm_fd s, d) s = Some t" "wf_qmi t" "frame t = frame s"
    using device_ok [of s "(cdc_wdm_fd s, d)"] Cons.prems(2) by (auto simp: wwan_ok_def)
  have "wwan_ok t" using t dev_frame [OF t(3)] Cons.prems(2) by (simp add: wwan_ok_def)
  from Cons.IH [OF _ this] Cons.prems(1) t frame_fd [OF t(3)] show ?case
    by (simp add: data_round_step reader_run_def)
qed (simp add: reader_run_def)



lemma open_client:
  assumes "gobi_ok s" "unat slot < 27"
  shows "\<exists>t. GobiNet_open files slot s = Some t \<and> gobi_ok t \<and> to_main t = to_main s
     \<and> qmiclientId t = (qmiclientId s)[unat slot := GobiNetGetClientID (fst (files slot)) (snd (files slot))]"
  using assms by (simp add: GobiNet_open_def set_client_def gobi_ok_def wf_qmi_def)

lemma gobi_open_all:
  assumes "wf_qmi s" "dev s = GobiNet"
  shows "\<exists>t. gobi_ok t \<and> to_main t = to_main s
     \<and> client t QMUX_TYPE_WDS = Some (GobiNetGetClientID (fst (files QMUX_TYPE_WDS)) (snd (files QMUX_TYPE_WDS)))
     \<and> GobiNetThread files profile rs s =
      (if GobiNetGetClientID (fst (files QMUX_TYPE_WDS)) (snd (files QMUX_TYPE_WDS)) = 0
       then Some (True, False, qmidevice_send_event_to_main RIL_INDICATE_DEVICE_DISCONNECTED (GobiNetDeInit t))
       else thread_loop GobiNet_round GobiNet_quit rs False
              (qmidevice_send_event_to_main RIL_INDICATE_DEVICE_CONNECTED t))"
proof -
  have g: "gobi_ok s" using assms by (simp add: gobi_ok_def)
  obtain t1 where t1: "GobiNet_open files QMUX_TYPE_WDS s = Some t1" "gobi_ok t1" "to_main t1 = to_main s"
    "qmiclientId t1 = (qmiclientId s)[1 := GobiNetGetClientID (fst (files QMUX_TYPE_WDS)) (snd (files QMUX_TYPE_WDS))]"
    using open_client [OF g, of QMUX_TYPE_WDS files] by auto
  obtain t2 where t2: "(if enable_ipv6 profile \<noteq> 0 then GobiNet_open files QMUX_TYPE_WDS_IPV6 t1 else Some t1) = Some t2"
    "gobi_ok t2" "to_main t2 = to_main s" "qmiclientId t2 ! 1 = qmiclientId t1 ! 1"
    using open_client [OF t1(2), of QMUX_TYPE_WDS_IPV6 files] t1(1,2,3) by (cases "enable_ipv6 profile \<noteq> 0") auto
  obtain t3 where t3: "GobiNet_open files QMUX_TYPE_DMS t2 = Some t3" "gobi_ok t3" "to_main t3 = to_main s"
    "qmiclientId t3 ! 1 = qmiclientId t1 ! 1"
    using open_client [OF t2(2), of QMUX_TYPE_DMS files] t2 by auto
  obtain t4 where t4: "GobiNet_open files QMUX_TYPE_NAS t3 = Some t4" "gobi_ok t4" "to_main t4 = to_main s"
    "qmiclientId t4 ! 1 = qmiclientId t1 ! 1"
    using open_client [OF t3(2), of QMUX_TYPE_NAS files] t3 by auto
  obtain t5 where t5: "GobiNet_open files QMUX_TYPE_UIM t4 = Some t5" "gobi_ok t5" "to_main t5 = to_main s"
    "qmiclientId t5 ! 1 = qmiclientId t1 ! 1"
    using open_client [OF t4(2), of QMUX_TYPE_UIM files] t4 by auto
  obtain t6 where t6: "(if qmap_mode profile = 0 then GobiNet_open files QMUX_TYPE_WDS_ADMIN t5 else Some t5) = Some t6"
    "gobi_ok t6" "to_main t6 = to_main s" "qmiclientId t6 ! 1 = qmiclientId t1 ! 1"
    using open_client [OF t5(2), of QMUX_TYPE_WDS_ADMIN files] t5 by (cases "qmap_mode profile = 0") auto
  have "length (qmiclientId s) = 27" using assms(1) by (simp add: wf_qmi_def)
  then have "client t6 QMUX_TYPE_WDS = Some (GobiNetGetClientID (fst (files QMUX_TYPE_WDS)) (snd (files QMUX_TYPE_WDS)))"
    using t6(2,4) t1(4) by (simp add: client_def gobi_ok_def wf_qmi_def)
  with t1(1) t2(1) t3(1) t4(1) t5(1) t6 show ?thesis by (auto simp: GobiNetThread_def simp del: bind_Some_iff)
qed

text \<open>
  The GobiNet thread. If the data file can be opened and attached, the thread is
  defined, reports its start and its end like the other driver, and ends on a request to
  quit. If no file can be opened at all, the identifiers are -1, which the test for 0
  misses: the main loop is told that the device is connected.
\<close>
theorem gobinet_thread:
  assumes "wf_qmi s" "dev s = GobiNet"
  shows "(snd (files QMUX_TYPE_WDS) \<and> fst (files QMUX_TYPE_WDS) \<noteq> 0 \<or> (\<forall>q. fst (files q) = -1) \<longrightarrow>
      (\<exists>ended w t. GobiNetThread files profile rs s = Some (ended, w, t) \<and> heard s ended t
         \<and> (ended \<longrightarrow> s_pRequest t = None) \<and> ((\<exists>r \<in> set rs. asks r RIL_REQUEST_QUIT) \<longrightarrow> ended)))
   \<and> (fst (files QMUX_TYPE_WDS) \<noteq> -1 \<and> \<not> snd (files QMUX_TYPE_WDS) \<longrightarrow>
      (\<exists>w t. GobiNetThread files profile rs s = Some (True, w, t)
         \<and> to_main t = to_main s @ [RIL_INDICATE_DEVICE_DISCONNECTED] \<and> qmiclientId t = replicate 27 0))"
proof -
  let ?c = "GobiNetGetClientID (fst (files QMUX_TYPE_WDS)) (snd (files QMUX_TYPE_WDS))"
  obtain u where u: "gobi_ok u" "to_main u = to_main s"
    "GobiNetThread files profile rs s = (if ?c = 0
       then Some (True, False, qmidevice_send_event_to_main RIL_INDICATE_DEVICE_DISCONNECTED (GobiNetDeInit u))
       else thread_loop GobiNet_round GobiNet_quit rs False
              (qmidevice_send_event_to_main RIL_INDICATE_DEVICE_CONNECTED u))"
    using gobi_open_all [OF assms, of files profile rs] by blast
  let ?u = "qmidevice_send_event_to_main RIL_INDICATE_DEVICE_CONNECTED u"
  have g: "gobi_ok ?u" using u(1) by (simp add: gobi_ok_def wf_qmi_def qmidevice_send_event_to_main_def)
  obtain ended w t where t: "thread_loop GobiNet_round GobiNet_quit rs False ?u = Some (ended, w, t)"
    "gobi.ends_well ?u ended t"
    using gobi.loop_defined [OF g] by blast
  have q: "ended" if "\<exists>r \<in> set rs. asks r RIL_REQUEST_QUIT"
    using gobi.quits [OF g, where rs = rs and w = False] that t(1) by auto
  have h: "heard s ended t" "ended \<longrightarrow> s_pRequest t = None"
    using heard_gobi [OF t(2)] u(2) by (simp_all add: heard_def)
  have d: "qmiclientId (GobiNetDeInit u) = replicate 27 0"
    using u(1) by (intro nth_equalityI) (simp_all add: GobiNetDeInit_def gobi_ok_def wf_qmi_def)
  show ?thesis
  proof (intro conjI impI)
    assume "snd (files QMUX_TYPE_WDS) \<and> fst (files QMUX_TYPE_WDS) \<noteq> 0 \<or> (\<forall>q. fst (files q) = -1)"
    then have "?c \<noteq> 0" by (auto simp: GobiNetGetClientID_def)
    with u(3) t(1) h q show "\<exists>ended w t. GobiNetThread files profile rs s = Some (ended, w, t) \<and> heard s ended t
         \<and> (ended \<longrightarrow> s_pRequest t = None) \<and> ((\<exists>r \<in> set rs. asks r RIL_REQUEST_QUIT) \<longrightarrow> ended)" by auto
  next
    assume "fst (files QMUX_TYPE_WDS) \<noteq> -1 \<and> \<not> snd (files QMUX_TYPE_WDS)"
    then have "?c = 0" by (simp add: GobiNetGetClientID_def)
    with u d show "\<exists>w t. GobiNetThread files profile rs s = Some (True, w, t)
         \<and> to_main t = to_main s @ [RIL_INDICATE_DEVICE_DISCONNECTED] \<and> qmiclientId t = replicate 27 0"
      by (intro exI [of _ False]) (simp add: qmidevice_send_event_to_main_def GobiNetDeInit_def)
  qed
qed

theorem gobinet_thread_witness:
  "\<exists>ended w t. GobiNetThread (\<lambda>_. (-1, False)) zero_profile [] (qmi_init GobiNet (-1)) = Some (ended, w, t)
     \<and> heard (qmi_init GobiNet (-1)) ended t"
proof -
  have "wf_qmi (qmi_init GobiNet (-1))" "dev (qmi_init GobiNet (-1)) = GobiNet"
    by (simp_all add: qmi_init_def wf_qmi_def)
  from gobinet_thread [OF this, of "\<lambda>_. (-1, False)" zero_profile "[]", THEN conjunct1, THEN mp]
  show ?thesis by auto
qed

end
