(* ===== verification/Dump.thy ===== *)
theory Dump
  imports Threads
begin

text \<open>
  \<open>MPQMUX.c\<close>: the names of the QMI messages and the debug print of a message. The print
  goes to the static buffer \<open>line\<close> of 1024 bytes, of which the last stays the terminating
  zero: what does not fit is cut off.
\<close>

section \<open>The tables\<close>

type_synonym qmi_names = "(u32 \<times> string) list"

definition qmux_ctl_QMICTLType :: qmi_names where
  "qmux_ctl_QMICTLType =
    [(0x20, ''QMICTL_SET_INSTANCE_ID_REQ''),
     (0x20, ''QMICTL_SET_INSTANCE_ID_RESP''),
     (0x21, ''QMICTL_GET_VERSION_REQ''),
     (0x21, ''QMICTL_GET_VERSION_RESP''),
     (0x22, ''QMICTL_GET_CLIENT_ID_REQ''),
     (0x22, ''QMICTL_GET_CLIENT_ID_RESP''),
     (0x23, ''QMICTL_RELEASE_CLIENT_ID_REQ''),
     (0x23, ''QMICTL_RELEASE_CLIENT_ID_RESP''),
     (0x24, ''QMICTL_REVOKE_CLIENT_ID_IND''),
     (0x25, ''QMICTL_INVALID_CLIENT_ID_IND''),
     (0x26, ''QMICTL_SET_DATA_FORMAT_REQ''),
     (0x26, ''QMICTL_SET_DATA_FORMAT_RESP''),
     (0x27, ''QMICTL_SYNC_REQ''),
     (0x27, ''QMICTL_SYNC_RESP''),
     (0x27, ''QMICTL_SYNC_IND'')]"

definition qmux_CtlFlags :: qmi_names where
  "qmux_CtlFlags =
    [(0x0, ''QMUX_CTL_FLAG_TYPE_CMD''),
     (0x2, ''QMUX_CTL_FLAG_TYPE_RSP''),
     (0x4, ''QMUX_CTL_FLAG_TYPE_IND'')]"

definition qmux_wds_Type :: qmi_names where
  "qmux_wds_Type =
    [(0x1, ''QMIWDS_SET_EVENT_REPORT_REQ''),
     (0x1, ''QMIWDS_SET_EVENT_REPORT_RESP''),
     (0x1, ''QMIWDS_EVENT_REPORT_IND''),
     (0x20, ''QMIWDS_START_NETWORK_INTERFACE_REQ''),
     (0x20, ''QMIWDS_START_NETWORK_INTERFACE_RESP''),
     (0x21, ''QMIWDS_STOP_NETWORK_INTERFACE_REQ''),
     (0x21, ''QMIWDS_STOP_NETWORK_INTERFACE_RESP''),
     (0x22, ''QMIWDS_GET_PKT_SRVC_STATUS_REQ''),
     (0x22, ''QMIWDS_GET_PKT_SRVC_STATUS_RESP''),
     (0x22, ''QMIWDS_GET_PKT_SRVC_STATUS_IND''),
     (0x23, ''QMIWDS_GET_CURRENT_CHANNEL_RATE_REQ''),
     (0x23, ''QMIWDS_GET_CURRENT_CHANNEL_RATE_RESP''),
     (0x24, ''QMIWDS_GET_PKT_STATISTICS_REQ''),
     (0x24, ''QMIWDS_GET_PKT_STATISTICS_RESP''),
     (0x28, ''QMIWDS_MODIFY_PROFILE_SETTINGS_REQ''),
     (0x28, ''QMIWDS_MODIFY_PROFILE_SETTINGS_RESP''),
     (0x2B, ''QMIWDS_GET_PROFILE_SETTINGS_REQ''),
     (0x2B, ''QMIWDS_GET_PROFILE_SETTINGS_RESP''),
     (0x2C, ''QMIWDS_GET_DEFAULT_SETTINGS_REQ''),
     (0x2C, ''QMIWDS_GET_DEFAULT_SETTINGS_RESP''),
     (0x2D, ''QMIWDS_GET_RUNTIME_SETTINGS_REQ''),
     (0x2D, ''QMIWDS_GET_RUNTIME_SETTINGS_RESP''),
     (0x2F, ''QMIWDS_GET_MIP_MODE_REQ''),
     (0x2F, ''QMIWDS_GET_MIP_MODE_RESP''),
     (0x37, ''QMIWDS_GET_DATA_BEARER_REQ''),
     (0x37, ''QMIWDS_GET_DATA_BEARER_RESP''),
     (0x38, ''QMIWDS_DUN_CALL_INFO_REQ''),
     (0x38, ''QMIWDS_DUN_CALL_INFO_RESP''),
     (0x38, ''QMIWDS_DUN_CALL_INFO_IND''),
     (0x4D, ''QMIWDS_SET_CLIENT_IP_FAMILY_PREF_REQ''),
     (0x4D, ''QMIWDS_SET_CLIENT_IP_FAMILY_PREF_RESP''),
     (0x51, ''QMIWDS_SET_AUTO_CONNECT_REQ''),
     (0x51, ''QMIWDS_SET_AUTO_CONNECT_RESP''),
     (0xA2, ''QMIWDS_BIND_MUX_DATA_PORT_REQ''),
     (0xA2, ''QMIWDS_BIND_MUX_DATA_PORT_RESP'')]"

definition qmux_dms_Type :: qmi_names where
  "qmux_dms_Type =
    [(0x1, ''QMIDMS_SET_EVENT_REPORT_REQ''),
     (0x1, ''QMIDMS_SET_EVENT_REPORT_RESP''),
     (0x1, ''QMIDMS_EVENT_REPORT_IND''),
     (0x20, ''QMIDMS_GET_DEVICE_CAP_REQ''),
     (0x20, ''QMIDMS_GET_DEVICE_CAP_RESP''),
     (0x21, ''QMIDMS_GET_DEVICE_MFR_REQ''),
     (0x21, ''QMIDMS_GET_DEVICE_MFR_RESP''),
     (0x22, ''QMIDMS_GET_DEVICE_MODEL_ID_REQ''),
     (0x22, ''QMIDMS_GET_DEVICE_MODEL_ID_RESP''),
     (0x23, ''QMIDMS_GET_DEVICE_REV_ID_REQ''),
     (0x23, ''QMIDMS_GET_DEVICE_REV_ID_RESP''),
     (0x24, ''QMIDMS_GET_MSISDN_REQ''),
     (0x24, ''QMIDMS_GET_MSISDN_RESP''),
     (0x25, ''QMIDMS_GET_DEVICE_SERIAL_NUMBERS_REQ''),
     (0x25, ''QMIDMS_GET_DEVICE_SERIAL_NUMBERS_RESP''),
     (0x27, ''QMIDMS_UIM_SET_PIN_PROTECTION_REQ''),
     (0x27, ''QMIDMS_UIM_SET_PIN_PROTECTION_RESP''),
     (0x28, ''QMIDMS_UIM_VERIFY_PIN_REQ''),
     (0x28, ''QMIDMS_UIM_VERIFY_PIN_RESP''),
     (0x29, ''QMIDMS_UIM_UNBLOCK_PIN_REQ''),
     (0x29, ''QMIDMS_UIM_UNBLOCK_PIN_RESP''),
     (0x2A, ''QMIDMS_UIM_CHANGE_PIN_REQ''),
     (0x2A, ''QMIDMS_UIM_CHANGE_PIN_RESP''),
     (0x2B, ''QMIDMS_UIM_GET_PIN_STATUS_REQ''),
     (0x2B, ''QMIDMS_UIM_GET_PIN_STATUS_RESP''),
     (0x2C, ''QMIDMS_GET_DEVICE_HARDWARE_REV_REQ''),
     (0x2C, ''QMIDMS_GET_DEVICE_HARDWARE_REV_RESP''),
     (0x2D, ''QMIDMS_GET_OPERATING_MODE_REQ''),
     (0x2D, ''QMIDMS_GET_OPERATING_MODE_RESP''),
     (0x2E, ''QMIDMS_SET_OPERATING_MODE_REQ''),
     (0x2E, ''QMIDMS_SET_OPERATING_MODE_RESP''),
     (0x31, ''QMIDMS_GET_ACTIVATED_STATUS_REQ''),
     (0x31, ''QMIDMS_GET_ACTIVATED_STATUS_RESP''),
     (0x32, ''QMIDMS_ACTIVATE_AUTOMATIC_REQ''),
     (0x32, ''QMIDMS_ACTIVATE_AUTOMATIC_RESP''),
     (0x33, ''QMIDMS_ACTIVATE_MANUAL_REQ''),
     (0x33, ''QMIDMS_ACTIVATE_MANUAL_RESP''),
     (0x3C, ''QMIDMS_UIM_GET_ICCID_REQ''),
     (0x3C, ''QMIDMS_UIM_GET_ICCID_RESP''),
     (0x40, ''QMIDMS_UIM_GET_CK_STATUS_REQ''),
     (0x40, ''QMIDMS_UIM_GET_CK_STATUS_RESP''),
     (0x41, ''QMIDMS_UIM_SET_CK_PROTECTION_REQ''),
     (0x41, ''QMIDMS_UIM_SET_CK_PROTECTION_RESP''),
     (0x42, ''QMIDMS_UIM_UNBLOCK_CK_REQ''),
     (0x42, ''QMIDMS_UIM_UNBLOCK_CK_RESP''),
     (0x43, ''QMIDMS_UIM_GET_IMSI_REQ''),
     (0x43, ''QMIDMS_UIM_GET_IMSI_RESP''),
     (0x44, ''QMIDMS_UIM_GET_STATE_REQ''),
     (0x44, ''QMIDMS_UIM_GET_STATE_RESP''),
     (0x45, ''QMIDMS_GET_BAND_CAP_REQ''),
     (0x45, ''QMIDMS_GET_BAND_CAP_RESP'')]"

definition qmux_nas_Type :: qmi_names where
  "qmux_nas_Type =
    [(0x2, ''QMINAS_SET_EVENT_REPORT_REQ''),
     (0x2, ''QMINAS_SET_EVENT_REPORT_RESP''),
     (0x2, ''QMINAS_EVENT_REPORT_IND''),
     (0x20, ''QMINAS_GET_SIGNAL_STRENGTH_REQ''),
     (0x20, ''QMINAS_GET_SIGNAL_STRENGTH_RESP''),
     (0x21, ''QMINAS_PERFORM_NETWORK_SCAN_REQ''),
     (0x21, ''QMINAS_PERFORM_NETWORK_SCAN_RESP''),
     (0x22, ''QMINAS_INITIATE_NW_REGISTER_REQ''),
     (0x22, ''QMINAS_INITIATE_NW_REGISTER_RESP''),
     (0x23, ''QMINAS_INITIATE_ATTACH_REQ''),
     (0x23, ''QMINAS_INITIATE_ATTACH_RESP''),
     (0x24, ''QMINAS_GET_SERVING_SYSTEM_REQ''),
     (0x24, ''QMINAS_GET_SERVING_SYSTEM_RESP''),
     (0x24, ''QMINAS_SERVING_SYSTEM_IND''),
     (0x25, ''QMINAS_GET_HOME_NETWORK_REQ''),
     (0x25, ''QMINAS_GET_HOME_NETWORK_RESP''),
     (0x26, ''QMINAS_GET_PREFERRED_NETWORK_REQ''),
     (0x26, ''QMINAS_GET_PREFERRED_NETWORK_RESP''),
     (0x27, ''QMINAS_SET_PREFERRED_NETWORK_REQ''),
     (0x27, ''QMINAS_SET_PREFERRED_NETWORK_RESP''),
     (0x28, ''QMINAS_GET_FORBIDDEN_NETWORK_REQ''),
     (0x28, ''QMINAS_GET_FORBIDDEN_NETWORK_RESP''),
     (0x29, ''QMINAS_SET_FORBIDDEN_NETWORK_REQ''),
     (0x29, ''QMINAS_SET_FORBIDDEN_NETWORK_RESP''),
     (0x2A, ''QMINAS_SET_TECHNOLOGY_PREF_REQ''),
     (0x2A, ''QMINAS_SET_TECHNOLOGY_PREF_RESP''),
     (0x31, ''QMINAS_GET_RF_BAND_INFO_REQ''),
     (0x31, ''QMINAS_GET_RF_BAND_INFO_RESP''),
     (0x44, ''QMINAS_GET_PLMN_NAME_REQ''),
     (0x44, ''QMINAS_GET_PLMN_NAME_RESP''),
     (0x100, ''QUECTEL_PACKET_TRANSFER_START_IND''),
     (0x101, ''QUECTEL_PACKET_TRANSFER_END_IND''),
     (0x4D, ''QMINAS_GET_SYS_INFO_REQ''),
     (0x4D, ''QMINAS_GET_SYS_INFO_RESP''),
     (0x4D, ''QMINAS_SYS_INFO_IND'')]"

definition qmux_wms_Type :: qmi_names where
  "qmux_wms_Type =
    [(0x1, ''QMIWMS_SET_EVENT_REPORT_REQ''),
     (0x1, ''QMIWMS_SET_EVENT_REPORT_RESP''),
     (0x1, ''QMIWMS_EVENT_REPORT_IND''),
     (0x20, ''QMIWMS_RAW_SEND_REQ''),
     (0x20, ''QMIWMS_RAW_SEND_RESP''),
     (0x21, ''QMIWMS_RAW_WRITE_REQ''),
     (0x21, ''QMIWMS_RAW_WRITE_RESP''),
     (0x22, ''QMIWMS_RAW_READ_REQ''),
     (0x22, ''QMIWMS_RAW_READ_RESP''),
     (0x23, ''QMIWMS_MODIFY_TAG_REQ''),
     (0x23, ''QMIWMS_MODIFY_TAG_RESP''),
     (0x24, ''QMIWMS_DELETE_REQ''),
     (0x24, ''QMIWMS_DELETE_RESP''),
     (0x30, ''QMIWMS_GET_MESSAGE_PROTOCOL_REQ''),
     (0x30, ''QMIWMS_GET_MESSAGE_PROTOCOL_RESP''),
     (0x31, ''QMIWMS_LIST_MESSAGES_REQ''),
     (0x31, ''QMIWMS_LIST_MESSAGES_RESP''),
     (0x34, ''QMIWMS_GET_SMSC_ADDRESS_REQ''),
     (0x34, ''QMIWMS_GET_SMSC_ADDRESS_RESP''),
     (0x35, ''QMIWMS_SET_SMSC_ADDRESS_REQ''),
     (0x35, ''QMIWMS_SET_SMSC_ADDRESS_RESP''),
     (0x36, ''QMIWMS_GET_STORE_MAX_SIZE_REQ''),
     (0x36, ''QMIWMS_GET_STORE_MAX_SIZE_RESP'')]"

definition qmux_wds_admin_Type :: qmi_names where
  "qmux_wds_admin_Type =
    [(0x20, ''QMIWDS_ADMIN_SET_DATA_FORMAT_REQ''),
     (0x20, ''QMIWDS_ADMIN_SET_DATA_FORMAT_RESP''),
     (0x21, ''QMIWDS_ADMIN_GET_DATA_FORMAT_REQ''),
     (0x21, ''QMIWDS_ADMIN_GET_DATA_FORMAT_RESP''),
     (0x2B, ''QMIWDS_ADMIN_SET_QMAP_SETTINGS_REQ''),
     (0x2B, ''QMIWDS_ADMIN_SET_QMAP_SETTINGS_RESP''),
     (0x2C, ''QMIWDS_ADMIN_GET_QMAP_SETTINGS_REQ''),
     (0x2C, ''QMIWDS_ADMIN_GET_QMAP_SETTINGS_RESP'')]"

definition qmux_uim_Type :: qmi_names where
  "qmux_uim_Type =
    [(0x20, ''QMIUIM_READ_TRANSPARENT_REQ''),
     (0x20, ''QMIUIM_READ_TRANSPARENT_RESP''),
     (0x20, ''QMIUIM_READ_TRANSPARENT_IND''),
     (0x21, ''QMIUIM_READ_RECORD_REQ''),
     (0x21, ''QMIUIM_READ_RECORD_RESP''),
     (0x21, ''QMIUIM_READ_RECORD_IND''),
     (0x22, ''QMIUIM_WRITE_TRANSPARENT_REQ''),
     (0x22, ''QMIUIM_WRITE_TRANSPARENT_RESP''),
     (0x22, ''QMIUIM_WRITE_TRANSPARENT_IND''),
     (0x23, ''QMIUIM_WRITE_RECORD_REQ''),
     (0x23, ''QMIUIM_WRITE_RECORD_RESP''),
     (0x23, ''QMIUIM_WRITE_RECORD_IND''),
     (0x25, ''QMIUIM_SET_PIN_PROTECTION_REQ''),
     (0x25, ''QMIUIM_SET_PIN_PROTECTION_RESP''),
     (0x25, ''QMIUIM_SET_PIN_PROTECTION_IND''),
     (0x26, ''QMIUIM_VERIFY_PIN_REQ''),
     (0x26, ''QMIUIM_VERIFY_PIN_RESP''),
     (0x26, ''QMIUIM_VERIFY_PIN_IND''),
     (0x27, ''QMIUIM_UNBLOCK_PIN_REQ''),
     (0x27, ''QMIUIM_UNBLOCK_PIN_RESP''),
     (0x27, ''QMIUIM_UNBLOCK_PIN_IND''),
     (0x28, ''QMIUIM_CHANGE_PIN_REQ''),
     (0x28, ''QMIUIM_CHANGE_PIN_RESP''),
     (0x28, ''QMIUIM_CHANGE_PIN_IND''),
     (0x29, ''QMIUIM_DEPERSONALIZATION_REQ''),
     (0x29, ''QMIUIM_DEPERSONALIZATION_RESP''),
     (0x2E, ''QMIUIM_EVENT_REG_REQ''),
     (0x2E, ''QMIUIM_EVENT_REG_RESP''),
     (0x2F, ''QMIUIM_GET_CARD_STATUS_REQ''),
     (0x2F, ''QMIUIM_GET_CARD_STATUS_RESP''),
     (0x32, ''QMIUIM_STATUS_CHANGE_IND'')]"

section \<open>Looking up a name\<close>

definition contains :: "string \<Rightarrow> string \<Rightarrow> bool" where
  \<comment> \<open>\<open>strstr(s, tag) != NULL\<close>\<close>
  "contains s tag \<longleftrightarrow> (\<exists>i \<in> set [0..<Suc (length s)]. take (length tag) (drop i s) = tag)"

definition hex_digit :: "nat \<Rightarrow> char" where
  "hex_digit n = ''0123456789abcdef'' ! n"

text \<open>\<open>%x\<close>, and \<open>%02x\<close> and \<open>%04x\<close> on values of one and two bytes.\<close>

fun hex :: "nat \<Rightarrow> string" where
  "hex n = (if n < 16 then [hex_digit n] else hex (n div 16) @ [hex_digit (n mod 16)])"

declare hex.simps [simp del]

definition hex2 :: "byte \<Rightarrow> string" where
  "hex2 b = [hex_digit (unat b div 16), hex_digit (unat b mod 16)]"

definition hex4 :: "u16 \<Rightarrow> string" where
  "hex4 w = [hex_digit (unat w div 4096), hex_digit (unat w div 256 mod 16),
     hex_digit (unat w div 16 mod 16), hex_digit (unat w mod 16)]"

fun name_loop :: "qmi_names \<Rightarrow> u32 \<Rightarrow> string option \<Rightarrow> string" where
  "name_loop [] ty tag = ''unknow_'' @ hex (unat ty)"
| "name_loop ((t, name) # table) ty tag =
     (if t = ty \<and> (case tag of None \<Rightarrow> True | Some tg \<Rightarrow> contains name tg) then name
      else name_loop table ty tag)"

text \<open>The table of the control flags spells the suffixes differently; \<open>strcmp\<close> needs a tag.\<close>

definition qmi_name_get :: "qmi_names \<Rightarrow> u32 \<Rightarrow> string option \<Rightarrow> string option" where
  "qmi_name_get table ty tag =
     (if table = qmux_CtlFlags then (case tag of None \<Rightarrow> None
        | Some tg \<Rightarrow> Some (name_loop table ty
            (Some (if tg = ''_REQ'' then ''_CMD'' else if tg = ''_RESP'' then ''_RSP'' else tg))))
      else Some (name_loop table ty tag))"

section \<open>The print\<close>

abbreviation "TAB \<equiv> [CHR 0x09]"
abbreviation "NL \<equiv> [CHR 0x0A]"

definition dbg :: "string \<Rightarrow> string \<Rightarrow> string" where
  "dbg s line = take 1023 (line @ s)"

fun dump_bytes :: "byte list \<Rightarrow> string \<Rightarrow> string" where
  "dump_bytes [] line = line"
| "dump_bytes (v # vs) line = dump_bytes vs (dbg (hex2 v @ '' '') line)"

text \<open>The loop ends when \<open>GetTLV\<close> finds no further TLV; \<open>n\<close> is \<open>TLVFind\<close>.\<close>

partial_function (option) dump_tlv_loop :: "byte list \<Rightarrow> nat \<Rightarrow> nat \<Rightarrow> string \<Rightarrow> string option" where
  "dump_tlv_loop m h n line = do {
     t \<leftarrow> GetTLV m h (0x1000 + Suc n);
     case t of None \<Rightarrow> Some line
     | Some p \<Rightarrow> do {
         ty \<leftarrow> get8 m p QMI_TLV_HDR ''TLVType'';
         l \<leftarrow> get16 m p QMI_TLV_HDR ''TLVLength'';
         vs \<leftarrow> rdn m (p + sizeof QMI_TLV_HDR) (unat l);
         dump_tlv_loop m h (Suc n)
           (dbg (''}'' @ NL) (dump_bytes vs (dbg (''{'' @ hex2 ty @ '','' @ TAB @ hex4 l @ '','' @ TAB) line))) } }"

definition dump_tlv :: "byte list \<Rightarrow> nat \<Rightarrow> string \<Rightarrow> string option" where
  "dump_tlv m h line = dump_tlv_loop m h 0 line"

definition dump_ctl :: "byte list \<Rightarrow> nat \<Rightarrow> string \<Rightarrow> string option" where
  "dump_ctl m h line = do {
     tid \<leftarrow> get8 m h QCQMICTL_MSG_HDR ''TransactionId'';
     let line = dbg (''TransactionId:      '' @ hex2 tid @ NL) line;
     flags \<leftarrow> get8 m h QCQMICTL_MSG_HDR ''CtlFlags'';
     let tag = (if flags = 0x00 then Some ''_REQ'' else if flags = 0x01 then Some ''_RESP''
                else if flags = 0x02 then Some ''_IND'' else None);
     ty \<leftarrow> get16 m h QCQMICTL_MSG_HDR ''QMICTLType'';
     name \<leftarrow> qmi_name_get qmux_ctl_QMICTLType (ucast ty) tag;
     let line = dbg (''QMICTLType:         '' @ hex4 ty @ TAB @ name @ NL) line;
     len \<leftarrow> get16 m h QCQMICTL_MSG_HDR ''Length'';
     let line = dbg (''Length:             '' @ hex4 len @ NL) line;
     dump_tlv m (h + off QCQMICTL_MSG_HDR ''QMICTLType'') line }"

definition service_names :: "byte \<Rightarrow> qmi_names option" where
  "service_names serviceType =
     (if serviceType = QMUX_TYPE_DMS then Some qmux_dms_Type
      else if serviceType = QMUX_TYPE_NAS then Some qmux_nas_Type
      else if serviceType = QMUX_TYPE_WDS then Some qmux_wds_Type
      else if serviceType = QMUX_TYPE_WMS then Some qmux_wms_Type
      else if serviceType = QMUX_TYPE_WDS_ADMIN then Some qmux_wds_admin_Type
      else if serviceType = QMUX_TYPE_UIM then Some qmux_uim_Type
      else None)"

definition dump_qmux :: "byte \<Rightarrow> byte list \<Rightarrow> nat \<Rightarrow> string \<Rightarrow> string option" where
  "dump_qmux serviceType m h line = (let mh = h + sizeof QCQMUX_HDR in do {
     flags \<leftarrow> get8 m h QCQMUX_HDR ''CtlFlags'';
     let kind = flags AND 0x06;
     let tag = (if kind = 0x00 then Some ''_REQ'' else if kind = 0x02 then Some ''_RESP''
                else if kind = 0x04 then Some ''_IND'' else None);
     tid \<leftarrow> get16 m h QCQMUX_HDR ''TransactionId'';
     let line = dbg (''TransactionId:    '' @ hex4 tid @ NL) line;
     ty \<leftarrow> get16 m mh QCQMUX_MSG_HDR ''Type'';
     name \<leftarrow> (case service_names serviceType of
                Some table \<Rightarrow> qmi_name_get table (ucast ty) tag
              | None \<Rightarrow> Some ''PDS/QOS/CTL/unknown!'');
     let line = dbg (''Type:               '' @ hex4 ty @ TAB @ name @ NL) line;
     len \<leftarrow> get16 m mh QCQMUX_MSG_HDR ''Length'';
     let line = dbg (''Length:             '' @ hex4 len @ NL) line;
     dump_tlv m mh line })"

text \<open>The two lines that are printed when \<open>debug_qmi\<close> is set.\<close>

definition dump_qmi :: "bool \<Rightarrow> byte list \<Rightarrow> nat \<Rightarrow> string list option" where
  "dump_qmi debug_qmi dataBuffer dataLen =
     (if \<not> debug_qmi then Some []
      else do {
        bs \<leftarrow> rdn dataBuffer 0 dataLen;
        ty \<leftarrow> get8 dataBuffer 0 QCQMI_HDR ''QMIType'';
        line \<leftarrow> (if ty = QMUX_TYPE_CTL then dump_ctl dataBuffer (sizeof QCQMI_HDR) []
                 else dump_qmux ty dataBuffer (sizeof QCQMI_HDR) []);
        Some [dump_bytes bs [], line] })"

section \<open>What the print shows\<close>

definition tlv_line :: "tlv \<Rightarrow> string" where
  "tlv_line x = ''{'' @ hex2 (fst x) @ '','' @ TAB @ hex4 (of_nat (length (snd x))) @ '','' @ TAB
     @ concat (map (\<lambda>v. hex2 v @ '' '') (snd x)) @ ''}'' @ NL"

lemma dbg_dbg: "dbg t (dbg s line) = dbg (s @ t) line"
  by (cases "length (line @ s) \<le> 1023") (auto simp: dbg_def min_def)

lemma dbg_empty: "dbg s [] = take 1023 s"
  by (simp add: dbg_def)

lemma dbg_Nil: "length line \<le> 1023 \<Longrightarrow> dbg [] line = line"
  by (simp add: dbg_def)

lemma dump_bytes_dbg: "dump_bytes vs (dbg s line) = dbg (s @ concat (map (\<lambda>v. hex2 v @ '' '') vs)) line"
  by (induction vs arbitrary: s) (simp_all add: dbg_dbg)

lemma dump_tlv_loop_prints:
  assumes "length (encode_tlvs xs) < 65536" "n \<le> length xs" "length line \<le> 1023"
  shows "dump_tlv_loop (pre @ mux_body mt xs @ post) (length pre) n line
    = Some (dbg (concat (map tlv_line (drop n xs))) line)"
  using assms(2,3)
proof (induction "length xs - n" arbitrary: n line)
  case 0
  then have "n = length xs" by simp
  then show ?case
    using GetTLV_index [OF assms(1), of "Suc n" pre mt post] 0(3)
    by (subst dump_tlv_loop.simps) (simp add: dbg_Nil)
next
  case (Suc k)
  let ?m = "pre @ mux_body mt xs @ post"
  let ?p = "length pre + 4 + length (encode_tlvs (take n xs))"
  have n: "n < length xs" using Suc.hyps(2) by simp
  let ?x = "xs ! n"
  have xs: "encode_tlvs xs = encode_tlvs (take n xs) @ encode_tlv ?x @ encode_tlvs (drop (Suc n) xs)"
    by (metis Cons_nth_drop_Suc append_take_drop_id encode_tlvs_Cons encode_tlvs_append n)
  let ?pre = "pre @ le16 mt @ le16 (of_nat (length (encode_tlvs xs))) @ encode_tlvs (take n xs)"
  let ?post = "encode_tlvs (drop (Suc n) xs) @ post"
  have m: "?m = ?pre @ encode_tlv ?x @ ?post" by (simp add: mux_body_def xs)
  have lp: "length ?pre = ?p" by simp
  have lx: "length (snd ?x) < 65536" using assms(1) xs by simp
  have ty: "get8 ?m ?p QMI_TLV_HDR ''TLVType'' = Some (fst ?x)"
    unfolding m lp [symmetric] by (rule get8_encode_tlv)
  have len: "get16 ?m ?p QMI_TLV_HDR ''TLVLength'' = Some (of_nat (length (snd ?x)))"
    unfolding m lp [symmetric] by (rule get16_encode_tlv)
  have vs: "rdn ?m (?p + sizeof QMI_TLV_HDR) (length (snd ?x)) = Some (snd ?x)"
    unfolding m lp [symmetric] by (simp add: rdn_def encode_tlv_def)
  have line: "length (dbg (tlv_line ?x) line) \<le> 1023" by (simp add: dbg_def)
  have step: "dump_tlv_loop ?m (length pre) n line = dump_tlv_loop ?m (length pre) (Suc n) (dbg (tlv_line ?x) line)"
    using GetTLV_index [OF assms(1), of "Suc n" pre mt post] n ty len vs unat_len16 [OF lx]
    by (subst dump_tlv_loop.simps) (simp add: dump_bytes_dbg dbg_dbg tlv_line_def)
  have "dump_tlv_loop ?m (length pre) (Suc n) (dbg (tlv_line ?x) line)
      = Some (dbg (concat (map tlv_line (drop (Suc n) xs))) (dbg (tlv_line ?x) line))"
    using Suc.hyps(2) n line by (intro Suc.hyps(1)) simp_all
  with step show ?case
    using n by (simp add: dbg_dbg flip: Cons_nth_drop_Suc)
qed

text \<open>
  C36: The print of a composed request shows its bytes, then its transaction, its type with
  the name that the table of its service gives to a request, its length and all its TLVs
  in order, cut to the 1023 characters of the buffer.
\<close>
theorem dump_of_request:
  assumes "length (encode_tlvs xs) < 60000" "q \<noteq> QMUX_TYPE_CTL"
    and "name = (case service_names q of Some table \<Rightarrow> name_loop table (ucast ty) (Some ''_REQ'')
                 | None \<Rightarrow> ''PDS/QOS/CTL/unknown!'')"
  shows "dump_qmi True (qmux_request q c tid ty xs) (length (qmux_request q c tid ty xs)) = Some
    [take 1023 (concat (map (\<lambda>v. hex2 v @ '' '') (qmux_request q c tid ty xs))),
     take 1023 (''TransactionId:    '' @ hex4 tid @ NL @ ''Type:               '' @ hex4 ty @ TAB @ name @ NL
       @ ''Length:             '' @ hex4 (of_nat (length (encode_tlvs xs))) @ NL @ concat (map tlv_line xs))]"
proof -
  let ?m = "qmux_request q c tid ty xs"
  let ?pre = "0x01 # le16 (of_nat (12 + length (encode_tlvs xs))) @ [0x00, q, c] @ (0x00 # le16 tid)"
  have m: "?m = ?pre @ mux_body ty xs @ []" "length ?pre = 9" by (simp_all add: qmux_request_def)
  have tlv: "dump_tlv ?m 9 line = Some (dbg (concat (map tlv_line xs)) line)" if "length line \<le> 1023" for line
    using dump_tlv_loop_prints [of xs 0 line ?pre ty "[]"] assms(1) that m by (simp add: dump_tlv_def)
  have f: "get8 ?m 0 QCQMI_HDR ''QMIType'' = Some q" "get8 ?m 6 QCQMUX_HDR ''CtlFlags'' = Some 0"
    "get16 ?m 6 QCQMUX_HDR ''TransactionId'' = Some tid" "get16 ?m 9 QCQMUX_MSG_HDR ''Type'' = Some ty"
    "get16 ?m 9 QCQMUX_MSG_HDR ''Length'' = Some (of_nat (length (encode_tlvs xs)))"
    by (simp_all add: qmux_request_def mux_body_def le16_def field_defs rd16_def)
  have nm: "(case service_names q of Some table \<Rightarrow> qmi_name_get table (ucast ty) (Some ''_REQ'')
      | None \<Rightarrow> Some ''PDS/QOS/CTL/unknown!'') = Some name"
  proof -
    have "table \<noteq> qmux_CtlFlags" if "service_names q = Some table" for table
      using that by (auto simp: service_names_def qmux_CtlFlags_def qmux_dms_Type_def qmux_nas_Type_def
          qmux_wds_Type_def qmux_wms_Type_def qmux_wds_admin_Type_def qmux_uim_Type_def split: if_splits)
    then show ?thesis by (simp add: assms(3) qmi_name_get_def split: option.split)
  qed
  have raw: "dump_bytes ?m [] = take 1023 (concat (map (\<lambda>v. hex2 v @ '' '') ?m))"
    using dump_bytes_dbg [of ?m "[]" "[]"] by (simp add: dbg_def)
  have len: "length (dbg s line) \<le> 1023" for s line by (simp add: dbg_def)
  have "dump_qmux q ?m 6 [] = Some (dbg (concat (map tlv_line xs))
      (dbg (''Length:             '' @ hex4 (of_nat (length (encode_tlvs xs))) @ NL)
        (dbg (''Type:               '' @ hex4 ty @ TAB @ name @ NL) (dbg (''TransactionId:    '' @ hex4 tid @ NL) []))))"
    by (simp add: dump_qmux_def f nm tlv len Let_def)
  then have q: "dump_qmux q ?m 6 [] = Some (take 1023 (''TransactionId:    '' @ hex4 tid @ NL @ ''Type:               ''
       @ hex4 ty @ TAB @ name @ NL @ ''Length:             '' @ hex4 (of_nat (length (encode_tlvs xs))) @ NL
       @ concat (map tlv_line xs)))"
    unfolding dbg_dbg unfolding dbg_empty append_assoc .
  have "rdn ?m 0 (length ?m) = Some ?m" by (simp add: rdn_def)
  with assms(2) show ?thesis by (simp add: dump_qmi_def f(1) q raw del: length_qmux_request)
qed

theorem dump_of_request_witness:
  "\<exists>raw. dump_qmi True (qmux_request QMUX_TYPE_DMS 7 1 0x0023 []) 13 = Some [raw,
     ''TransactionId:    0001'' @ NL @ ''Type:               0023'' @ TAB @ ''QMIDMS_GET_DEVICE_REV_ID_REQ'' @ NL
       @ ''Length:             0000'' @ NL]"
  using dump_of_request [of "[]" QMUX_TYPE_DMS "''QMIDMS_GET_DEVICE_REV_ID_REQ''" "0x0023" 7 1]
  by (simp add: service_names_def qmux_dms_Type_def contains_def hex4_def hex_digit_def)

definition named_back :: "qmi_names \<Rightarrow> bool" where
  "named_back table \<longleftrightarrow> (\<forall>x \<in> set table. \<exists>tag \<in> {''_REQ'', ''_RESP'', ''_IND''}.
     name_loop table (fst x) (Some tag) = snd x)"

lemma back_ctl: "named_back qmux_ctl_QMICTLType" by code_simp
lemma back_wds: "named_back qmux_wds_Type" by code_simp
lemma back_admin: "named_back qmux_wds_admin_Type" by code_simp
lemma back_dms: "named_back qmux_dms_Type" by code_simp
lemma back_nas: "named_back qmux_nas_Type" by code_simp
lemma back_wms: "named_back qmux_wms_Type" by code_simp
lemma back_uim: "named_back qmux_uim_Type" by code_simp

text \<open>
  Type and suffix tell the messages apart: every name of every table of a service is
  found again from its type and its suffix, so no two messages of a service share a print.
\<close>
theorem names_found_again:
  "named_back qmux_ctl_QMICTLType \<and> (\<forall>q table. service_names q = Some table \<longrightarrow> named_back table)"
  by (auto simp: service_names_def back_ctl back_wds back_admin back_dms back_nas back_wms back_uim split: if_splits)

theorem names_found_again_witness:
  "named_back qmux_uim_Type"
proof -
  have "service_names QMUX_TYPE_UIM = Some qmux_uim_Type" by (simp add: service_names_def)
  with names_found_again show ?thesis by blast
qed

end
