(* ===== verification/Util.thy ===== *)
theory Util
  imports Prelude
begin

text \<open>
  Model of \<open>util.c\<close>: the byte-order conversions (with the host byte order as a
  parameter), the relative deadline of \<open>pthread_cond_timeout_np\<close>, the millisecond
  clocks, and \<open>update_resolv_conf\<close>, which rewrites \<open>/etc/resolv.conf\<close>.
\<close>

section \<open>Byte order\<close>

text \<open>
  An integer of the host is stored as bytes in host order; \<open>is_bigendian\<close> tests the
  first byte of the constant 1. The conversions copy the bytes \<open>s[]\<close> of the argument to
  \<open>d[]\<close>, reversed on a big-endian host.
\<close>

datatype endian = Little | Big

definition is_bigendian :: "endian \<Rightarrow> bool" where
  "is_bigendian h \<longleftrightarrow> h = Big"

definition store16 :: "endian \<Rightarrow> u16 \<Rightarrow> byte list" where
  "store16 h w = (if is_bigendian h then rev (le16 w) else le16 w)"

fun load16 :: "endian \<Rightarrow> byte list \<Rightarrow> u16" where
  "load16 h [a, b] = (if is_bigendian h then mk16 b a else mk16 a b)"
| "load16 h _ = 0"

definition store32 :: "endian \<Rightarrow> u32 \<Rightarrow> byte list" where
  "store32 h w = (if is_bigendian h then rev (le32 w) else le32 w)"

fun load32 :: "endian \<Rightarrow> byte list \<Rightarrow> u32" where
  "load32 h [a, b, c, d] = (if is_bigendian h then mk32 d c b a else mk32 a b c d)"
| "load32 h _ = 0"

definition le16_to_cpu :: "endian \<Rightarrow> u16 \<Rightarrow> u16" where
  "le16_to_cpu h v16 =
     (if is_bigendian h then load16 h (rev (store16 h v16)) else v16)"

definition le32_to_cpu :: "endian \<Rightarrow> u32 \<Rightarrow> u32" where
  "le32_to_cpu h v32 =
     (if is_bigendian h then load32 h (rev (store32 h v32)) else v32)"

definition ql_swap32 :: "endian \<Rightarrow> u32 \<Rightarrow> u32" where
  "ql_swap32 h v32 = load32 h (rev (store32 h v32))"

definition cpu_to_le16 :: "endian \<Rightarrow> u16 \<Rightarrow> u16" where
  "cpu_to_le16 h v16 =
     (if is_bigendian h then load16 h (rev (store16 h v16)) else v16)"

definition cpu_to_le32 :: "endian \<Rightarrow> u32 \<Rightarrow> u32" where
  "cpu_to_le32 h v32 =
     (if is_bigendian h then load32 h (rev (store32 h v32)) else v32)"

lemmas endian_defs = is_bigendian_def store16_def store32_def le16_to_cpu_def le32_to_cpu_def
  ql_swap32_def cpu_to_le16_def cpu_to_le32_def

lemma le16_to_cpu_little [simp]: "le16_to_cpu Little v = v"
  by (simp add: endian_defs)

lemma le32_to_cpu_little [simp]: "le32_to_cpu Little v = v"
  by (simp add: endian_defs)

lemma load16_le16 [simp]: "load16 h (le16 w) = (if is_bigendian h
    then mk16 (ucast (drop_bit 8 w)) (ucast w) else w)"
  by (simp add: le16_def)

lemma mk32_bytes [simp]:
  "ucast (mk32 a b c d) = a" "ucast (drop_bit 8 (mk32 a b c d)) = b"
  "ucast (drop_bit 16 (mk32 a b c d)) = c" "ucast (drop_bit 24 (mk32 a b c d)) = d"
proof -
  have high: "\<not> bit x (8 + n)" "\<not> bit x (16 + n)" "\<not> bit x (24 + n)" for x :: byte and n
    using bit_imp_le_length [of x "8 + n"] bit_imp_le_length [of x "16 + n"]
      bit_imp_le_length [of x "24 + n"] by auto
  show "ucast (mk32 a b c d) = a" "ucast (drop_bit 8 (mk32 a b c d)) = b"
    "ucast (drop_bit 16 (mk32 a b c d)) = c" "ucast (drop_bit 24 (mk32 a b c d)) = d"
    by (auto intro!: bit_word_eqI simp: mk32_def bit_simps high)
qed

lemma le32_mk32: "le32 (mk32 a b c d) = [a, b, c, d]"
  by (simp add: le32_def)

lemma mk16_bytes [simp]: "ucast (mk16 a b) = a" "ucast (drop_bit 8 (mk16 a b)) = b"
  using le16_mk16 [of a b] by (simp_all add: le16_def)

text \<open>
  On either host, reading the two (four) message bytes in host order and converting
  gives the little-endian value of the bytes: \<open>rd16\<close> and \<open>rd32\<close> of the prelude are the
  composition of a raw field read and \<open>le16_to_cpu\<close> / \<open>le32_to_cpu\<close>.
\<close>

lemma le16_to_cpu_load: "le16_to_cpu h (load16 h [a, b]) = mk16 a b"
  by (simp add: endian_defs le16_mk16 split: if_splits)

lemma le32_to_cpu_load: "le32_to_cpu h (load32 h [a, b, c, d]) = mk32 a b c d"
  by (simp add: endian_defs le32_mk32 split: if_splits)

lemma store_cpu_to_le16: "store16 h (cpu_to_le16 h v) = le16 v"
  by (simp add: endian_defs le16_def le16_mk16)

lemma store_cpu_to_le32: "store32 h (cpu_to_le32 h v) = le32 v"
  by (simp add: endian_defs le32_def le32_mk32)

lemma ql_swap32_bytes: "store32 h (ql_swap32 h v) = rev (store32 h v)"
  by (cases h) (simp_all add: endian_defs le32_def le32_mk32)

lemma ql_swap32_involution: "ql_swap32 h (ql_swap32 h v) = v"
  by (cases h) (simp_all add: endian_defs le32_def le32_mk32)

section \<open>Clocks and deadlines\<close>

record timespec =
  tv_sec :: int
  tv_nsec :: int

text \<open>The clock value \<open>ts\<close> is what \<open>clock_gettime(CLOCK_MONOTONIC)\<close> returned; \<open>msec\<close> comes
  from an \<open>unsigned\<close>, so it is not negative and C division agrees with \<open>div\<close> and \<open>mod\<close>.\<close>

definition setTimespecRelative :: "timespec \<Rightarrow> int \<Rightarrow> timespec" where
  "setTimespecRelative ts msec =
     \<lparr>tv_sec = tv_sec ts + msec div 1000, tv_nsec = tv_nsec ts + (msec mod 1000) * 1000 * 1000\<rparr>"

definition timespec_ok :: "timespec \<Rightarrow> bool" where
  \<comment> \<open>what \<open>pthread_cond_timedwait\<close> accepts; it returns \<open>EINVAL\<close> on anything else\<close>
  "timespec_ok ts \<longleftrightarrow> 0 \<le> tv_nsec ts \<and> tv_nsec ts < 1000000000"

definition ns :: "timespec \<Rightarrow> int" where
  "ns ts = tv_sec ts * 1000000000 + tv_nsec ts"

lemma setTimespecRelative_ns: "ns (setTimespecRelative ts msec) = ns ts + msec * 1000000"
proof -
  have "msec = 1000 * (msec div 1000) + msec mod 1000" by simp
  then have "msec * 1000000 = (msec div 1000) * 1000000000 + (msec mod 1000) * 1000000"
    by linarith
  then show ?thesis by (simp add: ns_def setTimespecRelative_def algebra_simps)
qed

lemma setTimespecRelative_ok_iff:
  assumes "timespec_ok ts"
  shows "timespec_ok (setTimespecRelative ts msec)
    \<longleftrightarrow> tv_nsec ts + (msec mod 1000) * 1000000 < 1000000000"
  using assms pos_mod_sign [of 1000 msec]
  by (simp add: timespec_ok_def setTimespecRelative_def mult.commute)

definition clock_msec :: "timespec \<Rightarrow> int" where
  "clock_msec tm = (tv_sec tm * 1000 + tv_nsec tm div 1000000) mod 2 ^ 64"

text \<open>The second and millisecond of the log time stamp (\<open>get_time\<close>).\<close>

definition get_time :: "int \<Rightarrow> int \<Rightarrow> int \<times> int" where
  "get_time sec usec =
     (let millitm = (usec + 500) div 1000 in
      if millitm = 1000 then (sec + 1, 0) else (sec, millitm))"

lemma get_time_range:
  assumes "0 \<le> usec" "usec < 1000000"
  shows "0 \<le> snd (get_time sec usec)" and "snd (get_time sec usec) < 1000"
    and "\<bar>(fst (get_time sec usec) * 1000 + snd (get_time sec usec)) * 1000 - (sec * 1000000 + usec)\<bar> \<le> 500"
  using assms by (auto simp: get_time_def Let_def)

section \<open>Rewriting resolv.conf\<close>

fun dec_aux :: "nat \<Rightarrow> nat \<Rightarrow> string" where
  "dec_aux 0 n = []"
| "dec_aux (Suc k) n =
     (if n < 10 then [char_of (48 + n)] else dec_aux k (n div 10) @ [char_of (48 + n mod 10)])"

definition dec :: "nat \<Rightarrow> string" where
  \<comment> \<open>\<open>%d\<close> of a non-negative number\<close>
  "dec n = dec_aux (Suc n) n"

fun strstr :: "string \<Rightarrow> string \<Rightarrow> bool" where
  "strstr [] t \<longleftrightarrow> t = []"
| "strstr (c # s) t \<longleftrightarrow> take (length t) (c # s) = t \<or> strstr s t"

text \<open>
  \<open>fgets(buf, n, f)\<close> takes at most \<open>n - 1\<close> characters, up to and including a newline.
\<close>

fun fgets :: "nat \<Rightarrow> string \<Rightarrow> string \<times> string" where
  "fgets 0 s = ([], s)"
| "fgets (Suc n) [] = ([], [])"
| "fgets (Suc n) (c # s) =
     (if c = CHR 0x0A then ([c], s) else (case fgets n s of (l, r) \<Rightarrow> (c # l, r)))"

lemma fgets_shrinks: "fgets (Suc n) (c # s) = (l, r) \<Longrightarrow> length r \<le> length s"
proof (induction n arbitrary: c s l r)
  case (Suc n)
  then show ?case by (cases s) (fastforce split: if_splits prod.splits)+
qed (auto split: if_splits)

lemma fgets_254: "(l, r) = fgets 254 s \<Longrightarrow> s \<noteq> [] \<Longrightarrow> length r < length s"
  using fgets_shrinks [of 253 "hd s" "tl s" l r] by (cases s) (auto simp: numeral_eq_Suc)

function fgets_lines :: "string \<Rightarrow> string list" where
  "fgets_lines s =
     (if s = [] then [] else (case fgets 254 s of (l, r) \<Rightarrow> l # fgets_lines r))"
  by pat_completeness auto
termination
  by (relation "measure length") (auto dest!: fgets_254)

declare fgets_lines.simps [simp del]

definition strip_nl :: "string \<Rightarrow> string" where
  "strip_nl l = (if 1 < length l \<and> last l = CHR 0x0A then butlast l else l)"

text \<open>
  The read loop: a line with the tag is counted and dropped, every other one is kept
  until \<open>MAX_DNS\<close> (16) are.
\<close>

fun dns_read :: "string \<Rightarrow> string list \<Rightarrow> string list \<Rightarrow> nat \<Rightarrow> string list \<times> nat" where
  "dns_read tag [] info match = (info, match)"
| "dns_read tag (l # ls) info match =
     (if strstr (strip_nl l) tag then dns_read tag ls info (Suc match)
      else let info' = info @ [strip_nl l] in
        if length info' = 16 then (info', match) else dns_read tag ls info' match)"

datatype fopen_r = Content string | Enoent | Fails

definition dns_tag :: "nat \<Rightarrow> string \<Rightarrow> string" where
  "dns_tag iptype ifname = take 63 (''# IPV'' @ dec iptype @ '' '' @ ifname)"

definition nameserver :: "string \<Rightarrow> string \<Rightarrow> string" where
  "nameserver dns tag = ''nameserver '' @ dns @ '' '' @ tag"

text \<open>What \<open>fprintf\<close> writes: each line and a newline.\<close>

definition unlines :: "string list \<Rightarrow> string" where
  "unlines ls = concat (map (\<lambda>l. l @ [CHR 0x0A]) ls)"

text \<open>The result: \<open>None\<close> when the file is left alone, \<open>Some\<close> of what is written to it.\<close>

definition update_resolv_conf ::
    "nat \<Rightarrow> string \<Rightarrow> string option \<Rightarrow> string option \<Rightarrow> fopen_r \<Rightarrow> bool \<Rightarrow> string option" where
  "update_resolv_conf iptype ifname dns1 dns2 file w_ok =
     (let tag = dns_tag iptype ifname in
      if file = Fails then None
      else let (info, match) = (case file of Content s \<Rightarrow> dns_read tag (fgets_lines s) [] 0
                                | _ \<Rightarrow> ([], 0)) in
        if dns1 = None \<and> match = 0 then None
        else if \<not> w_ok then None
        else Some (unlines
          ((case dns1 of None \<Rightarrow> [] | Some d \<Rightarrow> [nameserver d tag])
           @ (case dns2 of None \<Rightarrow> [] | Some d \<Rightarrow> [nameserver d tag]) @ info)))"

subsection \<open>Files made of ordinary lines\<close>

definition plain_line :: "string \<Rightarrow> bool" where
  "plain_line l \<longleftrightarrow> l \<noteq> [] \<and> CHR 0x0A \<notin> set l \<and> length l < 254"

lemma fgets_plain:
  "CHR 0x0A \<notin> set l \<Longrightarrow> length l < n \<Longrightarrow> fgets n (l @ CHR 0x0A # s) = (l @ [CHR 0x0A], s)"
proof (induction l arbitrary: n)
  case Nil
  then show ?case by (cases n) auto
next
  case (Cons c l)
  then show ?case by (cases n) auto
qed

lemma fgets_lines_unlines:
  "list_all plain_line ls \<Longrightarrow> fgets_lines (unlines ls) = map (\<lambda>l. l @ [CHR 0x0A]) ls"
proof (induction ls)
  case Nil
  then show ?case by (simp add: unlines_def fgets_lines.simps)
next
  case (Cons l ls)
  then have "fgets 254 (l @ CHR 0x0A # unlines ls) = (l @ [CHR 0x0A], unlines ls)"
    by (intro fgets_plain) (auto simp: plain_line_def)
  moreover have "unlines (l # ls) = l @ CHR 0x0A # unlines ls" by (simp add: unlines_def)
  ultimately show ?case using Cons by (subst fgets_lines.simps) simp
qed

lemma strip_nl_plain [simp]: "plain_line l \<Longrightarrow> strip_nl (l @ [CHR 0x0A]) = l"
  by (cases l) (auto simp: strip_nl_def plain_line_def)

lemma dns_read_plain:
  "list_all plain_line ls \<Longrightarrow> length info + length (filter (\<lambda>l. \<not> strstr l tag) ls) \<le> 16
     \<Longrightarrow> length info < 16 \<Longrightarrow>
   fst (dns_read tag (map (\<lambda>l. l @ [CHR 0x0A]) ls) info m)
     = info @ filter (\<lambda>l. \<not> strstr l tag) ls"
proof (induction ls arbitrary: info m)
  case (Cons l ls)
  show ?case
  proof (cases "strstr l tag")
    case True
    with Cons show ?thesis by simp
  next
    case False
    show ?thesis
    proof (cases "length info = 15")
      case True
      with Cons.prems False have "filter (\<lambda>l. \<not> strstr l tag) ls = []"
        by (auto simp: filter_empty_conv length_0_conv [symmetric] simp del: length_0_conv)
      with Cons.prems False True show ?thesis by (simp add: Let_def)
    next
      case f: False
      with Cons.prems False Cons.IH [of "info @ [l]" m] show ?thesis by (simp add: Let_def)
    qed
  qed
qed simp

lemma strstr_append: "strstr (s @ t) t"
proof (induction s)
  case Nil
  then show ?case by (cases t) auto
qed auto

lemma strstr_nameserver [simp]: "strstr (nameserver d tag) tag"
  using strstr_append [of "''nameserver '' @ d @ '' ''" tag] by (simp add: nameserver_def)

lemma dns_read_match_mono: "m \<le> snd (dns_read tag ls info m)"
proof (induction ls arbitrary: info m)
  case (Cons l ls)
  then show ?case
    using Cons.IH [of "Suc m" info] Cons.IH [of m "info @ [strip_nl l]"]
    by (auto simp: Let_def intro: Suc_leD)
qed simp

lemma dns_read_keeps_16: "length info < 16 \<Longrightarrow> length (fst (dns_read tag ls info m)) \<le> 16"
  by (induction ls arbitrary: info m) (auto simp: Let_def)

text \<open>What is left of a file of plain lines, and how it is written.\<close>

definition kept :: "string \<Rightarrow> string list \<Rightarrow> string list" where
  "kept tag ls = filter (\<lambda>l. \<not> strstr l tag) ls"

lemma update_set_plain:
  assumes "list_all plain_line ls" "length (kept (dns_tag n ifname) ls) \<le> 16"
  shows "update_resolv_conf n ifname (Some d1) (Some d2) (Content (unlines ls)) True
    = Some (unlines (nameserver d1 (dns_tag n ifname) # nameserver d2 (dns_tag n ifname)
        # kept (dns_tag n ifname) ls))"
  using dns_read_plain [OF assms(1), of "[]" "dns_tag n ifname" 0] assms
  by (simp add: update_resolv_conf_def Let_def fgets_lines_unlines kept_def split_beta)

lemma update_clear_plain:
  assumes "list_all plain_line (l # ls)" "strstr l (dns_tag n ifname)"
    and "length (kept (dns_tag n ifname) ls) \<le> 16"
  shows "update_resolv_conf n ifname None None (Content (unlines (l # ls))) True
    = Some (unlines (kept (dns_tag n ifname) ls))"
proof -
  let ?tag = "dns_tag n ifname" and ?ls = "map (\<lambda>l. l @ [CHR 0x0A]) ls"
  have "fst (dns_read ?tag ?ls [] (Suc 0)) = kept ?tag ls"
    using dns_read_plain [of ls "[]" ?tag "Suc 0"] assms by (simp add: kept_def)
  moreover have "0 < snd (dns_read ?tag ?ls [] (Suc 0))"
    using dns_read_match_mono [of "Suc 0" ?tag ?ls "[]"] by simp
  moreover have "fgets_lines (unlines (l # ls)) = (l @ [CHR 0x0A]) # ?ls"
    using fgets_lines_unlines [of "l # ls"] assms by simp
  ultimately show ?thesis
    using assms by (simp add: update_resolv_conf_def Let_def split_beta)
qed

lemma kept_nameserver [simp]: "kept tag (nameserver d tag # ls) = kept tag ls"
  by (simp add: kept_def)

lemma kept_kept [simp]: "kept tag (kept tag ls) = kept tag ls"
  by (simp add: kept_def)

lemma plain_kept: "list_all plain_line ls \<Longrightarrow> list_all plain_line (kept tag ls)"
  by (auto simp: list_all_iff kept_def)

section \<open>Properties\<close>

text \<open>
  On a little- and on a big-endian host alike, a field read in host order and passed
  through \<open>le16_to_cpu\<close> / \<open>le32_to_cpu\<close> is the little-endian value of its bytes, and a
  field stored through \<open>cpu_to_le16\<close> / \<open>cpu_to_le32\<close> puts the little-endian bytes of the
  value into the message; \<open>ql_swap32\<close> reverses the stored bytes and undoes itself.
\<close>
theorem wire_byte_order:
  "le16_to_cpu h (load16 h [a, b]) = mk16 a b
   \<and> le32_to_cpu h (load32 h [a, b, c, d]) = mk32 a b c d
   \<and> store16 h (cpu_to_le16 h v) = le16 v
   \<and> store32 h (cpu_to_le32 h w) = le32 w
   \<and> store32 h (ql_swap32 h w) = rev (store32 h w)
   \<and> ql_swap32 h (ql_swap32 h w) = w"
  by (simp only: le16_to_cpu_load le32_to_cpu_load store_cpu_to_le16 store_cpu_to_le32
      ql_swap32_bytes ql_swap32_involution)

text \<open>
  Setting the name servers of an interface in \<open>resolv.conf\<close> twice is the same as
  setting them once, and clearing them afterwards gives back the file without the lines
  of that interface: for files of non-empty lines shorter than the line buffer of which
  at most 16 do not carry the tag of the interface.
\<close>
theorem resolv_conf_set_clear:
  fixes n ifname ls d1 d2
  defines "tag \<equiv> dns_tag n ifname"
  defines "new \<equiv> unlines (nameserver d1 tag # nameserver d2 tag # kept tag ls)"
  assumes "list_all plain_line ls" and "length (kept tag ls) \<le> 16"
    and "plain_line (nameserver d1 tag)" and "plain_line (nameserver d2 tag)"
  shows "update_resolv_conf n ifname (Some d1) (Some d2) (Content (unlines ls)) True = Some new
    \<and> update_resolv_conf n ifname (Some d1) (Some d2) (Content new) True = Some new
    \<and> update_resolv_conf n ifname None None (Content new) True = Some (unlines (kept tag ls))"
proof (intro conjI)
  have pl: "list_all plain_line (nameserver d1 tag # nameserver d2 tag # kept tag ls)"
    using assms plain_kept [of ls tag] by simp
  show "update_resolv_conf n ifname (Some d1) (Some d2) (Content (unlines ls)) True = Some new"
    using update_set_plain [of ls n ifname d1 d2] assms by simp
  show "update_resolv_conf n ifname (Some d1) (Some d2) (Content new) True = Some new"
    using update_set_plain [OF pl, of n ifname d1 d2] assms by simp
  show "update_resolv_conf n ifname None None (Content new) True = Some (unlines (kept tag ls))"
    using update_clear_plain [of "nameserver d1 tag" "nameserver d2 tag # kept tag ls" n ifname]
      pl assms by simp
qed

theorem resolv_conf_set_clear_witness:
  "update_resolv_conf 4 ''wwan0'' None None (Content (unlines
      [nameserver ''1.1.1.1'' (dns_tag 4 ''wwan0''), nameserver ''8.8.8.8'' (dns_tag 4 ''wwan0''),
       ''search lan''])) True = Some (unlines [''search lan''])"
proof -
  have tag: "dns_tag 4 ''wwan0'' = ''# IPV4 wwan0''" by code_simp
  have k: "kept ''# IPV4 wwan0'' [''search lan''] = [''search lan'']" by code_simp
  have pl: "list_all plain_line [''search lan'']"
    "plain_line (nameserver ''1.1.1.1'' ''# IPV4 wwan0'')"
    "plain_line (nameserver ''8.8.8.8'' ''# IPV4 wwan0'')"
    by (simp_all add: plain_line_def nameserver_def)
  show ?thesis
    using resolv_conf_set_clear [of "[''search lan'']" 4 "''wwan0''" "''1.1.1.1''" "''8.8.8.8''"]
      pl by (simp add: tag k)
qed

lemma strstr_blank_tag: "\<not> strstr [CHR 0x0A] (dns_tag n ifname)"
  by (simp add: dns_tag_def numeral_eq_Suc)

lemma unlines_blank: "unlines [d, [CHR 0x0A]] = unlines [d, [], []]"
  by (simp add: unlines_def)

lemma fgets_lines_blank: "fgets_lines [CHR 0x0A] = [[CHR 0x0A]]"
  by (simp add: fgets_lines.simps numeral_eq_Suc)

text \<open>
  Whatever the file holds, at most 16 of its lines survive a rewrite (\<open>MAX_DNS\<close>):
  the file written consists of the name servers given and at most 16 of the old lines,
  so that a longer \<open>resolv.conf\<close> is cut. A blank line, which the newline stripping
  skips, is written back as two blank lines.
\<close>
theorem resolv_conf_cuts_file:
  "(update_resolv_conf n ifname dns1 dns2 (Content s) w_ok = Some out
     \<longrightarrow> (\<exists>info. length info \<le> 16 \<and> out = unlines
          ((case dns1 of None \<Rightarrow> [] | Some d \<Rightarrow> [nameserver d (dns_tag n ifname)])
           @ (case dns2 of None \<Rightarrow> [] | Some d \<Rightarrow> [nameserver d (dns_tag n ifname)]) @ info)))
   \<and> update_resolv_conf n ifname (Some d) None (Content [CHR 0x0A]) True
     = Some (unlines [nameserver d (dns_tag n ifname), [], []])"
  using dns_read_keeps_16 [of "[]" "dns_tag n ifname" "fgets_lines s" 0] strstr_blank_tag
  by (auto simp: update_resolv_conf_def Let_def split_beta fgets_lines_blank strip_nl_def
      unlines_blank
      split: if_splits
      intro!: exI [of _ "fst (dns_read (dns_tag n ifname) (fgets_lines s) [] 0)"])

theorem resolv_conf_cuts_file_witness:
  "\<exists>info. length info \<le> 16 \<and> ''nameserver 1 # IPV4 w'' @ [CHR 0x0A, CHR 0x0A, CHR 0x0A]
      = unlines ([nameserver ''1'' (dns_tag 4 ''w'')] @ info)"
proof -
  have "update_resolv_conf 4 ''w'' (Some ''1'') None (Content [CHR 0x0A]) True
    = Some (''nameserver 1 # IPV4 w'' @ [CHR 0x0A, CHR 0x0A, CHR 0x0A])"
    by code_simp
  from resolv_conf_cuts_file [THEN conjunct1, THEN mp, OF this] show ?thesis by simp
qed

end
