(* ===== verification/Cstrings.thy ===== *)
theory Cstrings
  imports Util
begin

text \<open>
  The functions of the C library that the scanning of \<open>/sys\<close> and of command lines rests on:
  \<open>snprintf\<close> into a bounded buffer, \<open>strtol\<close> and \<open>atoi\<close> (with 64-bit \<open>long\<close>), \<open>strncasecmp\<close>
  and the number formats of \<open>printf\<close>. A string is the characters before the zero byte.
\<close>

section \<open>Buffers and comparisons\<close>

definition snprintf :: "nat \<Rightarrow> string \<Rightarrow> string" where
  \<comment> \<open>what a buffer of \<open>n\<close> bytes holds after \<open>snprintf\<close>\<close>
  "snprintf n str = take (n - 1) str"

definition cstring :: "string \<Rightarrow> string" where
  "cstring buf = takeWhile (\<lambda>c. c \<noteq> CHR 0x00) buf"

definition lower :: "char \<Rightarrow> char" where
  "lower c = (if 65 \<le> (of_char c :: nat) \<and> (of_char c :: nat) \<le> 90 then char_of ((of_char c :: nat) + 32) else c)"

definition has_prefix_ci :: "string \<Rightarrow> string \<Rightarrow> bool" where
  \<comment> \<open>\<open>strncasecmp(s, p, strlen(p)) == 0\<close>\<close>
  "has_prefix_ci p s \<longleftrightarrow> map lower (take (length p) s) = map lower p"

lemma snprintf_fits [simp]: "length str < n \<Longrightarrow> snprintf n str = str"
  by (simp add: snprintf_def)

lemma length_snprintf: "0 < n \<Longrightarrow> length (snprintf n str) < n"
  by (simp add: snprintf_def)

section \<open>Numbers\<close>

definition isspace :: "char \<Rightarrow> bool" where
  "isspace c \<longleftrightarrow> (let n = of_char c :: nat in n = 32 \<or> 9 \<le> n \<and> n \<le> 13)"

definition digit :: "char \<Rightarrow> nat" where
  \<comment> \<open>the value of a digit or letter, 36 for every other character\<close>
  "digit c = (let n = of_char c :: nat in
     if 48 \<le> n \<and> n \<le> 57 then n - 48
     else if 97 \<le> n \<and> n \<le> 122 then n - 87
     else if 65 \<le> n \<and> n \<le> 90 then n - 55
     else 36)"

definition number :: "nat \<Rightarrow> string \<Rightarrow> nat" where
  "number b ds = foldl (\<lambda>v c. b * v + digit c) 0 ds"

abbreviation (input) "LONG_MAX \<equiv> (0x7FFFFFFFFFFFFFFF :: int)"
abbreviation (input) "LONG_MIN \<equiv> (-0x8000000000000000 :: int)"

text \<open>\<open>strtol\<close>: the value, cut to the range of \<open>long\<close>, and whether there was a digit.\<close>

definition strtol :: "nat \<Rightarrow> string \<Rightarrow> int \<times> bool" where
  "strtol b str =
     (let s1 = dropWhile isspace str;
          neg = (s1 \<noteq> [] \<and> hd s1 = CHR ''-'');
          s2 = (if s1 \<noteq> [] \<and> (hd s1 = CHR ''-'' \<or> hd s1 = CHR ''+'') then tl s1 else s1);
          s3 = (if b = 16 \<and> 2 < length s2 \<and> s2 ! 0 = CHR ''0''
                   \<and> (s2 ! 1 = CHR ''x'' \<or> s2 ! 1 = CHR ''X'') \<and> digit (s2 ! 2) < 16
                then drop 2 s2 else s2);
          ds = takeWhile (\<lambda>c. digit c < b) s3;
          v = (if neg then - int (number b ds) else int (number b ds))
      in (max LONG_MIN (min LONG_MAX v), ds \<noteq> []))"

definition to_int :: "int \<Rightarrow> int" where
  \<comment> \<open>a \<open>long\<close> stored in an \<open>int\<close>\<close>
  "to_int v = sint (word_of_int v :: u32)"

definition atoi :: "string \<Rightarrow> int" where
  "atoi str = to_int (fst (strtol 10 str))"

text \<open>The conversions \<open>%x\<close> and \<open>%d\<close>; \<open>%d\<close> of a number that is not negative is \<open>dec\<close>.\<close>

fun hex_aux :: "nat \<Rightarrow> nat \<Rightarrow> string" where
  "hex_aux 0 n = []"
| "hex_aux (Suc k) n =
     (let d = n mod 16; c = char_of (if d < 10 then 48 + d else 87 + d)
      in if n < 16 then [c] else hex_aux k (n div 16) @ [c])"

definition hex :: "nat \<Rightarrow> string" where
  "hex n = hex_aux (Suc n) n"

definition dec_int :: "int \<Rightarrow> string" where
  "dec_int i = (if i < 0 then CHR ''-'' # dec (nat (- i)) else dec (nat i))"

section \<open>What is printed is read back\<close>

lemma number_snoc: "number b (ds @ [c]) = b * number b ds + digit c"
  by (simp add: number_def)

lemma digit_dec: "n < 10 \<Longrightarrow> digit (char_of (48 + n)) = n"
  by (simp add: digit_def)

lemma digit_hex: "n < 16 \<Longrightarrow> digit (char_of (if n < 10 then 48 + n else 87 + n)) = n"
  by (simp add: digit_def)

lemma dec_aux_digits: "n \<le> k \<Longrightarrow>
    number 10 (dec_aux (Suc k) n) = n \<and> dec_aux (Suc k) n \<noteq> [] \<and> (\<forall>c \<in> set (dec_aux (Suc k) n). digit c < 10)"
proof (induction k arbitrary: n)
  case 0
  then show ?case by (simp add: number_def digit_def)
next
  case (Suc k)
  have "n div 10 \<le> k" if "10 \<le> n" using that Suc.prems by linarith
  with Suc.IH [of "n div 10"] show ?case
    by (cases "n < 10") (auto simp: number_snoc digit_dec simp del: dec_aux.simps(2)
        simp: dec_aux.simps(2) [of "Suc k"], simp add: number_def digit_dec)
qed

lemma hex_aux_digits: "n \<le> k \<Longrightarrow>
    number 16 (hex_aux (Suc k) n) = n \<and> hex_aux (Suc k) n \<noteq> [] \<and> (\<forall>c \<in> set (hex_aux (Suc k) n). digit c < 16)"
proof (induction k arbitrary: n)
  case 0
  then show ?case by (simp add: number_def digit_def)
next
  case (Suc k)
  have le: "n div 16 \<le> k" if "16 \<le> n" using that Suc.prems by linarith
  have d: "digit (char_of (if n mod 16 < 10 then 48 + n mod 16 else 87 + n mod 16)) = n mod 16"
    by (rule digit_hex) simp
  show ?case
  proof (cases "n < 16")
    case True
    with digit_hex [OF True] show ?thesis
      by (auto simp: hex_aux.simps(2) [of "Suc k"] number_def Let_def simp del: hex_aux.simps(2))
  next
    case False
    with Suc.IH [of "n div 16"] le d show ?thesis
      by (auto simp: hex_aux.simps(2) [of "Suc k"] number_snoc Let_def simp del: hex_aux.simps(2))
  qed
qed

lemma dec_digits: "number 10 (dec n) = n" "dec n \<noteq> []" "c \<in> set (dec n) \<Longrightarrow> digit c < 10"
  using dec_aux_digits [of n n] by (simp_all add: dec_def del: dec_aux.simps)

lemma hex_digits: "number 16 (hex n) = n" "hex n \<noteq> []" "c \<in> set (hex n) \<Longrightarrow> digit c < 16"
  using hex_aux_digits [of n n] by (simp_all add: hex_def del: hex_aux.simps)

lemma digit_no_space: "digit c < 36 \<Longrightarrow> \<not> isspace c \<and> c \<noteq> CHR ''-'' \<and> c \<noteq> CHR ''+''"
  by (auto simp: digit_def isspace_def Let_def split: if_splits)

lemma takeWhile_digits:
  "\<forall>c \<in> set ds. digit c < b \<Longrightarrow> rest = [] \<or> \<not> digit (hd rest) < b \<Longrightarrow>
     takeWhile (\<lambda>c. digit c < b) (ds @ rest) = ds"
  by (induction ds) (cases rest; simp)+

text \<open>Digits that are not followed by another digit are read as their number.\<close>

lemma strtol_digits:
  assumes ds: "ds \<noteq> []" "\<forall>c \<in> set ds. digit c < b" "b \<le> 36"
    and rest: "rest = [] \<or> \<not> digit (hd rest) < b" "b = 16 \<Longrightarrow> rest = [] \<or> digit (hd rest) = 36"
    and n: "number b ds < 2 ^ 63"
  shows "strtol b (ds @ rest) = (int (number b ds), True)"
proof -
  obtain c ds' where c: "ds = c # ds'" using ds(1) by (cases ds) auto
  with ds have "digit c < 36" by auto
  note nsp = digit_no_space [OF this]
  have x: "digit CHR ''x'' = 33" "digit CHR ''X'' = 33" by (simp_all add: digit_def)
  have nox: "(ds @ rest) ! 1 \<noteq> CHR ''x'' \<and> (ds @ rest) ! 1 \<noteq> CHR ''X''"
    if "b = 16" "2 < length (ds @ rest)"
  proof (cases ds')
    case Nil
    then show ?thesis using that rest(2) c x by (cases rest) auto
  next
    case (Cons e es)
    then show ?thesis using that ds(2) c x by auto
  qed
  have "takeWhile (\<lambda>c. digit c < b) (ds @ rest) = ds"
    using ds(2) rest(1) by (rule takeWhile_digits)
  moreover have "dropWhile isspace (ds @ rest) = ds @ rest" using nsp c by simp
  moreover have "int (number b ds) \<le> LONG_MAX" using n by simp
  ultimately show ?thesis
    using nsp c nox ds(1) unfolding strtol_def Let_def by (auto simp: c)
qed

lemma to_int_id: "-(2 ^ 31) \<le> v \<Longrightarrow> v < 2 ^ 31 \<Longrightarrow> to_int v = v"
  using signed_take_bit_int_eq_self [of 31 v] by (simp add: to_int_def sint_sbintrunc')

lemma atoi_dec:
  assumes "n < 2 ^ 31" "rest = [] \<or> \<not> digit (hd rest) < 10"
  shows "atoi (dec n @ rest) = int n"
proof -
  have "strtol 10 (dec n @ rest) = (int n, True)"
    using strtol_digits [of "dec n" 10 rest] dec_digits assms by auto
  then show ?thesis using assms(1) by (simp add: atoi_def to_int_id)
qed

end
