(* ===== verification/Device.thy ===== *)
theory Device
  imports Cstrings Session
begin

unbundle bit_operations_syntax

text \<open>
  Finding the modem: the scan of \<open>/sys/bus/usb/devices\<close> in \<open>device.c\<close> and the detection of the
  driver and of the QMAP mode in \<open>qmap_bridge_mode.c\<close>. The file system is what the system
  calls return: the entries of a directory in the order of \<open>readdir\<close>, the text of a file,
  the error of \<open>access\<close> (\<open>None\<close> for success) and the target of a symbolic link. \<open>None\<close> as the
  result of an operation is undefined behaviour of the C code.
\<close>

section \<open>Files\<close>

record sysfs =
  dirs :: "string \<Rightarrow> string list option"
  file_text :: "string \<Rightarrow> string option"
  access_errno :: "string \<Rightarrow> int option"
  link_text :: "string \<Rightarrow> string option"

abbreviation (input) "ENOENT \<equiv> (2 :: int)"
abbreviation (input) "CM_INVALID_VAL \<equiv> (-1 :: int)"

text \<open>
  When the first line holds no hexadecimal digit the file is closed a second time under
  the label \<open>error\<close>. The test for \<open>LONG_MAX\<close> compares an \<open>int\<close> and never holds.
\<close>

definition file_get_value :: "sysfs \<Rightarrow> string \<Rightarrow> int option" where
  "file_get_value fs fname = (case file_text fs fname of
     None \<Rightarrow> Some CM_INVALID_VAL
   | Some text \<Rightarrow>
       if text = [] then Some CM_INVALID_VAL
       else let (v, found) = strtol 16 (cstring (fst (fgets 32 text)))
            in if found then Some (to_int v) else None)"

definition dir_get_child :: "sysfs \<Rightarrow> string \<Rightarrow> string \<Rightarrow> nat \<Rightarrow> string" where
  \<comment> \<open>the content of the buffer afterwards\<close>
  "dir_get_child fs dirname buff bufsize = (case dirs fs dirname of
     None \<Rightarrow> []
   | Some es \<Rightarrow> (case find (\<lambda>e. take 1 e \<noteq> ''.'') es of
       None \<Rightarrow> buff
     | Some e \<Rightarrow> snprintf bufsize e))"

definition conf_line :: "string \<Rightarrow> string \<times> string" where
  \<comment> \<open>\<open>sscanf(buff, "%15[^=]=%15s", prefix, tail)\<close>\<close>
  "conf_line l =
     (let prefix = takeWhile (\<lambda>c. c \<noteq> CHR ''='') (take 15 l);
          rest = drop (length prefix) l
      in if prefix = [] then ([], [])
         else if take 1 rest = ''='' then
           (prefix, take 15 (takeWhile (\<lambda>c. \<not> isspace c) (dropWhile isspace (tl rest))))
         else (prefix, []))"

lemma fgets_rest: "(l, r) = fgets (Suc n) s \<Longrightarrow> s \<noteq> [] \<Longrightarrow> length r < length s"
  using fgets_shrinks [of n "hd s" "tl s" l r] by (cases s) auto

lemma fgets_255: "(l, r) = fgets 255 s \<Longrightarrow> s \<noteq> [] \<Longrightarrow> length r < length s"
  using fgets_rest [of l r 254 s] by simp

function conf_scan :: "string \<Rightarrow> string \<Rightarrow> int" where
  "conf_scan key text =
     (if text = [] then CM_INVALID_VAL
      else case fgets 255 text of (buff, rest) \<Rightarrow>
        (case conf_line (cstring buff) of (prefix, tail) \<Rightarrow>
          if has_prefix_ci key prefix then atoi tail else conf_scan key rest))"
  by pat_completeness auto
termination
  by (relation "measure (length \<circ> snd)") (auto dest!: fgets_255)

declare conf_scan.simps [simp del]

definition conf_get_val :: "sysfs \<Rightarrow> string \<Rightarrow> string \<Rightarrow> int option" where
  \<comment> \<open>a file that cannot be opened is closed all the same: \<open>fclose(NULL)\<close>\<close>
  "conf_get_val fs fname key = map_option (conf_scan key) (file_text fs fname)"

section \<open>The scan of the USB devices\<close>

definition rootdir :: string where
  "rootdir = ''/sys/bus/usb/devices''"

definition usb_path :: "string \<Rightarrow> string \<Rightarrow> string" where
  "usb_path ent leaf = snprintf 510 (rootdir @ ''/'' @ ent @ leaf)"

text \<open>
  One directory entry: skipped (\<open>Some None\<close>), or the network interface, the directory of
  the control device and the device.
\<close>

definition probe :: "sysfs \<Rightarrow> string \<Rightarrow> string \<Rightarrow> (string \<times> string \<times> string) option option" where
  "probe fs adapter ent = do {
     idVendor \<leftarrow> file_get_value fs (usb_path ent ''/idVendor'');
     idProduct \<leftarrow> file_get_value fs (usb_path ent ''/idProduct'');
     if idVendor \<noteq> 0x05c6 \<and> idVendor \<noteq> 0x2c7c then Some None
     else
       let netcard = dir_get_child fs (usb_path ent '':1.4/net'') [] 33
       in if netcard = [] then Some None
          else if adapter \<noteq> [] \<and> adapter \<noteq> netcard then Some None
          else (case find (\<lambda>p. access_errno fs p = None)
                       (map (usb_path ent) ['':1.4/GobiQMI'', '':1.4/usbmisc'', '':1.4/usb'']) of
              None \<Rightarrow> Some None
            | Some path \<Rightarrow>
                let device = dir_get_child fs path [] 33
                in Some (if device = [] then None else Some (netcard, path, device))) }"

text \<open>The argument of \<open>mknod\<close>.\<close>

definition dev_number :: "int \<Rightarrow> int \<Rightarrow> u32" where
  "dev_number major minor =
     (push_bit 8 (word_of_int major AND 0xfff) OR (word_of_int minor AND 0xff))
     OR push_bit 12 (word_of_int minor AND 0xfff00)"

definition make_node :: "sysfs \<Rightarrow> string \<Rightarrow> string \<Rightarrow> (string \<times> u32) list option" where
  "make_node fs path device =
     (let devname = snprintf 39 (''/dev/'' @ device)
      in if access_errno fs devname = Some ENOENT then
           let uevent = snprintf 765 (path @ ''/'' @ device @ ''/uevent'')
           in do {
             major \<leftarrow> conf_get_val fs uevent ''MAJOR'';
             minor \<leftarrow> conf_get_val fs uevent ''MINOR'';
             Some [(devname, dev_number major minor)] }
         else Some [])"

fun detect_loop :: "sysfs \<Rightarrow> nat \<Rightarrow> string \<Rightarrow> string list \<Rightarrow> (string \<times> string \<times> (string \<times> u32) list) option" where
  "detect_loop fs bufsize adapter [] = Some ([], adapter, [])"
| "detect_loop fs bufsize adapter (ent # ents) = do {
     r \<leftarrow> probe fs adapter ent;
     case r of
       None \<Rightarrow> detect_loop fs bufsize adapter ents
     | Some (netcard, path, device) \<Rightarrow> do {
         nodes \<leftarrow> make_node fs path device;
         Some (snprintf bufsize (''/dev/'' @ device), snprintf bufsize netcard, nodes) } }"

text \<open>
  The result, the two buffers and the device nodes that were made. Both callers pass an
  empty channel.
\<close>

definition qmidevice_detect ::
    "sysfs \<Rightarrow> nat \<Rightarrow> string \<Rightarrow> (bool \<times> string \<times> string \<times> (string \<times> u32) list) option" where
  "qmidevice_detect fs bufsize adapter = (case dirs fs rootdir of
     None \<Rightarrow> Some (False, [], adapter, [])
   | Some ents \<Rightarrow> do {
       (ch, net, nodes) \<leftarrow> detect_loop fs bufsize adapter ents;
       Some (ch \<noteq> [] \<and> net \<noteq> [], ch, net, nodes) })"

section \<open>The driver and the QMAP mode\<close>

definition driver_is_qmi :: "string \<Rightarrow> bool" where
  "driver_is_qmi d = has_prefix_ci ''qmi_wwan'' d"

definition driver_is_mbim :: "string \<Rightarrow> bool" where
  "driver_is_mbim d = has_prefix_ci ''cdc_mbim'' d"

definition varify_driver :: "sysfs \<Rightarrow> PROFILE_T \<Rightarrow> int option" where
  "varify_driver fs profile = do {
     net \<leftarrow> usbnet_adapter profile;
     bInterfaceClass \<leftarrow> file_get_value fs (snprintf 257 (''/sys/class/net/'' @ net @ ''/device/bInterfaceClass''));
     drv \<leftarrow> driver_name profile;
     Some (if driver_is_qmi drv \<and> bInterfaceClass \<noteq> 0xff then 1
           else if driver_is_mbim drv \<and> bInterfaceClass \<noteq> 2 then 1
           else 0) }"

definition ql_fread :: "sysfs \<Rightarrow> string \<Rightarrow> nat \<Rightarrow> string" where
  \<comment> \<open>the characters read; the rest of the buffer is zero\<close>
  "ql_fread fs filename n = (case file_text fs filename of None \<Rightarrow> [] | Some t \<Rightarrow> take n t)"

definition atoi_of_buffer :: "nat \<Rightarrow> string \<Rightarrow> int option" where
  \<comment> \<open>\<open>atoi\<close> of a full buffer may run over its end\<close>
  "atoi_of_buffer n buf =
     (let s = dropWhile isspace buf;
          s = (if s \<noteq> [] \<and> (hd s = CHR ''-'' \<or> hd s = CHR ''+'') then tl s else s)
      in if length buf = n \<and> dropWhile (\<lambda>c. digit c < 10) s = [] then None else Some (atoi (cstring buf)))"

definition buf_char :: "nat \<Rightarrow> string \<Rightarrow> int \<Rightarrow> int option" where
  \<comment> \<open>\<open>buf[i] - '0'\<close> in a buffer of \<open>n\<close> signed characters, filled up with zeros\<close>
  "buf_char n buf i =
     (if i < 0 \<or> int n \<le> i then None
      else let c = (if nat i < length buf then buf ! nat i else CHR 0x00)
           in Some (sint (word_of_nat (of_char c) :: byte) - 48))"

definition driver_of_link :: "sysfs \<Rightarrow> string \<Rightarrow> string option" where
  \<comment> \<open>the name behind the last slash; \<open>filename[-1]\<close> without a link or a slash\<close>
  "driver_of_link fs linkname = do {
     l \<leftarrow> link_text fs linkname;
     if 510 \<le> length l \<or> CHR ''/'' \<notin> set l then None
     else Some (rev (takeWhile (\<lambda>c. c \<noteq> CHR ''/'') (rev l))) }"

text \<open>The files in which the mode is looked up: the first that exists, or an error.\<close>

definition qmap_mode_file :: "sysfs \<Rightarrow> string \<Rightarrow> string \<Rightarrow> unit + string option" where
  "qmap_mode_file fs net drv =
     (let f1 = snprintf 510 (''/sys/class/net/'' @ net @ ''/qmap_mode'');
          f2 = snprintf 510 (''/sys/module/'' @ drv @ ''/parameters/qmap_mode'')
      in case access_errno fs f1 of
        None \<Rightarrow> Inr (Some f1)
      | Some e \<Rightarrow>
          if e \<noteq> ENOENT then Inl ()
          else (case access_errno fs f2 of
              None \<Rightarrow> Inr (Some f2)
            | Some e \<Rightarrow> if e \<noteq> ENOENT then Inl () else Inr None))"

definition qmap_from_mode :: "string \<Rightarrow> string \<Rightarrow> PROFILE_T \<Rightarrow> PROFILE_T option" where
  "qmap_from_mode net buf p =
     (if buf = [] then Some p
      else do {
        mode \<leftarrow> atoi_of_buffer 128 buf;
        let p = p\<lparr>qmap_mode := mode\<rparr>;
        let card = net @ ''.'' @ dec_int (pdp p);
        if mode > 1 then
          if 128 \<le> length card then None else Some (p\<lparr>muxid := pdp p + 0x80, qmapnet_adapter := Some card\<rparr>)
        else if mode = 1 then Some (p\<lparr>muxid := 0x81, qmapnet_adapter := Some net\<rparr>)
        else Some p })"

definition qmap_from_add_mux :: "string \<Rightarrow> PROFILE_T \<Rightarrow> PROFILE_T option" where
  "qmap_from_add_mux buf p =
     (if length buf < 5 then Some p
      else
        let mode = int (length buf) div 5; p = p\<lparr>qmap_mode := mode\<rparr>; pdn = (if mode > 1 then pdp p - 1 else 0)
        in do {
          hi \<leftarrow> buf_char 128 buf (5 * pdn + 2);
          lo \<leftarrow> buf_char 128 buf (5 * pdn + 3);
          Some (p\<lparr>muxid := hi * 16 + lo, qmapnet_adapter := Some (''qmimux'' @ dec_int pdn)\<rparr>) })"

definition ql_qmap_mode_detect :: "sysfs \<Rightarrow> PROFILE_T \<Rightarrow> PROFILE_T option" where
  "ql_qmap_mode_detect fs p = do {
     let p = p\<lparr>qmapnet_adapter := None\<rparr>;
     net \<leftarrow> usbnet_adapter p;
     drv \<leftarrow> driver_of_link fs (snprintf 510 (''/sys/class/net/'' @ net @ ''/device/driver''));
     let p = p\<lparr>driver_name := Some drv\<rparr>;
     case qmap_mode_file fs net drv of
       Inl _ \<Rightarrow> Some p
     | Inr (Some f) \<Rightarrow> qmap_from_mode net (ql_fread fs f 128) p
     | Inr None \<Rightarrow> do {
         ch \<leftarrow> qmichannel p;
         if \<not> qmidev_is_qmiwwan ch then Some p
         else if access_errno fs (snprintf 510 (''/sys/class/net/qmimux'' @ dec_int (pdp p - 1))) \<noteq> None then Some p
         else qmap_from_add_mux
                (ql_fread fs (snprintf 510 (''/sys/class/net/'' @ net @ ''/qmi/add_mux'')) 128) p } }"

definition ql_driver_type_detect :: "PROFILE_T \<Rightarrow> device option" where
  \<comment> \<open>which of the two tables of device operations is taken\<close>
  "ql_driver_type_detect p = do { ch \<leftarrow> qmichannel p; Some (if qmidev_is_gobinet ch then GobiNet else QmiWwan) }"


section \<open>Reading what the kernel prints\<close>

lemma length_hex_aux: "n < 16 ^ Suc m \<Longrightarrow> length (hex_aux k n) \<le> Suc m"
proof (induction k arbitrary: n m)
  case (Suc k)
  show ?case
  proof (cases m)
    case 0
    with Suc.prems show ?thesis by (simp add: Let_def)
  next
    case (Suc m')
    with Suc.prems have "n div 16 < 16 ^ Suc m'" by (simp add: div_less_iff_less_mult mult.commute)
    with Suc.IH [of "n div 16" m'] Suc show ?thesis by (simp add: Let_def)
  qed
qed simp

lemma length_hex: "n < 2 ^ 32 \<Longrightarrow> length (hex n) \<le> 8"
  using length_hex_aux [of n 7 "Suc n"] by (simp add: hex_def del: hex_aux.simps)

definition hex_line :: "nat \<Rightarrow> string" where
  "hex_line n = hex n @ [CHR 0x0A]"

lemma hex_plain: "CHR 0x0A \<notin> set (hex n)" "CHR 0x00 \<notin> set (hex n)"
  using hex_digits(3) [of "CHR 0x0A" n] hex_digits(3) [of "CHR 0x00" n] by (auto simp: digit_def)

lemma cstring_id: "CHR 0x00 \<notin> set l \<Longrightarrow> cstring l = l"
  unfolding cstring_def by (rule takeWhile_eq_all_conv [THEN iffD2]) auto

lemma file_get_value_hex:
  assumes "file_text fs f = Some (hex_line n)" "n < 2 ^ 31"
  shows "file_get_value fs f = Some (int n)"
proof -
  have n: "n < 2 ^ 32" using assms(2) by simp
  have "fgets 32 (hex_line n) = (hex_line n, [])"
    using fgets_plain [of "hex n" 32 "[]"] hex_plain length_hex [OF n] by (simp add: hex_line_def)
  moreover have "cstring (hex_line n) = hex_line n"
    by (rule cstring_id) (simp add: hex_line_def hex_plain)
  moreover have "strtol 16 (hex_line n) = (int n, True)"
    using strtol_digits [of "hex n" 16 "[CHR 0x0A]"] hex_digits assms(2)
    by (auto simp: hex_line_def digit_def)
  moreover have "hex_line n \<noteq> []" by (simp add: hex_line_def)
  ultimately show ?thesis using assms by (simp add: file_get_value_def to_int_id)
qed

lemma file_get_value_absent: "file_text fs f = None \<Longrightarrow> file_get_value fs f = Some (-1)"
  by (simp add: file_get_value_def)

section \<open>Correctness of the scan\<close>

text \<open>
  What is plugged in: the name of the directory, the identifiers, the network interface
  of interface 4, and its control device with the class directory that holds it.
\<close>

record usb =
  usb_name :: string
  usb_vendor :: "nat option"
  usb_product :: "nat option"
  usb_net :: "string option"
  usb_ctl :: "(string \<times> string) option"

definition class_dirs :: "string list" where
  "class_dirs = ['':1.4/GobiQMI'', '':1.4/usbmisc'', '':1.4/usb'']"

definition shown :: "string \<Rightarrow> string list" where
  \<comment> \<open>a directory with one entry\<close>
  "shown e = [''.'', ''..'', e]"

definition visible :: "nat \<Rightarrow> string \<Rightarrow> bool" where
  "visible n e \<longleftrightarrow> e \<noteq> [] \<and> hd e \<noteq> CHR ''.'' \<and> length e < n"

definition describes_usb :: "sysfs \<Rightarrow> usb \<Rightarrow> bool" where
  "describes_usb fs d \<longleftrightarrow>
     file_text fs (usb_path (usb_name d) ''/idVendor'') = map_option hex_line (usb_vendor d)
     \<and> file_text fs (usb_path (usb_name d) ''/idProduct'') = map_option hex_line (usb_product d)
     \<and> pred_option (\<lambda>v. v < 2 ^ 31) (usb_vendor d) \<and> pred_option (\<lambda>v. v < 2 ^ 31) (usb_product d)
     \<and> dirs fs (usb_path (usb_name d) '':1.4/net'') = map_option shown (usb_net d)
     \<and> pred_option (visible 33) (usb_net d)
     \<and> (\<forall>l \<in> set class_dirs. access_errno fs (usb_path (usb_name d) l) =
          (if map_option fst (usb_ctl d) = Some l then None else Some ENOENT))
     \<and> pred_option (\<lambda>(l, c). l \<in> set class_dirs \<and> dirs fs (usb_path (usb_name d) l) = Some (shown c)
          \<and> visible 28 c \<and> access_errno fs (''/dev/'' @ c) = None) (usb_ctl d)"

definition describes :: "sysfs \<Rightarrow> usb list \<Rightarrow> bool" where
  "describes fs devs \<longleftrightarrow> dirs fs rootdir = Some (map usb_name devs) \<and> list_all (describes_usb fs) devs"

definition usable :: "string \<Rightarrow> usb \<Rightarrow> bool" where
  "usable adapter d \<longleftrightarrow>
     (usb_vendor d = Some 0x05c6 \<or> usb_vendor d = Some 0x2c7c) \<and> usb_ctl d \<noteq> None
     \<and> usb_net d \<noteq> None \<and> (adapter = [] \<or> usb_net d = Some adapter)"

lemma identifier_read:
  assumes "file_text fs f = map_option hex_line v" "pred_option (\<lambda>v. v < 2 ^ 31) v"
  shows "file_get_value fs f = Some (case v of None \<Rightarrow> -1 | Some n \<Rightarrow> int n)"
  using assms by (cases v) (simp_all add: file_get_value_absent file_get_value_hex)

lemma child_shown: "visible n e \<Longrightarrow> n \<le> 33 \<Longrightarrow> dirs fs f = Some (shown e) \<Longrightarrow> dir_get_child fs f [] 33 = e"
  by (cases e) (auto simp: dir_get_child_def shown_def visible_def)

lemma child_absent: "dirs fs f = None \<Longrightarrow> dir_get_child fs f b n = []"
  by (simp add: dir_get_child_def)


lemma find_class_dir:
  assumes "\<forall>l \<in> set class_dirs. access_errno fs (usb_path n l) = (if x = Some l then None else Some ENOENT)"
    and "pred_option (\<lambda>l. l \<in> set class_dirs) x"
  shows "find (\<lambda>p. access_errno fs p = None)
      (map (usb_path n) ['':1.4/GobiQMI'', '':1.4/usbmisc'', '':1.4/usb'']) = map_option (usb_path n) x"
  using assms by (cases x) (auto simp: class_dirs_def)

lemma probe_describes:
  assumes "describes_usb fs d"
  shows "probe fs adapter (usb_name d) = Some
    (if usable adapter d
     then Some (the (usb_net d), usb_path (usb_name d) (fst (the (usb_ctl d))), snd (the (usb_ctl d)))
     else None)"
proof -
  note d = assms [unfolded describes_usb_def]
  have vendor: "file_get_value fs (usb_path (usb_name d) ''/idVendor'')
      = Some (case usb_vendor d of None \<Rightarrow> -1 | Some n \<Rightarrow> int n)"
    and product: "file_get_value fs (usb_path (usb_name d) ''/idProduct'')
      = Some (case usb_product d of None \<Rightarrow> -1 | Some n \<Rightarrow> int n)"
    using d by (auto intro!: identifier_read)
  have net: "dir_get_child fs (usb_path (usb_name d) '':1.4/net'') [] 33
      = (case usb_net d of None \<Rightarrow> [] | Some n \<Rightarrow> n)"
    using d by (cases "usb_net d") (auto simp: child_absent intro!: child_shown)
  have netne: "usb_net d = Some n \<Longrightarrow> n \<noteq> []" for n
    using d by (simp add: visible_def)
  have ctl: "find (\<lambda>p. access_errno fs p = None)
      (map (usb_path (usb_name d)) ['':1.4/GobiQMI'', '':1.4/usbmisc'', '':1.4/usb''])
      = map_option (usb_path (usb_name d)) (map_option fst (usb_ctl d))"
    using d by (intro find_class_dir) (auto simp: pred_option_def)
  have dev: "dir_get_child fs (usb_path (usb_name d) l) [] 33 = c \<and> c \<noteq> []" if "usb_ctl d = Some (l, c)" for l c
    using d that by (auto simp: visible_def intro!: child_shown)
  have vd: "((case usb_vendor d of None \<Rightarrow> -1 | Some n \<Rightarrow> int n) \<noteq> 0x05c6
      \<and> (case usb_vendor d of None \<Rightarrow> -1 | Some n \<Rightarrow> int n) \<noteq> 0x2c7c)
      = (\<not> (usb_vendor d = Some 0x05c6 \<or> usb_vendor d = Some 0x2c7c))"
    by (cases "usb_vendor d") auto
  show ?thesis
    unfolding probe_def vendor product Option.bind.bind_lunit Let_def net ctl vd
    using netne dev by (cases "usb_net d"; cases "usb_ctl d") (auto simp: usable_def)
qed

lemma no_node_made:
  assumes "describes_usb fs d" "usb_ctl d = Some (l, c)"
  shows "make_node fs path c = Some [] \<and> length c < 28"
proof -
  have "length c < 28" "access_errno fs (''/dev/'' @ c) = None"
    using assms by (auto simp: describes_usb_def visible_def)
  then show ?thesis by (simp add: make_node_def)
qed

lemma net_short: "describes_usb fs d \<Longrightarrow> usb_net d = Some n \<Longrightarrow> length n < 33 \<and> n \<noteq> []"
  by (simp add: describes_usb_def visible_def)

lemma detect_loop_describes:
  "list_all (describes_usb fs) devs \<Longrightarrow>
     detect_loop fs 33 adapter (map usb_name devs) = Some (case find (usable adapter) devs of
       None \<Rightarrow> ([], adapter, [])
     | Some d \<Rightarrow> (''/dev/'' @ snd (the (usb_ctl d)), the (usb_net d), []))"
proof (induction devs)
  case (Cons d devs)
  then have d: "describes_usb fs d" by simp
  show ?case
  proof (cases "usable adapter d")
    case True
    then obtain l c n where "usb_ctl d = Some (l, c)" "usb_net d = Some n" by (auto simp: usable_def)
    with True no_node_made [OF d] net_short [OF d] show ?thesis
      by (simp add: probe_describes [OF d])
  next
    case False
    with Cons show ?thesis by (simp add: probe_describes [OF d])
  qed
qed simp

text \<open>C3: On a file system that shows a list of USB devices, the scan returns the control device
  and the network interface of the first device of the two vendors that has both (and the
  wanted interface, when one is given), makes no device node, and fails when there is no
  such device.\<close>

theorem detect_first_usable:
  assumes "describes fs devs"
  shows "qmidevice_detect fs 33 adapter = Some (case find (usable adapter) devs of
       None \<Rightarrow> (False, [], adapter, [])
     | Some d \<Rightarrow> (True, ''/dev/'' @ snd (the (usb_ctl d)), the (usb_net d), []))"
proof (cases "find (usable adapter) devs")
  case None
  with assms show ?thesis by (simp add: qmidevice_detect_def describes_def detect_loop_describes)
next
  case (Some d)
  then obtain n where "d \<in> set devs" "usb_net d = Some n"
    by (auto simp: find_Some_iff usable_def)
  with assms have "the (usb_net d) \<noteq> []" using net_short by (auto simp: describes_def list_all_iff)
  with Some assms show ?thesis by (simp add: qmidevice_detect_def describes_def detect_loop_describes)
qed

text \<open>A hub, a modem of another vendor and a modem with the QMI driver.\<close>

definition plugged :: "usb list" where
  "plugged =
    [\<lparr>usb_name = ''usb1'', usb_vendor = Some 0x1d6b, usb_product = Some 2, usb_net = None, usb_ctl = None\<rparr>,
     \<lparr>usb_name = ''1-1:1.0'', usb_vendor = None, usb_product = None, usb_net = None, usb_ctl = None\<rparr>,
     \<lparr>usb_name = ''1-1'', usb_vendor = Some 0x2c7c, usb_product = Some 0x0800,
      usb_net = Some ''wwan0'', usb_ctl = Some ('':1.4/usbmisc'', ''cdc-wdm0'')\<rparr>]"

definition look :: "(string \<times> 'a) list \<Rightarrow> string \<Rightarrow> 'a option" where
  "look = map_of"

definition plugged_fs :: sysfs where
  "plugged_fs = \<lparr>
     dirs = look [(''/sys/bus/usb/devices'', [''usb1'', ''1-1:1.0'', ''1-1'']),
       (''/sys/bus/usb/devices/1-1:1.4/net'', shown ''wwan0''),
       (''/sys/bus/usb/devices/1-1:1.4/usbmisc'', shown ''cdc-wdm0'')],
     file_text = look [(''/sys/bus/usb/devices/usb1/idVendor'', hex_line 0x1d6b),
       (''/sys/bus/usb/devices/usb1/idProduct'', hex_line 2),
       (''/sys/bus/usb/devices/1-1/idVendor'', hex_line 0x2c7c),
       (''/sys/bus/usb/devices/1-1/idProduct'', hex_line 0x0800)],
     access_errno = (\<lambda>f. if f = ''/sys/bus/usb/devices/1-1:1.4/usbmisc'' \<or> f = ''/dev/cdc-wdm0''
       then None else Some 2),
     link_text = look [(''/sys/class/net/wwan0/device/driver'', ''../../bus/usb/drivers/qmi_wwan'')]\<rparr>"

lemma plugged_described: "describes plugged_fs plugged"
  by (simp add: describes_def describes_usb_def plugged_def plugged_fs_def rootdir_def usb_path_def
      class_dirs_def look_def visible_def shown_def)

theorem detect_first_usable_witness:
  "qmidevice_detect plugged_fs 33 [] = Some (True, ''/dev/cdc-wdm0'', ''wwan0'', [])"
  using detect_first_usable [OF plugged_described, of "[]"] by (simp add: plugged_def usable_def)

section \<open>Device numbers\<close>

text \<open>How the kernel splits the number that \<open>mknod\<close> is given.\<close>

definition kernel_major :: "u32 \<Rightarrow> u32" where
  "kernel_major d = drop_bit 8 (d AND 0xfff00)"

definition kernel_minor :: "u32 \<Rightarrow> u32" where
  "kernel_minor d = (d AND 0xff) OR (drop_bit 12 d AND 0xfff00)"

lemma masks: "(0xfff :: u32) = mask 12" "(0xff :: u32) = mask 8" "(0xfff00 :: u32) = push_bit 8 (mask 12)"
  by (simp_all add: mask_eq_exp_minus_1 push_bit_eq_mult)

lemma major_of_number: "kernel_major (dev_number major minor) = word_of_int major AND mask 12"
  unfolding kernel_major_def dev_number_def masks
  apply (rule bit_word_eqI)
  apply (simp add: bit_simps)
  apply (rule impI iffI conjI)+
     apply auto
  done

lemma minor_of_number: "kernel_minor (dev_number major minor) = word_of_int minor AND mask 20"
  unfolding kernel_minor_def dev_number_def masks
  apply (rule bit_word_eqI)
  apply (simp add: bit_simps)
  subgoal for n by (cases "n < 8"; cases "n < 20") auto
  done

text \<open>The number with which a missing device node is made is split by the kernel into the major
  and minor number that the \<open>uevent\<close> file gives, for all numbers that the kernel has.\<close>

theorem device_number_roundtrip:
  assumes "0 \<le> major" "major < 2 ^ 12" "0 \<le> minor" "minor < 2 ^ 20"
  shows "uint (kernel_major (dev_number major minor)) = major
    \<and> uint (kernel_minor (dev_number major minor)) = minor"
  using assms by (simp add: major_of_number minor_of_number uint_mod_distrib uint_word_of_int
      take_bit_eq_mod flip: take_bit_eq_mask)

theorem device_number_roundtrip_witness:
  "uint (kernel_major (dev_number 180 176)) = 180 \<and> uint (kernel_minor (dev_number 180 176)) = 176"
  using device_number_roundtrip [of 180 176] by simp

section \<open>The QMAP mode of the upstream driver\<close>

text \<open>
  \<open>qmi/add_mux\<close> has a line \<open>0x%02x\<close> for each data connection. The characters are read as
  decimal digits: a letter counts for 39 more than it stands for.
\<close>

definition hex_digit :: "nat \<Rightarrow> char" where
  "hex_digit d = char_of (if d < 10 then 48 + d else 87 + d)"

definition mux_line :: "nat \<Rightarrow> string" where
  "mux_line i = [CHR ''0'', CHR ''x'', hex_digit (i div 16), hex_digit (i mod 16), CHR 0x0A]"

definition as_decimal :: "nat \<Rightarrow> int" where
  "as_decimal d = (if d < 10 then int d else int d + 39)"

lemma nth_concat_width:
  "(\<And>x. length (f x) = k) \<Longrightarrow> i < length xs \<Longrightarrow> j < k \<Longrightarrow> concat (map f xs) ! (k * i + j) = f (xs ! i) ! j"
proof (induction xs arbitrary: i)
  case (Cons x xs)
  then show ?case by (cases i) (simp_all add: nth_append)
qed simp

lemma length_concat_width: "(\<And>x. length (f x) = k) \<Longrightarrow> length (concat (map f xs)) = k * length xs"
  by (induction xs) simp_all

lemma sint_char: "n < 128 \<Longrightarrow> sint (word_of_nat (of_char (char_of n)) :: byte) = int n"
  using signed_take_bit_int_eq_self [of 7 "int n"] sint_sbintrunc' [of "int n", where 'a = 8] by simp

lemma buf_char_digit:
  assumes "d < 16" "buf ! i = hex_digit d" "i < length buf" "i < 128"
  shows "buf_char 128 buf (int i) = Some (as_decimal d)"
proof -
  have "sint (word_of_nat (of_char (hex_digit d)) :: byte) - 48 = as_decimal d"
    unfolding hex_digit_def as_decimal_def using assms(1) by (subst sint_char) auto
  with assms show ?thesis by (simp add: buf_char_def)
qed

lemma mux_line_nth: "mux_line i ! 2 = hex_digit (i div 16)" "mux_line i ! 3 = hex_digit (i mod 16)"
  by (simp_all add: mux_line_def)

lemma read_mux_line:
  assumes "i < length ids" "length ids \<le> 25" "ids ! i < 256"
  shows "buf_char 128 (concat (map mux_line ids)) (5 * int i + 2) = Some (as_decimal (ids ! i div 16))"
    and "buf_char 128 (concat (map mux_line ids)) (5 * int i + 3) = Some (as_decimal (ids ! i mod 16))"
proof -
  have w: "length (mux_line x) = 5" for x by (simp add: mux_line_def)
  have n: "concat (map mux_line ids) ! (5 * i + 2) = hex_digit (ids ! i div 16)"
    "concat (map mux_line ids) ! (5 * i + 3) = hex_digit (ids ! i mod 16)"
    using nth_concat_width [of mux_line 5 i ids 2, OF w assms(1)]
      nth_concat_width [of mux_line 5 i ids 3, OF w assms(1)]
    by (simp_all add: mux_line_nth)
  have "length (concat (map mux_line ids)) = 5 * length ids" by (rule length_concat_width) (rule w)
  then have "5 * i + 3 < length (concat (map mux_line ids))" "5 * i + 3 < 128" using assms by linarith+
  with n assms(3) show "buf_char 128 (concat (map mux_line ids)) (5 * int i + 2) = Some (as_decimal (ids ! i div 16))"
    "buf_char 128 (concat (map mux_line ids)) (5 * int i + 3) = Some (as_decimal (ids ! i mod 16))"
    using buf_char_digit [of "ids ! i div 16" "concat (map mux_line ids)" "5 * i + 2"]
      buf_char_digit [of "ids ! i mod 16" "concat (map mux_line ids)" "5 * i + 3"]
    by (simp_all add: add.commute)
qed

definition upstream_qmap :: "sysfs \<Rightarrow> PROFILE_T \<Rightarrow> string \<Rightarrow> string \<Rightarrow> nat list \<Rightarrow> bool" where
  "upstream_qmap fs p net drv ids \<longleftrightarrow>
     usbnet_adapter p = Some net \<and> length net < 200 \<and> length drv < 200
     \<and> driver_of_link fs (''/sys/class/net/'' @ net @ ''/device/driver'') = Some drv
     \<and> access_errno fs (''/sys/class/net/'' @ net @ ''/qmap_mode'') = Some ENOENT
     \<and> access_errno fs (''/sys/module/'' @ drv @ ''/parameters/qmap_mode'') = Some ENOENT
     \<and> access_errno fs (snprintf 510 (''/sys/class/net/qmimux'' @ dec_int (pdp p - 1))) = None
     \<and> file_text fs (''/sys/class/net/'' @ net @ ''/qmi/add_mux'') = Some (concat (map mux_line ids))"

text \<open>With the upstream driver, \<open>n\<close> lines of \<open>qmi/add_mux\<close> give QMAP mode \<open>n\<close>, and the
  connection \<open>pdp\<close> gets the interface \<open>qmimux\<close>\<open>(pdp-1)\<close> and the multiplexing identifier of
  its line, read as two decimal digits: it is right unless the identifier has a letter.\<close>

theorem qmap_add_mux:
  assumes fs: "upstream_qmap fs p net drv ids" "qmichannel p = Some ch" "qmidev_is_qmiwwan ch"
    and ids: "list_all (\<lambda>i. i < 256) ids" "2 \<le> length ids" "length ids \<le> 25"
    and pdp: "1 \<le> pdp p" "pdp p \<le> int (length ids)"
  shows "ql_qmap_mode_detect fs p = Some (let i = ids ! nat (pdp p - 1) in
    p\<lparr>driver_name := Some drv, qmap_mode := int (length ids),
      muxid := as_decimal (i div 16) * 16 + as_decimal (i mod 16),
      qmapnet_adapter := Some (''qmimux'' @ dec_int (pdp p - 1))\<rparr>)"
proof -
  define i where "i = nat (pdp p - 1)"
  have i: "pdp p - 1 = int i" "i < length ids" using pdp by (simp_all add: i_def)
  with ids(1) have "ids ! i < 256" by (simp add: list_all_length)
  note line = read_mux_line [OF i(2) ids(3) this]
  have len: "length (concat (map mux_line ids)) = 5 * length ids"
    by (rule length_concat_width) (simp add: mux_line_def)
  with ids(3) have t: "take 128 (concat (map mux_line ids)) = concat (map mux_line ids)" by simp
  note f = fs(1) [unfolded upstream_qmap_def i(1)]
  have nofile: "qmap_mode_file fs net drv = Inr None" using f by (simp add: qmap_mode_file_def)
  have mux_text: "ql_fread fs (''/sys/class/net/'' @ net @ ''/qmi/add_mux'') 128 = concat (map mux_line ids)"
    using f by (simp add: ql_fread_def t del: concat_map_singleton)
  have many: "\<not> 5 * length ids < 5" "int (5 * length ids) div 5 = int (length ids)" "1 < int (length ids)"
    using ids(2) by auto
  have mux: "qmap_from_add_mux (concat (map mux_line ids)) q = Some (q\<lparr>qmap_mode := int (length ids),
      muxid := as_decimal (ids ! i div 16) * 16 + as_decimal (ids ! i mod 16),
      qmapnet_adapter := Some (''qmimux'' @ dec_int (int i))\<rparr>)" if "pdp q = pdp p" for q
    using that line i(1) many unfolding qmap_from_add_mux_def Let_def len by simp
  have "ql_qmap_mode_detect fs p = qmap_from_add_mux (concat (map mux_line ids))
      (p\<lparr>qmapnet_adapter := None, driver_name := Some drv\<rparr>)"
    unfolding ql_qmap_mode_detect_def Let_def using f fs(2,3) i(1) mux_text by (simp add: nofile)
  also have "\<dots> = Some (p\<lparr>driver_name := Some drv, qmap_mode := int (length ids),
      muxid := as_decimal (ids ! i div 16) * 16 + as_decimal (ids ! i mod 16),
      qmapnet_adapter := Some (''qmimux'' @ dec_int (int i))\<rparr>)"
    by (subst mux) simp_all
  finally show ?thesis by (simp add: i(1) Let_def)
qed


text \<open>Two connections; the letter of the second identifier (0x8a) is misread.\<close>

definition mux_fs :: sysfs where
  "mux_fs = plugged_fs\<lparr>
     file_text := look [(''/sys/class/net/wwan0/qmi/add_mux'', concat (map mux_line [0x81, 0x8a]))],
     access_errno := (\<lambda>f. if take 18 f = ''/sys/class/net/qmi'' then None else Some 2)\<rparr>"

definition mux_profile :: "int \<Rightarrow> PROFILE_T" where
  "mux_profile n = zero_profile\<lparr>qmichannel := Some ''/dev/cdc-wdm0'', usbnet_adapter := Some ''wwan0'', pdp := n\<rparr>"

lemma mux_fs_upstream: "upstream_qmap mux_fs (mux_profile n) ''wwan0'' ''qmi_wwan'' [0x81, 0x8a]"
  by (simp add: upstream_qmap_def mux_fs_def mux_profile_def plugged_fs_def look_def driver_of_link_def
      snprintf_def del: snprintf_fits)

theorem qmap_add_mux_witness:
  "map_option muxid (ql_qmap_mode_detect mux_fs (mux_profile 1)) = Some 0x81
   \<and> map_option muxid (ql_qmap_mode_detect mux_fs (mux_profile 2)) = Some (0x8a + 39)"
  using qmap_add_mux [OF mux_fs_upstream [of 1], of "''/dev/cdc-wdm0''"]
    qmap_add_mux [OF mux_fs_upstream [of 2], of "''/dev/cdc-wdm0''"]
  by (simp add: mux_profile_def qmidev_is_qmiwwan_def has_prefix_def as_decimal_def Let_def)

section \<open>Files that are not as expected\<close>

text \<open>A device whose \<open>idVendor\<close> holds no hexadecimal digit is read with a second \<open>fclose\<close> of
  the same file, and a missing device node without a \<open>uevent\<close> file with \<open>fclose(NULL)\<close>: both
  are undefined.\<close>

theorem closed_twice:
  "(file_text fs f = Some (CHR 0x0A # rest) \<longrightarrow> file_get_value fs f = None)
   \<and> (file_text fs f = None \<longrightarrow> conf_get_val fs f key = None)"
proof -
  have "fgets 32 (CHR 0x0A # rest) = ([CHR 0x0A], rest)" using fgets_plain [of "[]" 32 rest] by simp
  moreover have "strtol 16 (cstring [CHR 0x0A]) = (0, False)"
    by (simp add: strtol_def cstring_def isspace_def number_def)
  ultimately show ?thesis by (simp add: file_get_value_def conf_get_val_def)
qed

theorem closed_twice_witness:
  "file_get_value (plugged_fs\<lparr>file_text := (\<lambda>f. Some [CHR 0x0A])\<rparr>) ''idVendor'' = None"
  using closed_twice [of "plugged_fs\<lparr>file_text := (\<lambda>f. Some [CHR 0x0A])\<rparr>" "''idVendor''" "[]"] by simp

end
