(* ===== verification/NetSetup.thy ===== *)
theory NetSetup
  imports Device
begin

text \<open>
  Bringing the network interface up and down: \<open>udhcpc.c\<close> and the bridge and raw IP mode of
  \<open>qmap_bridge_mode.c\<close>. An operation is the list of its effects: commands given to the
  shell, writes to files, the MTU, a run of the DHCP client and the update of
  \<open>resolv.conf\<close>. The compile-time switch \<open>USE_DHCLIENT\<close> is off, as in the source.
\<close>

section \<open>Effects and the environment\<close>

datatype action = System string | Write string string | Set_mtu string u32 | Dhcp string
  | Resolv nat string "string option" "string option"

text \<open>
  \<open>opens\<close> says whether a file can be opened for reading and writing, \<open>shows\<close> what reading
  it back gives, \<open>mtu_of\<close> and \<open>addr_of\<close> answer \<open>SIOCGIFMTU\<close> and \<open>SIOCGIFADDR\<close>, and \<open>garbage\<close> is
  the previous content of the stack buffer.
\<close>

record netenv =
  nfs :: sysfs
  opens :: "string \<Rightarrow> bool"
  shows_text :: "string \<Rightarrow> string"
  mtu_of :: "string \<Rightarrow> u32 option"
  addr_of :: "string \<Rightarrow> u32 option"
  garbage :: string

definition overlay :: "string \<Rightarrow> string \<Rightarrow> string" where
  \<comment> \<open>a buffer after bytes were stored at its start\<close>
  "overlay buf bytes = take (length buf) bytes @ drop (length bytes) buf"

definition sprint_into :: "string \<Rightarrow> string \<Rightarrow> string" where
  "sprint_into buf str = overlay buf (snprintf (length buf) str @ [CHR 0x00])"

definition ifr_name :: "string \<Rightarrow> string" where
  \<comment> \<open>\<open>ifc_init_ifr\<close>: an interface name has at most 15 characters\<close>
  "ifr_name n = take 15 n"

definition ql_set_mtu :: "netenv \<Rightarrow> string \<Rightarrow> u32 \<Rightarrow> action list" where
  "ql_set_mtu env ifname mtu = (case mtu_of env (ifr_name ifname) of
     None \<Rightarrow> []
   | Some m \<Rightarrow> if m \<noteq> mtu then [Set_mtu (ifr_name ifname) mtu] else [])"

definition ifc_get_addr :: "netenv \<Rightarrow> string \<Rightarrow> u32" where
  "ifc_get_addr env name = (case addr_of env (ifr_name name) of None \<Rightarrow> 0 | Some a \<Rightarrow> a)"

definition link_cmd :: "string \<Rightarrow> string \<Rightarrow> action" where
  \<comment> \<open>\<open>ip link set\<close> into a \<open>shell_cmd\<close> of 128 bytes\<close>
  "link_cmd ifname st = System (snprintf 128 (''ip link set '' @ ifname @ '' '' @ st))"

section \<open>Raw IP mode\<close>

definition ql_raw_ip_mode_check :: "netenv \<Rightarrow> string \<Rightarrow> bool \<times> action list" where
  "ql_raw_ip_mode_check env ifname =
     (let raw_ip = snprintf 128 (''/sys/class/net/'' @ ifname @ ''/qmi/raw_ip'') in
      if ifc_get_addr env ifname \<noteq> 0 then (False, [])
      else if access_errno (nfs env) raw_ip \<noteq> None then (False, [])
      else if \<not> opens env raw_ip then (False, [])
      else
        let mode = overlay [CHR ''X'', CHR 0x00] (take 2 (shows_text env raw_ip))
        in if hd mode = CHR ''0'' \<or> hd mode = CHR ''N''
           then (True, [link_cmd ifname ''down'', Write raw_ip (CHR ''Y'' # tl mode), link_cmd ifname ''up''])
           else (False, []))"


definition ql_enable_qmi_wwan_rawip_mode :: "netenv \<Rightarrow> PROFILE_T \<Rightarrow> (int \<times> action list) option" where
  "ql_enable_qmi_wwan_rawip_mode env p = do {
     ch \<leftarrow> qmichannel p;
     if \<not> qmidev_is_qmiwwan ch then Some (0, [])
     else do {
       net \<leftarrow> usbnet_adapter p;
       let filename = snprintf 256 (''/sys/class/net/'' @ net @ ''/qmi/rawip'');
       let buf = ql_fread (nfs env) filename 4;
       if buf = [] then Some (0, [])
       else if hd buf = CHR ''1'' \<or> hd buf = CHR ''Y'' then Some (0, [])
       else if \<not> opens env filename then Some (1, [])
       else Some (0, [Write filename ''Y'']) } }"

section \<open>Bridge mode\<close>

definition bridge_files :: "netenv \<Rightarrow> string \<Rightarrow> string \<Rightarrow> (string \<times> string) option" where
  \<comment> \<open>the files of the mode and of the address, when there are any\<close>
  "bridge_files env ifname driver =
     (let mode1 = snprintf 128 (''/sys/class/net/'' @ ifname @ ''/bridge_mode'');
          ipv41 = snprintf 128 (''/sys/class/net/'' @ ifname @ ''/bridge_ipv4'');
          mode2 = snprintf 128 (''/sys/module/'' @ driver @ ''/parameters/bridge_mode'');
          ipv42 = snprintf 128 (''/sys/module/'' @ driver @ ''/parameters/bridge_ipv4'')
      in case access_errno (nfs env) ipv41 of
        None \<Rightarrow> Some (mode1, ipv41)
      | Some e \<Rightarrow>
          if e \<noteq> ENOENT then None
          else if access_errno (nfs env) mode2 \<noteq> None then None
          else Some (mode2, ipv42))"

definition data_interface :: "PROFILE_T \<Rightarrow> string option" where
  \<comment> \<open>\<open>ifname\<close>: the QMAP interface when there is one\<close>
  "data_interface p = (case qmapnet_adapter p of None \<Rightarrow> usbnet_adapter p | Some q \<Rightarrow> Some q)"

definition ql_bridge_mode_detect :: "netenv \<Rightarrow> PROFILE_T \<Rightarrow> (bool \<times> action list) option" where
  "ql_bridge_mode_detect env p = do {
     ifname \<leftarrow> data_interface p;
     driver \<leftarrow> driver_name p;
     case bridge_files env ifname driver of
       None \<Rightarrow> Some (False, [])
     | Some (bridge_mode, bridge_ipv4) \<Rightarrow>
         let buf = ql_fread (nfs env) bridge_mode 64
         in if buf = [] \<or> hd buf = CHR ''0'' then Some (False, [])
            else
              let addr = ''0x'' @ hex (unat (v4Address (ipv4 p)));
                  ip = (if strstr bridge_ipv4 ''/sys/class/net/'' \<or> qmap_mode p = 0 \<or> qmap_mode p = 1
                        then addr else addr @ '':'' @ dec_int (muxid p))
              in Some (True, if opens env bridge_ipv4 then [Write bridge_ipv4 ip] else []) }"

section \<open>The link state of the driver\<close>

definition new_link_state :: "PROFILE_T \<Rightarrow> int \<Rightarrow> int" where
  "new_link_state p link_state =
     (if qmap_mode p \<le> 1 then (if link_state \<noteq> 0 then 1 else 0)
      else (if link_state \<noteq> 0 then 0x00 else 0x80) + pdp p)"

text \<open>
  The whole buffer is written, what follows the terminating zero included. What is read
  back is stored at the start of the same buffer, and no zero is added behind it.
\<close>

definition ql_set_driver_link_state :: "netenv \<Rightarrow> PROFILE_T \<Rightarrow> int \<Rightarrow> action list option" where
  "ql_set_driver_link_state env p link_state = do {
     net \<leftarrow> usbnet_adapter p;
     let buf = sprint_into (garbage env) (''/sys/class/net/'' @ net @ ''/link_state'');
     let file = cstring buf;
     if \<not> opens env file then Some []
     else
       let buf = sprint_into buf (dec_int (new_link_state p link_state) @ [CHR 0x0A]);
           back = take 128 (shows_text env file);
           word = map lower (cstring (overlay buf back))
       in Some (Write file buf #
            (if link_state = 0 \<and> 1 < qmap_mode p \<and> 1 < length back
                \<and> (word = [CHR ''0'', CHR 0x0A] \<or> word = [CHR ''0'', CHR ''x'', CHR ''0'', CHR 0x0A])
             then [link_cmd net ''down''] else [])) }"

section \<open>Starting and stopping the DHCP client\<close>

definition hex2 :: "byte \<Rightarrow> string" where
  \<comment> \<open>\<open>%02x\<close>\<close>
  "hex2 b = [char_of (if unat b div 16 < 10 then 48 + unat b div 16 else 87 + unat b div 16),
             char_of (if unat b mod 16 < 10 then 48 + unat b mod 16 else 87 + unat b mod 16)]"

fun ip6_text :: "byte list \<Rightarrow> string" where
  "ip6_text (a # b # c # d) = hex2 a @ hex2 b @ '':'' @ ip6_text (c # d)"
| "ip6_text [a, b] = hex2 a @ hex2 b"
| "ip6_text _ = []"

definition set_ipv4 :: "netenv \<Rightarrow> PROFILE_T \<Rightarrow> string \<Rightarrow> action list" where
  "set_ipv4 env p ifname =
     (if v4Address (ipv4 p) = 0 then []
      else
        let cmd = snprintf 128 (''busybox udhcpc -f -n -q -t 5 -i '' @ ifname);
            (changed, acts) = ql_raw_ip_mode_check env ifname
        in [Dhcp cmd] @ acts @ (if changed then [Dhcp cmd] else []))"

definition set_ipv6 :: "PROFILE_T \<Rightarrow> string \<Rightarrow> action list" where
  "set_ipv6 p ifname =
     (let v6 = ipv6 p; dns = (\<lambda>d. if hd d \<noteq> 0 then Some (ip6_text d) else None)
      in if hd (v6Address v6) = 0 \<or> PrefixLengthIPAddr v6 = 0 then []
         else
           [System (snprintf 128 (''ip -6 address add '' @ ip6_text (v6Address v6) @ ''/''
              @ dec (unat (PrefixLengthIPAddr v6)) @ '' dev '' @ ifname)),
            System (snprintf 128 (''ip -6 route add default via '' @ ip6_text (v6Gateway v6) @ '' dev '' @ ifname))]
           @ (if hd (v6DnsPrimary v6) \<noteq> 0 \<or> hd (v6DnsSecondary v6) \<noteq> 0
              then [Resolv 6 ifname (dns (v6DnsPrimary v6)) (dns (v6DnsSecondary v6))] else []))"

definition udhcpc_start :: "netenv \<Rightarrow> PROFILE_T \<Rightarrow> action list option" where
  "udhcpc_start env p = do {
     usbnet \<leftarrow> usbnet_adapter p;
     link \<leftarrow> ql_set_driver_link_state env p 1;
     ifname \<leftarrow> data_interface p;
     let mtu = (if rawIP p \<noteq> 0 \<and> v4Address (ipv4 p) \<noteq> 0 \<and> v4Mtu (ipv4 p) \<noteq> 0
                then ql_set_mtu env ifname (v4Mtu (ipv4 p)) else []);
     let up = (if ifname \<noteq> usbnet then [link_cmd usbnet ''up''] else []) @ [link_cmd ifname ''up''];
     (in_bridge, bridge) \<leftarrow> ql_bridge_mode_detect env p;
     Some (link @ mtu @ up @ bridge @ (if in_bridge then [] else set_ipv4 env p ifname @ set_ipv6 p ifname)) }"

definition udhcpc_stop :: "netenv \<Rightarrow> PROFILE_T \<Rightarrow> action list option" where
  \<comment> \<open>\<open>dibbler_client_alive\<close> is never set in this configuration\<close>
  "udhcpc_stop env p = do {
     link \<leftarrow> ql_set_driver_link_state env p 0;
     ifname \<leftarrow> data_interface p;
     Some (link @ [link_cmd ifname ''down'', System (snprintf 128 (''ip addr flush dev '' @ ifname))]) }"


section \<open>What the commands do to the interfaces\<close>

text \<open>The state of an interface after a list of effects: the last \<open>ip link set\<close> about it.\<close>

definition about :: "string \<Rightarrow> action \<Rightarrow> bool" where
  "about x a \<longleftrightarrow> a = link_cmd x ''up'' \<or> a = link_cmd x ''down''"

definition link_after :: "string \<Rightarrow> action list \<Rightarrow> bool option" where
  "link_after x acts = map_option (\<lambda>a. a = link_cmd x ''up'') (find (about x) (rev acts))"

lemma find_append: "find P (xs @ ys) = (case find P xs of None \<Rightarrow> find P ys | r \<Rightarrow> r)"
  by (induction xs) auto

lemma link_after_append:
  "link_after x (as @ bs) = (case link_after x bs of None \<Rightarrow> link_after x as | r \<Rightarrow> r)"
  by (auto simp: link_after_def find_append split: option.splits)

lemma link_after_none: "(\<And>a. a \<in> set acts \<Longrightarrow> \<not> about x a) \<Longrightarrow> link_after x acts = None"
  by (simp add: link_after_def find_None_iff)

lemma link_cmd_inject:
  assumes "length x < 100" "length y < 100" "st \<in> {''up'', ''down''}" "st' \<in> {''up'', ''down''}"
  shows "link_cmd x st = link_cmd y st' \<longleftrightarrow> x = y \<and> st = st'"
proof -
  have "x @ '' up'' \<noteq> y @ '' down''" for x y :: string
    using arg_cong [of "x @ '' up''" "y @ '' down''" last] by auto
  then have "x @ '' '' @ st = y @ '' '' @ st' \<longleftrightarrow> x = y \<and> st = st'"
    using assms(3,4) by (auto dest: sym)
  moreover have "link_cmd z t = System (''ip link set '' @ z @ '' '' @ t)"
    if "length z < 100" "t \<in> {''up'', ''down''}" for z t
    using that by (auto simp: link_cmd_def)
  ultimately show ?thesis using assms by auto
qed

lemma about_link_cmd:
  "length x < 100 \<Longrightarrow> length y < 100 \<Longrightarrow> st \<in> {''up'', ''down''} \<Longrightarrow> about x (link_cmd y st) \<longleftrightarrow> x = y"
  using link_cmd_inject [of y x st] by (auto simp: about_def)

lemma not_about [simp]:
  "\<not> about x (Write f w)" "\<not> about x (Set_mtu n m)" "\<not> about x (Dhcp c)" "\<not> about x (Resolv v n d e)"
  by (simp_all add: about_def link_cmd_def)

lemma not_about_ip6: "\<not> about x (System (snprintf 128 (''ip -6 '' @ rest)))"
  by (simp add: about_def link_cmd_def snprintf_def del: snprintf_fits)

lemma link_after_link:
  assumes "length x < 100" "length y < 100" "st \<in> {''up'', ''down''}"
  shows "link_after x [link_cmd y st] = (if x = y then Some (st = ''up'') else None)"
  using assms about_link_cmd [of x y st] link_cmd_inject [of y x st "''up''"] by (auto simp: link_after_def)

lemma ip6_silent: "link_after x (set_ipv6 p ifname) = None"
  using not_about_ip6 [of x "''address add '' @ r" for r] not_about_ip6 [of x "''route add default via '' @ r" for r]
  by (intro link_after_none) (auto simp: set_ipv6_def Let_def split: if_splits)


lemma mtu_silent: "link_after x (ql_set_mtu env i m) = None" "link_after x [] = None"
  by (auto simp: ql_set_mtu_def split: option.splits intro!: link_after_none)

lemma raw_ip_link:
  assumes "length x < 100" "length i < 100"
  shows "link_after x (snd (ql_raw_ip_mode_check env i)) \<in> {None, if x = i then Some True else None}"
proof -
  have "snd (ql_raw_ip_mode_check env i) = [] \<or> (\<exists>pre. snd (ql_raw_ip_mode_check env i) = pre @ [link_cmd i ''up'']
      \<and> (\<forall>a \<in> set pre. a = link_cmd i ''down'' \<or> (\<exists>f w. a = Write f w)))"
    by (fastforce simp: ql_raw_ip_mode_check_def Let_def intro: exI [of _ "[link_cmd i ''down'', Write f w]" for f w])
  then show ?thesis
  proof
    assume "\<exists>pre. snd (ql_raw_ip_mode_check env i) = pre @ [link_cmd i ''up'']
      \<and> (\<forall>a \<in> set pre. a = link_cmd i ''down'' \<or> (\<exists>f w. a = Write f w))"
    then obtain pre where pre: "snd (ql_raw_ip_mode_check env i) = pre @ [link_cmd i ''up'']"
      "\<And>a. a \<in> set pre \<Longrightarrow> a = link_cmd i ''down'' \<or> (\<exists>f w. a = Write f w)" by blast
    show ?thesis
    proof (cases "x = i")
      case True
      then show ?thesis using link_after_link [of x i "''up''"] assms by (simp add: pre(1) link_after_append)
    next
      case False
      then have "link_after x (pre @ [link_cmd i ''up'']) = None"
        using about_link_cmd [of x i] assms by (intro link_after_none) (auto dest!: pre(2))
      with False show ?thesis by (simp add: pre(1))
    qed
  qed (simp add: mtu_silent)
qed

lemma ipv4_link:
  assumes "length x < 100" "length i < 100"
  shows "link_after x (set_ipv4 env p i) \<in> {None, Some True}"
proof -
  have silent: "link_after y [Dhcp c] = None" for y c by (rule link_after_none) simp
  obtain c acts where check: "ql_raw_ip_mode_check env i = (c, acts)" by fastforce
  define pre where "pre = [Dhcp (snprintf 128 (''busybox udhcpc -f -n -q -t 5 -i '' @ i))]"
  have pre: "link_after y pre = None" for y by (simp add: pre_def silent)
  have "set_ipv4 env p i = [] \<or> set_ipv4 env p i = pre @ acts \<or> set_ipv4 env p i = pre @ acts @ pre"
    unfolding set_ipv4_def check pre_def Let_def by (cases "v4Address (ipv4 p) = 0"; cases c) simp_all
  with raw_ip_link [OF assms, of env] show ?thesis
    by (auto simp: check link_after_append pre mtu_silent split: if_splits)
qed

lemma bridge_silent:
  assumes "data_interface p = Some i" "driver_name p = Some drv"
  shows "\<exists>b acts. ql_bridge_mode_detect env p = Some (b, acts) \<and> (\<forall>x. link_after x acts = None)"
proof (cases "bridge_files env i drv")
  case (Some f)
  obtain m g where f: "f = (m, g)" by fastforce
  have silent: "link_after x [Write g w] = None" for x w by (rule link_after_none) simp
  show ?thesis
    by (cases "ql_fread (nfs env) m 64 = [] \<or> hd (ql_fread (nfs env) m 64) = CHR ''0''")
      (auto simp: ql_bridge_mode_detect_def assms Some f Let_def mtu_silent silent)
qed (auto simp: ql_bridge_mode_detect_def assms mtu_silent intro: exI [of _ False])

lemma link_state_defined:
  "usbnet_adapter p = Some u \<Longrightarrow> \<exists>acts. ql_set_driver_link_state env p st = Some acts"
  by (simp add: ql_set_driver_link_state_def Let_def)

lemma link_state_silent: "ql_set_driver_link_state env p 1 = Some acts \<Longrightarrow> link_after x acts = None"
  by (auto simp: ql_set_driver_link_state_def Let_def split: if_splits intro!: link_after_none)

lemma start_link:
  assumes p: "usbnet_adapter p = Some u" "data_interface p = Some i" "driver_name p = Some drv"
  shows "\<exists>a. udhcpc_start env p = Some a \<and> (length u < 100 \<and> length i < 100 \<longrightarrow>
    link_after i a = Some True \<and> link_after u a = Some True)"
proof -
  obtain link where link: "ql_set_driver_link_state env p 1 = Some link"
    using link_state_defined [OF p(1)] by blast
  obtain br acts where br: "ql_bridge_mode_detect env p = Some (br, acts)" "\<And>x. link_after x acts = None"
    using bridge_silent [OF p(2,3)] by blast
  define mtu where "mtu = (if rawIP p \<noteq> 0 \<and> v4Address (ipv4 p) \<noteq> 0 \<and> v4Mtu (ipv4 p) \<noteq> 0
      then ql_set_mtu env i (v4Mtu (ipv4 p)) else [])"
  define up where "up = (if i \<noteq> u then [link_cmd u ''up''] else []) @ [link_cmd i ''up'']"
  define rest where "rest = (if br then [] else set_ipv4 env p i @ set_ipv6 p i)"
  have start: "udhcpc_start env p = Some (link @ mtu @ up @ acts @ rest)"
    using p by (simp add: udhcpc_start_def link br(1) Let_def mtu_def up_def rest_def)
  have "link_after i (link @ mtu @ up @ acts @ rest) = Some True
    \<and> link_after u (link @ mtu @ up @ acts @ rest) = Some True" if short: "length u < 100" "length i < 100"
  proof -
    have up: "link_after i up = Some True" "link_after u up = Some True"
      using short by (auto simp: up_def link_after_append link_after_link mtu_silent simp del: append_Cons append_Nil)
    have rest: "link_after x rest = None \<or> link_after x rest = Some True" if "length x < 100" for x
      using ipv4_link [OF that short(2)] by (auto simp: rest_def mtu_silent link_after_append ip6_silent)
    have "link_after x (link @ mtu @ up @ acts @ rest) = Some True"
      if "length x < 100" "link_after x up = Some True" for x
      using rest [OF that(1)] that(2) by (auto simp: link_after_append br(2))
    with up short show ?thesis by auto
  qed
  with start show ?thesis by blast
qed

lemma stop_link:
  assumes p: "usbnet_adapter p = Some u" "data_interface p = Some i" "length i < 100"
  shows "\<exists>b. udhcpc_stop env p = Some b \<and> link_after i b = Some False
    \<and> last b = System (''ip addr flush dev '' @ i)"
proof -
  obtain link0 where link0: "ql_set_driver_link_state env p 0 = Some link0"
    using link_state_defined [OF p(1)] by blast
  define flush where "flush = System (snprintf 128 (''ip addr flush dev '' @ i))"
  have "udhcpc_stop env p = Some (link0 @ [link_cmd i ''down''] @ [flush])"
    using p by (simp add: udhcpc_stop_def link0 flush_def)
  moreover have "\<not> about i flush"
    by (simp add: about_def flush_def link_cmd_def snprintf_def del: snprintf_fits)
  then have "link_after i [flush] = None" by (intro link_after_none) simp
  then have "link_after i (link0 @ [link_cmd i ''down''] @ [flush]) = Some False"
    using p(3) by (simp add: link_after_append link_after_link del: append_Cons append_Nil)
  moreover have "last (link0 @ [link_cmd i ''down''] @ [flush]) = System (''ip addr flush dev '' @ i)"
    using p(3) by (simp add: flush_def)
  ultimately show ?thesis by blast
qed

lemma start_stop_defined:
  assumes "usbnet_adapter p = Some u" "driver_name p = Some drv"
  shows "udhcpc_start env p \<noteq> None \<and> udhcpc_stop env p \<noteq> None"
proof -
  obtain i where i: "data_interface p = Some i" using assms by (cases "qmapnet_adapter p") (auto simp: data_interface_def)
  obtain link0 where "ql_set_driver_link_state env p 0 = Some link0"
    using link_state_defined [OF assms(1)] by blast
  then show ?thesis using start_link [OF assms(1) i assms(2), of env] i by (auto simp: udhcpc_stop_def)
qed

text \<open>C10: With an interface and a driver, starting and stopping are always defined; after a start both
  the USB interface and the data interface are up, whatever the mode of the driver was
  switched to in between; after a stop the data interface is down and its addresses are
  flushed last.\<close>

theorem start_up_stop_down:
  assumes p: "usbnet_adapter p = Some u" "data_interface p = Some i" "driver_name p = Some drv"
    and short: "length u < 100" "length i < 100"
  shows "\<exists>a b. udhcpc_start env p = Some a \<and> link_after i a = Some True \<and> link_after u a = Some True
    \<and> udhcpc_stop env p = Some b \<and> link_after i b = Some False
    \<and> last b = System (''ip addr flush dev '' @ i)"
  using start_link [OF p, of env] stop_link [OF p(1,2) short(2), of env] short by blast

text \<open>A router with the upstream driver on \<open>wwan0\<close> that has to leave the Ethernet mode.\<close>

definition router_env :: netenv where
  "router_env = \<lparr>nfs = plugged_fs\<lparr>access_errno := (\<lambda>f. if f = ''/sys/class/net/wwan0/qmi/raw_ip'' then None else Some 2)\<rparr>,
     opens = (\<lambda>f. True), shows_text = (\<lambda>f. [CHR ''N'', CHR 0x0A]), mtu_of = (\<lambda>n. Some 1500),
     addr_of = (\<lambda>n. None), garbage = replicate 128 (CHR ''?'')\<rparr>"

definition router_profile :: PROFILE_T where
  "router_profile = zero_profile\<lparr>usbnet_adapter := Some ''wwan0'', driver_name := Some ''qmi_wwan'',
     ipv4 := zero_ipv4\<lparr>v4Address := 0x0A000001\<rparr>\<rparr>"

theorem start_up_stop_down_witness:
  "\<exists>a b. udhcpc_start router_env router_profile = Some a \<and> link_after ''wwan0'' a = Some True
    \<and> udhcpc_stop router_env router_profile = Some b \<and> link_after ''wwan0'' b = Some False"
  using start_up_stop_down [of router_profile "''wwan0''" "''wwan0''" "''qmi_wwan''" router_env]
  by (auto simp: router_profile_def data_interface_def zero_profile_def)

section \<open>The link state in QMAP mode\<close>

lemma dec_three:
  assumes "100 \<le> n" "n < 1000"
  shows "\<exists>a b. dec n = [a, b, char_of (48 + n mod 10)]"
proof -
  obtain k where k: "Suc n = Suc (Suc (Suc k))" using assms(1) by (cases n; cases "n - 1") auto
  have "\<not> n < 10" "\<not> n div 10 < 10" "n div 10 div 10 < 10" using assms by linarith+
  then show ?thesis unfolding dec_def k by simp
qed

lemma link_file_name:
  assumes "length g = 128" "length u < 100" "CHR 0x00 \<notin> set u"
  shows "cstring (sprint_into g (''/sys/class/net/'' @ u @ ''/link_state'')) = ''/sys/class/net/'' @ u @ ''/link_state''"
    and "length (sprint_into g (''/sys/class/net/'' @ u @ ''/link_state'')) = 128"
proof -
  define f where "f = ''/sys/class/net/'' @ u @ ''/link_state''"
  have f: "length f < 128" "CHR 0x00 \<notin> set f" using assms by (simp_all add: f_def)
  have "sprint_into g f = f @ [CHR 0x00] @ drop (Suc (length f)) g"
    using f assms(1) by (simp add: sprint_into_def overlay_def)
  moreover from f(2) have "takeWhile (\<lambda>c. c \<noteq> CHR 0x00) (f @ [CHR 0x00] @ r) = f" for r
    by (induction f) auto
  ultimately show "cstring (sprint_into g (''/sys/class/net/'' @ u @ ''/link_state'')) = ''/sys/class/net/'' @ u @ ''/link_state''"
    "length (sprint_into g (''/sys/class/net/'' @ u @ ''/link_state'')) = 128"
    using f assms(1) unfolding f_def [symmetric] by (simp_all add: cstring_def)
qed

lemma overlaid_state:
  assumes "length buf = 128" "100 \<le> n" "n < 1000"
  shows "map lower (cstring (overlay (sprint_into buf (dec n @ [CHR 0x0A])) [CHR ''0'', CHR 0x0A]))
      = [CHR ''0'', CHR 0x0A, char_of (48 + n mod 10), CHR 0x0A]"
    and "map lower (cstring (overlay (sprint_into buf (dec n @ [CHR 0x0A])) [CHR ''0'', CHR ''x'', CHR ''0'', CHR 0x0A]))
      = [CHR ''0'', CHR ''x'', CHR ''0'', CHR 0x0A]"
proof -
  obtain a b where d: "dec n = [a, b, char_of (48 + n mod 10)]" using dec_three [OF assms(2,3)] by blast
  have "digit (char_of (48 + n mod 10)) < 10" "digit (CHR 0x00) = 36" by (simp_all add: digit_def Let_def)
  then have c: "char_of (48 + n mod 10) \<noteq> CHR 0x00" "lower (char_of (48 + n mod 10)) = char_of (48 + n mod 10)"
    by (auto simp: lower_def)
  have low: "lower (CHR ''0'') = CHR ''0''" "lower (CHR ''x'') = CHR ''x''" "lower (CHR 0x0A) = CHR 0x0A"
    by (simp_all add: lower_def)
  have b: "sprint_into buf (dec n @ [CHR 0x0A]) = [a, b, char_of (48 + n mod 10), CHR 0x0A, CHR 0x00] @ drop (Suc (Suc (Suc (Suc (Suc 0))))) buf"
    using assms(1) by (simp add: sprint_into_def overlay_def d)
  show "map lower (cstring (overlay (sprint_into buf (dec n @ [CHR 0x0A])) [CHR ''0'', CHR 0x0A]))
      = [CHR ''0'', CHR 0x0A, char_of (48 + n mod 10), CHR 0x0A]"
    "map lower (cstring (overlay (sprint_into buf (dec n @ [CHR 0x0A])) [CHR ''0'', CHR ''x'', CHR ''0'', CHR 0x0A]))
      = [CHR ''0'', CHR ''x'', CHR ''0'', CHR 0x0A]"
    using c unfolding b by (simp_all add: overlay_def cstring_def low)
qed


text \<open>Taking a QMAP connection down writes \<open>0x80 + pdp\<close> and reads the state of the driver back into
  the same buffer: the answer \<open>0x0\<close> takes the USB interface down, the answer \<open>0\<close> does not,
  because the last digit written stands behind it.\<close>

theorem qmap_link_off:
  assumes p: "usbnet_adapter p = Some u" "1 < qmap_mode p" "1 \<le> pdp p" "pdp p < 100"
    and u: "length u < 100" "CHR 0x00 \<notin> set u"
    and env: "opens env (''/sys/class/net/'' @ u @ ''/link_state'')" "length (garbage env) = 128"
  shows "\<exists>w. ql_set_driver_link_state (env\<lparr>shows_text := \<lambda>f. [CHR ''0'', CHR 0x0A]\<rparr>) p 0
        = Some [Write (''/sys/class/net/'' @ u @ ''/link_state'') w]
    \<and> ql_set_driver_link_state (env\<lparr>shows_text := \<lambda>f. [CHR ''0'', CHR ''x'', CHR ''0'', CHR 0x0A]\<rparr>) p 0
        = Some [Write (''/sys/class/net/'' @ u @ ''/link_state'') w, link_cmd u ''down'']
    \<and> length w = 128 \<and> cstring w = dec (nat (0x80 + pdp p)) @ [CHR 0x0A]"
proof -
  define f where "f = ''/sys/class/net/'' @ u @ ''/link_state''"
  define n where "n = nat (0x80 + pdp p)"
  have n: "100 \<le> n" "n < 1000" "dec_int (new_link_state p 0) = dec n"
    using p by (auto simp: n_def new_link_state_def dec_int_def)
  define buf where "buf = sprint_into (garbage env) f"
  have buf: "cstring buf = f" "length buf = 128"
    using link_file_name [OF env(2) u] by (simp_all add: buf_def f_def)
  define w where "w = sprint_into buf (dec n @ [CHR 0x0A])"
  note state = overlaid_state [OF buf(2) n(1,2), folded w_def]
  have open': "opens env f" using env(1) by (simp add: f_def)
  have w: "length w = 128 \<and> cstring w = dec n @ [CHR 0x0A]"
  proof -
    obtain a b where d: "dec n = [a, b, char_of (48 + n mod 10)]" using dec_three [OF n(1,2)] by blast
    have "CHR 0x00 \<notin> set (dec n)" using dec_digits(3) [of "CHR 0x00" n] by (auto simp: digit_def)
    then show ?thesis using buf(2) by (auto simp: w_def sprint_into_def overlay_def d cstring_def)
  qed
  have step: "ql_set_driver_link_state e p 0 = Some (Write f w #
      (if 1 < length (take 128 t) \<and> (map lower (cstring (overlay w (take 128 t))) = [CHR ''0'', CHR 0x0A]
          \<or> map lower (cstring (overlay w (take 128 t))) = [CHR ''0'', CHR ''x'', CHR ''0'', CHR 0x0A])
       then [link_cmd u ''down''] else []))"
    if e: "garbage e = garbage env" "opens e f" "shows_text e f = t" for e t
    using e(2) p(2) unfolding ql_set_driver_link_state_def p(1) Option.bind.bind_lunit Let_def e(1)
      f_def [symmetric] buf_def [symmetric] buf(1) n(3) w_def [symmetric] e(3) by simp
  have "ql_set_driver_link_state (env\<lparr>shows_text := \<lambda>f. [CHR ''0'', CHR 0x0A]\<rparr>) p 0 = Some [Write f w]"
    "ql_set_driver_link_state (env\<lparr>shows_text := \<lambda>f. [CHR ''0'', CHR ''x'', CHR ''0'', CHR 0x0A]\<rparr>) p 0
      = Some [Write f w, link_cmd u ''down'']"
    using state open' step [of "env\<lparr>shows_text := \<lambda>f. [CHR ''0'', CHR 0x0A]\<rparr>" "[CHR ''0'', CHR 0x0A]"]
      step [of "env\<lparr>shows_text := \<lambda>f. [CHR ''0'', CHR ''x'', CHR ''0'', CHR 0x0A]\<rparr>" "[CHR ''0'', CHR ''x'', CHR ''0'', CHR 0x0A]"]
    by simp_all
  with w show ?thesis unfolding f_def n_def by blast
qed

theorem qmap_link_off_witness:
  "\<exists>w. ql_set_driver_link_state (router_env\<lparr>shows_text := \<lambda>f. [CHR ''0'', CHR 0x0A]\<rparr>)
      (zero_profile\<lparr>usbnet_adapter := Some ''wwan0'', qmap_mode := 4, pdp := 1\<rparr>) 0
    = Some [Write ''/sys/class/net/wwan0/link_state'' w]"
  using qmap_link_off [of "zero_profile\<lparr>usbnet_adapter := Some ''wwan0'', qmap_mode := 4, pdp := 1\<rparr>" "''wwan0''" router_env]
  by (auto simp: router_env_def)

section \<open>The text of an IPv6 address\<close>

lemma hex2_digits: "length (hex2 a) = 2" "number 16 (hex2 a @ hex2 b) = 256 * unat a + unat b"
proof -
  have a: "unat a div 16 < 16" "unat b div 16 < 16"
    using unsigned_less [of a, where 'a = nat] unsigned_less [of b, where 'a = nat] by simp_all
  have m: "unat a mod 16 < 16" "unat b mod 16 < 16" by simp_all
  note d = digit_hex [OF a(1)] digit_hex [OF a(2)] digit_hex [OF m(1)] digit_hex [OF m(2)]
  show "length (hex2 a) = 2" by (simp add: hex2_def)
  have "number 16 (hex2 a @ hex2 b) = 16 * (16 * (16 * (unat a div 16) + unat a mod 16) + unat b div 16) + unat b mod 16"
    unfolding hex2_def number_def using d by (simp del: char_of_mod_256)
  also have "\<dots> = 256 * unat a + unat b"
  proof -
    have "16 * (16 * (16 * (x div 16) + x mod 16) + y div 16) + y mod 16 = 256 * x + y" for x y :: nat
      by presburger
    then show ?thesis .
  qed
  finally show "number 16 (hex2 a @ hex2 b) = 256 * unat a + unat b" .
qed

lemma ip6_text_groups:
  "length d = 2 * Suc m \<Longrightarrow> length (ip6_text d) = 5 * m + 4
     \<and> (\<forall>k \<le> m. number 16 (take 4 (drop (5 * k) (ip6_text d))) = 256 * unat (d ! (2 * k)) + unat (d ! (2 * k + 1)))"
proof (induction d arbitrary: m rule: ip6_text.induct)
  case (1 a b c d)
  then obtain m' where m: "m = Suc m'" by (cases m) auto
  have IH: "length (ip6_text (c # d)) = 5 * m' + 4"
    "\<And>k. k \<le> m' \<Longrightarrow> number 16 (take 4 (drop (5 * k) (ip6_text (c # d))))
       = 256 * unat ((c # d) ! (2 * k)) + unat ((c # d) ! (2 * k + 1))"
    using "1.IH" [of m'] "1.prems" m by auto
  have "number 16 (take 4 (drop (5 * k) (ip6_text (a # b # c # d))))
      = 256 * unat ((a # b # c # d) ! (2 * k)) + unat ((a # b # c # d) ! (2 * k + 1))" if "k \<le> m" for k
  proof (cases k)
    case 0
    then show ?thesis using hex2_digits(2) [of a b] hex2_digits(1) [of a] hex2_digits(1) [of b] by simp
  next
    case (Suc k')
    then show ?thesis using IH(2) [of k'] that m hex2_digits(1) [of a] hex2_digits(1) [of b] by simp
  qed
  with IH(1) m show ?case using hex2_digits(1) by simp
next
  case (2 a b)
  then show ?case using hex2_digits(2) [of a b] hex2_digits(1) [of a] hex2_digits(1) [of b] by simp
qed auto


definition v6_add_cmd :: "PROFILE_T \<Rightarrow> string \<Rightarrow> string \<Rightarrow> action" where
  "v6_add_cmd p t i = System (''ip -6 address add '' @ t @ ''/''
     @ dec (unat (PrefixLengthIPAddr (ipv6 p))) @ '' dev '' @ i)"

lemma dec_byte: "length (dec (unat (w :: byte))) \<le> 3"
proof -
  have "unat w < 256" using unsigned_less [of w, where 'a = nat] by simp
  then consider "unat w < 100" | "100 \<le> unat w" "unat w < 1000" by linarith
  then show ?thesis
  proof cases
    case 1
    then show ?thesis by (cases "unat w") (auto simp: dec_def)
  next
    case 2
    then show ?thesis using dec_three [of "unat w"] by auto
  qed
qed

text \<open>With an address and a prefix length the IPv6 setup gives the interface an address of eight
  groups of four digits that read back, in order, as the bytes the modem reported, and
  whole (not cut by the 128-byte buffer) for interface names of up to 50 characters.\<close>

theorem ipv6_address_set:
  assumes "length (v6Address (ipv6 p)) = 16" "hd (v6Address (ipv6 p)) \<noteq> 0" "PrefixLengthIPAddr (ipv6 p) \<noteq> 0"
    and "length i \<le> 50"
  shows "\<exists>t rest. set_ipv6 p i = v6_add_cmd p t i # rest \<and> length t = 39
    \<and> (\<forall>k < 8. number 16 (take 4 (drop (5 * k) t))
         = 256 * unat (v6Address (ipv6 p) ! (2 * k)) + unat (v6Address (ipv6 p) ! (2 * k + 1)))"
proof -
  define t where "t = ip6_text (v6Address (ipv6 p))"
  have t: "length t = 39" "\<And>k. k \<le> 7 \<Longrightarrow> number 16 (take 4 (drop (5 * k) t))
      = 256 * unat (v6Address (ipv6 p) ! (2 * k)) + unat (v6Address (ipv6 p) ! (2 * k + 1))"
    using ip6_text_groups [of "v6Address (ipv6 p)" 7] assms(1) by (simp_all add: t_def)
  define s where "s = ''ip -6 address add '' @ t @ ''/'' @ dec (unat (PrefixLengthIPAddr (ipv6 p))) @ '' dev '' @ i"
  have "length s < 128" using t(1) dec_byte [of "PrefixLengthIPAddr (ipv6 p)"] assms(4) by (simp add: s_def)
  then have "snprintf 128 s = s" by simp
  then have "\<exists>rest. set_ipv6 p i = System s # rest"
    using assms(2,3) unfolding set_ipv6_def Let_def t_def [symmetric] s_def [symmetric] by simp
  with t show ?thesis unfolding v6_add_cmd_def s_def by (auto simp: less_Suc_eq_le numeral_eq_Suc)
qed

theorem ipv6_address_set_witness:
  "\<exists>t rest. set_ipv6 (zero_profile\<lparr>ipv6 := zero_ipv6\<lparr>v6Address := 0x20 # replicate 15 1, PrefixLengthIPAddr := 64\<rparr>\<rparr>) ''wwan0''
     = v6_add_cmd (zero_profile\<lparr>ipv6 := zero_ipv6\<lparr>v6Address := 0x20 # replicate 15 1, PrefixLengthIPAddr := 64\<rparr>\<rparr>) t ''wwan0'' # rest
   \<and> length t = 39"
  using ipv6_address_set [of "zero_profile\<lparr>ipv6 := zero_ipv6\<lparr>v6Address := 0x20 # replicate 15 1, PrefixLengthIPAddr := 64\<rparr>\<rparr>" "''wwan0''"]
  by simp blast

end
