(* ===== verification/Processes.thy ===== *)
theory Processes
  imports Device
begin

text \<open>
  Ending other instances of the program (\<open>kill_brothers\<close> in \<open>main.c\<close>): a walk over \<open>/proc\<close>
  for older processes that have the same control device open. The file system is that of
  \<open>Device\<close>; \<open>alive pid k\<close> says whether \<open>kill(pid, 0)\<close> still succeeds after the process was sent
  \<open>k\<close> termination signals and one second passed after each. The result is the list of signals sent.
\<close>

abbreviation (input) "SIGKILL \<equiv> (9 :: int)"
abbreviation (input) "SIGTERM \<equiv> (15 :: int)"

type_synonym sent_signals = "(int \<times> int) list"

section \<open>The walk\<close>

text \<open>
  \<open>readlink\<close> with \<open>MAX_PATH\<close> bytes; the zero behind a target of 256 or more bytes is
  stored outside the buffer. An empty or missing link is \<open>Some None\<close>.
\<close>

definition read_link :: "sysfs \<Rightarrow> string \<Rightarrow> string option option" where
  "read_link fs linkname = (case link_text fs linkname of
     None \<Rightarrow> Some None
   | Some t \<Rightarrow> if t = [] then Some None else if 256 \<le> length t then None else Some (Some (cstring t)))"

definition is_same_linkfile :: "sysfs \<Rightarrow> string \<Rightarrow> string \<Rightarrow> string \<Rightarrow> (nat \<times> sent_signals) option" where
  "is_same_linkfile fs channel dir f = do {
     target \<leftarrow> read_link fs (snprintf 256 (dir @ ''/'' @ f));
     Some (if target = Some channel then 1 else 0, []) }"

fun ls_entries :: "(string \<Rightarrow> (nat \<times> sent_signals) option) \<Rightarrow> string list \<Rightarrow> (nat \<times> sent_signals) option" where
  "ls_entries match [] = Some (0, [])"
| "ls_entries match (f # fs) = do {
     (n, s) \<leftarrow> match f;
     (n', s') \<leftarrow> ls_entries match fs;
     Some (n + n', s @ s') }"

definition ls_dir :: "sysfs \<Rightarrow> string \<Rightarrow> (string \<Rightarrow> string \<Rightarrow> (nat \<times> sent_signals) option) \<Rightarrow> (nat \<times> sent_signals) option" where
  "ls_dir fs dir match = (case dirs fs dir of None \<Rightarrow> Some (0, []) | Some es \<Rightarrow> ls_entries (match dir) es)"

definition isdigit :: "char \<Rightarrow> bool" where
  "isdigit c \<longleftrightarrow> 48 \<le> (of_char c :: nat) \<and> (of_char c :: nat) \<le> 57"

text \<open>At most \<open>n\<close> more termination signals, one a second, while the process lives.\<close>

fun term_loop :: "(nat \<Rightarrow> bool) \<Rightarrow> nat \<Rightarrow> nat \<Rightarrow> nat" where
  "term_loop lives 0 k = k"
| "term_loop lives (Suc n) k = (if lives k then term_loop lives n (Suc k) else k)"

definition end_process :: "(int \<Rightarrow> nat \<Rightarrow> bool) \<Rightarrow> int \<Rightarrow> sent_signals" where
  "end_process alive pid =
     (let k = term_loop (alive pid) 15 0
      in replicate k (pid, SIGTERM) @ (if alive pid k then [(pid, SIGKILL)] else []))"

definition is_brother_process ::
  "sysfs \<Rightarrow> int \<Rightarrow> (int \<Rightarrow> nat \<Rightarrow> bool) \<Rightarrow> string \<Rightarrow> string \<Rightarrow> string \<Rightarrow> (nat \<times> sent_signals) option" where
  "is_brother_process fs self alive channel dir f =
     (if \<not> list_all isdigit f then Some (0, [])
      else do {
        target \<leftarrow> read_link fs (snprintf 256 (dir @ ''/'' @ f @ ''/exe''));
        if target = None then Some (0, [])
        else
          let pid = atoi f
          in if self \<le> pid then Some (0, [])
             else do {
               (n, _) \<leftarrow> ls_dir fs (snprintf 256 (dir @ ''/'' @ f @ ''/fd'')) (is_same_linkfile fs channel);
               Some (if n = 0 then (0, []) else (1, end_process alive pid)) } })"

definition kill_brothers :: "sysfs \<Rightarrow> int \<Rightarrow> (int \<Rightarrow> nat \<Rightarrow> bool) \<Rightarrow> string \<Rightarrow> sent_signals option" where
  "kill_brothers fs self alive channel = do {
     myself \<leftarrow> read_link fs ''/proc/self/exe'';
     if myself = None then Some []
     else do {
       (_, s) \<leftarrow> ls_dir fs ''/proc'' (is_brother_process fs self alive channel);
       Some s } }"

section \<open>Who is ended\<close>

lemma term_loop_count:
  "term_loop lives n k = k + length (takeWhile lives [k..<k + n])"
proof (induction n arbitrary: k)
  case (Suc n)
  have "[k..<k + Suc n] = k # [Suc k..<Suc k + n]" by (simp add: upt_rec)
  with Suc show ?case by simp
qed simp

lemma ls_entries_Some:
  "ls_entries match es = Some (n, s) \<Longrightarrow>
    s = concat (map (\<lambda>e. snd (the (match e))) es) \<and> n = sum_list (map (\<lambda>e. fst (the (match e))) es)
    \<and> (\<forall>e \<in> set es. match e \<noteq> None)"
  by (induction es arbitrary: n s) auto

text \<open>The processes below \<open>dir\<close> that hold the device open, as the walk should find them.\<close>

definition holds_open :: "sysfs \<Rightarrow> string \<Rightarrow> string \<Rightarrow> string \<Rightarrow> bool" where
  "holds_open fs dir channel f \<longleftrightarrow> (case dirs fs (dir @ ''/'' @ f @ ''/fd'') of None \<Rightarrow> False
     | Some ds \<Rightarrow> \<exists>d \<in> set ds. map_option cstring (link_text fs (dir @ ''/'' @ f @ ''/fd/'' @ d)) = Some channel)"

definition older_brother :: "sysfs \<Rightarrow> int \<Rightarrow> string \<Rightarrow> string \<Rightarrow> string \<Rightarrow> bool" where
  "older_brother fs self dir channel f \<longleftrightarrow> list_all isdigit f \<and> atoi f < self
     \<and> link_text fs (dir @ ''/'' @ f @ ''/exe'') \<notin> {None, Some []} \<and> holds_open fs dir channel f"

text \<open>Names that fit the buffers, and link targets shorter than \<open>MAX_PATH\<close>.\<close>

definition short_names :: "sysfs \<Rightarrow> string \<Rightarrow> string list \<Rightarrow> bool" where
  "short_names fs dir es \<longleftrightarrow> length dir < 20 \<and> (\<forall>f \<in> set es. length f < 100
     \<and> (\<forall>ds. dirs fs (dir @ ''/'' @ f @ ''/fd'') = Some ds \<longrightarrow> (\<forall>d \<in> set ds. length d < 100)))"

definition short_links :: "sysfs \<Rightarrow> bool" where
  "short_links fs \<longleftrightarrow> (\<forall>p t. link_text fs p = Some t \<longrightarrow> length t < 256)"

lemma read_link_short:
  "short_links fs \<Longrightarrow> read_link fs p =
     Some (case link_text fs p of None \<Rightarrow> None | Some t \<Rightarrow> if t = [] then None else Some (cstring t))"
  unfolding short_links_def read_link_def by (simp add: not_le [symmetric] split: option.splits)

lemma ls_entries_eq:
  "\<forall>e \<in> set es. match e = Some (f e) \<Longrightarrow>
    ls_entries match es = Some (sum_list (map (\<lambda>e. fst (f e)) es), concat (map (\<lambda>e. snd (f e)) es))"
  by (induction es) (auto simp: case_prod_beta)

lemma count_holds: "sum_list (map (\<lambda>d. if P d then 1 else 0 :: nat) ds) = 0 \<longleftrightarrow> (\<forall>d \<in> set ds. \<not> P d)"
  by (induction ds) auto

lemma open_files:
  assumes "short_names fs dir es" "short_links fs" "f \<in> set es" "channel \<noteq> []"
  shows "\<exists>n. ls_dir fs (dir @ ''/'' @ f @ ''/fd'') (is_same_linkfile fs channel) = Some (n, [])
    \<and> (n = 0 \<longleftrightarrow> \<not> holds_open fs dir channel f)"
proof (cases "dirs fs (dir @ ''/'' @ f @ ''/fd'')")
  case None
  then show ?thesis by (simp add: ls_dir_def holds_open_def)
next
  case (Some ds)
  let ?m = "\<lambda>d. map_option cstring (link_text fs (dir @ ''/'' @ f @ ''/fd/'' @ d)) = Some channel"
  have "is_same_linkfile fs channel (dir @ ''/'' @ f @ ''/fd'') d = Some (if ?m d then 1 else 0, [])"
    if "d \<in> set ds" for d
  proof -
    have len: "length d < 100" "length f < 100" "length dir < 20"
      using assms(1,3) Some that by (auto simp: short_names_def)
    then show ?thesis using assms(4) unfolding is_same_linkfile_def read_link_short [OF assms(2)]
      by (auto split: option.splits simp: cstring_def)
  qed
  then have "ls_entries (is_same_linkfile fs channel (dir @ ''/'' @ f @ ''/fd'')) ds
      = Some (sum_list (map (\<lambda>d. if ?m d then 1 else 0) ds), [])"
    using ls_entries_eq [of ds _ "\<lambda>d. (if ?m d then 1 else 0, [])"]
    by (simp add: if_distrib [of fst] del: append_Cons append_Nil cong: if_cong)
  moreover have "sum_list (map (\<lambda>d. if ?m d then 1 else 0 :: nat) ds) = 0 \<longleftrightarrow> \<not> (\<exists>d \<in> set ds. ?m d)"
    unfolding count_holds by blast
  ultimately show ?thesis unfolding ls_dir_def holds_open_def Some option.case by (intro exI conjI)
qed

lemma brother_eq:
  assumes "short_names fs dir es" "short_links fs" "f \<in> set es" "channel \<noteq> []"
  shows "is_brother_process fs self alive channel dir f =
    Some (if older_brother fs self dir channel f then (1, end_process alive (atoi f)) else (0, []))"
proof -
  obtain n where n: "ls_dir fs (dir @ ''/'' @ f @ ''/fd'') (is_same_linkfile fs channel) = Some (n, [])"
    "n = 0 \<longleftrightarrow> \<not> holds_open fs dir channel f"
    using open_files [OF assms] by blast
  have len: "length f < 100" "length dir < 20" using assms(1,3) by (auto simp: short_names_def)
  then have fits: "snprintf 256 (dir @ ''/'' @ f @ ''/exe'') = dir @ ''/'' @ f @ ''/exe''"
    "snprintf 256 (dir @ ''/'' @ f @ ''/fd'') = dir @ ''/'' @ f @ ''/fd''" by simp_all
  show ?thesis
    unfolding is_brother_process_def fits read_link_short [OF assms(2)] older_brother_def n(1)
    using n(2) by (auto simp: Let_def simp del: append_Cons append_Nil split: option.splits)
qed

lemma end_process_signals:
  "end_process alive pid = (let k = length (takeWhile (alive pid) [0..<15])
     in replicate k (pid, SIGTERM) @ (if alive pid k then [(pid, SIGKILL)] else []))"
  by (simp add: end_process_def term_loop_count)

lemma survives_all: "lives (length (takeWhile lives [0..<n])) \<longleftrightarrow> (\<forall>k \<le> n. lives k)"
proof (cases "\<forall>k < n. lives k")
  case True
  then have "length (takeWhile lives [0..<n]) = n" by (simp add: takeWhile_eq_all_conv [THEN iffD2])
  with True show ?thesis by (auto simp: le_less)
next
  case False
  let ?t = "takeWhile lives [0..<n]"
  have "length ?t \<noteq> n"
  proof
    assume "length ?t = n"
    then have "?t = [0..<n]" using takeWhile_eq_take [of lives "[0..<n]"] by simp
    with False show False unfolding takeWhile_eq_all_conv by simp
  qed
  moreover have "length ?t \<le> n" using length_takeWhile_le [of lives "[0..<n]"] by simp
  ultimately have "length ?t < n" by simp
  then have "\<not> lives (length ?t)" using nth_length_takeWhile [of lives "[0..<n]"] by simp
  with False show ?thesis using less_imp_le by blast
qed

text \<open>C40: With names and link targets that fit their buffers, the processes that are sent signals are
  those with a smaller number that have the device open, in the order of \<open>/proc\<close>; each gets
  a termination signal for each second that it survives, at most fifteen, and is killed exactly when
  it survives the fifteenth.\<close>

theorem older_holders_ended:
  assumes "dirs fs ''/proc'' = Some es" "short_names fs ''/proc'' es" "short_links fs" "channel \<noteq> []"
    and "link_text fs ''/proc/self/exe'' = Some myself" "myself \<noteq> []"
  shows "kill_brothers fs self alive channel = Some (concat (map (\<lambda>f. end_process alive (atoi f))
        (filter (older_brother fs self ''/proc'' channel) es)))
    \<and> count_list (end_process alive pid) (pid, SIGTERM) = length (takeWhile (alive pid) [0..<15])
    \<and> ((pid, SIGKILL) \<in> set (end_process alive pid) \<longleftrightarrow> (\<forall>k \<le> 15. alive pid k))"
proof -
  have "ls_entries (is_brother_process fs self alive channel ''/proc'') es =
      Some (sum_list (map (\<lambda>f. if older_brother fs self ''/proc'' channel f then 1 else 0) es),
        concat (map (\<lambda>f. if older_brother fs self ''/proc'' channel f then end_process alive (atoi f) else []) es))"
    using ls_entries_eq [of es _ "\<lambda>f. if older_brother fs self ''/proc'' channel f then (1, end_process alive (atoi f)) else (0, [])"]
      brother_eq [OF assms(2,3) _ assms(4)] by (simp add: if_distrib [of fst] if_distrib [of snd] cong: if_cong)
  moreover have "concat (map (\<lambda>f. if P f then g f else []) es) = concat (map g (filter P es))" for P g
    by (induction es) auto
  ultimately have "kill_brothers fs self alive channel = Some (concat (map (\<lambda>f. end_process alive (atoi f))
        (filter (older_brother fs self ''/proc'' channel) es)))"
    using assms(1,5,6) by (simp add: kill_brothers_def read_link_short [OF assms(3)] ls_dir_def)
  moreover have "count_list (replicate n x) x = n" for n and x :: "int \<times> int" by (induction n) auto
  ultimately show ?thesis using survives_all [of "alive pid" 15]
    by (simp add: end_process_signals Let_def)
qed

text \<open>Process 7 holds the device open and is killed, process 12 is ended by its second signal.\<close>

definition proc_fs :: sysfs where
  "proc_fs = \<lparr>dirs = look [(''/proc'', [''self'', ''7'', ''9'', ''12'', ''50'']), (''/proc/7/fd'', [''.'', ''3'']),
       (''/proc/9/fd'', [''3'']), (''/proc/12/fd'', [''4'']), (''/proc/50/fd'', [''3''])],
     file_text = (\<lambda>_. None), access_errno = (\<lambda>_. None),
     link_text = look [(''/proc/self/exe'', ''/bin/cm''), (''/proc/7/exe'', ''/bin/cm''), (''/proc/9/exe'', ''/bin/sh''),
       (''/proc/12/exe'', ''/bin/cm''), (''/proc/50/exe'', ''/bin/cm''), (''/proc/7/fd/3'', ''/dev/cdc-wdm0''),
       (''/proc/9/fd/3'', ''/dev/null''), (''/proc/12/fd/4'', ''/dev/cdc-wdm0''), (''/proc/50/fd/3'', ''/dev/cdc-wdm0'')]\<rparr>"

theorem older_holders_ended_witness:
  "kill_brothers proc_fs 50 (\<lambda>pid k. pid = 7 \<or> k < 2) ''/dev/cdc-wdm0'' =
    Some (replicate 15 (7, SIGTERM) @ [(7, SIGKILL), (12, SIGTERM), (12, SIGTERM)])"
proof -
  have es: "dirs proc_fs ''/proc'' = Some [''self'', ''7'', ''9'', ''12'', ''50'']" by (simp add: proc_fs_def look_def)
  have s: "short_names proc_fs ''/proc'' [''self'', ''7'', ''9'', ''12'', ''50'']"
    by (simp add: short_names_def proc_fs_def look_def)
  have l: "short_links proc_fs" by (auto simp: short_links_def proc_fs_def look_def split: if_splits)
  have a: "atoi ''7'' = 7" "atoi ''9'' = 9" "atoi ''12'' = 12" "atoi ''50'' = 50"
    by (simp_all add: atoi_def to_int_def strtol_def isspace_def digit_def number_def)
  have o: "filter (older_brother proc_fs 50 ''/proc'' ''/dev/cdc-wdm0'') [''self'', ''7'', ''9'', ''12'', ''50''] = [''7'', ''12'']"
    by (simp add: older_brother_def holds_open_def proc_fs_def look_def isdigit_def cstring_def a)
  have e: "end_process (\<lambda>pid k. pid = 7 \<or> k < 2) 7 = replicate 15 (7, SIGTERM) @ [(7, SIGKILL)]"
    "end_process (\<lambda>pid k. pid = 7 \<or> k < 2) 12 = [(12, SIGTERM), (12, SIGTERM)]"
    by (simp_all add: end_process_def eval_nat_numeral Let_def)
  have "link_text proc_fs ''/proc/self/exe'' = Some ''/bin/cm''" by (simp add: proc_fs_def look_def)
  from older_holders_ended [OF es s l _ this, of "''/dev/cdc-wdm0''" 50 "\<lambda>pid k. pid = 7 \<or> k < 2"]
  have "kill_brothers proc_fs 50 (\<lambda>pid k. pid = 7 \<or> k < 2) ''/dev/cdc-wdm0'' =
    Some (concat (map (\<lambda>f. end_process (\<lambda>pid k. pid = 7 \<or> k < 2) (atoi f)) [''7'', ''12'']))"
    unfolding o by blast
  then show ?thesis by (simp only: list.map concat.simps a e append_assoc append_Cons append_Nil append_Nil2)
qed

end
