(* ===== verification/Manager.thy ===== *)
theory Manager
  imports Dump NetSetup Processes
begin

text \<open>
  The main loop of \<open>main.c\<close>: the state of the connection, the handlers of the three signals
  that it sends to itself and of the events of the reader thread, the start of a session
  and the reading of the command line. The requests are those of \<open>QMIThread.c\<close>; starting
  and stopping the DHCP client (\<open>udhcpc_start\<close>, \<open>udhcpc_stop\<close>) is recorded in a log. Each
  call of \<open>clock_msec\<close> takes the next value of a clock.
\<close>

section \<open>The state\<close>

abbreviation (input) "QMI_ERR_OP_DEVICE_UNSUPPORTED \<equiv> (0x0019 :: int)"

text \<open>
  The packet state and the SIM state are \<open>None\<close> until they are first assigned; \<open>signals\<close> and
  \<open>to_thread\<close> are what was written into the control sockets and not read. \<open>signals_sent\<close> are those of \<open>kill_brothers\<close>. \<open>dhcp\<close> is the log of the
  calls of \<open>udhcpc_start\<close> (\<open>True\<close>) and \<open>udhcpc_stop\<close> with the profile they are given.
\<close>

record manager =
  prof :: PROFILE_T
  SIMStatus :: "SIM_Status option"
  PSAttachedState :: "byte option"
  IPv4ConnectionStatus :: byte
  IPv6ConnectionStatus :: byte
  SetupCallFail :: nat
  SetupCallAllowTime :: "64 word"
  s_link :: int
  timer :: u32
  signals :: "int list"
  to_thread :: "int list"
  dhcp :: "(bool \<times> PROFILE_T) list"
  main_loop :: bool
  clock_calls :: nat
  signals_sent :: sent_signals
  modem_state :: qmi

type_synonym clock = "nat \<Rightarrow> 64 word"

definition now :: "clock \<Rightarrow> manager \<Rightarrow> 64 word \<times> manager" where
  "now clk m = (clk (clock_calls m), m\<lparr>clock_calls := Suc (clock_calls m)\<rparr>)"

definition usbnet_link_state :: "int \<Rightarrow> manager \<Rightarrow> manager" where
  "usbnet_link_state st m = m\<lparr>s_link := if st \<noteq> 0 then 1 else 0\<rparr>"

definition usbnet_link_change :: "int \<Rightarrow> manager \<Rightarrow> manager" where
  "usbnet_link_change link m =
     (if s_link m = link then m else m\<lparr>s_link := link, dhcp := dhcp m @ [(link \<noteq> 0, prof m)]\<rparr>)"

definition send_signo_to_main :: "int \<Rightarrow> manager \<Rightarrow> manager" where
  "send_signo_to_main signo m = m\<lparr>signals := signals m @ [signo]\<rparr>"

definition main_send_event_to_qmidevice :: "int \<Rightarrow> manager \<Rightarrow> manager" where
  "main_send_event_to_qmidevice ev m = m\<lparr>to_thread := to_thread m @ [ev]\<rparr>"

definition ql_sigaction :: "bool \<Rightarrow> manager \<Rightarrow> manager" where
  \<comment> \<open>the argument says whether the signal is \<open>SIGALRM\<close>\<close>
  "ql_sigaction is_alarm m =
     (if is_alarm then send_signo_to_main SIG_EVENT_START m
      else main_send_event_to_qmidevice SIG_EVENT_STOP
             (send_signo_to_main SIG_EVENT_STOP (m\<lparr>main_loop := False\<rparr>)))"

section \<open>The signal handlers\<close>

definition check_ipv4_address :: "modem \<Rightarrow> PROFILE_T \<Rightarrow> qmi \<Rightarrow> (bool \<times> qmi) option" where
  "check_ipv4_address env now_profile s = do {
     (err, new_profile, s) \<leftarrow> requestGetIPAddress env now_profile IpFamilyV4 s;
     Some (err = 0 \<and> v4Address (ipv4 new_profile) = v4Address (ipv4 now_profile), s) }"

definition given :: "string option \<Rightarrow> bool" where
  \<comment> \<open>\<open>p && p[0]\<close>\<close>
  "given x \<longleftrightarrow> x \<noteq> None \<and> x \<noteq> Some ''''"

definition start_ipv4 :: "modem \<Rightarrow> manager \<Rightarrow> manager option" where
  "start_ipv4 env m =
     (if enable_ipv4 (prof m) \<noteq> 0 \<and> IPv4ConnectionStatus m \<noteq> QWDS_PKT_DATA_CONNECTED then do {
        (qmierr, p, s) \<leftarrow> requestSetupDataCall env (prof m) IpFamilyV4 (modem_state m);
        (qmierr, p, s) \<leftarrow> (if qmierr > 0 \<and> given (user p) \<and> given (password p) then do {
            let old_auth = auth p;
            (qmierr, p, s) \<leftarrow> requestSetupDataCall env (p\<lparr>auth := if auth p = 1 then 2 else 1\<rparr>) IpFamilyV4 s;
            Some (qmierr, if qmierr \<noteq> 0 then p\<lparr>auth := old_auth\<rparr> else p, s) }
          else Some (qmierr, p, s));
        (qmierr, p, s) \<leftarrow> (if qmierr = 0 then requestGetIPAddress env p IpFamilyV4 s else Some (qmierr, p, s));
        Some (m\<lparr>prof := p, modem_state := s, IPv4ConnectionStatus :=
          if qmierr = 0 then QWDS_PKT_DATA_CONNECTED else IPv4ConnectionStatus m\<rparr>) }
      else Some m)"

definition start_ipv6 :: "modem \<Rightarrow> manager \<Rightarrow> manager option" where
  "start_ipv6 env m =
     (if enable_ipv6 (prof m) \<noteq> 0 \<and> IPv6ConnectionStatus m \<noteq> QWDS_PKT_DATA_CONNECTED then do {
        (qmierr, p, s) \<leftarrow> requestSetupDataCall env (prof m) IpFamilyV6 (modem_state m);
        (qmierr, p, s) \<leftarrow> (if qmierr = 0 then requestGetIPAddress env p IpFamilyV6 s else Some (qmierr, p, s));
        Some (m\<lparr>prof := p, modem_state := s, IPv6ConnectionStatus :=
          if qmierr = 0 then QWDS_PKT_DATA_CONNECTED else IPv6ConnectionStatus m\<rparr>) }
      else Some m)"

definition wanted_down :: "manager \<Rightarrow> bool" where
  "wanted_down m \<longleftrightarrow>
     enable_ipv4 (prof m) \<noteq> 0 \<and> IPv4ConnectionStatus m = QWDS_PKT_DATA_DISCONNECTED
     \<or> enable_ipv6 (prof m) \<noteq> 0 \<and> IPv6ConnectionStatus m = QWDS_PKT_DATA_DISCONNECTED"

definition some_up :: "manager \<Rightarrow> bool" where
  "some_up m \<longleftrightarrow> IPv4ConnectionStatus m = QWDS_PKT_DATA_CONNECTED
     \<or> IPv6ConnectionStatus m = QWDS_PKT_DATA_CONNECTED"

text \<open>The waiting times between failed calls, in seconds.\<close>

definition allow_time :: "64 word list" where
  "allow_time = [5, 10, 20, 40, 60]"

definition retry_time :: "nat \<Rightarrow> 64 word" where
  "retry_time n = (if n < length allow_time then allow_time ! n else 60)"

definition schedule_retry :: "clock \<Rightarrow> manager \<Rightarrow> manager" where
  "schedule_retry clk m =
     (if wanted_down m then
        let t = retry_time (SetupCallFail m);
            (c, m) = now clk m
        in m\<lparr>SetupCallFail := Suc (SetupCallFail m), timer := ucast t, SetupCallAllowTime := t * 1000 + c\<rparr>
      else if some_up m then
        let (c, m) = now clk m in m\<lparr>SetupCallFail := 0, SetupCallAllowTime := c\<rparr>
      else m)"

text \<open>An unassigned packet state is undefined to compare.\<close>

definition sig_start :: "clock \<Rightarrow> modem \<Rightarrow> manager \<Rightarrow> manager option" where
  "sig_start clk env m = do {
     ps \<leftarrow> PSAttachedState m;
     if ps \<noteq> 1 then Some m
     else
       let (c, m) = now clk m
       in if SetupCallAllowTime m > c then
            let (c, m) = now clk m
            in Some (m\<lparr>timer := ucast ((SetupCallAllowTime m - c + 999) div 1000)\<rparr>)
          else do {
            m \<leftarrow> start_ipv4 env m;
            m \<leftarrow> start_ipv6 env m;
            Some (schedule_retry clk m) } }"

definition check_families :: "modem \<Rightarrow> manager \<Rightarrow> manager option" where
  "check_families env m = do {
     m \<leftarrow> (if enable_ipv4 (prof m) \<noteq> 0 then do {
          (_, st, s) \<leftarrow> requestQueryDataCall env (IPv4ConnectionStatus m) IpFamilyV4 (modem_state m);
          (same, s) \<leftarrow> (if st = QWDS_PKT_DATA_CONNECTED then check_ipv4_address env (prof m) s else Some (True, s));
          (st, s) \<leftarrow> (if same then Some (st, s)
            else do { (_, s) \<leftarrow> requestDeactivateDefaultPDP env IpFamilyV4 s; Some (QWDS_PKT_DATA_DISCONNECTED, s) });
          Some (m\<lparr>IPv4ConnectionStatus := st, modem_state := s\<rparr>) }
        else Some (m\<lparr>IPv4ConnectionStatus := QWDS_PKT_DATA_DISCONNECTED\<rparr>));
     if enable_ipv6 (prof m) \<noteq> 0 then do {
       (_, st, s) \<leftarrow> requestQueryDataCall env (IPv6ConnectionStatus m) IpFamilyV6 (modem_state m);
       Some (m\<lparr>IPv6ConnectionStatus := st, modem_state := s\<rparr>) }
     else Some (m\<lparr>IPv6ConnectionStatus := QWDS_PKT_DATA_DISCONNECTED\<rparr>) }"

definition check_link :: "manager \<Rightarrow> manager" where
  "check_link m =
     (let m = (if IPv4ConnectionStatus m = QWDS_PKT_DATA_DISCONNECTED
                   \<and> IPv6ConnectionStatus m = QWDS_PKT_DATA_DISCONNECTED
               then usbnet_link_change 0 m
               else if some_up m then usbnet_link_change 1 m else m)
      in if wanted_down m then send_signo_to_main SIG_EVENT_START m else m)"

definition sig_check :: "modem \<Rightarrow> manager \<Rightarrow> manager option" where
  "sig_check env m = do { m \<leftarrow> check_families env m; Some (check_link m) }"

definition deinit :: "modem \<Rightarrow> stack \<Rightarrow> qmi \<Rightarrow> qmi option" where
  \<comment> \<open>\<open>profile->qmi_ops->deinit()\<close>\<close>
  "deinit env stk s = (case dev s of GobiNet \<Rightarrow> Some (GobiNetDeInit s) | _ \<Rightarrow> QmiWwanDeInit env stk s)"

definition deactivate :: "modem \<Rightarrow> bool \<Rightarrow> int \<Rightarrow> qmi \<Rightarrow> qmi option" where
  "deactivate env up fam s =
     (if up then do { (_, s) \<leftarrow> requestDeactivateDefaultPDP env fam s; Some s } else Some s)"

definition sig_stop :: "modem \<Rightarrow> stack \<Rightarrow> manager \<Rightarrow> manager option" where
  "sig_stop env stk m = do {
     s \<leftarrow> deactivate env (enable_ipv4 (prof m) \<noteq> 0 \<and> IPv4ConnectionStatus m = QWDS_PKT_DATA_CONNECTED)
            IpFamilyV4 (modem_state m);
     s \<leftarrow> deactivate env (enable_ipv6 (prof m) \<noteq> 0 \<and> IPv6ConnectionStatus m = QWDS_PKT_DATA_CONNECTED)
            IpFamilyV6 s;
     let m = usbnet_link_change 0 (m\<lparr>modem_state := s\<rparr>);
     s \<leftarrow> deinit env stk (modem_state m);
     Some (main_send_event_to_qmidevice RIL_REQUEST_QUIT (m\<lparr>modem_state := s\<rparr>)) }"

section \<open>The events of the reader thread\<close>

text \<open>A request that fails before it assigns leaves the packet state as it was.\<close>

definition registration_state :: "modem \<Rightarrow> manager \<Rightarrow> manager option" where
  "registration_state env m = do {
     (err, ps, _, s) \<leftarrow> requestRegistrationState env 0 (modem_state m);
     Some (m\<lparr>modem_state := s, PSAttachedState :=
       if err \<noteq> 0 \<and> s_9x07 (modem_state m) = 0 then PSAttachedState m else Some ps\<rparr>) }"

datatype next_step = Continue | Restart | Leave

definition device_event :: "clock \<Rightarrow> modem \<Rightarrow> int \<Rightarrow> manager \<Rightarrow> (next_step \<times> manager) option" where
  "device_event clk env ev m =
     (if ev = RIL_INDICATE_DEVICE_DISCONNECTED then
        let m = usbnet_link_change 0 m
        in Some (if main_loop m
                 then (Restart, m\<lparr>prof := (prof m)\<lparr>qmichannel := None, usbnet_adapter := None\<rparr>\<rparr>)
                 else (Leave, m))
      else if ev = RIL_UNSOL_RESPONSE_VOICE_NETWORK_STATE_CHANGED then do {
        m \<leftarrow> registration_state env m;
        ps \<leftarrow> PSAttachedState m;
        Some (Continue,
          if ps = 1 then (if wanted_down m then send_signo_to_main SIG_EVENT_START m else m)
          else let (c, m) = now clk m in m\<lparr>SetupCallAllowTime := c\<rparr>) }
      else if ev = RIL_UNSOL_DATA_CALL_LIST_CHANGED then
        let m = (if some_up m then let (c, m) = now clk m in m\<lparr>SetupCallAllowTime := c + 1000\<rparr> else m)
        in Some (Continue, send_signo_to_main SIG_EVENT_CHECK m)
      else if ev = MODEM_REPORT_RESET_EVENT then
        Some (Restart, usbnet_link_state 0 (main_send_event_to_qmidevice RIL_REQUEST_QUIT m))
      else Some (Continue, m))"

section \<open>The loop\<close>

text \<open>
  What can happen at a \<open>poll\<close>: it times out or fails, a control socket has an error or is
  closed, the oldest signal or an event of the reader thread is read. Signals of the
  operating system come in between.
\<close>

datatype input = Timeout | Poll_fails | Socket_error bool | Signal | Device int | Raise bool

definition read_signal :: "clock \<Rightarrow> modem \<Rightarrow> stack \<Rightarrow> manager \<Rightarrow> (next_step \<times> manager) option" where
  "read_signal clk env stk m = (case signals m of
     [] \<Rightarrow> Some (Continue, m)
   | signo # rest \<Rightarrow>
       let m = m\<lparr>signals := rest, timer := 0\<rparr>
       in if signo = SIG_EVENT_START then do { m \<leftarrow> sig_start clk env m; Some (Continue, m) }
          else if signo = SIG_EVENT_CHECK then do { m \<leftarrow> sig_check env m; Some (Continue, m) }
          else if signo = SIG_EVENT_STOP then do { m \<leftarrow> sig_stop env stk m; Some (Leave, m) }
          else Some (Continue, m))"

fun main_step :: "clock \<Rightarrow> modem \<Rightarrow> stack \<Rightarrow> input \<Rightarrow> manager \<Rightarrow> (next_step \<times> manager) option" where
  "main_step clk env stk Timeout m = Some (Continue, send_signo_to_main SIG_EVENT_CHECK m)"
| "main_step clk env stk Poll_fails m = Some (Leave, m)"
| "main_step clk env stk (Socket_error hup) m =
     Some (if hup then Leave else Continue, main_send_event_to_qmidevice RIL_REQUEST_QUIT m)"
| "main_step clk env stk Signal m = read_signal clk env stk m"
| "main_step clk env stk (Device ev) m = device_event clk env ev m"
| "main_step clk env stk (Raise is_alarm) m = Some (Continue, ql_sigaction is_alarm m)"

definition main_quit :: "manager \<Rightarrow> manager" where
  "main_quit m = usbnet_link_change 0 m"


section \<open>The start of a session\<close>

text \<open>
  Waiting for a device: a failed detection is tried again at once, for as long as it takes.
  \<open>fss k\<close> is the file system at attempt \<open>k\<close>; \<open>None\<close> is a loop that does not end (or undefined
  behaviour in the scan).
\<close>

partial_function (option) find_device :: "(nat \<Rightarrow> sysfs) \<Rightarrow> nat \<Rightarrow> PROFILE_T \<Rightarrow> PROFILE_T option" where
  "find_device fss k p =
     (if qmichannel p \<noteq> None then Some p
      else case qmidevice_detect (fss k) 33 [] of
        None \<Rightarrow> None
      | Some (found, ch, net, nodes) \<Rightarrow>
          if found then
            Some (p\<lparr>qmichannel := Some ch,
              usbnet_adapter := (if usbnet_adapter p = None then Some net else usbnet_adapter p)\<rparr>)
          else find_device fss (Suc k) p)"

text \<open>The SIM state is asked for once a second while the modem does not know the request.\<close>

partial_function (option) sim_loop :: "modem \<Rightarrow> SIM_Status option \<Rightarrow> qmi \<Rightarrow> (SIM_Status option \<times> qmi) option" where
  "sim_loop env sim s =
     (case requestGetSIMStatus env sim s of
        None \<Rightarrow> None
      | Some (qmierr, sim, s) \<Rightarrow>
          if qmierr = QMI_ERR_OP_DEVICE_UNSUPPORTED then sim_loop env sim s else Some (sim, s))"

record surroundings =
  attempts :: "nat \<Rightarrow> sysfs"
  now_fs :: sysfs
  opened :: int
  client_files :: "byte \<Rightarrow> int \<times> bool"
  own_pid :: int
  alive :: "int \<Rightarrow> nat \<Rightarrow> bool"

definition choose_ops :: "PROFILE_T \<Rightarrow> device option" where
  "choose_ops p = do {
     d \<leftarrow> ql_driver_type_detect p;
     Some (if d = QmiWwan \<and> qmap_mode p \<noteq> 0 \<and> qmap_mode p \<noteq> 1 then QmiWwanProxy else d) }"

definition end_brothers :: "surroundings \<Rightarrow> PROFILE_T \<Rightarrow> sent_signals option" where
  "end_brothers sur p =
     (if qmap_mode p = 0 \<or> qmap_mode p = 1
      then do { ch \<leftarrow> qmichannel p; kill_brothers (now_fs sur) (own_pid sur) (alive sur) ch }
      else Some [])"

definition open_thread :: "surroundings \<Rightarrow> PROFILE_T \<Rightarrow> qmi \<Rightarrow> (bool \<times> qmi) option" where
  \<comment> \<open>the reader thread up to its first event: whether it is \<open>RIL_INDICATE_DEVICE_CONNECTED\<close>\<close>
  "open_thread sur p s = do {
     (ended, wait, s) \<leftarrow> (if dev s = GobiNet then GobiNetThread (client_files sur) p [] s
                        else QmiWwanThread (opened sur) [] s);
     Some (\<not> ended, s) }"

definition session_init :: "modem \<Rightarrow> stack \<Rightarrow> PROFILE_T \<Rightarrow> qmi \<Rightarrow> (int \<times> PROFILE_T \<times> qmi) option" where
  "session_init env stk p s = (if dev s = GobiNet then Some (0, p, s) else QmiWwanInit env stk p s)"

definition set_apn :: "modem \<Rightarrow> PROFILE_T \<Rightarrow> qmi \<Rightarrow> qmi option" where
  "set_apn env p s = do {
     s \<leftarrow> (if apn p \<noteq> None \<or> user p \<noteq> None \<or> password p \<noteq> None
         then do { (_, s) \<leftarrow> requestSetProfile env p s; Some s } else Some s);
     (_, _, s) \<leftarrow> requestGetProfile env p s;
     Some s }"

definition unlock_sim :: "modem \<Rightarrow> manager \<Rightarrow> manager option" where
  \<comment> \<open>an unassigned \<open>SIMStatus\<close> is undefined to compare\<close>
  "unlock_sim env m = do {
     (sim, s) \<leftarrow> sim_loop env (SIMStatus m) (modem_state m);
     st \<leftarrow> sim;
     s \<leftarrow> (case pincode (prof m) of
         Some pin \<Rightarrow> if st = SIM_PIN then do { (_, s) \<leftarrow> requestEnterSimPin env pin s; Some s } else Some s
       | None \<Rightarrow> Some s);
     Some (m\<lparr>SIMStatus := sim, modem_state := s\<rparr>) }"

text \<open>The result is \<open>Inl\<close> of the value that \<open>qmi_main\<close> returns, or the state in which the loop starts.\<close>

definition start_session :: "modem \<Rightarrow> stack \<Rightarrow> surroundings \<Rightarrow> manager \<Rightarrow> (int + manager) option" where
  "start_session env stk sur m = do {
     p \<leftarrow> find_device (attempts sur) 0 (prof m);
     p \<leftarrow> ql_qmap_mode_detect (now_fs sur) p;
     d \<leftarrow> choose_ops p;
     ended \<leftarrow> end_brothers sur p;
     (connected, s) \<leftarrow> open_thread sur p ((modem_state m)\<lparr>dev := d\<rparr>);
     if \<not> connected then Some (Inl 0)
     else do {
       (err, p, s) \<leftarrow> session_init env stk p s;
       if err \<noteq> 0 then Some (Inl 0)
       else do {
         (_, _, s) \<leftarrow> requestBaseBandVersion env s;
         (_, p, s) \<leftarrow> requestSetEthMode env p s;
         m \<leftarrow> unlock_sim env (m\<lparr>prof := p, modem_state := s, signals := [], to_thread := [],
           signals_sent := signals_sent m @ ended\<rparr>);
         s \<leftarrow> set_apn env (prof m) (modem_state m);
         m \<leftarrow> registration_state env (m\<lparr>modem_state := s\<rparr>);
         Some (Inr (send_signo_to_main SIG_EVENT_CHECK m)) } } }"

declare find_device.simps [code] sim_loop.simps [code]

section \<open>Runs\<close>

text \<open>
  A run of the loop over a list of inputs, each with the modem's behaviour at that time,
  up to the first input after which the loop is left or started again.
\<close>

fun run_loop :: "clock \<Rightarrow> stack \<Rightarrow> (modem \<times> input) list \<Rightarrow> manager \<Rightarrow> (next_step \<times> manager) option" where
  "run_loop clk stk [] m = Some (Continue, m)"
| "run_loop clk stk ((env, i) # is) m = do {
     (f, m) \<leftarrow> main_step clk env stk i m;
     if f = Continue then run_loop clk stk is m else Some (f, m) }"

definition manager_init :: "PROFILE_T \<Rightarrow> bool \<Rightarrow> qmi \<Rightarrow> clock \<Rightarrow> manager" where
  "manager_init p loop s clk = \<lparr>prof = p, SIMStatus = None, PSAttachedState = None, IPv4ConnectionStatus = 0xff,
     IPv6ConnectionStatus = 0xff, SetupCallFail = 0, SetupCallAllowTime = clk 0, s_link = -1, timer = 0,
     signals = [], to_thread = [], dhcp = [], main_loop = loop, clock_calls = 1, signals_sent = [],
     modem_state = s\<rparr>"

end
