(* ===== verification/Runs.thy ===== *)
theory Runs
  imports Manager
begin

text \<open>
  Correctness of the main loop: the link and the log of its DHCP calls over all runs of the
  program, the retry times, leaving on a signal, waiting for a device.
\<close>

section \<open>What the requests leave alone\<close>

text \<open>The names of the interface and of the driver in the profile, and the link and its log.\<close>

definition names :: "PROFILE_T \<Rightarrow> string option \<times> string option" where
  "names p = (usbnet_adapter p, driver_name p)"

definition link_view :: "manager \<Rightarrow> int \<times> (bool \<times> PROFILE_T) list \<times> string option \<times> string option" where
  "link_view m = (s_link m, dhcp m, names (prof m))"

text \<open>A partial correctness calculus for the option monad.\<close>

definition yields :: "'a option \<Rightarrow> ('a \<Rightarrow> bool) \<Rightarrow> bool" where
  "yields r P \<longleftrightarrow> (\<forall>x. r = Some x \<longrightarrow> P x)"

lemma yieldsD: "yields r P \<Longrightarrow> r = Some x \<Longrightarrow> P x"
  by (simp add: yields_def)

lemma yields_opaque: "(\<And>x. P x) \<Longrightarrow> yields r P"
  by (simp add: yields_def)

lemma yields_conseq: "yields r P \<Longrightarrow> (\<And>x. P x \<Longrightarrow> Q x) \<Longrightarrow> yields r Q"
  by (simp add: yields_def)

lemma yields_Some: "P x \<Longrightarrow> yields (Some x) P"
  and yields_None: "yields None P"
  and yields_bind: "yields d (\<lambda>i. yields (g i) P) \<Longrightarrow> yields (d \<bind> g) P"
  and yields_if: "(b \<Longrightarrow> yields r P) \<Longrightarrow> (\<not> b \<Longrightarrow> yields r' P) \<Longrightarrow> yields (if b then r else r') P"
  and yields_Let: "yields (f y) P \<Longrightarrow> yields (Let y f) P"
  and yields_prod: "(\<And>a c. z = (a, c) \<Longrightarrow> yields (h a c) P) \<Longrightarrow> yields (case_prod h z) P"
  and yields_sum: "(\<And>a. w = Inl a \<Longrightarrow> yields (k a) P) \<Longrightarrow> (\<And>a. w = Inr a \<Longrightarrow> yields (k' a) P)
     \<Longrightarrow> yields (case_sum k k' w) P"
  and yields_option: "(v = None \<Longrightarrow> yields q P) \<Longrightarrow> (\<And>a. v = Some a \<Longrightarrow> yields (l a) P)
     \<Longrightarrow> yields (case_option q l v) P"
  by (auto simp: yields_def split: prod.splits sum.splits option.splits)

lemma yields_sum_fun: "(\<And>a. w = Inl a \<Longrightarrow> yields (k a y) P) \<Longrightarrow> (\<And>a. w = Inr a \<Longrightarrow> yields (k' a y) P)
    \<Longrightarrow> yields (case_sum k k' w y) P"
  by (cases w) simp_all

lemmas yields_rules = yields_sum_fun yields_None yields_bind yields_if yields_Let yields_prod yields_sum yields_option

lemma runtime_settings_names: "yields (read_runtime_settings fam r p) (\<lambda>p'. names p' = names p)"
  unfolding read_runtime_settings_def
  by (rule yields_rules yields_Some | rule yields_opaque | simp add: names_def)+

lemma get_ip_names: "yields (requestGetIPAddress env p fam s) (\<lambda>(e, p', s'). names p' = names p)"
  unfolding requestGetIPAddress_def
  by (rule yields_rules yields_Some | rule yields_conseq [OF runtime_settings_names] | rule yields_opaque
      | simp add: names_def)+

lemma setup_names: "yields (requestSetupDataCall env p fam s) (\<lambda>(e, p', s'). names p' = names p)"
  unfolding requestSetupDataCall_def
  by (rule yields_rules yields_Some | rule yields_opaque | simp add: names_def)+

lemma init_names: "yields (session_init env stk p s) (\<lambda>(e, p', s'). names p' = names p)"
  unfolding session_init_def QmiWwanInit_def
  by (rule yields_rules yields_Some | rule yields_opaque | simp add: names_def)+


lemma format_names: "yields (SetEthMode_format env p qs q s) (\<lambda>(c, p', qs', s'). names p' = names p)"
  unfolding SetEthMode_format_def on_tlv_def
  by (rule yields_rules yields_Some | rule yields_opaque | fastforce simp: names_def)+

lemma eth_mode_names: "yields (requestSetEthMode env p s) (\<lambda>(e, p', s'). names p' = names p)"
  unfolding requestSetEthMode_def
  by (rule yields_rules yields_Some | rule yields_conseq [OF format_names] | rule yields_opaque
      | fastforce simp: names_def)+

text \<open>The handlers change the link and its log only through \<open>usbnet_link_change\<close>.\<close>

lemma link_view_simps [simp]:
  "link_view (m\<lparr>modem_state := s\<rparr>) = link_view m"
  "link_view (m\<lparr>IPv4ConnectionStatus := b\<rparr>) = link_view m"
  "link_view (m\<lparr>IPv6ConnectionStatus := b\<rparr>) = link_view m"
  "link_view (m\<lparr>PSAttachedState := ps\<rparr>) = link_view m"
  "link_view (m\<lparr>SIMStatus := sim\<rparr>) = link_view m"
  "link_view (m\<lparr>SetupCallAllowTime := t\<rparr>) = link_view m"
  "link_view (m\<lparr>SetupCallFail := n\<rparr>) = link_view m"
  "link_view (m\<lparr>timer := u\<rparr>) = link_view m"
  "link_view (m\<lparr>signals := ss\<rparr>) = link_view m"
  "link_view (m\<lparr>to_thread := ss\<rparr>) = link_view m"
  "link_view (m\<lparr>main_loop := l\<rparr>) = link_view m"
  "link_view (m\<lparr>clock_calls := k\<rparr>) = link_view m"
  "link_view (m\<lparr>signals_sent := ks\<rparr>) = link_view m"
  "link_view (send_signo_to_main signo m) = link_view m"
  "link_view (main_send_event_to_qmidevice ev m) = link_view m"
  "names p = names (prof m) \<Longrightarrow> link_view (m\<lparr>prof := p\<rparr>) = link_view m"
  by (simp_all add: link_view_def now_def send_signo_to_main_def main_send_event_to_qmidevice_def)

lemma start_ipv4_link: "yields (start_ipv4 env m) (\<lambda>m'. link_view m' = link_view m)"
  unfolding start_ipv4_def
  by (rule yields_rules yields_Some | rule yields_conseq [OF setup_names] yields_conseq [OF get_ip_names]
      | rule yields_opaque | simp add: names_def split_beta)+


lemma start_ipv6_link: "yields (start_ipv6 env m) (\<lambda>m'. link_view m' = link_view m)"
  unfolding start_ipv6_def
  by (rule yields_rules yields_Some | rule yields_conseq [OF setup_names] yields_conseq [OF get_ip_names]
      | rule yields_opaque | simp add: names_def split_beta)+

lemma schedule_link [simp]: "link_view (schedule_retry clk m) = link_view m"
  by (simp add: schedule_retry_def now_def Let_def)

lemma now_prod: "now clk m = (c, m') \<Longrightarrow> link_view m' = link_view m"
  by (auto simp: now_def)

lemma sig_start_link: "yields (sig_start clk env m) (\<lambda>m'. link_view m' = link_view m)"
  unfolding sig_start_def
  by (rule yields_rules yields_Some | rule yields_conseq [OF start_ipv4_link] yields_conseq [OF start_ipv6_link]
      | rule yields_opaque | fastforce dest!: now_prod)+

lemma families_link: "yields (check_families env m) (\<lambda>m'. link_view m' = link_view m)"
  unfolding check_families_def by (rule yields_rules yields_Some | rule yields_opaque | fastforce)+

lemma registration_link: "yields (registration_state env m) (\<lambda>m'. link_view m' = link_view m)"
  unfolding registration_state_def by (rule yields_rules yields_Some | rule yields_opaque | simp)+

lemma unlock_link: "yields (unlock_sim env m) (\<lambda>m'. link_view m' = link_view m)"
  unfolding unlock_sim_def by (rule yields_rules yields_Some | rule yields_opaque | simp)+

section \<open>The link and its log\<close>

text \<open>
  The link is unknown until it first changes; it is up only after a start was the last
  call; and a stop never follows a stop.
\<close>

definition link_inv :: "manager \<Rightarrow> bool" where
  "link_inv m \<longleftrightarrow> s_link m \<in> {-1, 0, 1} \<and> (s_link m = -1 \<longrightarrow> dhcp m = [])
     \<and> (s_link m = 1 \<longrightarrow> dhcp m \<noteq> [] \<and> fst (last (dhcp m)))
     \<and> successively (\<lambda>a b. fst a \<or> fst b) (dhcp m)
     \<and> list_all (\<lambda>(up, p). fst (names p) \<noteq> None \<and> snd (names p) \<noteq> None) (dhcp m)"

definition named :: "manager \<Rightarrow> bool" where
  "named m \<longleftrightarrow> fst (names (prof m)) \<noteq> None \<and> snd (names (prof m)) \<noteq> None"

text \<open>Without a reset of the modem the link is down only after a stop.\<close>

definition down_stopped :: "manager \<Rightarrow> bool" where
  "down_stopped m \<longleftrightarrow> (s_link m = 0 \<longrightarrow> dhcp m \<noteq> [] \<and> \<not> fst (last (dhcp m)))"

lemma link_view_inv:
  "link_view m' = link_view m \<Longrightarrow>
     link_inv m' = link_inv m \<and> named m' = named m \<and> down_stopped m' = down_stopped m"
  by (simp add: link_view_def link_inv_def named_def down_stopped_def)

lemma change_inv:
  assumes "link_inv m" "named m" "link = 0 \<or> link = 1"
  shows "link_inv (usbnet_link_change link m) \<and> named (usbnet_link_change link m)
    \<and> (down_stopped m \<longrightarrow> down_stopped (usbnet_link_change link m))"
  using assms by (auto simp: link_inv_def named_def down_stopped_def usbnet_link_change_def
      successively_append_iff)


lemma link_inv_cong:
  "s_link m' = s_link m \<Longrightarrow> dhcp m' = dhcp m \<Longrightarrow> link_inv m' = link_inv m \<and> down_stopped m' = down_stopped m"
  by (simp add: link_inv_def down_stopped_def)

definition kept :: "manager \<Rightarrow> manager \<Rightarrow> bool" where
  "kept m m' \<longleftrightarrow> link_inv m \<and> named m \<longrightarrow> link_inv m' \<and> named m' \<and> (down_stopped m \<longrightarrow> down_stopped m')"

lemma kept_trans: "kept m m1 \<Longrightarrow> kept m1 m2 \<Longrightarrow> kept m m2"
  by (auto simp: kept_def)

lemma kept_view: "link_view m' = link_view m \<Longrightarrow> kept m m'"
  using link_view_inv [of m' m] by (auto simp: kept_def)

lemma kept_change: "link = 0 \<or> link = 1 \<Longrightarrow> kept m (usbnet_link_change link m)"
  using change_inv by (auto simp: kept_def)

lemma check_link_kept: "kept m (check_link m)"
proof -
  define m1 where "m1 = (if IPv4ConnectionStatus m = QWDS_PKT_DATA_DISCONNECTED
        \<and> IPv6ConnectionStatus m = QWDS_PKT_DATA_DISCONNECTED
      then usbnet_link_change 0 m else if some_up m then usbnet_link_change 1 m else m)"
  have "kept m m1" by (simp add: m1_def kept_change kept_view)
  moreover have "kept m1 (check_link m)"
    unfolding check_link_def m1_def [symmetric] by (simp add: kept_view)
  ultimately show ?thesis by (rule kept_trans)
qed

lemma sig_check_kept: "yields (sig_check env m) (kept m)"
  unfolding sig_check_def
  by (rule yields_rules yields_Some | rule yields_conseq [OF families_link] | rule yields_opaque
      | rule kept_trans [OF kept_view check_link_kept] | assumption)+

lemma sig_stop_kept: "yields (sig_stop env stk m) (kept m)"
proof -
  have "kept m (main_send_event_to_qmidevice ev ((usbnet_link_change 0 (m\<lparr>modem_state := s\<rparr>))\<lparr>modem_state := s'\<rparr>))"
    for ev s s'
    by (rule kept_trans [OF kept_trans [OF kept_view kept_change] kept_view]) simp_all
  then show ?thesis
    unfolding sig_stop_def by - (rule yields_rules yields_Some | assumption | rule yields_opaque | simp)+
qed

lemma read_signal_kept: "yields (read_signal clk env stk m) (\<lambda>(f, m'). f \<noteq> Restart \<and> kept m m')"
proof -
  have "kept m (m\<lparr>signals := ss, timer := 0\<rparr>)" for ss by (rule kept_view) simp
  from kept_trans [OF this] kept_trans [OF this kept_view] this
  have k: "kept (m\<lparr>signals := ss, timer := 0\<rparr>) m' \<Longrightarrow> kept m m'"
    "link_view m' = link_view (m\<lparr>signals := ss, timer := 0\<rparr>) \<Longrightarrow> kept m m'"
    "kept m (m\<lparr>signals := ss, timer := 0\<rparr>)" for ss m' by blast+
  show ?thesis
  proof (cases "signals m")
    case Nil
    then show ?thesis by (simp add: read_signal_def yields_def kept_view)
  next
    case (Cons signo ss)
    then show ?thesis
      unfolding read_signal_def list.case
      by - (simp only: list.case, (rule yields_rules yields_Some
        | rule yields_conseq [OF sig_start_link] yields_conseq [OF sig_check_kept] yields_conseq [OF sig_stop_kept]
        | simp add: k | rule k(1), assumption | rule k(2), simp)+)
  qed
qed


text \<open>What holds after a step, by what the loop does next.\<close>

definition after_step :: "manager \<Rightarrow> input \<Rightarrow> next_step \<Rightarrow> manager \<Rightarrow> bool" where
  "after_step m i f m' \<longleftrightarrow> (link_inv m \<and> named m \<longrightarrow> link_inv m' \<and> (f \<noteq> Restart \<longrightarrow> named m')
     \<and> (down_stopped m \<and> i \<noteq> Device MODEM_REPORT_RESET_EVENT \<longrightarrow> down_stopped m'))"

lemma kept_after: "kept m m' \<Longrightarrow> after_step m i f m'"
  by (simp add: kept_def after_step_def)

lemma reset_link: "link_inv m \<Longrightarrow> link_inv (usbnet_link_state 0 m)"
  by (auto simp: link_inv_def usbnet_link_state_def)

lemma device_event_inv: "yields (device_event clk env ev m) (\<lambda>(f, m'). after_step m (Device ev) f m')"
proof -
  have lost: "after_step m (Device ev) Restart ((usbnet_link_change 0 m)\<lparr>prof := p\<rparr>)" for ev p
    using kept_change [of 0 m] link_inv_cong [of "(usbnet_link_change 0 m)\<lparr>prof := p\<rparr>" "usbnet_link_change 0 m"]
    by (simp add: after_step_def kept_def)
  have reset: "after_step m (Device MODEM_REPORT_RESET_EVENT) Restart
      (usbnet_link_state 0 (main_send_event_to_qmidevice RIL_REQUEST_QUIT m))"
    using link_view_inv [of "main_send_event_to_qmidevice RIL_REQUEST_QUIT m" m]
    by (simp add: after_step_def reset_link)
  have quiet: "link_view m' = link_view m \<Longrightarrow> after_step m (Device ev) f m'" for ev f m'
    by (rule kept_after) (rule kept_view)
  have leave: "after_step m (Device ev) Leave (usbnet_link_change 0 m)" for ev
    by (rule kept_after) (rule kept_change, simp)
  show ?thesis
    unfolding device_event_def Let_def
    by (rule yields_rules yields_Some | rule yields_conseq [OF registration_link]
        | rule yields_opaque | simp add: lost reset leave now_def quiet)+
qed

lemma main_step_inv: "yields (main_step clk env stk i m) (\<lambda>(f, m'). after_step m i f m')"
proof (cases i)
  case Signal
  then show ?thesis
    by (simp, intro yields_conseq [OF read_signal_kept]) (auto intro: kept_after)
next
  case (Device ev)
  then show ?thesis using device_event_inv by simp
qed (simp_all add: yields_def ql_sigaction_def kept_after kept_view)

lemma find_device_unset: "find_device fss k p = Some p' \<Longrightarrow> qmichannel p \<noteq> None \<Longrightarrow> p' = p"
  by (simp add: find_device.simps)

lemma yields_known: "(\<And>x. r = Some x \<Longrightarrow> P x) \<Longrightarrow> yields r P"
  by (simp add: yields_def)

lemma from_mode_names: "yields (qmap_from_mode net buf p) (\<lambda>p'. names p' = names p)"
  unfolding qmap_from_mode_def by (rule yields_rules yields_Some | rule yields_opaque | simp add: names_def)+

lemma from_add_mux_names: "yields (qmap_from_add_mux buf p) (\<lambda>p'. names p' = names p)"
  unfolding qmap_from_add_mux_def by (rule yields_rules yields_Some | rule yields_opaque | simp add: names_def)+

lemma qmap_named: "yields (ql_qmap_mode_detect fs p) (\<lambda>p'. fst (names p') \<noteq> None \<and> snd (names p') \<noteq> None)"
  unfolding ql_qmap_mode_detect_def
  by (rule yields_rules yields_Some | rule yields_conseq [OF from_mode_names] yields_conseq [OF from_add_mux_names]
      | rule yields_known | fastforce simp: names_def)+


lemma session_view:
  "yields (start_session env stk sur m) (\<lambda>r. \<forall>m'. r = Inr m' \<longrightarrow>
     (\<exists>u d. link_view m' = (s_link m, dhcp m, Some u, Some d)))"
proof -
  have view: "\<exists>u d. link_view (m\<lparr>prof := p'\<rparr>) = (s_link m, dhcp m, Some u, Some d)"
    if "names p' = names p" "(\<exists>y. fst (names p) = Some y) \<and> (\<exists>y. snd (names p) = Some y)" for p p'
    using that by (cases "names p") (auto simp: link_view_def)
  show ?thesis
    unfolding start_session_def
    by (rule yields_rules yields_Some | rule yields_conseq [OF qmap_named] yields_conseq [OF init_names]
        yields_conseq [OF eth_mode_names] yields_conseq [OF unlock_link] yields_conseq [OF registration_link]
        | rule yields_opaque | simp | (rule view; simp))+
qed

lemma session_inv:
  assumes "start_session env stk sur m = Some (Inr m')" "link_inv m"
  shows "link_inv m' \<and> named m' \<and> (down_stopped m \<longrightarrow> down_stopped m')"
proof -
  obtain u d where "link_view m' = (s_link m, dhcp m, Some u, Some d)"
    using yieldsD [OF session_view assms(1)] by blast
  then show ?thesis
    using link_inv_cong [of m' m] assms(2) by (auto simp: link_view_def named_def)
qed

section \<open>Runs of the program\<close>

text \<open>
  \<open>qmi_main\<close> from its start: sessions, the inputs of the loop, and what it does next
  (\<open>Restart\<close>: before a session; \<open>Leave\<close>: at the label \<open>__main_quit\<close>). The modem may behave
  differently at every step.
\<close>

inductive qmi_runs :: "clock \<Rightarrow> stack \<Rightarrow> manager \<Rightarrow> input list \<Rightarrow> next_step \<Rightarrow> manager \<Rightarrow> bool"
  for clk stk m0 where
  begin_run: "qmi_runs clk stk m0 [] Restart m0"
| session: "qmi_runs clk stk m0 is Restart m \<Longrightarrow> start_session env stk sur m = Some (Inr m')
    \<Longrightarrow> qmi_runs clk stk m0 is Continue m'"
| input_step: "qmi_runs clk stk m0 is Continue m \<Longrightarrow> main_step clk env stk i m = Some (f, m')
    \<Longrightarrow> qmi_runs clk stk m0 (is @ [i]) f m'"

inductive_cases qmi_runs_leave: "qmi_runs clk stk m0 is Leave m"

definition run_inv :: "input list \<Rightarrow> next_step \<Rightarrow> manager \<Rightarrow> bool" where
  "run_inv is f m \<longleftrightarrow> link_inv m \<and> (f \<noteq> Restart \<longrightarrow> named m)
     \<and> (Device MODEM_REPORT_RESET_EVENT \<notin> set is \<longrightarrow> down_stopped m)"

lemma runs_inv: "qmi_runs clk stk m0 is f m \<Longrightarrow> link_inv m0 \<Longrightarrow> down_stopped m0 \<Longrightarrow> run_inv is f m"
proof (induction rule: qmi_runs.induct)
  case begin_run
  then show ?case by (simp add: run_inv_def)
next
  case (session "is" m env sur m')
  then show ?case using session_inv [of env stk sur m m'] by (simp add: run_inv_def)
next
  case (input_step "is" m env i f m')
  then show ?case using yieldsD [OF main_step_inv, of clk env stk i m "(f, m')"]
    by (auto simp: run_inv_def after_step_def)
qed

lemma init_inv: "link_inv (manager_init p l s clk)" "down_stopped (manager_init p l s clk)"
  by (simp_all add: manager_init_def link_inv_def down_stopped_def)

section \<open>A concrete run\<close>

text \<open>
  A modem behind the GobiNet driver with a device and a data client. It reports a SIM card
  that is ready and answers nothing else. (The buffer of the reader is cut to 64 bytes.)
\<close>

definition sim_modem :: modem where
  "sim_modem reqs = (case reqs of
     [] \<Rightarrow> \<lparr>poll_ret = 0, poll_out = False, write_ret = 0, incoming = [], spurious = False\<rparr>
   | m # _ \<Rightarrow> \<lparr>poll_ret = 1, poll_out = True, write_ret = int (length m) - 6,
       incoming = (if m ! 4 = QMUX_TYPE_DMS \<and> m ! 9 = 0x44
                   then [Some (5, drop 6 (qmux_response QMUX_TYPE_DMS 5 (mk16 (m ! 7) (m ! 8)) 0x0044 0 0 [(0x01, [0])]))]
                   else []), spurious = False\<rparr>)"

definition gobi_profile :: PROFILE_T where
  "gobi_profile = zero_profile\<lparr>qmichannel := Some ''/dev/qcqmi0'', usbnet_adapter := Some ''wwan0'', enable_ipv4 := 1\<rparr>"

definition gobi_surroundings :: surroundings where
  "gobi_surroundings = \<lparr>attempts = (\<lambda>k. plugged_fs), now_fs = plugged_fs, opened = 3,
     client_files = (\<lambda>slot. if slot = QMUX_TYPE_WDS then (4, True) else if slot = QMUX_TYPE_DMS then (5, True) else (6, False)),
     own_pid = 50, alive = (\<lambda>pid k. False)\<rparr>"

definition gobi_start :: manager where
  "gobi_start = manager_init gobi_profile False ((qmi_init GobiNet 0)\<lparr>QMIBuf := replicate 64 0\<rparr>) (\<lambda>k. 1000)"



definition gobi_ready :: qmi where
  "gobi_ready = (qmi_init GobiNet 0)\<lparr>QMIBuf := replicate 64 0, qmiclientId := (replicate 27 0)[1 := 4, 2 := 5, 3 := 0, 11 := 0, 26 := 0], to_main := [RIL_INDICATE_DEVICE_CONNECTED]\<rparr>"
lemma gobi_opens: "open_thread gobi_surroundings p ((qmi_init GobiNet 0)\<lparr>QMIBuf := replicate 64 0\<rparr>) = Some (True, gobi_ready)"
  if "p = gobi_profile\<lparr>driver_name := Some ''qmi_wwan''\<rparr>"
  by (simp add: that open_thread_def gobi_surroundings_def gobi_ready_def gobi_profile_def zero_profile_def GobiNetThread_def GobiNet_open_def
     qmi_init_def set_client_def GobiNetGetClientID_def client_def qmidevice_send_event_to_main_def)
lemma gobi_detect: "ql_qmap_mode_detect plugged_fs gobi_profile = Some (gobi_profile\<lparr>driver_name := Some ''qmi_wwan''\<rparr>)"
  by (simp add: ql_qmap_mode_detect_def plugged_fs_def look_def gobi_profile_def zero_profile_def driver_of_link_def qmap_mode_file_def
    qmidev_is_qmiwwan_def has_prefix_def)

definition gobi_session :: "(int + manager) option" where
  "gobi_session = do {
     (_, _, s) \<leftarrow> requestBaseBandVersion sim_modem gobi_ready;
     (_, p, s) \<leftarrow> requestSetEthMode sim_modem (gobi_profile\<lparr>driver_name := Some ''qmi_wwan''\<rparr>) s;
     m \<leftarrow> unlock_sim sim_modem (gobi_start\<lparr>prof := p, modem_state := s, signals := [], to_thread := []\<rparr>);
     s \<leftarrow> set_apn sim_modem (prof m) (modem_state m);
     m \<leftarrow> registration_state sim_modem (m\<lparr>modem_state := s\<rparr>);
     Some (Inr (send_signo_to_main SIG_EVENT_CHECK m)) }"

lemma gobi_alone: "qmichannel p = Some ch \<Longrightarrow> end_brothers gobi_surroundings p = Some []"
  by (simp add: end_brothers_def kill_brothers_def read_link_def gobi_surroundings_def plugged_fs_def look_def)

lemma gobi_session: "start_session sim_modem dirty gobi_surroundings gobi_start = gobi_session"
proof -
  have "find_device (attempts gobi_surroundings) 0 (prof gobi_start) = Some gobi_profile"
    by (simp add: find_device.simps gobi_start_def manager_init_def gobi_profile_def)
  moreover have "ql_qmap_mode_detect (now_fs gobi_surroundings) gobi_profile = Some (gobi_profile\<lparr>driver_name := Some ''qmi_wwan''\<rparr>)"
    using gobi_detect by (simp add: gobi_surroundings_def)
  moreover have "choose_ops (gobi_profile\<lparr>driver_name := Some ''qmi_wwan''\<rparr>) = Some GobiNet"
    by (simp add: choose_ops_def ql_driver_type_detect_def gobi_profile_def qmidev_is_gobinet_def has_prefix_def)
  moreover have "(modem_state gobi_start)\<lparr>dev := GobiNet\<rparr> = (qmi_init GobiNet 0)\<lparr>QMIBuf := replicate 64 0\<rparr>"
    by (simp add: gobi_start_def manager_init_def qmi_init_def)
  moreover have "dev gobi_ready = GobiNet" by (simp add: gobi_ready_def qmi_init_def)
  ultimately show ?thesis
    by (simp add: start_session_def gobi_opens session_init_def gobi_session_def gobi_alone
        gobi_profile_def gobi_start_def manager_init_def zero_profile_def)
qed

lemma gobi_run: "(case gobi_session of
    Some (Inr m) \<Rightarrow> (case run_loop (\<lambda>k. 1000) dirty [(sim_modem, Raise False), (sim_modem, Signal), (sim_modem, Signal)] m of
        Some (f, m') \<Rightarrow> f = Leave \<and> map fst (dhcp m') = [False] \<and> to_thread m' = [SIG_EVENT_STOP, RIL_REQUEST_QUIT] | None \<Rightarrow> False)
  | _ \<Rightarrow> False)"
  by code_simp


lemma run_loop_runs:
  "qmi_runs clk stk m0 is Continue m \<Longrightarrow> run_loop clk stk eis m = Some (f, m') \<Longrightarrow>
     \<exists>n. qmi_runs clk stk m0 (is @ take n (map snd eis)) f m'"
proof (induction eis arbitrary: "is" m)
  case Nil
  then show ?case by (auto intro: exI [of _ 0])
next
  case (Cons x eis)
  obtain env i where x: "x = (env, i)" by fastforce
  with Cons.prems(2) obtain g m1 where st: "main_step clk env stk i m = Some (g, m1)"
    "(if g = Continue then run_loop clk stk eis m1 else Some (g, m1)) = Some (f, m')" by auto
  note run = qmi_runs.input_step [OF Cons.prems(1) st(1)]
  show ?case
  proof (cases "g = Continue")
    case True
    with st(2) run Cons.IH [of "is @ [i]" m1] obtain n where
      "qmi_runs clk stk m0 ((is @ [i]) @ take n (map snd eis)) f m'" by auto
    then show ?thesis by (intro exI [of _ "Suc n"]) (simp add: x)
  next
    case False
    with st(2) run show ?thesis by (intro exI [of _ 1]) (simp add: x)
  qed
qed

lemma gobi_leaves:
  "\<exists>is m. qmi_runs (\<lambda>k. 1000) dirty gobi_start is Leave m \<and> set is \<subseteq> {Raise False, Signal} \<and> dhcp m \<noteq> []"
proof -
  obtain m m' where m: "gobi_session = Some (Inr m)"
    "run_loop (\<lambda>k. 1000) dirty [(sim_modem, Raise False), (sim_modem, Signal), (sim_modem, Signal)] m = Some (Leave, m')"
    "map fst (dhcp m') = [False]"
    using gobi_run by (auto split: option.splits sum.splits)
  have "qmi_runs (\<lambda>k. 1000) dirty gobi_start [] Continue m"
  proof (rule qmi_runs.session [OF qmi_runs.begin_run])
    show "start_session sim_modem dirty gobi_surroundings gobi_start = Some (Inr m)"
      by (simp add: gobi_session m(1))
  qed
  from run_loop_runs [OF this m(2)] obtain n where
    "qmi_runs (\<lambda>k. 1000) dirty gobi_start (take n [Raise False, Signal, Signal]) Leave m'" by auto
  moreover have "set (take n [Raise False, Signal, Signal]) \<subseteq> {Raise False, Signal}"
    using set_take_subset [of n "[Raise False, Signal, Signal]"] by auto
  moreover have "dhcp m' \<noteq> []" using m(3) by auto
  ultimately show ?thesis by blast
qed

text \<open>C2: In every run of the program, over any sequence of signals, device events, failures and
  restarts: the link is up only after \<open>udhcpc_start\<close> was the last call, \<open>udhcpc_stop\<close> is never
  called twice in a row, and both are only called with an interface and a driver in the
  profile, with which they are defined.\<close>

theorem link_follows_log:
  assumes "qmi_runs clk stk (manager_init p loop s clk) is f m"
  shows "(s_link m = 1 \<longrightarrow> dhcp m \<noteq> [] \<and> fst (last (dhcp m)))
    \<and> successively (\<lambda>a b. fst a \<or> fst b) (dhcp m)
    \<and> (\<forall>(up, q) \<in> set (dhcp m). \<forall>env. udhcpc_start env q \<noteq> None \<and> udhcpc_stop env q \<noteq> None)"
proof -
  have inv: "link_inv m" using runs_inv [OF assms init_inv] by (simp add: run_inv_def)
  have "udhcpc_start env q \<noteq> None \<and> udhcpc_stop env q \<noteq> None" if "(up, q) \<in> set (dhcp m)" for up q env
  proof -
    from inv that obtain u d where "usbnet_adapter q = Some u" "driver_name q = Some d"
      by (fastforce simp: link_inv_def list_all_iff names_def)
    then show ?thesis by (rule start_stop_defined)
  qed
  with inv show ?thesis by (auto simp: link_inv_def)
qed

text \<open>C24: When the program leaves its loop and the modem was never reset, the last call is
  \<open>udhcpc_stop\<close>, which takes the data interface down; after a reset the interface may
  stay up.\<close>

theorem quit_takes_link_down:
  assumes run: "qmi_runs clk stk (manager_init p loop s clk) is Leave m"
    and no_reset: "Device MODEM_REPORT_RESET_EVENT \<notin> set is"
  shows "\<exists>q. last (dhcp (main_quit m)) = (False, q) \<and> (\<forall>env i. data_interface q = Some i \<and> length i < 100
    \<longrightarrow> (\<exists>acts. udhcpc_stop env q = Some acts \<and> link_after i acts = Some False))"
proof -
  have inv: "link_inv m" "named m" "down_stopped m"
    using runs_inv [OF run init_inv] no_reset by (simp_all add: run_inv_def)
  let ?m = "main_quit m"
  have m: "link_inv ?m" "down_stopped ?m" "s_link ?m = 0"
    using change_inv [of m 0] inv by (simp_all add: main_quit_def) (simp add: usbnet_link_change_def)
  then have last: "dhcp ?m \<noteq> []" "\<not> fst (last (dhcp ?m))" by (auto simp: down_stopped_def)
  obtain q where q: "last (dhcp ?m) = (False, q)" using last(2) by (cases "last (dhcp ?m)") auto
  with last(1) have "(False, q) \<in> set (dhcp ?m)" by (metis last_in_set)
  with m(1) obtain u where "usbnet_adapter q = Some u"
    by (fastforce simp: link_inv_def list_all_iff names_def)
  with q show ?thesis using stop_link by blast
qed


theorem link_follows_log_witness:
  "\<exists>is m. qmi_runs (\<lambda>k. 1000) dirty gobi_start is Leave m \<and> dhcp m \<noteq> []
     \<and> (\<forall>(up, q) \<in> set (dhcp m). \<forall>env. udhcpc_stop env q \<noteq> None)"
proof -
  obtain "is" m where m: "qmi_runs (\<lambda>k. 1000) dirty gobi_start is Leave m" "dhcp m \<noteq> []"
    using gobi_leaves by blast
  have "\<forall>(up, q) \<in> set (dhcp m). \<forall>env. udhcpc_stop env q \<noteq> None"
    using link_follows_log [OF m(1) [unfolded gobi_start_def]] by blast
  with m show ?thesis by blast
qed

theorem quit_takes_link_down_witness:
  "\<exists>is m. qmi_runs (\<lambda>k. 1000) dirty gobi_start is Leave m \<and> (\<exists>q. last (dhcp (main_quit m)) = (False, q))"
proof -
  obtain "is" m where m: "qmi_runs (\<lambda>k. 1000) dirty gobi_start is Leave m" "set is \<subseteq> {Raise False, Signal}"
    using gobi_leaves by blast
  then have "Device MODEM_REPORT_RESET_EVENT \<notin> set is" by auto
  from quit_takes_link_down [OF m(1) [unfolded gobi_start_def] this] m(1) show ?thesis by blast
qed


section \<open>Calls and retries\<close>

lemma retry_bounds: "5 \<le> retry_time n \<and> retry_time n \<le> 60 \<and> retry_time n \<le> retry_time (Suc n)"
proof -
  consider "n < 4" | "n = 4" | "5 \<le> n" by linarith
  then show ?thesis
  proof cases
    case 1
    then have "n = 0 \<or> n = 1 \<or> n = 2 \<or> n = 3" by auto
    then show ?thesis by (auto simp: retry_time_def allow_time_def)
  qed (simp_all add: retry_time_def allow_time_def)
qed

lemma ucast_retry: "uint (ucast (retry_time n) :: u32) = uint (retry_time n)"
proof -
  consider "n < 5" | "5 \<le> n" by linarith
  then show ?thesis
  proof cases
    case 1
    then have "n = 0 \<or> n = 1 \<or> n = 2 \<or> n = 3 \<or> n = 4" by auto
    then show ?thesis by (auto simp: retry_time_def allow_time_def)
  qed (simp add: retry_time_def allow_time_def)
qed


definition call_failed :: manager where
  "call_failed = gobi_start\<lparr>IPv4ConnectionStatus := QWDS_PKT_DATA_DISCONNECTED, SetupCallFail := 2\<rparr>"



definition old_start :: manager where
  "old_start = gobi_start\<lparr>modem_state := (qmi_init GobiNet 0)\<lparr>s_9x07 := 0\<rparr>\<rparr>"


section \<open>Waiting for a device\<close>

definition found_after :: "(nat \<Rightarrow> sysfs) \<Rightarrow> nat \<Rightarrow> nat \<Rightarrow> string \<Rightarrow> bool" where
  "found_after fss k n ch \<longleftrightarrow> (\<forall>i < n. \<exists>r. qmidevice_detect (fss (k + i)) 33 [] = Some (False, r))
     \<and> (\<exists>net nodes. qmidevice_detect (fss (k + n)) 33 [] = Some (True, ch, net, nodes))"

lemma found_after_Suc:
  assumes "qmidevice_detect (fss k) 33 [] = Some (False, r)"
  shows "found_after fss (Suc k) n ch = found_after fss k (Suc n) ch"
  using assms by (cases r) (auto simp: found_after_def less_Suc_eq_0_disj)

lemma find_device_attempts:
  "find_device fss k p = Some p' \<Longrightarrow> qmichannel p = None \<longrightarrow> (\<exists>n ch. found_after fss k n ch \<and> qmichannel p' = Some ch)"
proof (erule find_device.raw_induct [rotated 1], goal_cases)
  case (1 find_device' fss k p p')
  note IH = 1(1) and body = 1(2)
  show ?case
  proof
    assume none: "qmichannel p = None"
    with body obtain found ch net nodes where d: "qmidevice_detect (fss k) 33 [] = Some (found, ch, net, nodes)"
      and r: "(if found then Some (p\<lparr>qmichannel := Some ch,
                usbnet_adapter := (if usbnet_adapter p = None then Some net else usbnet_adapter p)\<rparr>)
            else find_device' fss (Suc k) p) = Some p'"
      by (auto split: option.splits)
    show "\<exists>n ch. found_after fss k n ch \<and> qmichannel p' = Some ch"
    proof (cases found)
      case True
      with d r have "found_after fss k 0 ch \<and> qmichannel p' = Some ch" by (auto simp: found_after_def)
      then show ?thesis by blast
    next
      case False
      with r IH [of fss "Suc k" p p'] none obtain n ch' where
        n: "found_after fss (Suc k) n ch'" "qmichannel p' = Some ch'" by auto
      have "found_after fss k (Suc n) ch'" using n(1) found_after_Suc d False by metis
      with n(2) show ?thesis by blast
    qed
  qed
qed

lemma find_device_finds:
  "found_after fss k n ch \<Longrightarrow> qmichannel p = None \<Longrightarrow> \<exists>p'. find_device fss k p = Some p' \<and> qmichannel p' = Some ch"
proof (induction n arbitrary: k)
  case 0
  then show ?case by (subst find_device.simps) (auto simp: found_after_def)
next
  case (Suc n)
  then have "\<exists>r. qmidevice_detect (fss k) 33 [] = Some (False, r)" by (auto simp: found_after_def)
  then obtain ch' net nodes where d: "qmidevice_detect (fss k) 33 [] = Some (False, ch', net, nodes)" by auto
  with Suc have "found_after fss (Suc k) n ch" using found_after_Suc by metis
  from Suc.IH [OF this Suc.prems(2)] d Suc.prems(2) show ?case by (subst find_device.simps) simp
qed

text \<open>C26: Without a device given, waiting ends exactly when some attempt finds a device after attempts
  that all failed regularly, and it ends with the channel of that attempt; as long as no
  device appears it goes on (at full speed: the pause behind the \<open>continue\<close> is never reached).\<close>

theorem waiting_for_device:
  assumes "qmichannel p = None"
  shows "(\<exists>p'. find_device fss 0 p = Some p' \<and> qmichannel p' = Some ch) \<longleftrightarrow> (\<exists>n. found_after fss 0 n ch)"
proof
  assume "\<exists>p'. find_device fss 0 p = Some p' \<and> qmichannel p' = Some ch"
  then show "\<exists>n. found_after fss 0 n ch" using find_device_attempts assms by fastforce
next
  assume "\<exists>n. found_after fss 0 n ch"
  then show "\<exists>p'. find_device fss 0 p = Some p' \<and> qmichannel p' = Some ch"
    using find_device_finds assms by blast
qed

lemma detect_nothing: "qmidevice_detect (plugged_fs\<lparr>dirs := \<lambda>d. None\<rparr>) 33 [] = Some (False, [], [], [])"
  by (simp add: qmidevice_detect_def)

lemma detect_plugged: "qmidevice_detect plugged_fs 33 [] = Some (True, ''/dev/cdc-wdm0'', ''wwan0'', [])"
proof -
  have "detect_loop plugged_fs 33 [] (map usb_name plugged)
      = Some (''/dev/cdc-wdm0'', ''wwan0'', [])"
    using detect_loop_describes [of plugged_fs plugged "[]"] plugged_described
    by (simp add: describes_def) (simp add: plugged_def usable_def)
  with plugged_described show ?thesis by (simp add: qmidevice_detect_def describes_def)
qed

theorem waiting_for_device_witness:
  "\<exists>p'. find_device (\<lambda>k. if k < 3 then plugged_fs\<lparr>dirs := \<lambda>d. None\<rparr> else plugged_fs) 0 zero_profile = Some p'
     \<and> qmichannel p' = Some ''/dev/cdc-wdm0''"
proof (rule waiting_for_device [THEN iffD2])
  show "qmichannel zero_profile = None" by (simp add: zero_profile_def)
  show "\<exists>n. found_after (\<lambda>k. if k < 3 then plugged_fs\<lparr>dirs := \<lambda>d. None\<rparr> else plugged_fs) 0 n ''/dev/cdc-wdm0''"
    by (rule exI [of _ 3]) (simp add: found_after_def detect_nothing detect_plugged)
qed

section \<open>Leaving on a signal\<close>

lemma send_builder_keeps:
  assumes "tlv_builder f xs" "settled s" "unat q < 27"
  shows "yields (send_qmux env q mt (Some f) p s) (\<lambda>(ret, p', s'). settled s' \<and> dev s' = dev s)"
proof -
  have "unat q < length (qmiclientId s)" using assms(2,3) by (simp add: settled_def wf_qmi_def)
  then obtain c where c: "client s q = Some c" by (auto simp: client_def)
  show ?thesis
  proof (cases "c = 0")
    case True
    with assms c show ?thesis
      by (auto simp: yields_def send_qmux_def compose_no_client QmiThreadSendQMI_def QmiThreadSendQMITimeout_def)
  next
    case False
    let ?t = "snd (GetQMUXTransactionId s)"
    let ?m = "qmux_request q (word_of_int c AND 0xFF) (fst (GetQMUXTransactionId s)) mt xs"
    have t: "wf_qmi ?t" "dev ?t = dev s" "dev s \<noteq> QmiWwanProxy"
      using assms(2) by (simp_all add: GetQMUXTransactionId_def Let_def settled_def wf_qmi_def)
    have "wf_request ?m"
      using tlv_builder.fits [OF assms(1)] assms(3) by (simp add: wf_qmux_request WDM_DEFAULT_BUFSIZE_def)
    from send_outcome [OF t(1) this, of env True p] t(2,3)
    obtain ret p' s' where s': "QmiThreadSendQMI env (Some ?m) True p ?t = Some (ret, p', s')" "wf_qmi s'"
      "frame s' = frame (?t\<lparr>sent := ?m # sent ?t\<rparr>)" by auto
    with t dev_frame [OF s'(3)] show ?thesis
      by (simp add: yields_def send_qmux_def tlv_builder.compose [OF assms(1) c False] settled_def)
  qed
qed

lemma settled_handle [simp]: "settled (set_handle fam h s) = settled s" "dev (set_handle fam h s) = dev s"
  by (simp_all add: set_handle_def settled_def wf_qmi_def)

lemma deactivate_keeps:
  assumes "settled s"
  shows "yields (deactivate env up fam s) (\<lambda>s'. settled s' \<and> dev s' = dev s)"
proof -
  have "unat (wds_type fam) < 27" by (simp add: wds_type_def)
  note keeps = send_builder_keeps [OF stop_network.tlv_builder_axioms assms this]
  have "yields (requestDeactivateDefaultPDP env fam s) (\<lambda>(e, s'). settled s' \<and> dev s' = dev s)"
    unfolding requestDeactivateDefaultPDP_def
    by (rule yields_rules yields_Some | rule yields_conseq [OF keeps] | rule yields_opaque
        | (clarsimp simp: assms split: sum.split; fail))+
  then have "yields (requestDeactivateDefaultPDP env fam s) (\<lambda>r. settled (snd r) \<and> dev (snd r) = dev s)"
    by (rule yields_conseq) auto
  with assms show ?thesis
    unfolding deactivate_def
    by (cases up) (auto simp: yields_def)
qed

lemma deinit_done:
  assumes "settled s" "stack_sized stk"
  shows "\<exists>s'. deinit env stk s = Some s' \<and> qmiclientId s' = replicate 27 0"
proof (cases "dev s")
  case GobiNet
  then show ?thesis using assms(1)
    by (auto simp: deinit_def GobiNetDeInit_def settled_def wf_qmi_def intro!: nth_equalityI)
next
  case QmiWwan
  have len: "length (qmiclientId s) = 27" using assms(1) by (simp add: settled_def wf_qmi_def)
  obtain s' where s': "release_loop env stk [0..<27] s = Some s'" "settled s'"
    "\<forall>j < 27. qmiclientId s' ! j = (if j \<in> set [0..<27] then 0 else qmiclientId s ! j)"
    using release_loop_sends [OF assms, where env = env and ?is = "[0..<27]"] by auto
  then have "qmiclientId s' = replicate 27 0"
    by (intro nth_equalityI) (simp_all add: settled_def wf_qmi_def)
  with s'(1) QmiWwan show ?thesis by (simp add: deinit_def QmiWwanDeInit_def len del: upt_numeral)
qed (use assms(1) in \<open>simp add: settled_def\<close>)

lemma sig_stop_done:
  assumes "settled (modem_state m)" "stack_sized stk"
  shows "yields (sig_stop env stk m) (\<lambda>m'. s_link m' = 0 \<and> qmiclientId (modem_state m') = replicate 27 0
      \<and> to_thread m' = to_thread m @ [RIL_REQUEST_QUIT] \<and> main_loop m' = main_loop m)"
    and "\<not> some_up m \<Longrightarrow> sig_stop env stk m \<noteq> None"
proof -
  have finish: "\<exists>s'. deinit env stk s = Some s' \<and> qmiclientId s' = replicate 27 0" if "settled s" for s
    using that assms(2) by (rule deinit_done)
  have link: "s_link (usbnet_link_change 0 x) = 0" "to_thread (usbnet_link_change 0 x) = to_thread x"
    "main_loop (usbnet_link_change 0 x) = main_loop x" "modem_state (usbnet_link_change 0 x) = modem_state x" for x
    by (simp_all add: usbnet_link_change_def)
  have last: "yields (deinit env stk s) (\<lambda>s'. qmiclientId s' = replicate 27 0)" if "settled s" for s
    using finish [OF that] by (auto simp: yields_def)
  have keep: "yields (deactivate env up fam s) settled" if "settled s" for up fam s
    by (rule yields_conseq [OF deactivate_keeps [OF that]]) simp
  show "yields (sig_stop env stk m) (\<lambda>m'. s_link m' = 0 \<and> qmiclientId (modem_state m') = replicate 27 0
      \<and> to_thread m' = to_thread m @ [RIL_REQUEST_QUIT] \<and> main_loop m' = main_loop m)"
    unfolding sig_stop_def
    by (rule yields_bind, rule yields_conseq [OF keep [OF assms(1)]], rule yields_bind,
        rule yields_conseq [OF keep], assumption, rule yields_Let, rule yields_bind,
        rule yields_conseq [OF last]) (simp_all add: link yields_def main_send_event_to_qmidevice_def)
  show "sig_stop env stk m \<noteq> None" if "\<not> some_up m"
  proof -
    obtain s' where "deinit env stk (modem_state m) = Some s'" using finish [OF assms(1)] by blast
    with that show ?thesis by (simp add: sig_stop_def deactivate_def some_up_def link)
  qed
qed

text \<open>C25: When SIGTERM or SIGINT arrives with no other signal waiting, the program leaves the loop with
  the link down, all client identifiers released, and the reader thread told to stop and to
  quit; this is defined unless the modem breaks the message format of the answer to a
  deactivation.\<close>

theorem stop_on_signal:
  assumes "wf_qmi (modem_state m)" "dev (modem_state m) \<noteq> QmiWwanProxy" "stack_sized stk" "signals m = []"
    and "r = run_loop clk stk [(e, Raise False), (env, Signal)] m"
  shows "(\<not> some_up m \<longrightarrow> r \<noteq> None) \<and> (\<forall>f m'. r = Some (f, m') \<longrightarrow> f = Leave \<and> s_link m' = 0
    \<and> \<not> main_loop m' \<and> qmiclientId (modem_state m') = replicate 27 0
    \<and> to_thread m' = to_thread m @ [SIG_EVENT_STOP, RIL_REQUEST_QUIT])"
proof -
  define m1 where "m1 = m\<lparr>main_loop := False, to_thread := to_thread m @ [SIG_EVENT_STOP], signals := [], timer := 0\<rparr>"
  have m1: "settled (modem_state m1)" "some_up m1 = some_up m" "to_thread m1 = to_thread m @ [SIG_EVENT_STOP]"
    "\<not> main_loop m1" using assms(1,2) by (simp_all add: m1_def settled_def some_up_def)
  have "r = do { m' \<leftarrow> sig_stop env stk m1; Some (Leave, m') }"
    unfolding assms(5) m1_def using assms(4)
    by (simp add: ql_sigaction_def send_signo_to_main_def main_send_event_to_qmidevice_def read_signal_def
        split: bind_splits)
  moreover from sig_stop_done(1) [OF m1(1) assms(3)] have "s_link m' = 0 \<and> qmiclientId (modem_state m') = replicate 27 0
      \<and> to_thread m' = to_thread m1 @ [RIL_REQUEST_QUIT] \<and> main_loop m' = main_loop m1"
    if "sig_stop env stk m1 = Some m'" for m' using that by (rule yieldsD)
  moreover have "sig_stop env stk m1 \<noteq> None" if "\<not> some_up m"
    using sig_stop_done(2) [OF m1(1) assms(3)] that m1(2) by simp
  ultimately show ?thesis using m1(3,4) by (auto simp: bind_eq_None_conv)
qed

theorem stop_on_signal_witness:
  "\<exists>m'. run_loop (\<lambda>k. 0) dirty [(sim_modem, Raise False), (sim_modem, Signal)]
      (manager_init gobi_profile True (qmi_init GobiNet 0) (\<lambda>k. 0)) = Some (Leave, m')
    \<and> s_link m' = 0 \<and> to_thread m' = [SIG_EVENT_STOP, RIL_REQUEST_QUIT]"
proof -
  let ?m = "manager_init gobi_profile True (qmi_init GobiNet 0) (\<lambda>k. 0)"
  define r where "r = run_loop (\<lambda>k. 0) dirty [(sim_modem, Raise False), (sim_modem, Signal)] ?m"
  have "wf_qmi (modem_state ?m)" "dev (modem_state ?m) \<noteq> QmiWwanProxy" "signals ?m = []" "to_thread ?m = []" "\<not> some_up ?m"
    by (simp_all add: manager_init_def some_up_def qmi_init_def wf_qmi_def)
  with stop_on_signal [OF this(1,2) stack_sized_dirty this(3) r_def]
  show ?thesis unfolding r_def [symmetric] by (cases r) auto
qed

end
