(* ===== verification/CommandLine.thy ===== *)
theory CommandLine
  imports Manager
begin

text \<open>
  \<open>main\<close> in \<open>main.c\<close>: the options of the command line, their defaults, the detection of the
  modem and the choice between the QMI and the MBIM main function. The arguments still to be read are a
  list, the end of \<open>argv\<close>; a number is one character of its argument, as in the C code.
\<close>

section \<open>The options\<close>

record cmdline =
  settings :: PROFILE_T
  logfile :: "string option"
  debug_qmi :: bool
  stay :: bool

definition first_char :: "string \<Rightarrow> char" where
  "first_char a = (if a = [] then CHR 0x00 else hd a)"

definition digit_value :: "string \<Rightarrow> int" where
  \<comment> \<open>\<open>argv[opt][0] - '0'\<close>, with signed characters\<close>
  "digit_value a = sint (word_of_nat (of_char (first_char a)) :: byte) - 48"

text \<open>\<open>has_more_argv\<close>: the next argument, when there is one that does not start with a dash.\<close>

fun more :: "string list \<Rightarrow> (string \<times> string list) option" where
  "more [] = None"
| "more (a # as) = (if first_char a = CHR ''-'' then None else Some (a, as))"

definition with_arg :: "(string \<Rightarrow> 'a \<Rightarrow> 'a) \<Rightarrow> string list \<times> 'a \<Rightarrow> string list \<times> 'a" where
  "with_arg f x = (case x of (as, c) \<Rightarrow> (case more as of None \<Rightarrow> (as, c) | Some (a, as) \<Rightarrow> (as, f a c)))"

definition set_profile :: "(PROFILE_T \<Rightarrow> PROFILE_T) \<Rightarrow> cmdline \<Rightarrow> cmdline" where
  "set_profile f c = c\<lparr>settings := f (settings c)\<rparr>"

abbreviation (input) arg :: "(string \<Rightarrow> PROFILE_T \<Rightarrow> PROFILE_T) \<Rightarrow> string list \<times> cmdline \<Rightarrow> string list \<times> cmdline" where
  "arg f \<equiv> with_arg (\<lambda>a. set_profile (f a))"

definition option_s :: "string list \<times> cmdline \<Rightarrow> string list \<times> cmdline" where
  "option_s x =
     (let x = apsnd (set_profile (\<lambda>p. p\<lparr>apn := Some '''', user := Some '''', password := Some ''''\<rparr>)) x;
          x = arg (\<lambda>a p. p\<lparr>apn := Some a\<rparr>) x;
          x = arg (\<lambda>a p. p\<lparr>user := Some a\<rparr>) x;
          x = arg (\<lambda>a p. if a \<noteq> '''' then p\<lparr>password := Some a, auth := 2\<rparr> else p\<lparr>password := Some a\<rparr>) x
      in arg (\<lambda>a p. p\<lparr>auth := digit_value a\<rparr>) x)"

definition option_d :: "string \<Rightarrow> PROFILE_T \<Rightarrow> PROFILE_T" where
  "option_d a p =
     (let p = p\<lparr>qmichannel := Some a\<rparr>
      in if qmidev_is_pciemhi a then p\<lparr>usbnet_adapter := Some ''pcie_mhi0''\<rparr> else p)"

definition option_step :: "char \<Rightarrow> string list \<times> cmdline \<Rightarrow> (string list \<times> cmdline) option" where
  "option_step opt x =
     (if opt = CHR ''s'' then Some (option_s x)
      else if opt = CHR ''m'' then Some (arg (\<lambda>a p. p\<lparr>muxid := digit_value a\<rparr>) x)
      else if opt = CHR ''p'' then Some (arg (\<lambda>a p. p\<lparr>pincode := Some a\<rparr>) x)
      else if opt = CHR ''n'' then Some (arg (\<lambda>a p. p\<lparr>pdp := digit_value a\<rparr>) x)
      else if opt = CHR ''f'' then Some (with_arg (\<lambda>a c. c\<lparr>logfile := Some a\<rparr>) x)
      else if opt = CHR ''i'' then Some (arg (\<lambda>a p. p\<lparr>usbnet_adapter := Some a\<rparr>) x)
      else if opt = CHR ''v'' then Some (apsnd (\<lambda>c. c\<lparr>debug_qmi := True\<rparr>) x)
      else if opt = CHR ''l'' then Some (apsnd (\<lambda>c. c\<lparr>stay := True\<rparr>) x)
      else if opt = CHR ''4'' then Some (apsnd (set_profile (\<lambda>p. p\<lparr>enable_ipv4 := 1\<rparr>)) x)
      else if opt = CHR ''6'' then Some (apsnd (set_profile (\<lambda>p. p\<lparr>enable_ipv6 := 1\<rparr>)) x)
      else if opt = CHR ''d'' then Some (arg option_d x)
      else None)"

text \<open>The loop over the options; \<open>None\<close> prints the usage text.\<close>

lemma with_arg_shrinks: "length (fst (with_arg f x)) \<le> length (fst x)"
  by (cases x; cases "fst x") (auto simp: with_arg_def)

lemma option_shrinks: "option_step opt (as, c) = Some (as', c') \<Longrightarrow> length as' \<le> length as"
proof -
  have w: "with_arg f (bs, d) = (as', c') \<Longrightarrow> length as' \<le> length bs" for f bs d and c' :: cmdline
    using with_arg_shrinks [of f "(bs, d)"] by simp
  have "length (fst (option_s (as, c))) \<le> length as"
    unfolding option_s_def Let_def
    by (rule order_trans [OF with_arg_shrinks])+ simp
  then show "option_step opt (as, c) = Some (as', c') \<Longrightarrow> length as' \<le> length as"
    by (auto simp: option_step_def split: if_splits dest: w)
qed

function parse_args :: "string list \<Rightarrow> cmdline \<Rightarrow> cmdline option" where
  "parse_args [] c = Some c"
| "parse_args (a # as) c =
     (if first_char a \<noteq> CHR ''-'' then None
      else case option_step (first_char (tl a)) (as, c) of
        None \<Rightarrow> None
      | Some (as, c) \<Rightarrow> parse_args as c)"
  by pat_completeness auto
termination
  by (relation "measure (length \<circ> fst)") (auto dest!: option_shrinks)

definition no_options :: cmdline where
  "no_options = \<lparr>settings = zero_profile\<lparr>pdp := 1\<rparr>, logfile = None, debug_qmi = False, stay = False\<rparr>"

text \<open>A trailing \<open>&\<close> is dropped, and without \<open>-4\<close> and \<open>-6\<close> IPv4 is taken.\<close>

definition arguments :: "string list \<Rightarrow> string list" where
  "arguments argv = tl (if last argv = ''&'' then butlast argv else argv)"

definition default_family :: "cmdline \<Rightarrow> cmdline" where
  "default_family = set_profile (\<lambda>p.
     if enable_ipv4 p \<noteq> 1 \<and> enable_ipv6 p \<noteq> 1 then p\<lparr>enable_ipv4 := 1\<rparr> else p)"

section \<open>The main function\<close>

text \<open>
  \<open>Usage\<close> returns 0 behind the usage text, \<open>Failed\<close> returns -1. The interface given with \<open>-i\<close> is copied
  into a buffer of 33 bytes before the detection.
\<close>

datatype outcome = Usage | Failed | Qmi cmdline | Mbim cmdline

definition detect_device :: "sysfs \<Rightarrow> PROFILE_T \<Rightarrow> PROFILE_T option option" where
  "detect_device fs p =
     (if qmichannel p \<noteq> None \<and> usbnet_adapter p \<noteq> None then Some (Some p)
      else
        let wanted = (case usbnet_adapter p of None \<Rightarrow> '''' | Some u \<Rightarrow> u)
        in if 33 \<le> length wanted then None
           else do {
             (found, ch, net, nodes) \<leftarrow> qmidevice_detect fs 33 wanted;
             Some (if \<not> found then None
               else Some (p\<lparr>qmichannel := (if qmichannel p = None then Some ch else qmichannel p),
                 usbnet_adapter := (if usbnet_adapter p = None then Some net else usbnet_adapter p)\<rparr>)) })"

definition choose_mode :: "sysfs \<Rightarrow> cmdline \<Rightarrow> outcome option" where
  "choose_mode fs c = do {
     p \<leftarrow> ql_qmap_mode_detect fs (settings c);
     wrong \<leftarrow> varify_driver fs p;
     if wrong \<noteq> 0 then Some Failed
     else do {
       drv \<leftarrow> driver_name p;
       ch \<leftarrow> qmichannel p;
       let c = c\<lparr>settings := p\<rparr>;
       Some (if driver_is_mbim drv \<or> has_prefix ''/dev/mhi_MBIM'' ch then Mbim c else Qmi c) } }"

definition main :: "sysfs \<Rightarrow> string list \<Rightarrow> outcome option" where
  "main fs argv = (case parse_args (arguments argv) no_options of
     None \<Rightarrow> Some Usage
   | Some c \<Rightarrow>
       let c = default_family c
       in do {
         r \<leftarrow> detect_device fs (settings c);
         case r of None \<Rightarrow> Some Failed | Some p \<Rightarrow> choose_mode fs (c\<lparr>settings := p\<rparr>) })"

section \<open>What a command line can say\<close>

text \<open>
  The values that the options can give: strings without a leading dash, digits for the
  numbers, and the three strings of \<open>-s\<close> together. With a PCIe channel the interface is never
  open.
\<close>

definition plain :: "string \<Rightarrow> bool" where
  "plain a \<longleftrightarrow> first_char a \<noteq> CHR ''-''"

definition a_digit :: "int \<Rightarrow> bool" where
  "a_digit n \<longleftrightarrow> 0 \<le> n \<and> n \<le> 9"

definition digit_text :: "int \<Rightarrow> string" where
  "digit_text n = [char_of (nat n + 48)]"

definition login :: "PROFILE_T \<Rightarrow> bool" where
  "login p \<longleftrightarrow> (case (apn p, user p, password p) of
     (Some a, Some u, Some w) \<Rightarrow> plain a \<and> plain u \<and> plain w \<and> a_digit (auth p)
   | (None, None, None) \<Rightarrow> auth p = 0
   | _ \<Rightarrow> False)"

definition expressible :: "cmdline \<Rightarrow> bool" where
  "expressible c \<longleftrightarrow> (let p = settings c in
     login p \<and> a_digit (pdp p) \<and> a_digit (muxid p)
     \<and> pred_option plain (pincode p) \<and> pred_option plain (usbnet_adapter p) \<and> pred_option plain (qmichannel p)
     \<and> pred_option plain (logfile c)
     \<and> (\<forall>ch. qmichannel p = Some ch \<and> qmidev_is_pciemhi ch \<longrightarrow> usbnet_adapter p \<noteq> None)
     \<and> enable_ipv4 p \<in> {0, 1} \<and> enable_ipv6 p \<in> {0, 1}
     \<and> p = zero_profile\<lparr>apn := apn p, user := user p, password := password p, auth := auth p, pdp := pdp p,
         muxid := muxid p, pincode := pincode p, usbnet_adapter := usbnet_adapter p, qmichannel := qmichannel p,
         enable_ipv4 := enable_ipv4 p, enable_ipv6 := enable_ipv6 p\<rparr>)"

definition given_option :: "string \<Rightarrow> string option \<Rightarrow> string list" where
  "given_option o_name x = (case x of None \<Rightarrow> [] | Some a \<Rightarrow> [o_name, a])"

definition command_line :: "cmdline \<Rightarrow> string list" where
  "command_line c = (let p = settings c in
     (case (apn p, user p, password p) of
        (Some a, Some u, Some w) \<Rightarrow> [''-s'', a, u, w, digit_text (auth p)] | _ \<Rightarrow> [])
     @ [''-n'', digit_text (pdp p), ''-m'', digit_text (muxid p)]
     @ given_option ''-p'' (pincode p) @ given_option ''-d'' (qmichannel p)
     @ given_option ''-i'' (usbnet_adapter p) @ given_option ''-f'' (logfile c)
     @ (if debug_qmi c then [''-v''] else []) @ (if stay c then [''-l''] else [])
     @ (if enable_ipv4 p = 1 then [''-4''] else []) @ (if enable_ipv6 p = 1 then [''-6''] else []))"

lemma a_digit_cases: "a_digit n \<Longrightarrow> n \<in> {0, 1, 2, 3, 4, 5, 6, 7, 8, 9}"
  unfolding a_digit_def by (simp, presburger)

lemma digit_text_value: "a_digit n \<Longrightarrow> digit_value (digit_text n) = n"
  by (drule a_digit_cases) (auto simp: digit_value_def digit_text_def first_char_def)

lemma digit_text_plain: "a_digit n \<Longrightarrow> plain (digit_text n)"
  by (drule a_digit_cases) (auto simp: plain_def digit_text_def first_char_def char_of_eq_iff of_char_def)

text \<open>One option of the loop, with its argument, and a flag.\<close>

lemma with_plain: "plain a \<Longrightarrow> with_arg f (a # as, c) = (as, f a c)"
  by (simp add: with_arg_def plain_def)

lemma parse_with:
  assumes "\<And>x. option_step ch x = Some (with_arg f x)" "plain a"
  shows "parse_args ([CHR ''-'', ch] # a # as) c = parse_args as (f a c)"
  using assms by (simp add: first_char_def with_plain)

lemma parse_given:
  assumes "\<And>x. option_step ch x = Some (with_arg f x)" "pred_option plain x"
  shows "parse_args (given_option [CHR ''-'', ch] x @ as) c = parse_args as (case x of None \<Rightarrow> c | Some a \<Rightarrow> f a c)"
  using parse_with [OF assms(1)] assms(2) by (cases x) (simp_all add: given_option_def del: parse_args.simps)

lemma parse_flag:
  assumes "\<And>x. option_step ch x = Some (apsnd f x)"
  shows "parse_args ((if b then [[CHR ''-'', ch]] else []) @ as) c = parse_args as (if b then f c else c)"
  using assms by (simp add: first_char_def)

lemma parse_s:
  assumes "plain a" "plain u" "plain w" "a_digit n"
  shows "parse_args (''-s'' # a # u # w # digit_text n # as) c =
    parse_args as (set_profile (\<lambda>p. p\<lparr>apn := Some a, user := Some u, password := Some w, auth := n\<rparr>) c)"
  using assms digit_text_plain [of n] digit_text_value [of n]
  by (simp add: first_char_def option_step_def option_s_def with_plain set_profile_def)

lemma option_steps:
  "option_step CHR ''n'' x = Some (arg (\<lambda>a p. p\<lparr>pdp := digit_value a\<rparr>) x)"
  "option_step CHR ''m'' x = Some (arg (\<lambda>a p. p\<lparr>muxid := digit_value a\<rparr>) x)"
  "option_step CHR ''p'' x = Some (arg (\<lambda>a p. p\<lparr>pincode := Some a\<rparr>) x)"
  "option_step CHR ''d'' x = Some (arg option_d x)"
  "option_step CHR ''i'' x = Some (arg (\<lambda>a p. p\<lparr>usbnet_adapter := Some a\<rparr>) x)"
  "option_step CHR ''f'' x = Some (with_arg (\<lambda>a c. c\<lparr>logfile := Some a\<rparr>) x)"
  "option_step CHR ''v'' x = Some (apsnd (\<lambda>c. c\<lparr>debug_qmi := True\<rparr>) x)"
  "option_step CHR ''l'' x = Some (apsnd (\<lambda>c. c\<lparr>stay := True\<rparr>) x)"
  "option_step CHR ''4'' x = Some (apsnd (set_profile (\<lambda>p. p\<lparr>enable_ipv4 := 1\<rparr>)) x)"
  "option_step CHR ''6'' x = Some (apsnd (set_profile (\<lambda>p. p\<lparr>enable_ipv6 := 1\<rparr>)) x)"
  by (simp_all add: option_step_def)

lemma parse_login:
  assumes "login p" "apn (settings c) = None" "user (settings c) = None" "password (settings c) = None"
    "auth (settings c) = 0"
  shows "parse_args ((case (apn p, user p, password p) of
        (Some a, Some u, Some w) \<Rightarrow> [''-s'', a, u, w, digit_text (auth p)] | _ \<Rightarrow> []) @ as) c =
    parse_args as (set_profile (\<lambda>q. q\<lparr>apn := apn p, user := user p, password := password p, auth := auth p\<rparr>) c)"
proof (cases "apn p")
  case None
  then have "user p = None" "password p = None" "auth p = 0"
    using assms(1) by (auto simp: login_def split: option.splits)
  moreover have "(settings c)\<lparr>apn := None, user := None, password := None, auth := 0\<rparr> = settings c"
    by (rule PROFILE_T.equality) (simp_all add: assms(2-5))
  ultimately show ?thesis using None by (simp add: set_profile_def)
next
  case (Some a)
  then obtain u w where "user p = Some u" "password p = Some w" "plain a" "plain u" "plain w" "a_digit (auth p)"
    using assms(1) by (auto simp: login_def split: option.splits)
  with Some show ?thesis by (simp add: parse_s del: parse_args.simps)
qed

text \<open>C38: Every setting that the options can give is given by a command line: the program started
  with it has exactly these settings before the defaults.\<close>

theorem command_line_roundtrip:
  assumes "expressible c"
  shows "parse_args (command_line c) no_options = Some c"
proof -
  let ?p = "settings c"
  have e: "login ?p" "a_digit (pdp ?p)" "a_digit (muxid ?p)" "pred_option plain (pincode ?p)"
    "pred_option plain (qmichannel ?p)" "pred_option plain (usbnet_adapter ?p)" "pred_option plain (logfile c)"
    "\<forall>ch. qmichannel ?p = Some ch \<and> qmidev_is_pciemhi ch \<longrightarrow> usbnet_adapter ?p \<noteq> None"
    using assms by (auto simp: expressible_def Let_def)
  note plain = digit_text_plain [OF e(2)] digit_text_plain [OF e(3)]
  let ?flag = "\<lambda>b f (c :: cmdline). if b then f c else c"
  let ?c1 = "set_profile (\<lambda>q. q\<lparr>apn := apn ?p, user := user ?p, password := password ?p, auth := auth ?p\<rparr>) no_options"
  let ?c2 = "set_profile (\<lambda>q. q\<lparr>muxid := muxid ?p\<rparr>) (set_profile (\<lambda>q. q\<lparr>pdp := pdp ?p\<rparr>) ?c1)"
  let ?c3 = "case pincode ?p of None \<Rightarrow> ?c2 | Some a \<Rightarrow> set_profile (\<lambda>q. q\<lparr>pincode := Some a\<rparr>) ?c2"
  let ?c4 = "case qmichannel ?p of None \<Rightarrow> ?c3 | Some a \<Rightarrow> set_profile (option_d a) ?c3"
  let ?c5 = "case usbnet_adapter ?p of None \<Rightarrow> ?c4 | Some a \<Rightarrow> set_profile (\<lambda>q. q\<lparr>usbnet_adapter := Some a\<rparr>) ?c4"
  let ?c6 = "case logfile c of None \<Rightarrow> ?c5 | Some a \<Rightarrow> ?c5\<lparr>logfile := Some a\<rparr>"
  let ?c7 = "?flag (debug_qmi c) (\<lambda>c. c\<lparr>debug_qmi := True\<rparr>) ?c6"
  let ?c8 = "?flag (stay c) (\<lambda>c. c\<lparr>stay := True\<rparr>) ?c7"
  let ?c9 = "?flag (enable_ipv4 ?p = 1) (set_profile (\<lambda>p. p\<lparr>enable_ipv4 := 1\<rparr>)) ?c8"
  have start: "apn (settings no_options) = None" "user (settings no_options) = None"
    "password (settings no_options) = None" "auth (settings no_options) = 0"
    by (simp_all add: no_options_def zero_profile_def)
  have "parse_args (command_line c) no_options =
      Some (?flag (enable_ipv6 ?p = 1) (set_profile (\<lambda>p. p\<lparr>enable_ipv6 := 1\<rparr>)) ?c9)"
    using parse_flag [OF option_steps(10), where as = "[]"]
    by (simp only: command_line_def Let_def append_assoc append_Cons append_Nil append_Nil2 parse_args.simps(1)
        parse_login [OF e(1) start] parse_with [OF option_steps(1) plain(1)] parse_with [OF option_steps(2) plain(2)]
        digit_text_value e(2,3) parse_given [OF option_steps(3) e(4)] parse_given [OF option_steps(4) e(5)]
        parse_given [OF option_steps(5) e(6)] parse_given [OF option_steps(6) e(7)]
        parse_flag [OF option_steps(7)] parse_flag [OF option_steps(8)] parse_flag [OF option_steps(9)])
  moreover have c5: "?c5 = set_profile (\<lambda>q. q\<lparr>apn := apn ?p, user := user ?p, password := password ?p, auth := auth ?p,
      pdp := pdp ?p, muxid := muxid ?p, pincode := pincode ?p, qmichannel := qmichannel ?p,
      usbnet_adapter := usbnet_adapter ?p\<rparr>) no_options"
    using e(8) by (auto simp: set_profile_def option_d_def Let_def no_options_def zero_profile_def split: option.splits)
  moreover have "?flag (enable_ipv6 ?p = 1) (set_profile (\<lambda>p. p\<lparr>enable_ipv6 := 1\<rparr>)) ?c9 = c"
  proof (rule cmdline.equality)
    have p: "?p = zero_profile\<lparr>apn := apn ?p, user := user ?p, password := password ?p, auth := auth ?p, pdp := pdp ?p,
         muxid := muxid ?p, pincode := pincode ?p, usbnet_adapter := usbnet_adapter ?p, qmichannel := qmichannel ?p,
         enable_ipv4 := enable_ipv4 ?p, enable_ipv6 := enable_ipv6 ?p\<rparr>"
      and en: "enable_ipv4 ?p \<in> {0, 1}" "enable_ipv6 ?p \<in> {0, 1}"
      using assms by (simp_all only: expressible_def Let_def)
    have "settings (?flag (enable_ipv6 ?p = 1) (set_profile (\<lambda>p. p\<lparr>enable_ipv6 := 1\<rparr>)) ?c9)
        = zero_profile\<lparr>apn := apn ?p, user := user ?p, password := password ?p, auth := auth ?p, pdp := pdp ?p,
         muxid := muxid ?p, pincode := pincode ?p, usbnet_adapter := usbnet_adapter ?p, qmichannel := qmichannel ?p,
         enable_ipv4 := enable_ipv4 ?p, enable_ipv6 := enable_ipv6 ?p\<rparr>"
      unfolding c5 using en
      by (cases "logfile c"; cases "enable_ipv4 ?p = 1"; cases "enable_ipv6 ?p = 1")
        (simp_all add: set_profile_def no_options_def zero_profile_def)
    then show "settings (?flag (enable_ipv6 ?p = 1) (set_profile (\<lambda>p. p\<lparr>enable_ipv6 := 1\<rparr>)) ?c9) = ?p"
      using p by simp
  qed (unfold c5, auto simp: set_profile_def no_options_def split: option.splits)
  ultimately show ?thesis by simp
qed

text \<open>A command line for every option.\<close>

definition example_settings :: cmdline where
  "example_settings = \<lparr>settings = zero_profile\<lparr>apn := Some ''3gnet'', user := Some ''carl'', password := Some ''1234'',
     auth := 0, pdp := 2, muxid := 7, pincode := Some ''1234'', usbnet_adapter := Some ''wwan0'',
     qmichannel := Some ''/dev/cdc-wdm0'', enable_ipv4 := 1, enable_ipv6 := 1\<rparr>,
     logfile = Some ''gobinet_log.txt'', debug_qmi = True, stay = True\<rparr>"

theorem command_line_roundtrip_witness:
  "parse_args [''-s'', ''3gnet'', ''carl'', ''1234'', ''0'', ''-n'', ''2'', ''-m'', ''7'', ''-p'', ''1234'',
      ''-d'', ''/dev/cdc-wdm0'', ''-i'', ''wwan0'', ''-f'', ''gobinet_log.txt'', ''-v'', ''-l'', ''-4'', ''-6'']
    no_options = Some example_settings"
proof -
  have "expressible example_settings"
    by (simp add: expressible_def example_settings_def login_def zero_profile_def plain_def first_char_def a_digit_def
        qmidev_is_pciemhi_def has_prefix_def)
  moreover have "digit_text 0 = ''0''" "digit_text 2 = ''2''" "digit_text 7 = ''7''"
    by (simp_all add: digit_text_def char_of_eq_iff of_char_def)
  ultimately show ?thesis using command_line_roundtrip [of example_settings]
    by (simp add: command_line_def example_settings_def given_option_def del: parse_args.simps)
qed

section \<open>What the main function hands over\<close>

text \<open>Numbers of one signed character less 48, flags, and the three strings of \<open>-s\<close> together.\<close>

definition typed :: "PROFILE_T \<Rightarrow> bool" where
  "typed p \<longleftrightarrow> auth p \<in> {-176..79} \<and> pdp p \<in> {-176..79} \<and> muxid p \<in> {-176..79}
     \<and> enable_ipv4 p \<in> {0, 1} \<and> enable_ipv6 p \<in> {0, 1}
     \<and> (user p = None \<longleftrightarrow> apn p = None) \<and> (password p = None \<longleftrightarrow> apn p = None)
     \<and> qmap_mode p = 0 \<and> driver_name p = None \<and> qmapnet_adapter p = None"

lemma digit_value_range: "digit_value a \<in> {-176..79}"
  using sint_range_size [of "word_of_nat (of_char (first_char a)) :: byte"]
  by (simp add: digit_value_def word_size)

lemma with_arg_inv: "(\<And>a c. P c \<Longrightarrow> P (f a c)) \<Longrightarrow> P (snd x) \<Longrightarrow> P (snd (with_arg f x))"
  by (cases x) (auto simp: with_arg_def split: option.splits)

lemma typed_s: "typed (settings (snd x)) \<Longrightarrow> typed (settings (snd (option_s x)))"
proof -
  let ?P = "\<lambda>c. typed (settings c) \<and> apn (settings c) \<noteq> None"
  assume "typed (settings (snd x))"
  then have "?P (snd (option_s x))"
    unfolding option_s_def Let_def
    by (intro with_arg_inv [where P = ?P])
      (use digit_value_range in \<open>auto simp: set_profile_def typed_def\<close>)
  then show ?thesis by blast
qed

lemma typed_option:
  assumes "option_step opt x = Some y" "typed (settings (snd x))"
  shows "typed (settings (snd y))"
proof -
  let ?P = "\<lambda>c. typed (settings c)"
  have "?P (snd (with_arg f x))" if "\<And>a c. ?P c \<Longrightarrow> ?P (f a c)" for f :: "string \<Rightarrow> cmdline \<Rightarrow> cmdline"
    using with_arg_inv [where P = ?P, OF that assms(2)] .
  note w = this
  show ?thesis
    using assms unfolding option_step_def
    by (auto split: if_splits intro!: w typed_s)
      (use digit_value_range in \<open>auto simp: set_profile_def typed_def option_d_def Let_def\<close>)
qed

lemma typed_parse: "parse_args as c = Some d \<Longrightarrow> typed (settings c) \<Longrightarrow> typed (settings d)"
proof (induction as c rule: parse_args.induct)
  case (2 a as c)
  then obtain bs e where e: "option_step (first_char (tl a)) (as, c) = Some (bs, e)" "first_char a = CHR ''-''"
    "parse_args bs e = Some d"
    by (auto split: if_splits option.splits)
  then show ?case using 2 typed_option [OF e(1)] by simp
qed simp

text \<open>The detection of the mode changes only the mode, its interface and identifier, and the driver.\<close>

definition qmap_only :: "PROFILE_T \<Rightarrow> PROFILE_T \<Rightarrow> bool" where
  "qmap_only p q \<longleftrightarrow> q = p\<lparr>qmap_mode := qmap_mode q, muxid := muxid q, qmapnet_adapter := qmapnet_adapter q,
     driver_name := driver_name q\<rparr>"

lemma from_mode_frame: "qmap_from_mode net buf p = Some q \<Longrightarrow> qmap_only p q \<and> driver_name q = driver_name p"
  by (auto simp: qmap_from_mode_def qmap_only_def Let_def split: if_splits)

lemma from_add_mux_frame: "qmap_from_add_mux buf p = Some q \<Longrightarrow> qmap_only p q \<and> driver_name q = driver_name p"
  by (auto simp: qmap_from_add_mux_def qmap_only_def Let_def split: if_splits)

lemma qmap_only_fields:
  assumes only: "qmap_only p q"
  shows "usbnet_adapter q = usbnet_adapter p" "qmichannel q = qmichannel p" "enable_ipv4 q = enable_ipv4 p"
    "enable_ipv6 q = enable_ipv6 p" "auth q = auth p" "pdp q = pdp p" "apn q = apn p" "user q = user p"
    "password q = password p"
  by (subst only [unfolded qmap_only_def], simp)+

lemma qmap_frame:
  assumes "ql_qmap_mode_detect fs p = Some q"
  shows "usbnet_adapter p \<noteq> None \<and> driver_name q \<noteq> None \<and> qmap_only p q"
proof -
  from assms obtain net drv where n: "usbnet_adapter p = Some net"
    "(let p = p\<lparr>qmapnet_adapter := None, driver_name := Some drv\<rparr> in
      case qmap_mode_file fs net drv of
        Inl _ \<Rightarrow> Some p
      | Inr (Some f) \<Rightarrow> qmap_from_mode net (ql_fread fs f 128) p
      | Inr None \<Rightarrow> do {
          ch \<leftarrow> qmichannel p;
          if \<not> qmidev_is_qmiwwan ch then Some p
          else if access_errno fs (snprintf 510 (''/sys/class/net/qmimux'' @ dec_int (pdp p - 1))) \<noteq> None then Some p
          else qmap_from_add_mux
                 (ql_fread fs (snprintf 510 (''/sys/class/net/'' @ net @ ''/qmi/add_mux'')) 128) p }) = Some q"
    unfolding ql_qmap_mode_detect_def Let_def by auto
  let ?p = "p\<lparr>qmapnet_adapter := None, driver_name := Some drv\<rparr>"
  have "q = ?p \<or> (\<exists>b. qmap_from_mode net b ?p = Some q) \<or> (\<exists>b. qmap_from_add_mux b ?p = Some q)"
    using n(2) unfolding Let_def by (auto split: sum.splits option.splits if_splits simp del: append_Cons)
  then have "driver_name q \<noteq> None \<and> qmap_only ?p q"
    using from_mode_frame from_add_mux_frame by (fastforce simp: qmap_only_def)
  then show ?thesis using n(1) by (simp add: qmap_only_def)
qed

lemma detect_frame:
  assumes "detect_device fs p = Some (Some q)"
  shows "\<exists>ch u. q = p\<lparr>qmichannel := ch, usbnet_adapter := u\<rparr>"
proof -
  have "q = p\<lparr>qmichannel := qmichannel q, usbnet_adapter := usbnet_adapter q\<rparr>"
    using assms by (cases "usbnet_adapter p"; cases "qmichannel p")
      (auto simp: detect_device_def split: if_splits)
  then show ?thesis by blast
qed

lemma choose_mode_result:
  "choose_mode fs c = Some r \<Longrightarrow> \<exists>q. ql_qmap_mode_detect fs (settings c) = Some q \<and>
    (r = Failed \<or> varify_driver fs q = Some 0 \<and> (\<exists>drv ch. driver_name q = Some drv \<and> qmichannel q = Some ch
      \<and> r = (if driver_is_mbim drv \<or> has_prefix ''/dev/mhi_MBIM'' ch
           then Mbim (c\<lparr>settings := q\<rparr>) else Qmi (c\<lparr>settings := q\<rparr>))))"
  by (auto simp: choose_mode_def Let_def split: if_split_asm)

text \<open>C37: When the program starts a session, the interface, the channel and the driver are known, an IP
  family is enabled, the numbers are those of one character, the three strings of
  \<open>-s\<close> are given together, the class of the interface fits the driver, and MBIM is taken exactly for the
  MBIM driver and the MBIM channel; it ends with the usage text exactly for the command lines
  that the options do not cover.\<close>

theorem main_result:
  assumes "main fs argv = Some r"
  shows "(r = Usage \<longleftrightarrow> parse_args (arguments argv) no_options = None)
    \<and> (\<forall>c. r = Qmi c \<or> r = Mbim c \<longrightarrow> (let p = settings c in
      \<exists>u d ch. usbnet_adapter p = Some u \<and> driver_name p = Some d \<and> qmichannel p = Some ch
        \<and> (enable_ipv4 p = 1 \<or> enable_ipv6 p = 1) \<and> auth p \<in> {-176..79} \<and> pdp p \<in> {-176..79}
        \<and> (user p = None \<longleftrightarrow> apn p = None) \<and> (password p = None \<longleftrightarrow> apn p = None)
        \<and> varify_driver fs p = Some 0
        \<and> (r = Mbim c \<longleftrightarrow> driver_is_mbim d \<or> has_prefix ''/dev/mhi_MBIM'' ch)))"
proof (cases "parse_args (arguments argv) no_options")
  case None
  with assms show ?thesis by (simp add: main_def)
next
  case (Some c0)
  have "typed (settings no_options)" by (simp add: typed_def no_options_def zero_profile_def)
  then have "typed (settings c0)" using typed_parse [OF Some] by blast
  then have t: "typed (settings (default_family c0))"
    "enable_ipv4 (settings (default_family c0)) = 1 \<or> enable_ipv6 (settings (default_family c0)) = 1"
    by (auto simp: typed_def default_family_def set_profile_def)
  let ?c = "default_family c0"
  from assms Some obtain d where d: "detect_device fs (settings ?c) = Some d"
    "case d of None \<Rightarrow> r = Failed | Some p \<Rightarrow> choose_mode fs (?c\<lparr>settings := p\<rparr>) = Some r"
    by (auto simp: main_def Let_def split: option.splits)
  have not_usage: "r \<noteq> Usage"
    using d(2) by (auto split: option.splits if_splits dest: choose_mode_result)
  show ?thesis
  proof (cases d)
    case None
    with d not_usage Some show ?thesis by simp
  next
    case (Some p)
    have p: "typed p" "enable_ipv4 p = 1 \<or> enable_ipv6 p = 1"
    proof -
      obtain ch u where pe: "p = (settings ?c)\<lparr>qmichannel := ch, usbnet_adapter := u\<rparr>"
        using detect_frame [of fs "settings ?c" p] d(1) Some by blast
      show "typed p" "enable_ipv4 p = 1 \<or> enable_ipv6 p = 1" using t by (simp_all add: pe typed_def)
    qed
    from d(2) Some choose_mode_result [of fs "?c\<lparr>settings := p\<rparr>" r] obtain q where
      q: "ql_qmap_mode_detect fs p = Some q" and r: "r = Failed \<or> varify_driver fs q = Some 0
        \<and> (\<exists>drv ch. driver_name q = Some drv \<and> qmichannel q = Some ch
        \<and> r = (if driver_is_mbim drv \<or> has_prefix ''/dev/mhi_MBIM'' ch
           then Mbim (?c\<lparr>settings := q\<rparr>) else Qmi (?c\<lparr>settings := q\<rparr>)))"
      by auto
    note frame = qmap_frame [OF q]
    note same = qmap_only_fields [OF conjunct2 [OF conjunct2 [OF frame]]]
    have "usbnet_adapter q \<noteq> None" "enable_ipv4 q = 1 \<or> enable_ipv6 q = 1" "auth q \<in> {-176..79}"
      "pdp q \<in> {-176..79}" "(user q = None \<longleftrightarrow> apn q = None) \<and> (password q = None \<longleftrightarrow> apn q = None)"
      using p frame by (simp_all add: same typed_def)
    with r not_usage \<open>parse_args _ _ = Some c0\<close> show ?thesis
      by (auto simp: Let_def split: if_splits)
  qed
qed

text \<open>A modem with the QMI driver, whose interface has the class of a vendor.\<close>

definition qmi_fs :: sysfs where
  "qmi_fs = plugged_fs\<lparr>file_text := look [(''/sys/class/net/wwan0/device/bInterfaceClass'', ''ff'')]\<rparr>"

definition qmi_args :: "string list" where
  "qmi_args = [''quectel-CM'', ''-d'', ''/dev/cdc-wdm0'', ''-i'', ''wwan0'', ''-6'', ''&'']"

lemma qmi_args_parsed:
  "parse_args (arguments qmi_args) no_options =
     Some (no_options\<lparr>settings := zero_profile\<lparr>pdp := 1, qmichannel := Some ''/dev/cdc-wdm0'',
       usbnet_adapter := Some ''wwan0'', enable_ipv6 := 1\<rparr>\<rparr>)"
  by (simp add: qmi_args_def arguments_def first_char_def option_step_def with_arg_def option_d_def set_profile_def
      no_options_def qmidev_is_pciemhi_def has_prefix_def)

lemma qmi_main_result:
  "main qmi_fs qmi_args = Some (Qmi (no_options\<lparr>settings := zero_profile\<lparr>pdp := 1, qmichannel := Some ''/dev/cdc-wdm0'',
       usbnet_adapter := Some ''wwan0'', enable_ipv6 := 1, driver_name := Some ''qmi_wwan''\<rparr>\<rparr>))"
proof -
  let ?p = "zero_profile\<lparr>pdp := 1, qmichannel := Some ''/dev/cdc-wdm0'', usbnet_adapter := Some ''wwan0'', enable_ipv6 := 1\<rparr>"
  have q: "ql_qmap_mode_detect qmi_fs ?p = Some (?p\<lparr>driver_name := Some ''qmi_wwan''\<rparr>)"
    by (simp add: ql_qmap_mode_detect_def qmi_fs_def plugged_fs_def look_def zero_profile_def driver_of_link_def
        qmap_mode_file_def qmidev_is_qmiwwan_def has_prefix_def dec_int_def dec_def)
  have "fgets 32 ''ff'' = (''ff'', [])" by (simp add: eval_nat_numeral)
  moreover have "strtol 16 ''ff'' = (0xff, True)"
    using strtol_digits [of "''ff''" 16 "[]"] by (simp add: digit_def number_def)
  moreover have "cstring ''ff'' = ''ff''" by (simp add: cstring_def)
  moreover have "to_int 0xff = 0xff" by (rule to_int_id) simp_all
  moreover have "file_text qmi_fs ''/sys/class/net/wwan0/device/bInterfaceClass'' = Some ''ff''"
    by (simp add: qmi_fs_def look_def)
  ultimately have f: "file_get_value qmi_fs ''/sys/class/net/wwan0/device/bInterfaceClass'' = Some 0xff"
    by (simp only: file_get_value_def option.case prod.case fst_conv list.distinct if_False if_True Let_def)
  have m: "driver_is_qmi ''qmi_wwan''" "\<not> driver_is_mbim ''qmi_wwan''"
    by (simp_all add: driver_is_qmi_def driver_is_mbim_def has_prefix_ci_def lower_def)
  have v: "varify_driver qmi_fs (?p\<lparr>driver_name := Some ''qmi_wwan''\<rparr>) = Some 0"
    by (simp add: varify_driver_def f m)
  show ?thesis
    by (simp add: main_def qmi_args_parsed default_family_def set_profile_def detect_device_def choose_mode_def
        q v m has_prefix_def Let_def)
qed

theorem main_result_witness:
  "\<exists>c. main qmi_fs qmi_args = Some (Qmi c) \<and> usbnet_adapter (settings c) = Some ''wwan0'' \<and> varify_driver qmi_fs (settings c) = Some 0
     \<and> parse_args (arguments qmi_args) no_options \<noteq> None"
  using main_result [OF qmi_main_result] qmi_main_result by (auto simp: Let_def)

end
