(* ===== verification/Qlist.thy ===== *)
theory Qlist
  imports Prelude
begin

text \<open>
  The doubly linked rings of \<open>quectel-qmi-proxy.c\<close> (\<open>qlist_init\<close>, \<open>qlist_add_tail\<close>, \<open>qlist_remove\<close>,
  \<open>qlist_for_each\<close>) on a heap of nodes, and the lists that they implement.
\<close>

section \<open>The operations\<close>

type_synonym addr = nat

record ring_heap =
  nxt :: "addr \<Rightarrow> addr"
  prv :: "addr \<Rightarrow> addr"

definition set_next :: "addr \<Rightarrow> addr \<Rightarrow> ring_heap \<Rightarrow> ring_heap" where
  "set_next n v h = h\<lparr>nxt := (nxt h)(n := v)\<rparr>"

definition set_prev :: "addr \<Rightarrow> addr \<Rightarrow> ring_heap \<Rightarrow> ring_heap" where
  "set_prev n v h = h\<lparr>prv := (prv h)(n := v)\<rparr>"

definition qlist_init :: "addr \<Rightarrow> ring_heap \<Rightarrow> ring_heap" where
  "qlist_init node h = (let h = set_next node node h in set_prev node node h)"

definition qlist_add_tail :: "addr \<Rightarrow> addr \<Rightarrow> ring_heap \<Rightarrow> ring_heap" where
  "qlist_add_tail head item h =
     (let h = set_next item head h;
          h = set_prev item (prv h head) h;
          h = set_next (prv h head) item h
      in set_prev head item h)"

definition qlist_remove :: "addr \<Rightarrow> ring_heap \<Rightarrow> ring_heap" where
  "qlist_remove item h =
     (let h = set_prev (nxt h item) (prv h item) h
      in set_next (prv h item) (nxt h item) h)"

definition qlist_empty :: "addr \<Rightarrow> ring_heap \<Rightarrow> bool" where
  "qlist_empty list h \<longleftrightarrow> list = nxt h list"

definition qlist_head :: "addr \<Rightarrow> ring_heap \<Rightarrow> addr" where
  "qlist_head list h = nxt h list"

text \<open>The nodes that \<open>qlist_for_each\<close> visits from \<open>node\<close> on; a walk that misses the head does not end.\<close>

partial_function (option) walk :: "ring_heap \<Rightarrow> addr \<Rightarrow> addr \<Rightarrow> addr list option" where
  "walk h list node =
     (if node = list then Some []
      else Option.bind (walk h list (nxt h node)) (\<lambda>ns. Some (node # ns)))"

definition qlist_for_each :: "addr \<Rightarrow> ring_heap \<Rightarrow> addr list option" where
  "qlist_for_each list h = walk h list (nxt h list)"

declare walk.simps [code]

section \<open>Rings\<close>

text \<open>\<open>linked h a xs b\<close>: from \<open>a\<close> the links lead through \<open>xs\<close> to \<open>b\<close>, and back.\<close>

fun linked :: "ring_heap \<Rightarrow> addr \<Rightarrow> addr list \<Rightarrow> addr \<Rightarrow> bool" where
  "linked h a [] b \<longleftrightarrow> nxt h a = b \<and> prv h b = a"
| "linked h a (x # xs) b \<longleftrightarrow> nxt h a = x \<and> prv h x = a \<and> linked h x xs b"

definition ring :: "ring_heap \<Rightarrow> addr \<Rightarrow> addr list \<Rightarrow> bool" where
  "ring h list xs \<longleftrightarrow> distinct (list # xs) \<and> linked h list xs list"

lemma linked_append: "linked h a (xs @ x # ys) b \<longleftrightarrow> linked h a xs x \<and> linked h x ys b"
  by (induction h a xs x rule: linked.induct) auto

lemma linked_cong:
  "(\<forall>n \<in> set (a # xs). nxt h' n = nxt h n) \<Longrightarrow> (\<forall>n \<in> set (xs @ [b]). prv h' n = prv h n)
    \<Longrightarrow> linked h' a xs b = linked h a xs b"
  by (induction h a xs b rule: linked.induct) auto

lemma linked_last: "linked h a xs b \<Longrightarrow> prv h b = last (a # xs)"
  by (induction h a xs b rule: linked.induct) auto

lemma walk_linked: "linked h a xs b \<Longrightarrow> b \<notin> set xs \<Longrightarrow> walk h b (nxt h a) = Some xs"
proof (induction h a xs b rule: linked.induct)
  case (1 h a b)
  then show ?case by (simp add: walk.simps)
next
  case (2 h a x xs b)
  then show ?case by (simp add: walk.simps [of h b x])
qed

lemma for_each_ring: "ring h list xs \<Longrightarrow> qlist_for_each list h = Some xs"
  by (simp add: ring_def qlist_for_each_def walk_linked)

lemma init_ring: "ring (qlist_init n h) n []"
  by (simp add: ring_def qlist_init_def set_next_def set_prev_def)

lemma add_tail_fields:
  assumes "ring h list xs" "item \<notin> set (list # xs)"
  shows "nxt (qlist_add_tail list item h) = (nxt h)(item := list, last (list # xs) := item)"
    and "prv (qlist_add_tail list item h) = (prv h)(item := last (list # xs), list := item)"
proof -
  have "prv h list = last (list # xs)" using assms(1) linked_last by (auto simp: ring_def)
  moreover have "item \<noteq> list" using assms(2) by simp
  ultimately show "nxt (qlist_add_tail list item h) = (nxt h)(item := list, last (list # xs) := item)"
    and "prv (qlist_add_tail list item h) = (prv h)(item := last (list # xs), list := item)"
    by (simp_all add: qlist_add_tail_def set_next_def set_prev_def Let_def)
qed

lemma relink:
  assumes "linked h a xs b" "distinct (a # xs)" "b' \<notin> set xs"
    and h': "nxt h' = (nxt h)(last (a # xs) := b')" "prv h' = (prv h)(b' := last (a # xs))"
  shows "linked h' a xs b'"
proof (cases xs rule: rev_cases)
  case Nil
  then show ?thesis using h' by simp
next
  case (snoc ys y)
  have "linked h a ys y" using assms(1) snoc by (simp add: linked_append)
  then have "linked h' a ys y"
    by (subst linked_cong [of a ys h' h y]) (use assms(2-) snoc in auto)
  then show ?thesis using h' snoc by (simp add: linked_append)
qed

lemma add_tail_ring:
  assumes "ring h list xs" "item \<notin> set (list # xs)"
  shows "ring (qlist_add_tail list item h) list (xs @ [item])"
proof -
  let ?h = "qlist_add_tail list item h"
  note f = add_tail_fields [OF assms]
  have d: "distinct (list # xs)" "linked h list xs list" using assms(1) by (simp_all add: ring_def)
  have "linked (h\<lparr>nxt := (nxt h)(last (list # xs) := item), prv := (prv h)(item := last (list # xs))\<rparr>) list xs item"
    by (rule relink [OF d(2,1)]) (use assms(2) in auto)
  then have "linked ?h list xs item"
    by (subst linked_cong [where h' = ?h]) (use f assms(2) d(1) in auto)
  moreover have "linked ?h item [] list" using f assms(2) by auto
  ultimately show ?thesis using assms d(1) by (simp add: ring_def linked_append)
qed

lemma remove_fields:
  assumes "ring h list (xs @ item # ys)"
  shows "nxt (qlist_remove item h) = (nxt h)(last (list # xs) := hd (ys @ [list]))"
    and "prv (qlist_remove item h) = (prv h)(hd (ys @ [list]) := last (list # xs))"
proof -
  have l: "linked h list xs item" "linked h item ys list" "distinct (list # xs @ item # ys)"
    using assms by (simp_all add: ring_def linked_append)
  have p: "prv h item = last (list # xs)" using linked_last [OF l(1)] .
  have n: "nxt h item = hd (ys @ [list])" using l(2) by (cases ys) auto
  have "hd (ys @ [list]) \<noteq> item" using l(3) by (cases ys) auto
  then show "nxt (qlist_remove item h) = (nxt h)(last (list # xs) := hd (ys @ [list]))"
    and "prv (qlist_remove item h) = (prv h)(hd (ys @ [list]) := last (list # xs))"
    using p n by (simp_all add: qlist_remove_def set_next_def set_prev_def Let_def)
qed

lemma remove_ring:
  assumes "ring h list (xs @ item # ys)"
  shows "ring (qlist_remove item h) list (xs @ ys)"
proof -
  let ?h = "qlist_remove item h"
  note f = remove_fields [OF assms]
  have l: "linked h list xs item" "linked h item ys list" and d: "distinct (list # xs @ item # ys)"
    using assms by (simp_all add: ring_def linked_append)
  have 1: "linked ?h list xs (hd (ys @ [list]))"
    by (rule relink [OF l(1)]) (use d f in \<open>auto simp: hd_append\<close>)
  show ?thesis
  proof (cases ys)
    case Nil
    with 1 d show ?thesis by (simp add: ring_def)
  next
    case (Cons y ys')
    have "linked h y ys' list" using l(2) Cons by simp
    moreover have "last (list # xs) \<in> set (list # xs)" by (rule last_in_set) simp
    then have "last (list # xs) \<notin> set (y # ys')" using d Cons by (metis Un_iff disjoint_iff distinct_append append_Cons set_append list.set_intros(2))
    ultimately have "linked ?h y ys' list"
      by (subst linked_cong [where h = h]) (use d f Cons in \<open>auto split: if_splits\<close>)
    with 1 d Cons show ?thesis by (simp add: ring_def linked_append)
  qed
qed

text \<open>Rings on other nodes stay as they are.\<close>

lemma other_ring:
  assumes "ring h l2 ys" "\<forall>n \<in> set (l2 # ys). nxt h' n = nxt h n \<and> prv h' n = prv h n"
  shows "ring h' l2 ys"
  using assms linked_cong [of l2 ys h' h l2] by (auto simp: ring_def)

lemma init_fields:
  "nxt (qlist_init n h) = (nxt h)(n := n)" "prv (qlist_init n h) = (prv h)(n := n)"
  by (simp_all add: qlist_init_def set_next_def set_prev_def Let_def)

lemma init_keeps: "ring h list xs \<Longrightarrow> n \<notin> set (list # xs) \<Longrightarrow> ring (qlist_init n h) list xs"
  by (erule other_ring) (auto simp: init_fields)

lemma add_keeps:
  assumes "ring h list xs" "ring h l2 ys" "set (l2 # ys) \<inter> set (list # xs) = {}"
    and "item \<notin> set (l2 # ys) \<union> set (list # xs)"
  shows "ring (qlist_add_tail list item h) l2 ys"
proof -
  have "last (list # xs) \<in> set (list # xs)" by (rule last_in_set) simp
  with assms(3,4) have "last (list # xs) \<notin> set (l2 # ys)" "list \<notin> set (l2 # ys)" "item \<notin> set (l2 # ys)" by auto
  then show ?thesis using assms(4)
    by (intro other_ring [OF assms(2)]) (auto simp: add_tail_fields [OF assms(1)])
qed

lemma remove_keeps:
  assumes "ring h list (xs @ item # zs)" "ring h l2 ys" "set (l2 # ys) \<inter> set (list # xs @ item # zs) = {}"
  shows "ring (qlist_remove item h) l2 ys"
proof -
  have "last (list # xs) \<in> set (list # xs)" "hd (zs @ [list]) \<in> set (zs @ [list])"
    by (rule last_in_set, simp) (rule hd_in_set, simp)
  with assms(3) have "last (list # xs) \<notin> set (l2 # ys)" "hd (zs @ [list]) \<notin> set (l2 # ys)" by auto
  then show ?thesis
    by (intro other_ring [OF assms(2)]) (auto simp: remove_fields [OF assms(1)])
qed

text \<open>C22: A ring is walked in order and always to its end; a fresh ring is the empty list, adding at the
  tail appends, removing takes the node out wherever it stands, and a ring on other
  nodes is not changed.\<close>

theorem rings_are_lists:
  assumes "ring h list xs"
  shows "qlist_for_each list h = Some xs \<and> (qlist_empty list h \<longleftrightarrow> xs = []) \<and> (xs \<noteq> [] \<longrightarrow> qlist_head list h = hd xs)
    \<and> ring (qlist_init n h) n []
    \<and> (item \<notin> set (list # xs) \<longrightarrow> ring (qlist_add_tail list item (qlist_init item h)) list (xs @ [item]))
    \<and> (item \<in> set xs \<longrightarrow> ring (qlist_remove item h) list (remove1 item xs))
    \<and> (ring h l2 ys \<and> set (l2 # ys) \<inter> set (list # xs) = {} \<longrightarrow>
        (item \<notin> set (l2 # ys) \<union> set (list # xs) \<longrightarrow> ring (qlist_add_tail list item (qlist_init item h)) l2 ys)
        \<and> (item \<in> set xs \<longrightarrow> ring (qlist_remove item h) l2 ys))"
proof -
  have d: "distinct (list # xs)" "linked h list xs list" using assms by (simp_all add: ring_def)
  then have e: "qlist_empty list h \<longleftrightarrow> xs = []" "xs \<noteq> [] \<longrightarrow> qlist_head list h = hd xs"
    by (cases xs; auto simp: qlist_empty_def qlist_head_def)+
  have split: "\<exists>as bs. xs = as @ item # bs \<and> remove1 item xs = as @ bs" if "item \<in> set xs"
  proof -
    from split_list_first [OF that] obtain as bs where "xs = as @ item # bs" "item \<notin> set as" by blast
    then show ?thesis by (auto simp: remove1_append)
  qed
  have rem: "ring (qlist_remove item h) list (remove1 item xs)" if "item \<in> set xs"
  proof -
    from split [OF that] obtain as bs where xs: "xs = as @ item # bs" "remove1 item xs = as @ bs" by blast
    then show ?thesis using remove_ring [of h list as item bs] assms by simp
  qed
  have rem2: "ring (qlist_remove item h) l2 ys"
    if "ring h l2 ys" "set (l2 # ys) \<inter> set (list # xs) = {}" "item \<in> set xs"
  proof -
    from split [OF that(3)] obtain as bs where xs: "xs = as @ item # bs" by blast
    then show ?thesis using remove_keeps [of h list as item bs l2 ys] assms that(1,2) by simp
  qed
  have add: "ring (qlist_add_tail list item (qlist_init item h)) list (xs @ [item])" if "item \<notin> set (list # xs)"
    using add_tail_ring [OF init_keeps [OF assms that] that] .
  have add2: "ring (qlist_add_tail list item (qlist_init item h)) l2 ys"
    if "ring h l2 ys" "set (l2 # ys) \<inter> set (list # xs) = {}" "item \<notin> set (l2 # ys) \<union> set (list # xs)"
    using add_keeps [OF init_keeps [OF assms] init_keeps [OF that(1)] that(2,3)] that(3) by blast
  show ?thesis
    using for_each_ring [OF assms] e init_ring rem rem2 add add2 by blast
qed

text \<open>Two rings on the nodes 0 to 4.\<close>

definition two_rings :: ring_heap where
  "two_rings = qlist_add_tail 0 2 (qlist_add_tail 0 1 (qlist_init 3 (qlist_init 0 \<lparr>nxt = id, prv = id\<rparr>)))"

lemma two_rings_ok: "ring two_rings 0 [1, 2]" "ring two_rings 3 []"
  by (simp_all add: two_rings_def ring_def qlist_add_tail_def init_fields set_next_def set_prev_def Let_def)

theorem rings_are_lists_witness:
  "qlist_for_each 0 two_rings = Some [1, 2] \<and> ring (qlist_remove 1 two_rings) 0 [2]
    \<and> ring (qlist_add_tail 0 4 (qlist_init 4 two_rings)) 3 []"
  using rings_are_lists [OF two_rings_ok(1), of 0 1 3 "[]"] rings_are_lists [OF two_rings_ok(1), of 0 4 3 "[]"]
    two_rings_ok(2) by simp

end
