(* ===== verification/Proxy.thy ===== *)
theory Proxy
  imports Qlist Compose
begin

text \<open>
  The multiplexing daemon \<open>quectel-qmi-proxy.c\<close>: the table of its client connections, the queue of
  control requests, and the loop that moves messages between the modem and the clients.
  The daemon declares the message structures again; they are those of \<open>Wire\<close>
  (its \<open>QCQMUX_MSG_HDR\<close> is \<open>QCQMUX_HDR\<close> and \<open>QCQMUX_MSG_HDR\<close> together). The rings of
  \<open>Qlist\<close> appear as the lists that they implement.

  \<open>ok fd n\<close> says whether \<open>poll\<close> finds the descriptor \<open>fd\<close> writable within five seconds at the
  \<open>n\<close>-th attempt to write. What is written is recorded. \<open>None\<close> is undefined behaviour.
\<close>

section \<open>The state\<close>

record QMI_PROXY_CLINET =
  cl_QMIType :: byte
  cl_ClientId :: byte
  cl_AccessTime :: u32

record QMI_PROXY_CONNECTION =
  con_ClientFd :: byte
  client_qnode :: "QMI_PROXY_CLINET list"
  con_AccessTime :: u32

type_synonym QMI_PROXY_MSG = "byte \<times> byte list"

record proxy =
  qmi_proxy_connection :: "QMI_PROXY_CONNECTION list"
  qmi_proxy_ctl_msg :: "QMI_PROXY_MSG list"
  proxy_wdm_fd :: int
  qmi_proxy_server_fd :: int
  qmi_proxy_quit :: bool
  modem_reset_flag :: bool
  s_pCtlReq :: "byte list option"
  s_pCtlRsq :: "byte list option"
  proxy_buf :: "byte list"
  writes_tried :: nat
  to_modem :: "byte list list"
  to_clients :: "(byte \<times> byte list) list"
  closed :: "byte list"
  loop_over :: bool

type_synonym writable = "int \<Rightarrow> nat \<Rightarrow> bool"

section \<open>Connections and their clients\<close>

definition accept_qmi_connection :: "int \<Rightarrow> proxy \<Rightarrow> proxy" where
  \<comment> \<open>the argument is the result of \<open>accept\<close>; it is stored in one byte\<close>
  "accept_qmi_connection clientfd s = s\<lparr>qmi_proxy_connection := qmi_proxy_connection s @
     [\<lparr>con_ClientFd = word_of_int clientfd, client_qnode = [], con_AccessTime = 0\<rparr>]\<rparr>"

fun remove_first :: "('a \<Rightarrow> bool) \<Rightarrow> 'a list \<Rightarrow> 'a list" where
  \<comment> \<open>a walk that takes out the first node with the property and stops\<close>
  "remove_first P [] = []"
| "remove_first P (x # xs) = (if P x then xs else x # remove_first P xs)"

definition cleanup_qmi_connection :: "int \<Rightarrow> proxy \<Rightarrow> proxy" where
  "cleanup_qmi_connection clientfd s =
     (let is_con = (\<lambda>c. uint (con_ClientFd c) = clientfd)
      in case find is_con (qmi_proxy_connection s) of
        None \<Rightarrow> s
      | Some qmi_con \<Rightarrow> s\<lparr>
          qmi_proxy_ctl_msg := remove_first (\<lambda>m. fst m = con_ClientFd qmi_con) (qmi_proxy_ctl_msg s),
          closed := closed s @ [con_ClientFd qmi_con],
          qmi_proxy_connection := remove_first is_con (qmi_proxy_connection s)\<rparr>)"

definition get_client_id :: "byte list \<Rightarrow> QMI_PROXY_CONNECTION \<Rightarrow> QMI_PROXY_CONNECTION option" where
  "get_client_id b qmi_con = do {
     QMIResult \<leftarrow> get16 b MUXMsg QMICTL_GET_CLIENT_ID_RESP_MSG ''QMIResult'';
     QMIError \<leftarrow> get16 b MUXMsg QMICTL_GET_CLIENT_ID_RESP_MSG ''QMIError'';
     if QMIResult = 0 \<and> QMIError = 0 then do {
       ty \<leftarrow> get8 b MUXMsg QMICTL_GET_CLIENT_ID_RESP_MSG ''QMIType'';
       cid \<leftarrow> get8 b MUXMsg QMICTL_GET_CLIENT_ID_RESP_MSG ''ClientId'';
       Some (qmi_con\<lparr>client_qnode := client_qnode qmi_con @
         [\<lparr>cl_QMIType = ty, cl_ClientId = cid, cl_AccessTime = 0\<rparr>]\<rparr>) }
     else Some qmi_con }"

definition release_client_id :: "byte list \<Rightarrow> QMI_PROXY_CONNECTION \<Rightarrow> QMI_PROXY_CONNECTION option" where
  \<comment> \<open>\<open>QMICTL_RELEASE_CLIENT_ID_RESP_MSG\<close> has the fields of \<open>QMICTL_GET_CLIENT_ID_RESP_MSG\<close>\<close>
  "release_client_id b qmi_con = do {
     QMIResult \<leftarrow> get16 b MUXMsg QMICTL_GET_CLIENT_ID_RESP_MSG ''QMIResult'';
     QMIError \<leftarrow> get16 b MUXMsg QMICTL_GET_CLIENT_ID_RESP_MSG ''QMIError'';
     if QMIResult = 0 \<and> QMIError = 0 then do {
       ty \<leftarrow> get8 b MUXMsg QMICTL_GET_CLIENT_ID_RESP_MSG ''QMIType'';
       cid \<leftarrow> get8 b MUXMsg QMICTL_GET_CLIENT_ID_RESP_MSG ''ClientId'';
       Some (qmi_con\<lparr>client_qnode :=
         remove_first (\<lambda>c. ty = cl_QMIType c \<and> cid = cl_ClientId c) (client_qnode qmi_con)\<rparr>) }
     else Some qmi_con }"

section \<open>Writing\<close>

definition send_qmi_to_cdc_wdm :: "writable \<Rightarrow> byte list \<Rightarrow> proxy \<Rightarrow> proxy option" where
  "send_qmi_to_cdc_wdm ok b s =
     (let n = writes_tried s; s = s\<lparr>writes_tried := Suc n\<rparr>
      in if ok (proxy_wdm_fd s) n then do {
           Length \<leftarrow> get16 b 0 QCQMI_HDR ''Length'';
           msg \<leftarrow> rdn b 0 (unat Length + 1);
           Some (s\<lparr>to_modem := to_modem s @ [msg]\<rparr>) }
         else Some s)"

definition send_qmi_to_client :: "writable \<Rightarrow> byte list \<Rightarrow> byte \<Rightarrow> proxy \<Rightarrow> proxy option" where
  "send_qmi_to_client ok b clientFd s =
     (let n = writes_tried s; s = s\<lparr>writes_tried := Suc n\<rparr>
      in if ok (uint clientFd) n then do {
           Length \<leftarrow> get16 b 0 QCQMI_HDR ''Length'';
           msg \<leftarrow> rdn b 0 (unat Length + 1);
           Some (s\<lparr>to_clients := to_clients s @ [(clientFd, msg)]\<rparr>) }
         else Some s)"

section \<open>A message of the modem\<close>

abbreviation (input) "QMICTL_CTL_FLAG_RSP \<equiv> (0x01 :: byte)"
abbreviation (input) "QMICTL_GET_CLIENT_ID_RESP \<equiv> (0x0022 :: u16)"
abbreviation (input) "QMICTL_RELEASE_CLIENT_ID_RESP \<equiv> (0x0023 :: u16)"
abbreviation (input) "QMICTL_REVOKE_CLIENT_ID_IND \<equiv> (0x0024 :: u16)"

text \<open>While there is no server: the answer that the main thread waits for. \<open>n\<close> bytes are copied.\<close>

definition recv_ctl_rsp :: "byte list \<Rightarrow> nat \<Rightarrow> proxy \<Rightarrow> proxy option" where
  "recv_ctl_rsp b n s = (case s_pCtlReq s of
     None \<Rightarrow> Some s
   | Some req \<Rightarrow> do {
       QMIType \<leftarrow> get8 b 0 QCQMI_HDR ''QMIType'';
       same \<leftarrow> (if QMIType = QMUX_TYPE_CTL then do {
           t1 \<leftarrow> get8 req MUXMsg QCQMICTL_MSG_HDR_RESP ''TransactionId'';
           t2 \<leftarrow> get8 b MUXMsg QCQMICTL_MSG_HDR_RESP ''TransactionId'';
           Some (t1 = t2) }
         else do {
           t1 \<leftarrow> get16 req MUXMsg QCQMUX_HDR ''TransactionId'';
           t2 \<leftarrow> get16 b MUXMsg QCQMUX_HDR ''TransactionId'';
           Some (t1 = t2) });
       if same then do { copy \<leftarrow> rdn b 0 n; Some (s\<lparr>s_pCtlRsq := Some copy\<rparr>) }
       else Some s })"

text \<open>A control response goes to the connection of the oldest request, and updates its clients.\<close>

definition note_ctl_rsp :: "byte list \<Rightarrow> QMI_PROXY_CONNECTION \<Rightarrow> (QMI_PROXY_CONNECTION \<times> bool) option" where
  "note_ctl_rsp b qmi_con = do {
     ty \<leftarrow> get16 b MUXMsg QCQMICTL_MSG_HDR_RESP ''QMICTLType'';
     if ty = QMICTL_GET_CLIENT_ID_RESP then do { c \<leftarrow> get_client_id b qmi_con; Some (c, False) }
     else if ty = QMICTL_RELEASE_CLIENT_ID_RESP \<or> ty = QMICTL_REVOKE_CLIENT_ID_IND then do {
       c \<leftarrow> release_client_id b qmi_con;
       Some (c, ty = QMICTL_REVOKE_CLIENT_ID_IND) }
     else Some (qmi_con, False) }"

fun answer_ctl :: "writable \<Rightarrow> byte list \<Rightarrow> byte \<Rightarrow> QMI_PROXY_CONNECTION list \<Rightarrow> proxy
    \<Rightarrow> (QMI_PROXY_CONNECTION list \<times> proxy) option" where
  "answer_ctl ok b fd [] s = Some ([], s)"
| "answer_ctl ok b fd (qmi_con # cons) s = do {
     (c, s) \<leftarrow> (if con_ClientFd qmi_con = fd then do {
         s \<leftarrow> send_qmi_to_client ok b fd s;
         (c, reset) \<leftarrow> note_ctl_rsp b qmi_con;
         Some (c, if reset then s\<lparr>modem_reset_flag := True\<rparr> else s) }
       else Some (qmi_con, s));
     (cs, s) \<leftarrow> answer_ctl ok b fd cons s;
     Some (c # cs, s) }"

text \<open>The oldest request is sent once for each connection with its descriptor.\<close>

fun send_oldest :: "writable \<Rightarrow> QMI_PROXY_MSG \<Rightarrow> QMI_PROXY_CONNECTION list \<Rightarrow> proxy \<Rightarrow> proxy option" where
  "send_oldest ok m [] s = Some s"
| "send_oldest ok m (qmi_con # cons) s = do {
     s \<leftarrow> (if con_ClientFd qmi_con = fst m then send_qmi_to_cdc_wdm ok (snd m) s else Some s);
     send_oldest ok m cons s }"

definition recv_ctl :: "writable \<Rightarrow> byte list \<Rightarrow> proxy \<Rightarrow> proxy option" where
  "recv_ctl ok b s = do {
     CtlFlags \<leftarrow> get8 b MUXMsg QCQMICTL_MSG_HDR ''CtlFlags'';
     s \<leftarrow> (if CtlFlags = QMICTL_CTL_FLAG_RSP \<and> qmi_proxy_ctl_msg s \<noteq> [] then do {
         (cons, s) \<leftarrow> answer_ctl ok b (fst (hd (qmi_proxy_ctl_msg s))) (qmi_proxy_connection s) s;
         Some (s\<lparr>qmi_proxy_connection := cons, qmi_proxy_ctl_msg := tl (qmi_proxy_ctl_msg s)\<rparr>) }
       else Some s);
     if qmi_proxy_ctl_msg s \<noteq> []
     then send_oldest ok (hd (qmi_proxy_ctl_msg s)) (qmi_proxy_connection s) s
     else Some s }"

text \<open>Every other message goes to each client of its service that it names, or to all of the service.\<close>

fun to_all_clients :: "writable \<Rightarrow> byte list \<Rightarrow> byte \<Rightarrow> byte \<Rightarrow> (byte \<times> QMI_PROXY_CLINET) list \<Rightarrow> proxy \<Rightarrow> proxy option" where
  "to_all_clients ok b ty cid [] s = Some s"
| "to_all_clients ok b ty cid ((fd, c) # cs) s = do {
     s \<leftarrow> (if ty = cl_QMIType c \<and> (cid = 0 \<or> cid = cl_ClientId c) then send_qmi_to_client ok b fd s else Some s);
     to_all_clients ok b ty cid cs s }"

definition all_clients :: "proxy \<Rightarrow> (byte \<times> QMI_PROXY_CLINET) list" where
  "all_clients s = concat (map (\<lambda>con. map (Pair (con_ClientFd con)) (client_qnode con)) (qmi_proxy_connection s))"

definition recv_qmi :: "writable \<Rightarrow> byte list \<Rightarrow> nat \<Rightarrow> proxy \<Rightarrow> proxy option" where
  "recv_qmi ok b n s =
     (if qmi_proxy_server_fd s \<le> 0 then recv_ctl_rsp b n s
      else do {
        QMIType \<leftarrow> get8 b 0 QCQMI_HDR ''QMIType'';
        if QMIType = QMUX_TYPE_CTL then recv_ctl ok b s
        else do {
          ClientId \<leftarrow> get8 b 0 QCQMI_HDR ''ClientId'';
          to_all_clients ok b QMIType ClientId (all_clients s) s } })"

section \<open>A message of a client\<close>

definition send_qmi :: "writable \<Rightarrow> byte list \<Rightarrow> nat \<Rightarrow> int \<Rightarrow> proxy \<Rightarrow> proxy option" where
  "send_qmi ok b n clientfd s =
     (if qmi_proxy_server_fd s \<le> 0 then send_qmi_to_cdc_wdm ok b s
      else do {
        QMIType \<leftarrow> get8 b 0 QCQMI_HDR ''QMIType'';
        if QMIType = QMUX_TYPE_CTL then do {
          s \<leftarrow> (if qmi_proxy_ctl_msg s = [] then send_qmi_to_cdc_wdm ok b s else Some s);
          copy \<leftarrow> rdn b 0 n;
          Some (s\<lparr>qmi_proxy_ctl_msg := qmi_proxy_ctl_msg s @ [(word_of_int clientfd, copy)]\<rparr>) }
        else send_qmi_to_cdc_wdm ok b s })"

section \<open>The loop\<close>

text \<open>
  What \<open>poll\<close> reports for one descriptor, with the data that \<open>read\<close> returns (\<open>[]\<close> for an error or the
  end) or the descriptor that \<open>accept\<close> returns. At most 66 descriptors are polled.
\<close>

datatype poll_event = Quiet | Broken | Input "byte list" int

definition polled :: "proxy \<Rightarrow> int list" where
  "polled s = take 66 (proxy_wdm_fd s # (if 0 < qmi_proxy_server_fd s then [qmi_proxy_server_fd s] else [])
     @ map (\<lambda>c. uint (con_ClientFd c)) (qmi_proxy_connection s))"

definition read_qmi :: "byte list \<Rightarrow> proxy \<Rightarrow> proxy" where
  \<comment> \<open>\<open>read(fd, pQMI, sizeof(qmi_buf))\<close>: the rest of the static buffer stays\<close>
  "read_qmi d s = s\<lparr>proxy_buf := take 2048 d @ drop (length (take 2048 d)) (proxy_buf s)\<rparr>"

datatype loop_step = Go | Next_poll | Exit

definition one_fd :: "writable \<Rightarrow> int \<Rightarrow> poll_event \<Rightarrow> proxy \<Rightarrow> (loop_step \<times> proxy) option" where
  "one_fd ok fd ev s = (case ev of
     Quiet \<Rightarrow> Some (Go, s)
   | Broken \<Rightarrow> Some (
       if fd = proxy_wdm_fd s then (Exit, s)
       else if fd = qmi_proxy_server_fd s then (Go, s)
       else (Go, cleanup_qmi_connection fd s))
   | Input d newfd \<Rightarrow>
       if fd = qmi_proxy_server_fd s then Some (Go, accept_qmi_connection newfd s)
       else
         let n = length (take 2048 d); s = read_qmi d s
         in if n = 0 then Some (if fd = proxy_wdm_fd s then (Exit, s) else (Next_poll, cleanup_qmi_connection fd s))
            else do {
              Length \<leftarrow> get16 (proxy_buf s) 0 QCQMI_HDR ''Length'';
              if n \<noteq> unat Length + 1 then Some (Go, s)
              else if fd = proxy_wdm_fd s then do {
                s \<leftarrow> recv_qmi ok (proxy_buf s) n s;
                Some (if modem_reset_flag s then Exit else Go, s) }
              else do { s \<leftarrow> send_qmi ok (proxy_buf s) n fd s; Some (Go, s) } })"

fun for_fds :: "writable \<Rightarrow> (int \<times> poll_event) list \<Rightarrow> proxy \<Rightarrow> (loop_step \<times> proxy) option" where
  "for_fds ok [] s = Some (Go, s)"
| "for_fds ok ((fd, ev) # evs) s = do {
     (st, s) \<leftarrow> one_fd ok fd ev s;
     if st = Go then for_fds ok evs s else Some (st, s) }"

text \<open>The poll of one round: it fails, or it reports an event for each polled descriptor.\<close>

fun proxy_rounds :: "writable \<Rightarrow> poll_event list option list \<Rightarrow> proxy \<Rightarrow> (loop_step \<times> proxy) option" where
  "proxy_rounds ok [] s = Some (Go, s)"
| "proxy_rounds ok (r # rs) s =
     (if proxy_wdm_fd s \<le> 0 \<or> qmi_proxy_quit s then Some (Exit, s)
      else case r of
        None \<Rightarrow> Some (Exit, s)
      | Some evs \<Rightarrow> do {
          (st, s) \<leftarrow> for_fds ok (zip (polled s) evs) s;
          if st = Exit then Some (Exit, s) else proxy_rounds ok rs s })"

text \<open>On the way out every connection is closed.\<close>

lemma remove_first_shrinks: "\<exists>x \<in> set xs. P x \<Longrightarrow> length (remove_first P xs) < length xs"
  by (induction xs) auto

lemma cleanup_shrinks:
  assumes "qmi_proxy_connection s = c # cs"
  shows "qmi_proxy_connection (cleanup_qmi_connection (uint (con_ClientFd c)) s) = cs"
  using assms by (simp add: cleanup_qmi_connection_def Let_def)

function close_all :: "proxy \<Rightarrow> proxy" where
  "close_all s = (case qmi_proxy_connection s of [] \<Rightarrow> s
     | c # cs \<Rightarrow> close_all (cleanup_qmi_connection (uint (con_ClientFd c)) s))"
  by pat_completeness auto
termination
  by (relation "measure (\<lambda>s. length (qmi_proxy_connection s))") (auto simp: cleanup_shrinks)

declare close_all.simps [simp del]

text \<open>
  The thread initialises the two lists, runs rounds until an exit or an interrupt and closes all connections. The
  main thread opens the server in between: \<open>loop_start\<close> and \<open>loop_rest\<close> are the thread before and after.
\<close>

definition sig_action :: "proxy \<Rightarrow> proxy" where
  "sig_action s = (if \<not> qmi_proxy_quit s then s\<lparr>qmi_proxy_quit := True\<rparr> else s)"

definition loop_start :: "proxy \<Rightarrow> proxy" where
  "loop_start s = s\<lparr>qmi_proxy_connection := [], qmi_proxy_ctl_msg := [], loop_over := False\<rparr>"

definition loop_rest :: "writable \<Rightarrow> poll_event list option list \<Rightarrow> proxy \<Rightarrow> (bool \<times> proxy) option" where
  \<comment> \<open>whether the loop ended within the rounds\<close>
  "loop_rest ok rs s =
     (if loop_over s then Some (True, s)
      else do {
        (st, s) \<leftarrow> proxy_rounds ok rs s;
        Some (if st = Exit then (True, (close_all s)\<lparr>loop_over := True\<rparr>) else (False, s)) })"

definition qmi_proxy_loop :: "writable \<Rightarrow> poll_event list option list \<Rightarrow> proxy \<Rightarrow> (bool \<times> proxy) option" where
  "qmi_proxy_loop ok rs s = loop_rest ok rs (loop_start s)"

end
