(* ===== verification/ProxyInit.thy ===== *)
theory ProxyInit
  imports Proxy
begin

text \<open>
  The start of the daemon (\<open>send_qmi_timeout\<close>, \<open>qmi_find_tlv\<close>, \<open>qmi_proxy_init\<close> and the retries of
  \<open>main\<close> in \<open>quectel-qmi-proxy.c\<close>): while there is no server yet, the main thread talks to the modem itself
  and the loop thread, as long as it runs, hands it the answers.
\<close>

section \<open>Requests of the main thread\<close>

text \<open>
  What arrives from the modem before the wait ends, as a function of what was sent to it, and
  whether the wait ends without a signal (a spurious wake-up).
\<close>

record waiting =
  arrivals :: "byte list list"
  wakes_up :: bool

type_synonym wdm = "byte list list \<Rightarrow> waiting"

fun arrive :: "writable \<Rightarrow> byte list list \<Rightarrow> proxy \<Rightarrow> proxy option" where
  "arrive ok [] s = Some s"
| "arrive ok (d # ds) s =
     (if loop_over s then Some s
      else do {
        (st, s) \<leftarrow> one_fd ok (proxy_wdm_fd s) (Input d 0) s;
        arrive ok ds (if st = Exit then s\<lparr>loop_over := True\<rparr> else s) })"

definition send_qmi_timeout ::
  "writable \<Rightarrow> wdm \<Rightarrow> byte list \<Rightarrow> bool \<Rightarrow> proxy \<Rightarrow> (int \<times> cptr \<times> proxy) option" where
  \<comment> \<open>\<open>want\<close>: \<open>ppResponse\<close> is not null\<close>
  "send_qmi_timeout ok env pRequest want s = do {
     let s = s\<lparr>s_pCtlReq := Some pRequest, s_pCtlRsq := None\<rparr>;
     s \<leftarrow> send_qmi_to_cdc_wdm ok pRequest s;
     let w = env (to_modem s);
     s \<leftarrow> arrive ok (arrivals w) s;
     let ret = (if s_pCtlRsq s \<noteq> None \<or> wakes_up w then 0 else ETIMEDOUT);
     let rsp = (case s_pCtlRsq s of Some m \<Rightarrow> if ret = 0 \<and> want then PLive m else PNull | None \<Rightarrow> PNull);
     Some (ret, rsp, s\<lparr>s_pCtlReq := None\<rparr>) }"

text \<open>The walk over the TLVs of a response: \<open>Length\<close> is an \<open>int\<close> that only grows.\<close>

definition payload :: nat where
  "payload = MUXHdr + sizeof QCQMUX_MSG_HDR"

function find_tlv_loop :: "byte list \<Rightarrow> byte \<Rightarrow> nat \<Rightarrow> nat \<Rightarrow> nat option option" where
  "find_tlv_loop m TLVType len Length =
     (if Length < len then
        (case rd8 m (payload + Length) of None \<Rightarrow> None
         | Some ty \<Rightarrow>
             if ty = TLVType then Some (Some (payload + Length))
             else (case rd16 m (payload + Length + 1) of None \<Rightarrow> None
               | Some l \<Rightarrow> find_tlv_loop m TLVType len (Length + (unat l + 3))))
      else Some None)"
  by pat_completeness auto
termination
  by (relation "measure (\<lambda>(m, ty, len, Length). len - Length)") auto

declare find_tlv_loop.simps [simp del]

definition qmi_find_tlv :: "byte list \<Rightarrow> byte \<Rightarrow> nat option option" where
  "qmi_find_tlv pQMI TLVType = do {
     len \<leftarrow> get16 pQMI MUXHdr QCQMUX_MSG_HDR ''Length'';
     find_tlv_loop pQMI TLVType (unat len) 0 }"

section \<open>The initialisation\<close>

text \<open>The request buffer \<open>_QMI\<close> on the stack and the running transaction identifier.\<close>

definition ctl_header :: "byte list \<Rightarrow> byte list option" where
  "ctl_header b = do {
     b \<leftarrow> put8 0 QCQMI_HDR ''IFType'' 0x01 b;
     b \<leftarrow> put8 0 QCQMI_HDR ''CtlFlags'' 0x00 b;
     b \<leftarrow> put8 0 QCQMI_HDR ''QMIType'' QMUX_TYPE_CTL b;
     b \<leftarrow> put8 0 QCQMI_HDR ''ClientId'' 0x00 b;
     put8 MUXMsg QCQMICTL_MSG_HDR ''CtlFlags'' 0x00 b }"

definition put_ctl_request :: "byte \<Rightarrow> u16 \<Rightarrow> u16 \<Rightarrow> byte list \<Rightarrow> byte list option" where
  "put_ctl_request tid ty len b = do {
     b \<leftarrow> put8 MUXMsg QCQMICTL_MSG_HDR ''TransactionId'' tid b;
     b \<leftarrow> put16 MUXMsg QCQMICTL_MSG_HDR ''QMICTLType'' ty b;
     b \<leftarrow> put16 MUXMsg QCQMICTL_MSG_HDR ''Length'' len b;
     put16 0 QCQMI_HDR ''Length'' (len + of_nat (sizeof QCQMI_HDR + sizeof QCQMICTL_MSG_HDR - 1)) b }"

definition ctl_param :: "byte \<Rightarrow> byte list \<Rightarrow> byte list option" where
  \<comment> \<open>the TLV of one byte, of \<open>GetVersionReq\<close> and of \<open>GetClientIdReq\<close>\<close>
  "ctl_param v b = do {
     b \<leftarrow> put8 MUXMsg QMICTL_GET_CLIENT_ID_REQ_MSG ''TLVType'' 0x01 b;
     b \<leftarrow> put16 MUXMsg QMICTL_GET_CLIENT_ID_REQ_MSG ''TLVLength'' 0x0001 b;
     put8 MUXMsg QMICTL_GET_CLIENT_ID_REQ_MSG ''QMIType'' v b }"

fun proxy_sync :: "writable \<Rightarrow> wdm \<Rightarrow> nat \<Rightarrow> byte \<Rightarrow> int \<Rightarrow> byte list \<Rightarrow> proxy
    \<Rightarrow> (int \<times> byte \<times> byte list \<times> proxy) option" where
  "proxy_sync ok env 0 tid ret b s = Some (ret, tid, b, s)"
| "proxy_sync ok env (Suc n) tid ret b s = do {
     b \<leftarrow> put_ctl_request tid 0x0027 0 b;
     (ret, _, s) \<leftarrow> send_qmi_timeout ok env b False s;
     if ret = 0 then Some (0, tid + 1, b, s) else proxy_sync ok env n (tid + 1) ret b s }"

definition put_value :: "string \<Rightarrow> byte \<Rightarrow> u32 \<Rightarrow> byte list \<Rightarrow> byte list option" where
  "put_value f ty v b = do {
     let p = MUXHdr + off QMIWDS_ADMIN_SET_DATA_FORMAT_REQ_MSG f;
     b \<leftarrow> put8 p QMIWDS_ADMIN_SET_DATA_FORMAT_TLV ''TLVType'' ty b;
     b \<leftarrow> put16 p QMIWDS_ADMIN_SET_DATA_FORMAT_TLV ''TLVLength'' 4 b;
     put32 p QMIWDS_ADMIN_SET_DATA_FORMAT_TLV ''Value'' v b }"

definition data_format_request :: "byte \<Rightarrow> byte \<Rightarrow> u32 \<Rightarrow> byte list \<Rightarrow> byte list option" where
  "data_format_request cid tid urb b = do {
     b \<leftarrow> put8 0 QCQMI_HDR ''IFType'' 0x01 b;
     b \<leftarrow> put8 0 QCQMI_HDR ''CtlFlags'' 0x00 b;
     b \<leftarrow> put8 0 QCQMI_HDR ''QMIType'' QMUX_TYPE_WDS_ADMIN b;
     b \<leftarrow> put8 0 QCQMI_HDR ''ClientId'' cid b;
     b \<leftarrow> put8 MUXMsg QCQMUX_HDR ''CtlFlags'' 0x00 b;
     b \<leftarrow> put16 MUXMsg QCQMUX_HDR ''TransactionId'' (ucast tid) b;
     b \<leftarrow> put16 MUXHdr QCQMUX_MSG_HDR ''Type'' 0x0020 b;
     let len = of_nat (sizeof QMIWDS_ADMIN_SET_DATA_FORMAT_REQ_MSG - sizeof QCQMUX_MSG_HDR);
     b \<leftarrow> put16 MUXHdr QCQMUX_MSG_HDR ''Length'' len b;
     let q = MUXHdr + off QMIWDS_ADMIN_SET_DATA_FORMAT_REQ_MSG ''QosDataFormatTlv'';
     b \<leftarrow> put8 q QMIWDS_ADMIN_SET_DATA_FORMAT_TLV_QOS ''TLVType'' 0x10 b;
     b \<leftarrow> put16 q QMIWDS_ADMIN_SET_DATA_FORMAT_TLV_QOS ''TLVLength'' 0x0001 b;
     b \<leftarrow> put8 q QMIWDS_ADMIN_SET_DATA_FORMAT_TLV_QOS ''QOSSetting'' 0 b;
     b \<leftarrow> put_value ''UnderlyingLinkLayerProtocolTlv'' 0x11 0x02 b;
     b \<leftarrow> put_value ''UplinkDataAggregationProtocolTlv'' 0x12 0x05 b;
     b \<leftarrow> put_value ''DownlinkDataAggregationProtocolTlv'' 0x13 0x05 b;
     b \<leftarrow> put_value ''DownlinkDataAggregationMaxDatagramsTlv'' 0x15
           (if urb > 2048 then urb div 1024 else 1) b;
     b \<leftarrow> put_value ''DownlinkDataAggregationMaxSizeTlv'' 0x16 urb b;
     let e = MUXHdr + off QMIWDS_ADMIN_SET_DATA_FORMAT_REQ_MSG ''epTlv'';
     b \<leftarrow> put8 e QMIWDS_ENDPOINT_TLV ''TLVType'' 0x17 b;
     b \<leftarrow> put16 e QMIWDS_ENDPOINT_TLV ''TLVLength'' 8 b;
     b \<leftarrow> put32 e QMIWDS_ENDPOINT_TLV ''ep_type'' 0x02 b;
     b \<leftarrow> put32 e QMIWDS_ENDPOINT_TLV ''iface_id'' 0x04 b;
     put16 0 QCQMI_HDR ''Length'' (len + of_nat (sizeof QCQMI_HDR + sizeof QCQMUX_HDR + sizeof QCQMUX_MSG_HDR - 1)) b }"

text \<open>The value of each TLV of the answer is printed when it is there; 0x16 is the size that stays.\<close>

definition tlv_value :: "byte list \<Rightarrow> byte \<Rightarrow> u32 option option" where
  "tlv_value r ty = do {
     t \<leftarrow> qmi_find_tlv r ty;
     case t of None \<Rightarrow> Some None
     | Some p \<Rightarrow> do { v \<leftarrow> get32 r p QMIWDS_ADMIN_SET_DATA_FORMAT_TLV ''Value''; Some (Some v) } }"

definition read_data_format :: "byte list \<Rightarrow> u32 \<Rightarrow> u32 option" where
  "read_data_format r urb = do {
     _ \<leftarrow> tlv_value r 0x11; _ \<leftarrow> tlv_value r 0x12; _ \<leftarrow> tlv_value r 0x13; _ \<leftarrow> tlv_value r 0x15;
     v \<leftarrow> tlv_value r 0x16;
     _ \<leftarrow> tlv_value r 0x17; _ \<leftarrow> tlv_value r 0x18;
     Some (case v of None \<Rightarrow> urb | Some v \<Rightarrow> v) }"

definition refused :: "byte list \<Rightarrow> nat \<Rightarrow> layout \<Rightarrow> bool option" where
  "refused r p L = do {
     QMUXResult \<leftarrow> get16 r p L ''QMUXResult'';
     if QMUXResult \<noteq> 0 then Some True
     else do { QMUXError \<leftarrow> get16 r p L ''QMUXError''; Some (QMUXError \<noteq> 0) } }"

text \<open>A request whose answer is wanted; \<open>Inl\<close> is the jump to the failure label.\<close>

definition ask :: "writable \<Rightarrow> wdm \<Rightarrow> byte list \<Rightarrow> nat \<Rightarrow> layout \<Rightarrow> proxy \<Rightarrow> ((unit + byte list) \<times> proxy) option" where
  "ask ok env b p L s = do {
     (ret, rsp, s) \<leftarrow> send_qmi_timeout ok env b True s;
     if ret \<noteq> 0 \<or> rsp = PNull then Some (Inl (), s)
     else do {
       r \<leftarrow> deref rsp;
       bad \<leftarrow> refused r p L;
       Some (if bad then Inl () else Inr r, s) } }"

definition if_answered :: "(unit + byte list) \<times> proxy \<Rightarrow> (byte list \<Rightarrow> proxy \<Rightarrow> (int \<times> proxy) option) \<Rightarrow> (int \<times> proxy) option" where
  "if_answered a k = (case a of (Inl _, s) \<Rightarrow> Some (-1, s) | (Inr r, s) \<Rightarrow> k r s)"

definition set_data_format :: "writable \<Rightarrow> wdm \<Rightarrow> byte list \<Rightarrow> byte \<Rightarrow> byte \<Rightarrow> proxy \<Rightarrow> (int \<times> proxy) option" where
  "set_data_format ok env b tid cid s = do {
     let urb = 32 * 1024;
     b \<leftarrow> data_format_request cid tid urb b;
     a \<leftarrow> ask ok env b MUXHdr QCQMUX_MSG_HDR_RESP s;
     if_answered a (\<lambda>r s. do { _ \<leftarrow> read_data_format r urb; Some (0, s) }) }"

definition qmi_proxy_init :: "writable \<Rightarrow> wdm \<Rightarrow> byte list \<Rightarrow> proxy \<Rightarrow> (int \<times> proxy) option" where
  \<comment> \<open>the third argument is what the stack holds under \<open>_QMI\<close>\<close>
  "qmi_proxy_init ok env stk s = do {
     b \<leftarrow> ctl_header stk;
     (ret, tid, b, s) \<leftarrow> proxy_sync ok env 10 0xC1 0 b s;
     if ret \<noteq> 0 then Some (-1, s)
     else do {
       b \<leftarrow> put_ctl_request tid 0x0021 4 b;
       b \<leftarrow> ctl_param QMUX_TYPE_ALL b;
       a \<leftarrow> ask ok env b MUXMsg QCQMICTL_MSG_HDR_RESP s;
       if_answered a (\<lambda>r s. do {
         _ \<leftarrow> get8 r MUXMsg QMICTL_GET_VERSION_RESP_MSG ''NumElements'';
         b \<leftarrow> put_ctl_request (tid + 1) 0x0022 4 b;
         b \<leftarrow> ctl_param QMUX_TYPE_WDS_ADMIN b;
         a \<leftarrow> ask ok env b MUXMsg QCQMICTL_MSG_HDR_RESP s;
         if_answered a (\<lambda>r s. do {
           WDAClientId \<leftarrow> get8 r MUXMsg QMICTL_GET_CLIENT_ID_RESP_MSG ''ClientId'';
           set_data_format ok env b (tid + 2) WDAClientId s }) }) } }"

text \<open>
  The retries of \<open>main\<close>: \<open>present k\<close> is the result of \<open>access\<close> behind the \<open>k\<close>-th failure, \<open>stks k\<close> and
  \<open>envs k\<close> the stack and the modem at the \<open>k\<close>-th try. The number \<open>n\<close> counts the retries that are left; the
  number of tries is counted.
\<close>

fun init_retries :: "writable \<Rightarrow> (nat \<Rightarrow> wdm) \<Rightarrow> (nat \<Rightarrow> byte list) \<Rightarrow> (nat \<Rightarrow> bool) \<Rightarrow> nat \<Rightarrow> proxy
    \<Rightarrow> (bool \<times> nat \<times> proxy) option" where
  "init_retries ok envs stks present 0 s = do {
     (ret, s) \<leftarrow> qmi_proxy_init ok (envs 0) (stks 0) s;
     Some (ret = 0, 1, s) }"
| "init_retries ok envs stks present (Suc n) s = do {
     (ret, s) \<leftarrow> qmi_proxy_init ok (envs (Suc n)) (stks (Suc n)) s;
     if ret = 0 then Some (True, 1, s)
     else if \<not> present (Suc n) then Some (False, 1, s)
     else do { (good, k, s) \<leftarrow> init_retries ok envs stks present n s; Some (good, Suc k, s) } }"

end
