(* ===== verification/ProxyRuns.thy ===== *)
theory ProxyRuns
  imports ProxyInit
begin

text \<open>
  Runs of the daemon: control requests and their answers in order, the routing of all other
  messages, what a client that leaves does to the queue, and the end of the loop.
\<close>

section \<open>Messages\<close>

text \<open>A complete message: its length field counts the bytes behind the first.\<close>

definition len_field :: "byte list \<Rightarrow> u16" where
  "len_field m = mk16 (m ! 1) (m ! 2)"

definition complete_msg :: "byte list \<Rightarrow> bool" where
  "complete_msg m \<longleftrightarrow> 10 \<le> length m \<and> length m \<le> 2048 \<and> length m = Suc (unat (len_field m))"

abbreviation (input) writable :: "int \<Rightarrow> nat \<Rightarrow> bool" where
  "writable \<equiv> \<lambda>_ _. True"

definition holds_msg :: "byte list \<Rightarrow> byte list \<Rightarrow> bool" where
  "holds_msg b m \<longleftrightarrow> length b = 2048 \<and> take (length m) b = m \<and> complete_msg m"

lemma holds_nth: "holds_msg b m \<Longrightarrow> i < length m \<Longrightarrow> b ! i = m ! i"
  unfolding holds_msg_def by (metis nth_take)

lemma get_len: "3 \<le> length b \<Longrightarrow> get16 b 0 QCQMI_HDR ''Length'' = Some (len_field b)"
  by (simp add: field_defs rd16_Some len_field_def numeral_2_eq_2)

lemma holds_simps:
  assumes "holds_msg b m"
  shows "get16 b 0 QCQMI_HDR ''Length'' = Some (len_field m)"
    and "rdn b 0 (Suc (unat (len_field m))) = Some m" "rdn b 0 (length m) = Some m"
    and "get8 b 0 QCQMI_HDR ''QMIType'' = Some (m ! 4)" "get8 b 0 QCQMI_HDR ''ClientId'' = Some (m ! 5)"
    and "get8 b MUXMsg QCQMICTL_MSG_HDR ''CtlFlags'' = Some (m ! 6)"
    and "get16 b MUXMsg QCQMICTL_MSG_HDR_RESP ''QMICTLType'' = Some (mk16 (m ! 8) (m ! 9))"
proof -
  have l: "length b = 2048" "10 \<le> length m" "length m \<le> 2048" "length m = Suc (unat (len_field m))"
    using assms by (auto simp: holds_msg_def complete_msg_def)
  have t: "take (length m) b = m" using assms by (simp add: holds_msg_def)
  have n: "b ! i = m ! i" if "i < 10" for i using holds_nth [OF assms, of i] that l by simp
  have "len_field b = len_field m" using n [of 1] n [of 2] by (simp add: len_field_def)
  then show "get16 b 0 QCQMI_HDR ''Length'' = Some (len_field m)" using get_len [of b] l by simp
  show "get8 b 0 QCQMI_HDR ''QMIType'' = Some (m ! 4)"
    "get8 b 0 QCQMI_HDR ''ClientId'' = Some (m ! 5)" "get8 b MUXMsg QCQMICTL_MSG_HDR ''CtlFlags'' = Some (m ! 6)"
    "get16 b MUXMsg QCQMICTL_MSG_HDR_RESP ''QMICTLType'' = Some (mk16 (m ! 8) (m ! 9))"
    using l n by (simp_all add: field_defs rd16_Some)
  show "rdn b 0 (length m) = Some m" using l t by (simp add: rdn_def)
  then show "rdn b 0 (Suc (unat (len_field m))) = Some m" using l(4) by metis
qed

lemma read_holds: "length (proxy_buf s) = 2048 \<Longrightarrow> complete_msg m \<Longrightarrow> holds_msg (proxy_buf (read_qmi m s)) m"
  by (simp add: holds_msg_def read_qmi_def complete_msg_def)

lemma holds_self: "complete_msg m \<Longrightarrow> holds_msg (m @ replicate (2048 - length m) 0) m"
  by (simp add: holds_msg_def complete_msg_def)

lemma send_wdm: "holds_msg b m \<or> complete_msg m \<and> b = m \<Longrightarrow>
  send_qmi_to_cdc_wdm writable b s = Some (s\<lparr>writes_tried := Suc (writes_tried s), to_modem := to_modem s @ [m]\<rparr>)"
proof (elim disjE conjE)
  assume "complete_msg m" "b = m"
  then have "get16 b 0 QCQMI_HDR ''Length'' = Some (len_field m)" "rdn b 0 (Suc (unat (len_field m))) = Some m"
    using get_len [of m] by (simp_all add: complete_msg_def rdn_def)
  then show ?thesis by (simp add: send_qmi_to_cdc_wdm_def)
qed (simp add: send_qmi_to_cdc_wdm_def holds_simps)

lemma send_client: "holds_msg b m \<Longrightarrow>
  send_qmi_to_client writable b fd s = Some (s\<lparr>writes_tried := Suc (writes_tried s), to_clients := to_clients s @ [(fd, m)]\<rparr>)"
  by (simp add: send_qmi_to_client_def holds_simps)

section \<open>Control requests and their answers\<close>

lemma note_ctl_fd:
  assumes "holds_msg b m" "mk16 (m ! 8) (m ! 9) \<noteq> QMICTL_REVOKE_CLIENT_ID_IND"
  shows "\<exists>c'. note_ctl_rsp b c = Some (c', False) \<and> con_ClientFd c' = con_ClientFd c"
proof -
  have "length b = 2048" using assms(1) by (simp add: holds_msg_def)
  then show ?thesis
    using assms(2) holds_simps(7) [OF assms(1)]
    by (auto simp: note_ctl_rsp_def get_client_id_def release_client_id_def field_defs rd16_Some)
qed

lemma answer_none:
  "fd \<notin> con_ClientFd ` set cons \<Longrightarrow> answer_ctl ok b fd cons s = Some (cons, s)"
  by (induction cons arbitrary: s) auto

lemma answer_one:
  assumes "holds_msg b m" "mk16 (m ! 8) (m ! 9) \<noteq> QMICTL_REVOKE_CLIENT_ID_IND"
  shows "distinct (map con_ClientFd cons) \<Longrightarrow> fd \<in> con_ClientFd ` set cons \<Longrightarrow>
    \<exists>cons'. answer_ctl writable b fd cons s = Some (cons', s\<lparr>writes_tried := Suc (writes_tried s),
        to_clients := to_clients s @ [(fd, m)]\<rparr>)
      \<and> map con_ClientFd cons' = map con_ClientFd cons"
proof (induction cons arbitrary: s)
  case (Cons c cons)
  show ?case
  proof (cases "con_ClientFd c = fd")
    case True
    then have "fd \<notin> con_ClientFd ` set cons" using Cons.prems(1) by auto
    moreover obtain c' where "note_ctl_rsp b c = Some (c', False)" "con_ClientFd c' = con_ClientFd c"
      using note_ctl_fd [OF assms, of c] by blast
    ultimately show ?thesis using True
      by (intro exI [of _ "c' # cons"]) (simp add: send_client [OF assms(1)] answer_none)
  next
    case False
    with Cons.prems have "distinct (map con_ClientFd cons)" "fd \<in> con_ClientFd ` set cons" by auto
    from Cons.IH [OF this, of s] False show ?thesis by auto
  qed
qed simp

lemma oldest_none: "fst m \<notin> con_ClientFd ` set cons \<Longrightarrow> send_oldest ok m cons s = Some s"
  by (induction cons arbitrary: s) auto

lemma oldest_one:
  assumes "complete_msg (snd m)"
  shows "distinct (map con_ClientFd cons) \<Longrightarrow> fst m \<in> con_ClientFd ` set cons \<Longrightarrow>
    send_oldest writable m cons s = Some (s\<lparr>writes_tried := Suc (writes_tried s), to_modem := to_modem s @ [snd m]\<rparr>)"
proof (induction cons arbitrary: s)
  case (Cons c cons)
  show ?case
  proof (cases "con_ClientFd c = fst m")
    case True
    then have "fst m \<notin> con_ClientFd ` set cons" using Cons.prems(1) by auto
    with True assms show ?thesis by (simp add: send_wdm oldest_none)
  next
    case False
    with Cons show ?thesis by auto
  qed
qed simp

text \<open>The daemon in service: the server is open and its connections have descriptors of their own.\<close>

definition in_service :: "proxy \<Rightarrow> bool" where
  "in_service s \<longleftrightarrow> length (proxy_buf s) = 2048 \<and> 0 < qmi_proxy_server_fd s \<and> proxy_wdm_fd s \<noteq> qmi_proxy_server_fd s
     \<and> distinct (map con_ClientFd (qmi_proxy_connection s))
     \<and> proxy_wdm_fd s \<notin> uint ` con_ClientFd ` set (qmi_proxy_connection s)
     \<and> qmi_proxy_server_fd s \<notin> uint ` con_ClientFd ` set (qmi_proxy_connection s)
     \<and> \<not> modem_reset_flag s"

definition connected :: "proxy \<Rightarrow> byte \<Rightarrow> bool" where
  "connected s fd \<longleftrightarrow> fd \<in> con_ClientFd ` set (qmi_proxy_connection s)"

text \<open>A control request of a client, and a control response of the modem.\<close>

datatype ctl_event = Request byte "byte list" | Reply "byte list"

fun ctl_msg :: "ctl_event \<Rightarrow> bool" where
  "ctl_msg (Request fd m) \<longleftrightarrow> complete_msg m \<and> m ! 4 = QMUX_TYPE_CTL"
| "ctl_msg (Reply m) \<longleftrightarrow> complete_msg m \<and> m ! 4 = QMUX_TYPE_CTL \<and> m ! 6 = QMICTL_CTL_FLAG_RSP
     \<and> mk16 (m ! 8) (m ! 9) \<noteq> QMICTL_REVOKE_CLIENT_ID_IND"

fun ctl_step :: "ctl_event \<Rightarrow> proxy \<Rightarrow> proxy option" where
  "ctl_step (Request fd m) s = map_option snd (one_fd writable (uint fd) (Input m 0) s)"
| "ctl_step (Reply m) s = map_option snd (one_fd writable (proxy_wdm_fd s) (Input m 0) s)"

definition queue_view :: "proxy \<Rightarrow> byte list list \<times> (byte \<times> byte list) list \<times> QMI_PROXY_MSG list" where
  "queue_view s = (to_modem s, to_clients s, qmi_proxy_ctl_msg s)"

lemma read_fields [simp]:
  "to_modem (read_qmi d s) = to_modem s" "to_clients (read_qmi d s) = to_clients s"
  "qmi_proxy_ctl_msg (read_qmi d s) = qmi_proxy_ctl_msg s" "qmi_proxy_connection (read_qmi d s) = qmi_proxy_connection s"
  "qmi_proxy_server_fd (read_qmi d s) = qmi_proxy_server_fd s" "proxy_wdm_fd (read_qmi d s) = proxy_wdm_fd s"
  "modem_reset_flag (read_qmi d s) = modem_reset_flag s" "writes_tried (read_qmi d s) = writes_tried s"
  by (simp_all add: read_qmi_def)

lemma length_read: "length (proxy_buf s) = 2048 \<Longrightarrow> length (proxy_buf (read_qmi d s)) = 2048"
  by (simp add: read_qmi_def)

lemma same_service:
  assumes "in_service s" "length (proxy_buf s') = 2048" "qmi_proxy_server_fd s' = qmi_proxy_server_fd s"
    and "proxy_wdm_fd s' = proxy_wdm_fd s" "modem_reset_flag s' = modem_reset_flag s"
    and "map con_ClientFd (qmi_proxy_connection s') = map con_ClientFd (qmi_proxy_connection s)"
  shows "in_service s' \<and> connected s' = connected s"
proof -
  have "con_ClientFd ` set (qmi_proxy_connection s') = con_ClientFd ` set (qmi_proxy_connection s)"
    using assms(6) by (metis list.set_map)
  with assms show ?thesis by (auto simp: in_service_def connected_def fun_eq_iff)
qed

lemma own_fd:
  assumes "in_service s" "connected s fd"
  shows "uint fd \<noteq> qmi_proxy_server_fd s" "uint fd \<noteq> proxy_wdm_fd s" "0 < qmi_proxy_server_fd s"
proof -
  have "uint fd \<in> uint ` con_ClientFd ` set (qmi_proxy_connection s)" using assms(2) by (simp add: connected_def)
  with assms(1) show "uint fd \<noteq> qmi_proxy_server_fd s" "uint fd \<noteq> proxy_wdm_fd s" "0 < qmi_proxy_server_fd s"
    unfolding in_service_def by metis+
qed

lemma request_step:
  assumes "in_service s" "connected s fd" "ctl_msg (Request fd m)"
  shows "\<exists>s'. ctl_step (Request fd m) s = Some s' \<and> in_service s' \<and> connected s' = connected s
    \<and> queue_view s' = (to_modem s @ (if qmi_proxy_ctl_msg s = [] then [m] else []), to_clients s,
        qmi_proxy_ctl_msg s @ [(fd, m)])"
proof -
  let ?r = "read_qmi m s"
  have h: "holds_msg (proxy_buf ?r) m" using assms(1,3) by (simp add: read_holds in_service_def)
  note hs = holds_simps [OF h]
  note fd = own_fd [OF assms(1,2)]
  have n: "length (take 2048 m) = Suc (unat (len_field m))" "m ! 4 = QMUX_TYPE_CTL"
    using assms(3) by (auto simp: complete_msg_def)
  let ?s' = "(if qmi_proxy_ctl_msg s = [] then ?r\<lparr>writes_tried := Suc (writes_tried s), to_modem := to_modem s @ [m]\<rparr> else ?r)
    \<lparr>qmi_proxy_ctl_msg := qmi_proxy_ctl_msg s @ [(fd, m)]\<rparr>"
  have "one_fd writable (uint fd) (Input m 0) s = Some (Go, ?s')"
    using fd n hs send_wdm [of "proxy_buf ?r" m ?r] h by (simp add: one_fd_def send_qmi_def Let_def)
  moreover have "in_service ?s' \<and> connected ?s' = connected s"
    by (rule same_service [OF assms(1)]) (use assms(1) length_read in \<open>auto simp: in_service_def\<close>)
  ultimately show ?thesis by (simp add: queue_view_def)
qed

lemma reply_step:
  assumes "in_service s" "ctl_msg (Reply r)" "qmi_proxy_ctl_msg s = (fd, m) # q"
    and "connected s fd" "\<forall>(f, m) \<in> set q. complete_msg m"
  shows "\<exists>s'. ctl_step (Reply r) s = Some s' \<and> in_service s' \<and> connected s' = connected s
    \<and> queue_view s' = (to_modem s @ (case q of [] \<Rightarrow> [] | (f, m) # _ \<Rightarrow> if connected s f then [m] else []),
        to_clients s @ [(fd, r)], q)"
proof -
  let ?r = "read_qmi r s"
  have h: "holds_msg (proxy_buf ?r) r" using assms(1,2) by (simp add: read_holds in_service_def)
  note hs = holds_simps [OF h]
  have n: "length (take 2048 r) = Suc (unat (len_field r))" "r ! 4 = QMUX_TYPE_CTL" "r ! 6 = QMICTL_CTL_FLAG_RSP"
    using assms(2) by (auto simp: complete_msg_def)
  have sv: "0 < qmi_proxy_server_fd s" "proxy_wdm_fd s \<noteq> qmi_proxy_server_fd s" "\<not> modem_reset_flag s"
    "distinct (map con_ClientFd (qmi_proxy_connection s))" "length (proxy_buf ?r) = 2048"
    using assms(1) length_read by (auto simp: in_service_def)
  have fd: "fd \<in> con_ClientFd ` set (qmi_proxy_connection s)" using assms(4) by (auto simp: connected_def)
  obtain cons where cons: "answer_ctl writable (proxy_buf ?r) fd (qmi_proxy_connection s) ?r =
      Some (cons, ?r\<lparr>writes_tried := Suc (writes_tried s), to_clients := to_clients s @ [(fd, r)]\<rparr>)"
    "map con_ClientFd cons = map con_ClientFd (qmi_proxy_connection s)"
    using answer_one [OF h, of "qmi_proxy_connection s" fd ?r] assms(2) sv(4) fd by auto
  let ?a = "?r\<lparr>writes_tried := Suc (writes_tried s), to_clients := to_clients s @ [(fd, r)],
    qmi_proxy_connection := cons, qmi_proxy_ctl_msg := q\<rparr>"
  have set_cons: "con_ClientFd ` set cons = con_ClientFd ` set (qmi_proxy_connection s)"
    using cons(2) by (metis list.set_map)
  let ?s' = "case q of [] \<Rightarrow> ?a
    | (f, m) # _ \<Rightarrow> if connected s f
        then ?a\<lparr>writes_tried := Suc (Suc (writes_tried s)), to_modem := to_modem s @ [m]\<rparr> else ?a"
  have "recv_ctl writable (proxy_buf ?r) ?r = Some ?s'"
  proof (cases q)
    case Nil
    then show ?thesis using hs(6) n(3) cons(1) assms(3) by (simp add: recv_ctl_def)
  next
    case (Cons x q')
    then have x: "complete_msg (snd x)" "connected s (fst x) \<longleftrightarrow> fst x \<in> con_ClientFd ` set cons"
      using assms(5) set_cons by (auto simp: connected_def)
    have "send_oldest writable x cons ?a = Some ?s'"
    proof (cases "connected s (fst x)")
      case True
      then show ?thesis using oldest_one [OF x(1), of cons ?a] x(2) sv(4) cons(2) Cons by (cases x) simp
    next
      case False
      then show ?thesis using oldest_none [of x cons] x(2) Cons by (cases x) simp
    qed
    then show ?thesis using hs(6) n(3) cons(1) assms(3) Cons by (simp add: recv_ctl_def)
  qed
  then have "one_fd writable (proxy_wdm_fd s) (Input r 0) s = Some (Go, ?s')"
    using sv n hs by (simp add: one_fd_def recv_qmi_def Let_def split: list.split)
  moreover have "in_service ?s' \<and> connected ?s' = connected s"
    by (rule same_service [OF assms(1)]) (use sv cons(2) in \<open>auto split: list.split\<close>)
  ultimately show ?thesis by (simp add: queue_view_def split: list.split)
qed

fun requests :: "ctl_event list \<Rightarrow> QMI_PROXY_MSG list" where
  "requests [] = []"
| "requests (Request fd m # evs) = (fd, m) # requests evs"
| "requests (Reply m # evs) = requests evs"

fun replies :: "ctl_event list \<Rightarrow> byte list list" where
  "replies [] = []"
| "replies (Request fd m # evs) = replies evs"
| "replies (Reply m # evs) = m # replies evs"

definition replies_follow :: "ctl_event list \<Rightarrow> bool" where
  "replies_follow evs \<longleftrightarrow>
     (\<forall>k \<le> length evs. length (replies (take k evs)) \<le> length (requests (take k evs)))"

lemma requests_append: "requests (xs @ ys) = requests xs @ requests ys"
  by (induction xs rule: requests.induct) auto

lemma replies_append: "replies (xs @ ys) = replies xs @ replies ys"
  by (induction xs rule: replies.induct) auto

lemma zip_take_left: "zip (take (length ys) xs) ys = zip xs ys"
  by (induction xs ys rule: list_induct2') auto

lemma follow_snoc:
  assumes "replies_follow (evs @ [e])"
  shows "replies_follow evs \<and> length (replies (evs @ [e])) \<le> length (requests (evs @ [e]))"
proof -
  have f: "length (replies (take k (evs @ [e]))) \<le> length (requests (take k (evs @ [e])))"
    if "k \<le> Suc (length evs)" for k
    using assms that by (simp add: replies_follow_def)
  have "length (replies (take k evs)) \<le> length (requests (take k evs))" if "k \<le> length evs" for k
    using f [of k] that by simp
  then show ?thesis using f [of "Suc (length evs)"] by (simp add: replies_follow_def)
qed

lemma in_order:
  assumes "in_service s" "qmi_proxy_ctl_msg s = []"
  shows "list_all ctl_msg evs \<Longrightarrow> list_all (\<lambda>r. connected s (fst r)) (requests evs) \<Longrightarrow> replies_follow evs \<Longrightarrow>
    \<exists>s'. run_steps ctl_step evs s = Some s' \<and> in_service s' \<and> connected s' = connected s
      \<and> queue_view s' = (to_modem s @ take (Suc (length (replies evs))) (map snd (requests evs)),
          to_clients s @ zip (map fst (requests evs)) (replies evs), drop (length (replies evs)) (requests evs))"
proof (induction evs rule: rev_induct)
  case Nil
  with assms show ?case by (simp add: queue_view_def)
next
  case (snoc e evs)
  let ?n = "length (replies evs)"
  have follow: "replies_follow evs" "length (replies (evs @ [e])) \<le> length (requests (evs @ [e]))"
    using follow_snoc [OF snoc.prems(3)] by blast+
  obtain t where t: "run_steps ctl_step evs s = Some t" "in_service t" "connected t = connected s"
    "to_modem t = to_modem s @ take (Suc ?n) (map snd (requests evs))"
    "to_clients t = to_clients s @ zip (map fst (requests evs)) (replies evs)"
    "qmi_proxy_ctl_msg t = drop ?n (requests evs)"
    using snoc.IH snoc.prems(1,2) follow(1) by (auto simp: requests_append queue_view_def)
  have le: "?n \<le> length (requests evs)" using follow(1) by (auto simp: replies_follow_def)
  have zip: "zip (map fst (requests evs) @ xs) (replies evs) = zip (map fst (requests evs)) (replies evs)" for xs
    using le by (simp add: zip_append1)
  show ?case
  proof (cases e)
    case (Request fd m)
    have c: "connected t fd" "ctl_msg (Request fd m)" using snoc.prems Request t(3) by (auto simp: requests_append)
    have "drop ?n (requests evs) = [] \<longleftrightarrow> ?n = length (requests evs)" using le by auto
    then show ?thesis using request_step [OF t(2) c] t le Request
      by (auto simp: run_steps_append requests_append replies_append queue_view_def zip split: if_splits)
  next
    case (Reply r)
    have lt: "?n < length (requests evs)" using follow(2) Reply by (simp add: requests_append replies_append)
    obtain fd m where x: "requests evs ! ?n = (fd, m)" by fastforce
    have q: "qmi_proxy_ctl_msg t = (fd, m) # drop (Suc ?n) (requests evs)"
      using t(6) lt x by (simp add: Cons_nth_drop_Suc [symmetric])
    have wf: "\<forall>(f, m) \<in> set (requests evs). connected s f \<and> complete_msg m"
    proof -
      have c: "(f, m) \<in> set (requests es) \<Longrightarrow> list_all ctl_msg es \<Longrightarrow> complete_msg m" for f m es
        by (induction es rule: requests.induct) auto
      show ?thesis
      proof clarify
        fix f m assume fm: "(f, m) \<in> set (requests evs)"
        have "\<forall>r \<in> set (requests evs). connected s (fst r)" "list_all ctl_msg evs"
          using snoc.prems(1,2) by (simp_all add: requests_append list_all_iff)
        with bspec [OF this(1) fm] c [OF fm] show "connected s f \<and> complete_msg m" by simp
      qed
    qed
    have wf': "connected t fd" "\<forall>(f, m) \<in> set (drop (Suc ?n) (requests evs)). complete_msg m"
      using wf t(3) lt x nth_mem [OF lt] by (auto dest: in_set_dropD)
    have follows: "case drop (Suc ?n) (requests evs) of [] \<Rightarrow> True | (f, m) # _ \<Rightarrow> connected t f"
    proof (cases "drop (Suc ?n) (requests evs)")
      case (Cons y ys)
      then have "y \<in> set (requests evs)" by (metis in_set_dropD list.set_intros(1))
      with Cons wf t(3) show ?thesis by auto
    qed simp
    obtain u where u: "ctl_step (Reply r) t = Some u" "in_service u" "connected u = connected t"
      "queue_view u = (to_modem t @ (case drop (Suc ?n) (requests evs) of [] \<Rightarrow> [] | (f, m) # _ \<Rightarrow> [m]),
         to_clients t @ [(fd, r)], drop (Suc ?n) (requests evs))"
      using reply_step [OF t(2) _ q wf', of r] snoc.prems(1) Reply follows by (auto split: list.splits)
    have tk: "take (Suc ?n) (map snd (requests evs)) @ (case drop (Suc ?n) (requests evs) of [] \<Rightarrow> [] | (f, m) # _ \<Rightarrow> [m])
        = take (Suc (Suc ?n)) (map snd (requests evs))"
    proof (cases "Suc ?n < length (requests evs)")
      case True
      then show ?thesis by (simp add: take_Suc_conv_app_nth Cons_nth_drop_Suc [symmetric] split: prod.split)
    qed simp
    have "zip (map fst (requests evs)) (replies evs @ [r]) = zip (map fst (requests evs)) (replies evs) @ [(fd, r)]"
      using lt x by (simp add: zip_append2 Cons_nth_drop_Suc [symmetric] take_Suc_conv_app_nth zip_take_left)
    then show ?thesis using t(1,3,4,5) u tk Reply
      by (simp add: run_steps_append requests_append replies_append queue_view_def) blast
  qed
qed


text \<open>Two clients of the WDS service, a request for a client identifier and its answer.\<close>

definition two_connections :: proxy where
  "two_connections = \<lparr>qmi_proxy_connection =
       [\<lparr>con_ClientFd = 5, client_qnode = [\<lparr>cl_QMIType = 1, cl_ClientId = 7, cl_AccessTime = 0\<rparr>], con_AccessTime = 0\<rparr>,
        \<lparr>con_ClientFd = 6, client_qnode = [\<lparr>cl_QMIType = 1, cl_ClientId = 9, cl_AccessTime = 0\<rparr>], con_AccessTime = 0\<rparr>],
     qmi_proxy_ctl_msg = [], proxy_wdm_fd = 3, qmi_proxy_server_fd = 4, qmi_proxy_quit = False, modem_reset_flag = False,
     s_pCtlReq = None, s_pCtlRsq = None, proxy_buf = replicate 2048 0, writes_tried = 0, to_modem = [], to_clients = [],
     closed = [], loop_over = False\<rparr>"

definition id_request :: "byte \<Rightarrow> byte list" where
  "id_request tid = [1, 15, 0, 0, 0, 0, 0, tid, 0x22, 0, 4, 0, 1, 1, 0, 1]"

definition id_response :: "byte \<Rightarrow> byte \<Rightarrow> byte list" where
  "id_response tid cid = [1, 23, 0, 0x80, 0, 0, 1, tid, 0x22, 0, 12, 0, 2, 4, 0, 0, 0, 0, 0, 1, 2, 0, 1, cid]"

lemma two_connections_ok: "in_service two_connections" "connected two_connections 5" "connected two_connections 6"
  by (simp_all add: in_service_def connected_def two_connections_def)

lemma id_messages_ok: "ctl_msg (Request fd (id_request tid))" "ctl_msg (Reply (id_response tid cid))"
  by (simp_all add: complete_msg_def len_field_def mk16_def id_request_def id_response_def)


section \<open>A client leaves\<close>

lemma remove_first_filter: "distinct (map f xs) \<Longrightarrow> remove_first (\<lambda>x. f x = y) xs = filter (\<lambda>x. f x \<noteq> y) xs"
proof (induction xs)
  case (Cons x xs)
  show ?case
  proof (cases "f x = y")
    case True
    with Cons.prems have "\<forall>z \<in> set xs. f z \<noteq> y" by (auto simp: image_iff)
    with True show ?thesis by simp
  qed (use Cons in simp)
qed simp

lemma uint_eq: "uint (a :: byte) = uint b \<longleftrightarrow> a = b"
  by (rule word_uint_eq_iff [symmetric])

lemma cleanup_connected:
  assumes "in_service s" "connected s f"
  shows "qmi_proxy_connection (cleanup_qmi_connection (uint f) s) =
      filter (\<lambda>c. con_ClientFd c \<noteq> f) (qmi_proxy_connection s)"
    and "queue_view (cleanup_qmi_connection (uint f) s) =
      (to_modem s, to_clients s, remove_first (\<lambda>m. fst m = f) (qmi_proxy_ctl_msg s))"
    and "in_service (cleanup_qmi_connection (uint f) s)"
    and "connected (cleanup_qmi_connection (uint f) s) g \<longleftrightarrow> g \<noteq> f \<and> connected s g"
proof -
  obtain c where c: "find (\<lambda>c. uint (con_ClientFd c) = uint f) (qmi_proxy_connection s) = Some c" "con_ClientFd c = f"
  proof -
    have "\<exists>c \<in> set (qmi_proxy_connection s). con_ClientFd c = f" using assms(2) by (auto simp: connected_def)
    then have "find (\<lambda>c. uint (con_ClientFd c) = uint f) (qmi_proxy_connection s) \<noteq> None"
      by (auto simp: find_None_iff uint_eq)
    then show thesis using that by (auto simp: find_Some_iff uint_eq)
  qed
  have d: "distinct (map con_ClientFd (qmi_proxy_connection s))" using assms(1) by (simp add: in_service_def)
  let ?s = "cleanup_qmi_connection (uint f) s"
  have s: "?s = s\<lparr>qmi_proxy_ctl_msg := remove_first (\<lambda>m. fst m = f) (qmi_proxy_ctl_msg s), closed := closed s @ [f],
      qmi_proxy_connection := filter (\<lambda>c. con_ClientFd c \<noteq> f) (qmi_proxy_connection s)\<rparr>"
    using c remove_first_filter [OF d, of f] by (simp add: cleanup_qmi_connection_def uint_eq)
  show "qmi_proxy_connection ?s = filter (\<lambda>c. con_ClientFd c \<noteq> f) (qmi_proxy_connection s)"
    "queue_view ?s = (to_modem s, to_clients s, remove_first (\<lambda>m. fst m = f) (qmi_proxy_ctl_msg s))"
    "connected ?s g \<longleftrightarrow> g \<noteq> f \<and> connected s g"
    by (auto simp: s queue_view_def connected_def)
  show "in_service ?s" using assms(1) d by (auto simp: s in_service_def distinct_map_filter)
qed

lemma broken_step:
  assumes "in_service s" "connected s f"
  shows "one_fd ok (uint f) Broken s = Some (Go, cleanup_qmi_connection (uint f) s)"
  using own_fd [OF assms] by (simp add: one_fd_def)

text \<open>While the oldest request is that of a client that left, no control request is sent.\<close>

lemma blocked_step:
  assumes "in_service s" "connected s fd" "ctl_msg (Request fd m)" "qmi_proxy_ctl_msg s \<noteq> []"
  shows "\<exists>s'. ctl_step (Request fd m) s = Some s' \<and> in_service s' \<and> connected s' = connected s
    \<and> queue_view s' = (to_modem s, to_clients s, qmi_proxy_ctl_msg s @ [(fd, m)])"
  using request_step [OF assms(1-3)] assms(4) by simp

lemma blocked_run:
  "in_service s \<Longrightarrow> qmi_proxy_ctl_msg s \<noteq> [] \<Longrightarrow> list_all (\<lambda>(fd, m). connected s fd \<and> ctl_msg (Request fd m)) rs \<Longrightarrow>
    \<exists>s'. run_steps ctl_step (map (case_prod Request) rs) s = Some s'
      \<and> queue_view s' = (to_modem s, to_clients s, qmi_proxy_ctl_msg s @ rs)"
proof (induction rs arbitrary: s)
  case Nil
  then show ?case by (simp add: queue_view_def)
next
  case (Cons r rs)
  obtain fd m where r: "r = (fd, m)" by (cases r)
  with Cons.prems have "connected s fd" "ctl_msg (Request fd m)" by auto
  from blocked_step [OF Cons.prems(1) this Cons.prems(2)] obtain t where t: "ctl_step (Request fd m) s = Some t"
    "in_service t" "connected t = connected s" "to_modem t = to_modem s" "to_clients t = to_clients s"
    "qmi_proxy_ctl_msg t = qmi_proxy_ctl_msg s @ [(fd, m)]"
    by (auto simp: queue_view_def)
  from Cons.IH [OF t(2)] t Cons.prems(3) r show ?case by (auto simp: t)
qed

text \<open>C20: A client that leaves while its request is at the modem makes the daemon lose a request of
  another client: the answer to the old request is given to the next client in the queue,
  whose own request is never sent. And a client that leaves with two requests waiting blocks the
  queue: when its second request is the oldest, control requests of all clients only pile up.\<close>

theorem leaving_client_breaks_queue:
  assumes "in_service s" "connected s f1" "ctl_msg (Reply r)"
    and "\<forall>(f, m) \<in> set (qmi_proxy_ctl_msg s). connected s f \<and> complete_msg m"
  shows "(\<forall>f2 m1 m2. qmi_proxy_ctl_msg s = [(f1, m1), (f2, m2)] \<and> f2 \<noteq> f1 \<longrightarrow>
      (\<exists>s1 s2. one_fd writable (uint f1) Broken s = Some (Go, s1) \<and> ctl_step (Reply r) s1 = Some s2
        \<and> queue_view s2 = (to_modem s, to_clients s @ [(f2, r)], [])))
    \<and> (\<forall>f0 m0 m1 m2 rs. qmi_proxy_ctl_msg s = [(f0, m0), (f1, m1), (f1, m2)] \<and> f0 \<noteq> f1
        \<and> list_all (\<lambda>(fd, m). fd \<noteq> f1 \<and> connected s fd \<and> ctl_msg (Request fd m)) rs \<longrightarrow>
      (\<exists>s1 s2 s3. one_fd writable (uint f1) Broken s = Some (Go, s1) \<and> ctl_step (Reply r) s1 = Some s2
        \<and> run_steps ctl_step (map (case_prod Request) rs) s2 = Some s3
        \<and> queue_view s3 = (to_modem s, to_clients s @ [(f0, r)], (f1, m2) # rs)))"
proof (intro conjI allI impI)
  let ?s1 = "cleanup_qmi_connection (uint f1) s"
  note b = broken_step [OF assms(1,2), of writable]
  note c = cleanup_connected [OF assms(1,2)]
  {
    fix f2 m1 m2 assume q: "qmi_proxy_ctl_msg s = [(f1, m1), (f2, m2)] \<and> f2 \<noteq> f1"
    then have v: "qmi_proxy_ctl_msg ?s1 = [(f2, m2)]" "to_modem ?s1 = to_modem s" "to_clients ?s1 = to_clients s"
      using c(2) by (simp_all add: queue_view_def)
    have "connected ?s1 f2" using assms(4) q c(4) by auto
    from reply_step [OF c(3) assms(3) v(1) this] b v
    show "\<exists>s1 s2. one_fd writable (uint f1) Broken s = Some (Go, s1) \<and> ctl_step (Reply r) s1 = Some s2
        \<and> queue_view s2 = (to_modem s, to_clients s @ [(f2, r)], [])" by auto
  next
    fix f0 m0 m1 m2 rs assume q: "qmi_proxy_ctl_msg s = [(f0, m0), (f1, m1), (f1, m2)] \<and> f0 \<noteq> f1
        \<and> list_all (\<lambda>(fd, m). fd \<noteq> f1 \<and> connected s fd \<and> ctl_msg (Request fd m)) rs"
    then have v: "qmi_proxy_ctl_msg ?s1 = [(f0, m0), (f1, m2)]" "to_modem ?s1 = to_modem s" "to_clients ?s1 = to_clients s"
      using c(2) by (simp_all add: queue_view_def)
    have "connected ?s1 f0" "\<not> connected ?s1 f1" "complete_msg m2" using assms(4) q c(4) by auto
    from reply_step [OF c(3) assms(3) v(1) this(1)] this(2,3) v obtain s2 where s2: "ctl_step (Reply r) ?s1 = Some s2"
      "in_service s2" "connected s2 = connected ?s1" "queue_view s2 = (to_modem s, to_clients s @ [(f0, r)], [(f1, m2)])"
      by auto
    have "list_all (\<lambda>(fd, m). connected s2 fd \<and> ctl_msg (Request fd m)) rs"
      using q c(4) s2(3) by (auto simp: list_all_iff)
    from blocked_run [OF s2(2) _ this] s2 b
    show "\<exists>s1 s2 s3. one_fd writable (uint f1) Broken s = Some (Go, s1) \<and> ctl_step (Reply r) s1 = Some s2
        \<and> run_steps ctl_step (map (case_prod Request) rs) s2 = Some s3
        \<and> queue_view s3 = (to_modem s, to_clients s @ [(f0, r)], (f1, m2) # rs)" by (auto simp: queue_view_def)
  }
qed

text \<open>Both ways to lose requests, with the clients of the example.\<close>

theorem leaving_client_breaks_queue_witness:
  "(\<exists>s1 s2. one_fd writable 5 Broken (two_connections\<lparr>qmi_proxy_ctl_msg := [(5, id_request 1), (6, id_request 2)]\<rparr>) = Some (Go, s1)
      \<and> ctl_step (Reply (id_response 1 8)) s1 = Some s2 \<and> queue_view s2 = ([], [(6, id_response 1 8)], []))
    \<and> (\<exists>s1 s2 s3. one_fd writable 5 Broken (two_connections\<lparr>qmi_proxy_ctl_msg :=
          [(6, id_request 2), (5, id_request 1), (5, id_request 3)]\<rparr>) = Some (Go, s1)
      \<and> ctl_step (Reply (id_response 2 8)) s1 = Some s2 \<and> run_steps ctl_step [Request 6 (id_request 4)] s2 = Some s3
      \<and> queue_view s3 = ([], [(6, id_response 2 8)], [(5, id_request 3), (6, id_request 4)]))"
proof -
  let ?s = "\<lambda>q. two_connections\<lparr>qmi_proxy_ctl_msg := q\<rparr>"
  have s: "in_service (?s q)" "connected (?s q) fd = connected two_connections fd" for q fd
    using two_connections_ok(1) by (simp_all add: in_service_def connected_def)
  have m: "complete_msg (id_request tid)" for tid using id_messages_ok(1) by simp
  note c = two_connections_ok(2,3)
  have w: "to_modem two_connections = []" "to_clients two_connections = []" by (simp_all add: two_connections_def)
  let ?q = "[(6, id_request 2), (5, id_request 1), (5, id_request 3)]"
  have "connected (?s ?q) 5" "\<forall>(f, m) \<in> set (qmi_proxy_ctl_msg (?s ?q)). connected (?s ?q) f \<and> complete_msg m"
    by (simp_all add: s(2) c m)
  note two = leaving_client_breaks_queue [OF s(1) this(1) id_messages_ok(2) this(2), THEN conjunct2, rule_format,
      of 6 "id_request 2" "id_request 1" "id_request 3" "[(6, id_request 4)]", where tid = 2 and cid = 8]
  show ?thesis
  proof (rule conjI)
    show "\<exists>s1 s2. one_fd writable 5 Broken (?s [(5, id_request 1), (6, id_request 2)]) = Some (Go, s1)
      \<and> ctl_step (Reply (id_response 1 8)) s1 = Some s2 \<and> queue_view s2 = ([], [(6, id_response 1 8)], [])"
      using leaving_client_breaks_queue [OF s(1) _ id_messages_ok(2), of "[(5, id_request 1), (6, id_request 2)]" 5]
      by (simp add: s(2) c m w del: ctl_step.simps ctl_msg.simps)
    show "\<exists>s1 s2 s3. one_fd writable 5 Broken (?s [(6, id_request 2), (5, id_request 1), (5, id_request 3)]) = Some (Go, s1)
      \<and> ctl_step (Reply (id_response 2 8)) s1 = Some s2 \<and> run_steps ctl_step [Request 6 (id_request 4)] s2 = Some s3
      \<and> queue_view s3 = ([], [(6, id_response 2 8)], [(5, id_request 3), (6, id_request 4)])"
      using two id_messages_ok(1) [of 6] by (simp add: s(2) c m w del: ctl_step.simps ctl_msg.simps)
  qed
qed

section \<open>All other messages\<close>

lemma all_clients_sent:
  assumes "holds_msg b m"
  shows "\<exists>n. to_all_clients writable b ty cid cs s = Some (s\<lparr>writes_tried := n, to_clients := to_clients s @
    map (\<lambda>(fd, c). (fd, m)) (filter (\<lambda>(fd, c). cl_QMIType c = ty \<and> (cid = 0 \<or> cl_ClientId c = cid)) cs)\<rparr>)"
proof (induction cs arbitrary: s)
  case Nil
  show ?case by (rule exI [of _ "writes_tried s"]) simp
next
  case (Cons x cs)
  obtain fd c where x: "x = (fd, c)" by (cases x)
  let ?t = "if ty = cl_QMIType c \<and> (cid = 0 \<or> cid = cl_ClientId c)
    then s\<lparr>writes_tried := Suc (writes_tried s), to_clients := to_clients s @ [(fd, m)]\<rparr> else s"
  obtain n where "to_all_clients writable b ty cid cs ?t = Some (?t\<lparr>writes_tried := n, to_clients := to_clients ?t @
    map (\<lambda>(fd, c). (fd, m)) (filter (\<lambda>(fd, c). cl_QMIType c = ty \<and> (cid = 0 \<or> cl_ClientId c = cid)) cs)\<rparr>)"
    using Cons.IH [of ?t] by blast
  then show ?case by (intro exI [of _ n]) (auto simp: x send_client [OF assms])
qed

text \<open>C15: A message of a service, a response or an indication, is given to exactly the clients that are
  registered for the service under its client identifier, or to all clients of the
  service when the identifier is 0, once for each registration, in the order of the
  connections; nothing else changes.\<close>

theorem service_messages_routed:
  assumes "in_service s" "complete_msg m" "m ! 4 \<noteq> QMUX_TYPE_CTL"
  shows "\<exists>s'. one_fd writable (proxy_wdm_fd s) (Input m 0) s = Some (Go, s')
    \<and> to_clients s' = to_clients s @ map (\<lambda>(fd, c). (fd, m))
        (filter (\<lambda>(fd, c). cl_QMIType c = m ! 4 \<and> (m ! 5 = 0 \<or> cl_ClientId c = m ! 5)) (all_clients s))
    \<and> to_modem s' = to_modem s \<and> qmi_proxy_ctl_msg s' = qmi_proxy_ctl_msg s
    \<and> qmi_proxy_connection s' = qmi_proxy_connection s \<and> in_service s'"
proof -
  let ?r = "read_qmi m s"
  have h: "holds_msg (proxy_buf ?r) m" using assms(1,2) by (simp add: read_holds in_service_def)
  note hs = holds_simps [OF h]
  obtain n where t: "to_all_clients writable (proxy_buf ?r) (m ! 4) (m ! 5) (all_clients s) ?r =
      Some (?r\<lparr>writes_tried := n, to_clients := to_clients s @ map (\<lambda>(fd, c). (fd, m))
        (filter (\<lambda>(fd, c). cl_QMIType c = m ! 4 \<and> (m ! 5 = 0 \<or> cl_ClientId c = m ! 5)) (all_clients s))\<rparr>)"
    using all_clients_sent [OF h, of "m ! 4" "m ! 5" "all_clients s" ?r] by auto
  let ?s' = "?r\<lparr>writes_tried := n, to_clients := to_clients s @ map (\<lambda>(fd, c). (fd, m))
        (filter (\<lambda>(fd, c). cl_QMIType c = m ! 4 \<and> (m ! 5 = 0 \<or> cl_ClientId c = m ! 5)) (all_clients s))\<rparr>"
  have "all_clients ?r = all_clients s" by (simp add: all_clients_def)
  then have "one_fd writable (proxy_wdm_fd s) (Input m 0) s = Some (Go, ?s')"
    using assms hs t by (simp add: one_fd_def recv_qmi_def Let_def in_service_def complete_msg_def)
  moreover have "in_service ?s'"
    using same_service [OF assms(1), of ?s'] assms(1) length_read by (simp add: in_service_def)
  ultimately show ?thesis by simp
qed

theorem service_messages_routed_witness:
  "\<exists>s'. one_fd writable 3 (Input [1, 12, 0, 0x80, 1, 0, 4, 0, 0, 0x22, 0, 0, 0] 0) two_connections = Some (Go, s')
    \<and> map fst (to_clients s') = [5, 6]"
proof -
  let ?m = "[1, 12, 0, 0x80, 1, 0, 4, 0, 0, 0x22, 0, 0, 0] :: byte list"
  have "complete_msg ?m" by (simp add: complete_msg_def len_field_def mk16_def)
  from service_messages_routed [OF two_connections_ok(1) this]
  obtain s' where "one_fd writable (proxy_wdm_fd two_connections) (Input ?m 0) two_connections = Some (Go, s')"
    "to_clients s' = to_clients two_connections @ map (\<lambda>(fd, c). (fd, ?m))
        (filter (\<lambda>(fd, c). cl_QMIType c = ?m ! 4 \<and> (?m ! 5 = 0 \<or> cl_ClientId c = ?m ! 5)) (all_clients two_connections))"
    by auto
  then show ?thesis by (simp add: two_connections_def all_clients_def)
qed

section \<open>The end of the loop\<close>

lemma close_all_closes:
  "qmi_proxy_connection (close_all s) = []
    \<and> closed (close_all s) = closed s @ map con_ClientFd (qmi_proxy_connection s)"
proof (induction s rule: close_all.induct)
  case (1 s)
  show ?case
  proof (cases "qmi_proxy_connection s")
    case (Cons c cs)
    let ?t = "cleanup_qmi_connection (uint (con_ClientFd c)) s"
    have "qmi_proxy_connection ?t = cs" "closed ?t = closed s @ [con_ClientFd c]"
      using Cons by (simp_all add: cleanup_qmi_connection_def)
    with 1 [OF Cons] Cons show ?thesis by (simp add: close_all.simps [of s])
  qed (simp add: close_all.simps [of s])
qed

lemma rounds_exit:
  "proxy_rounds ok rs s = Some (st, t) \<Longrightarrow> \<exists>r \<in> set rs. r = None \<or> (\<exists>evs. r = Some (Broken # evs)) \<Longrightarrow> st = Exit"
proof (induction rs arbitrary: s)
  case (Cons r rs)
  show ?case
  proof (cases "proxy_wdm_fd s \<le> 0 \<or> qmi_proxy_quit s \<or> r = None")
    case True
    with Cons.prems(1) show ?thesis by (auto split: if_splits option.splits)
  next
    case False
    then obtain evs where r: "r = Some evs" by auto
    obtain st1 s1 where s1: "for_fds ok (zip (polled s) evs) s = Some (st1, s1)"
      "(if st1 = Exit then Some (Exit, s1) else proxy_rounds ok rs s1) = Some (st, t)"
      using Cons.prems(1) False r by (auto split: if_splits)
    show ?thesis
    proof (cases "\<exists>es. evs = Broken # es")
      case True
      then have "st1 = Exit" using s1(1) by (auto simp: polled_def one_fd_def)
      then show ?thesis using s1(2) by simp
    next
      case False
      then show ?thesis using Cons.IH [of s1] Cons.prems(2) s1(2) r by (auto split: if_splits)
    qed
  qed
qed simp

text \<open>C21: The loop ends when the modem's device breaks or a poll fails, at the latest in that round, and
  then exactly the connections that were open are closed, in their order, and none is left.\<close>

theorem loop_closes_connections:
  assumes "qmi_proxy_loop ok rs s = Some (ended, s')"
  shows "((\<exists>r \<in> set rs. r = None \<or> (\<exists>evs. r = Some (Broken # evs))) \<longrightarrow> ended)
    \<and> (ended \<longrightarrow> qmi_proxy_connection s' = []
      \<and> (\<exists>t. proxy_rounds ok rs (loop_start s) = Some (Exit, t)
          \<and> closed s' = closed t @ map con_ClientFd (qmi_proxy_connection t)))"
proof -
  obtain st t where t: "proxy_rounds ok rs (loop_start s) = Some (st, t)" "ended \<longleftrightarrow> st = Exit"
    "s' = (if st = Exit then (close_all t)\<lparr>loop_over := True\<rparr> else t)"
    using assms by (auto simp: qmi_proxy_loop_def loop_rest_def loop_start_def split: if_splits)
  then show ?thesis using rounds_exit [OF t(1)] close_all_closes by auto
qed

theorem loop_closes_connections_witness:
  "\<exists>s'. qmi_proxy_loop writable [Some [Quiet, Input [] 7], Some [Broken]] two_connections = Some (True, s')
    \<and> qmi_proxy_connection s' = [] \<and> closed s' = [7]"
proof -
  let ?rs = "[Some [Quiet, Input [] 7], Some [Broken]]"
  have "proxy_rounds writable ?rs (loop_start two_connections) =
    Some (Exit, two_connections\<lparr>qmi_proxy_connection := [\<lparr>con_ClientFd = 7, client_qnode = [], con_AccessTime = 0\<rparr>],
      qmi_proxy_ctl_msg := []\<rparr>)" (is "?p = Some (Exit, ?t)")
    by (simp add: loop_start_def two_connections_def polled_def one_fd_def accept_qmi_connection_def)
  then obtain s' where s': "qmi_proxy_loop writable ?rs two_connections = Some (True, s')"
    by (simp add: qmi_proxy_loop_def loop_rest_def loop_start_def)
  from loop_closes_connections [OF this] \<open>?p = Some (Exit, ?t)\<close> s' show ?thesis
    by (auto simp: two_connections_def)
qed

end
