(* ===== verification/ProxyMain.thy ===== *)
theory ProxyMain
  imports ProxyInit Device
begin

text \<open>
  The main thread of the daemon (\<open>main\<close>, \<open>qmidevice_detect\<close>, \<open>qmi_start_server\<close> and \<open>qmi_close_server\<close> in
  \<open>quectel-qmi-proxy.c\<close>): the choice of the control device and the lives of the daemon, one for each
  time that the device is opened. What \<open>getopt\<close> returns is an argument.
\<close>

section \<open>The control device\<close>

definition vendor_text :: "sysfs \<Rightarrow> string \<Rightarrow> string" where
  \<comment> \<open>the four bytes read into a zeroed buffer\<close>
  "vendor_text fs ent = (case file_text fs (snprintf 765 (rootdir @ ''/'' @ ent @ ''/idVendor'')) of
     None \<Rightarrow> [] | Some text \<Rightarrow> cstring (take 4 text))"

text \<open>
  An entry that is skipped is \<open>Some None\<close>. The test behind \<open>opendir(pl->subdir)\<close> looks at the wrong
  variable, so a directory that cannot be opened is read all the same.
\<close>

definition proxy_probe :: "sysfs \<Rightarrow> string \<Rightarrow> string option option" where
  "proxy_probe fs ent =
     (let idVendor = vendor_text fs ent
      in if \<not> has_prefix_ci ''05c6'' idVendor \<and> \<not> has_prefix_ci ''2c7c'' idVendor then Some None
         else case find (\<lambda>p. access_errno fs p = None)
             (map (\<lambda>leaf. snprintf 765 (rootdir @ ''/'' @ ent @ leaf)) ['':1.4/usbmisc'', '':1.4/usb'']) of
           None \<Rightarrow> Some None
         | Some subdir \<Rightarrow> (case dirs fs subdir of
             None \<Rightarrow> None
           | Some es \<Rightarrow> Some (Some (case find (\<lambda>e. take 1 e \<noteq> ''.'') es of
               None \<Rightarrow> []
             | Some e \<Rightarrow> snprintf 510 (''/dev/'' @ e)))))"

fun proxy_scan :: "sysfs \<Rightarrow> string option \<Rightarrow> string list \<Rightarrow> string option option" where
  \<comment> \<open>every device that is found replaces the one before\<close>
  "proxy_scan fs cdc [] = Some cdc"
| "proxy_scan fs cdc (ent # ents) = do {
     r \<leftarrow> proxy_probe fs ent;
     proxy_scan fs (case r of None \<Rightarrow> cdc | Some d \<Rightarrow> Some d) ents }"

definition proxy_detect :: "sysfs \<Rightarrow> string option option" where
  "proxy_detect fs = (case dirs fs rootdir of None \<Rightarrow> Some None | Some ents \<Rightarrow> proxy_scan fs None ents)"

section \<open>The server\<close>

definition qmi_start_server :: "int \<Rightarrow> proxy \<Rightarrow> proxy" where
  \<comment> \<open>the argument is the result of \<open>create_local_server\<close>\<close>
  "qmi_start_server server s = s\<lparr>qmi_proxy_server_fd := server\<rparr>"

definition qmi_close_server :: "proxy \<Rightarrow> proxy" where
  "qmi_close_server s = (if qmi_proxy_server_fd s \<noteq> -1 then s\<lparr>qmi_proxy_server_fd := -1\<rparr> else s)"

section \<open>The lives of the daemon\<close>

text \<open>
  One turn of the loop of \<open>main\<close>: whether the device is accessible and what \<open>open\<close> returns; the
  modem, the stack and the device at each try of the initialisation; the result of
  \<open>create_local_server\<close>; the rounds of the loop and whether SIGINT interrupts the poll behind them.
\<close>

record life =
  accessible :: bool
  opened :: int
  can_write :: writable
  modem_at :: "nat \<Rightarrow> wdm"
  stack_at :: "nat \<Rightarrow> byte list"
  present_at :: "nat \<Rightarrow> bool"
  server_at :: int
  served :: "poll_event list option list"
  interrupted :: bool

definition interrupt :: "writable \<Rightarrow> bool \<Rightarrow> bool \<times> proxy \<Rightarrow> (bool \<times> proxy) option" where
  "interrupt ok sigint r = (if fst r \<or> \<not> sigint then Some r else loop_rest ok [None] (sig_action (snd r)))"

definition one_life :: "life \<Rightarrow> proxy \<Rightarrow> (bool \<times> proxy) option" where
  \<comment> \<open>whether the thread of the loop was joined\<close>
  "one_life l s = do {
     let s = loop_start (s\<lparr>proxy_wdm_fd := opened l\<rparr>);
     (_, _, s) \<leftarrow> init_retries (can_write l) (modem_at l) (stack_at l) (present_at l) 5 s;
     let s = qmi_start_server (server_at l) s;
     r \<leftarrow> loop_rest (can_write l) (served l) s;
     (over, s) \<leftarrow> interrupt (can_write l) (interrupted l) r;
     Some (over, if over then qmi_close_server s else s) }"

text \<open>The result of \<open>main\<close>; \<open>None\<close> inside the pair while it is still running behind the given turns.\<close>

fun proxy_lives :: "life list \<Rightarrow> proxy \<Rightarrow> (int option \<times> proxy) option" where
  "proxy_lives [] s = Some (if qmi_proxy_quit s then Some 0 else None, s)"
| "proxy_lives (l # ls) s =
     (if qmi_proxy_quit s then Some (Some 0, s)
      else if \<not> accessible l then proxy_lives ls s
      else if opened l = -1 then Some (Some (-1), s)
      else do {
        (over, s) \<leftarrow> one_life l s;
        if over then proxy_lives ls s else Some (None, s) })"

definition proxy_options :: "(char \<times> string) list \<Rightarrow> string option \<times> bool" where
  \<comment> \<open>the device of the last \<open>-d\<close> and the flag of \<open>-v\<close>\<close>
  "proxy_options opts = foldl (\<lambda>(cdc, verbose) (opt, arg).
     if opt = CHR ''d'' then (Some arg, verbose)
     else if opt = CHR ''v'' then (cdc, True) else (cdc, verbose)) (None, False) opts"

definition proxy_main :: "sysfs \<Rightarrow> (char \<times> string) list \<Rightarrow> life list \<Rightarrow> proxy \<Rightarrow> (int option \<times> proxy) option" where
  "proxy_main fs opts ls s = do {
     cdc_wdm \<leftarrow> (case fst (proxy_options opts) of None \<Rightarrow> proxy_detect fs | Some d \<Rightarrow> Some (Some d));
     case cdc_wdm of
       None \<Rightarrow> Some (Some (-1), s)
     | Some d \<Rightarrow> if access_errno fs d \<noteq> None then Some (Some (-1), s) else proxy_lives ls s }"

end
