(* ===== verification/ProxyStart.thy ===== *)
theory ProxyStart
  imports ProxyRuns ProxyMain
begin

text \<open>
  What the start of the daemon guarantees: the walk over TLVs agrees with that of the connection manager,
  the initialisation sends its requests in one fixed order, the retries are bounded, and a modem that
  was reset once keeps every later life of the daemon from working.
\<close>

section \<open>The two walks over TLVs\<close>

lemma find_tlv_loop_finds:
  assumes pre: "length pre = payload" and "length (encode_tlvs (us @ xs)) < 65536"
  shows "find_tlv_loop (pre @ encode_tlvs us @ encode_tlvs xs @ post) ty (length (encode_tlvs (us @ xs))) (length (encode_tlvs us))
    = Some (map_option (\<lambda>k. length pre + length (encode_tlvs us) + k) (tlv_pos (unat ty) xs))"
  using assms(2)
proof (induction xs arbitrary: us)
  case Nil
  then show ?case by (subst find_tlv_loop.simps) simp
next
  case (Cons x xs)
  let ?m = "pre @ encode_tlvs us @ encode_tlvs (x # xs) @ post" and ?p = "pre @ encode_tlvs us"
  have t: "rd8 ?m (payload + length (encode_tlvs us)) = Some (fst x)"
    and l: "rd16 ?m (payload + length (encode_tlvs us) + 1) = Some (of_nat (length (snd x)))"
    using get8_encode_tlv [of ?p x "encode_tlvs xs @ post"] get16_encode_tlv [of ?p x "encode_tlvs xs @ post"] pre
    by (simp_all add: field_defs)
  have lx: "unat (of_nat (length (snd x)) :: u16) = length (snd x)" using Cons.prems by (intro unat_len16) simp
  show ?case
  proof (cases "fst x = ty")
    case True
    with t pre show ?thesis by (subst find_tlv_loop.simps) simp
  next
    case False
    have "find_tlv_loop ?m ty (length (encode_tlvs (us @ x # xs))) (length (encode_tlvs us))
        = find_tlv_loop ?m ty (length (encode_tlvs (us @ x # xs))) (length (encode_tlvs (us @ [x])))"
      using False t l lx by (subst find_tlv_loop.simps) (simp add: ac_simps)
    moreover have "unat (fst x) \<noteq> unat ty" using False unsigned_word_eqI by blast
    ultimately show ?thesis
      using Cons.IH [of "us @ [x]"] Cons.prems
      by (simp add: option.map_comp comp_def ac_simps)
  qed
qed

text \<open>
  C23: The daemon and the connection manager find the same TLV: on a service message of well formed TLVs,
  \<open>qmi_find_tlv\<close> and \<open>GetTLV\<close> return the same pointer, for every type of one byte.
\<close>
theorem qmi_find_tlv_is_GetTLV:
  assumes "length pre = MUXHdr" "length (encode_tlvs xs) < 65536"
  shows "qmi_find_tlv (pre @ mux_body mt xs @ post) ty = GetTLV (pre @ mux_body mt xs @ post) MUXHdr (unat ty)"
proof -
  let ?p = "pre @ le16 mt @ le16 (of_nat (length (encode_tlvs xs)))"
  have "unat ty \<le> 0x1000" using unsigned_less [of ty, where ?'a = nat] by simp
  moreover have "find_tlv_loop (?p @ encode_tlvs [] @ encode_tlvs xs @ post) ty (length (encode_tlvs ([] @ xs))) (length (encode_tlvs []))
      = Some (map_option (\<lambda>k. length ?p + length (encode_tlvs []) + k) (tlv_pos (unat ty) xs))"
    by (rule find_tlv_loop_finds) (use assms in \<open>simp_all add: payload_def\<close>)
  ultimately show ?thesis
    using GetTLV_finds [of xs "unat ty" pre mt post] get_Length_mux_body [of pre mt xs post] assms unat_len16 [of "length (encode_tlvs xs)"]
    by (simp add: qmi_find_tlv_def mux_body_def ac_simps)
qed

theorem qmi_find_tlv_is_GetTLV_witness:
  "qmi_find_tlv ([1, 2, 3, 4, 5, 6, 7, 8, 9] @ mux_body 0x20 [(0x11, [1, 0, 0, 0]), (0x16, [0, 8, 0, 0])] @ []) 0x16
    = GetTLV ([1, 2, 3, 4, 5, 6, 7, 8, 9] @ mux_body 0x20 [(0x11, [1, 0, 0, 0]), (0x16, [0, 8, 0, 0])] @ []) MUXHdr (unat (0x16 :: byte))"
  by (rule qmi_find_tlv_is_GetTLV) simp_all

section \<open>The requests of the initialisation\<close>

text \<open>A control request of the given type and TLVs.\<close>

definition control_request :: "byte \<Rightarrow> u16 \<Rightarrow> tlv list \<Rightarrow> byte list" where
  "control_request tid ty xs = 0x01 # le16 (of_nat (11 + length (encode_tlvs xs))) @ [0x00, QMUX_TYPE_CTL, 0x00]
     @ [0x00, tid] @ le16 ty @ le16 (of_nat (length (encode_tlvs xs))) @ encode_tlvs xs"

definition proxy_format_tlvs :: "tlv list" where
  "proxy_format_tlvs = [(0x10, [0]), (0x11, le32 0x02), (0x12, le32 0x05), (0x13, le32 0x05), (0x15, le32 32),
     (0x16, le32 0x8000), (0x17, le32 0x02 @ le32 0x04)]"

lemma all_bytes: "length b = n \<Longrightarrow> \<exists>v. b = map v [0..<n]"
  by (metis map_nth)

lemma data_format_bytes:
  assumes "length b = 63"
  shows "data_format_request cid tid 0x8000 b
    = Some (qmux_request QMUX_TYPE_WDS_ADMIN cid (ucast tid) 0x0020 proxy_format_tlvs)"
proof -
  obtain v where b: "b = map v [0..<63]" using all_bytes [OF assms] by blast
  show ?thesis using assms
    by (simp add: data_format_request_def put_value_def field_defs le16_def le32_def) (subst b,
      simp add: wire qmux_request_def proxy_format_tlvs_def mux_body_def encode_tlv_def le16_def le32_def)
qed

definition ctl_ready :: "byte list \<Rightarrow> bool" where
  "ctl_ready b \<longleftrightarrow> length b = 63 \<and> b ! 0 = 0x01 \<and> b ! 3 = 0x00 \<and> b ! 4 = QMUX_TYPE_CTL \<and> b ! 5 = 0x00 \<and> b ! 6 = 0x00"

lemma ctl_header_ready: "length b = 63 \<Longrightarrow> \<exists>b'. ctl_header b = Some b' \<and> ctl_ready b'"
  by (simp add: ctl_header_def field_defs ctl_ready_def)

lemma starts_nth: "starts b m \<longleftrightarrow> length m \<le> length b \<and> (\<forall>i < length m. b ! i = m ! i)"
proof (intro iffI conjI allI impI)
  show "starts b m" if "length m \<le> length b \<and> (\<forall>i < length m. b ! i = m ! i)"
    unfolding starts_def using that by (intro nth_equalityI) auto
qed (use starts_length in \<open>auto simp: starts_def\<close>, metis nth_take)

lemma sync_bytes:
  assumes "ctl_ready b"
  shows "\<exists>b'. put_ctl_request tid ty 0 b = Some b' \<and> ctl_ready b' \<and> starts b' (control_request tid ty [])"
  using assms by (simp add: put_ctl_request_def field_defs ctl_ready_def le16_def starts_def control_request_def
      take_eq_map_nth wire nth_list_update) (simp add: numeral_eq_Suc)

lemma param_bytes:
  assumes "ctl_ready b"
  shows "\<exists>b'. do { b \<leftarrow> put_ctl_request tid ty 4 b; ctl_param v b } = Some b'
    \<and> ctl_ready b' \<and> starts b' (control_request tid ty [(0x01, [v])])"
  using assms by (simp add: put_ctl_request_def ctl_param_def field_defs ctl_ready_def le16_def starts_def control_request_def
      encode_tlv_def take_eq_map_nth wire nth_list_update) (simp add: numeral_eq_Suc)

text \<open>A message whose length field is right is written as it stands in the buffer.\<close>

definition framed :: "byte list \<Rightarrow> bool" where
  "framed m \<longleftrightarrow> 3 \<le> length m \<and> length m = Suc (unat (len_field m))"

lemma send_starts:
  assumes "starts b m" "framed m"
  shows "send_qmi_to_cdc_wdm writable b s
    = Some (s\<lparr>writes_tried := Suc (writes_tried s), to_modem := to_modem s @ [m]\<rparr>)"
proof -
  have "length m \<le> length b" "len_field b = len_field m"
    using assms by (auto simp: starts_nth framed_def len_field_def)
  then show ?thesis using assms get_len [of b]
    by (simp add: send_qmi_to_cdc_wdm_def framed_def rdn_def) (simp add: starts_def)
qed

lemma framed_requests:
  "framed (control_request tid ty [])" "framed (control_request tid ty [(1, [v])])"
  "framed (qmux_request q cid tid2 ty proxy_format_tlvs)"
  by (simp_all add: framed_def control_request_def qmux_request_def mux_body_def proxy_format_tlvs_def encode_tlv_def
      len_field_def le16_def mk16_def)

section \<open>Requests while there is no server\<close>

definition booting :: "proxy \<Rightarrow> bool" where
  "booting s \<longleftrightarrow> 0 < proxy_wdm_fd s \<and> qmi_proxy_server_fd s \<le> 0"

text \<open>What the arrival of data may change, and that a loop that is over or about to exit hands over nothing more.\<close>

definition boot_step :: "proxy \<Rightarrow> proxy \<Rightarrow> bool" where
  "boot_step s s' \<longleftrightarrow> booting s' \<and> to_modem s' = to_modem s \<and> modem_reset_flag s' = modem_reset_flag s
     \<and> (loop_over s \<longrightarrow> s' = s)
     \<and> (modem_reset_flag s \<and> \<not> loop_over s' \<longrightarrow> s_pCtlRsq s' = s_pCtlRsq s)"

lemma boot_trans: "boot_step s t \<Longrightarrow> boot_step t u \<Longrightarrow> boot_step s u"
  unfolding boot_step_def by (metis (full_types))

lemma recv_ctl_rsp_keeps: "recv_ctl_rsp b n s = Some s' \<Longrightarrow> \<exists>r. s' = s\<lparr>s_pCtlRsq := r\<rparr>"
  by (auto simp: recv_ctl_rsp_def split: option.splits if_splits intro: exI [of _ "s_pCtlRsq s"])

lemma one_fd_booting:
  assumes "booting s" "\<not> loop_over s" "one_fd ok (proxy_wdm_fd s) (Input d k) s = Some (st, t)"
  shows "boot_step s (if st = Exit then t\<lparr>loop_over := True\<rparr> else t)"
proof -
  let ?n = "length (take 2048 d)" and ?r = "read_qmi d s"
  have r: "booting ?r" "\<not> loop_over ?r" "to_modem ?r = to_modem s" "modem_reset_flag ?r = modem_reset_flag s"
    "s_pCtlRsq ?r = s_pCtlRsq s" "proxy_wdm_fd s \<noteq> qmi_proxy_server_fd s" "qmi_proxy_server_fd ?r \<le> 0"
    using assms(1,2) by (auto simp: booting_def read_qmi_def)
  have fd: "one_fd ok (proxy_wdm_fd s) (Input d k) s = (if ?n = 0 then Some (Exit, ?r) else do {
      L \<leftarrow> get16 (proxy_buf ?r) 0 QCQMI_HDR ''Length'';
      if ?n \<noteq> unat L + 1 then Some (Go, ?r)
      else do { u \<leftarrow> recv_ctl_rsp (proxy_buf ?r) ?n ?r; Some (if modem_reset_flag u then Exit else Go, u) } })"
    using r(6,7) by (auto simp: one_fd_def Let_def recv_qmi_def cong: if_cong)
  have "(st, t) = (Exit, ?r) \<or> (st, t) = (Go, ?r)
      \<or> (\<exists>u. recv_ctl_rsp (proxy_buf ?r) ?n ?r = Some u \<and> st = (if modem_reset_flag u then Exit else Go) \<and> t = u)"
    using assms(3) unfolding fd by (simp only: bind_Some_iff split: if_splits) auto
  then consider "st = Exit" "t = ?r" | "st = Go" "t = ?r"
    | u where "recv_ctl_rsp (proxy_buf ?r) ?n ?r = Some u" "st = (if modem_reset_flag u then Exit else Go)" "t = u"
    by blast
  then show ?thesis
  proof cases
    case 3
    then obtain q where "t = ?r\<lparr>s_pCtlRsq := q\<rparr>" using recv_ctl_rsp_keeps by blast
    moreover from this have "st = (if modem_reset_flag s then Exit else Go)" using 3(2,3) r(4) by simp
    ultimately show ?thesis using r assms(2) by (simp add: boot_step_def booting_def)
  qed (use r assms(2) in \<open>simp_all add: boot_step_def booting_def\<close>)
qed

lemma arrive_booting: "booting s \<Longrightarrow> arrive ok ds s = Some s' \<Longrightarrow> boot_step s s'"
proof (induction ds arbitrary: s)
  case Nil
  then show ?case by (simp add: boot_step_def)
next
  case (Cons d ds)
  show ?case
  proof (cases "loop_over s")
    case False
    then obtain st t where t: "one_fd ok (proxy_wdm_fd s) (Input d 0) s = Some (st, t)"
      "arrive ok ds (if st = Exit then t\<lparr>loop_over := True\<rparr> else t) = Some s'"
      using Cons.prems by auto
    let ?t = "if st = Exit then t\<lparr>loop_over := True\<rparr> else t"
    have st: "boot_step s ?t" by (rule one_fd_booting [OF Cons.prems(1) False t(1)])
    then have "booting ?t" by (simp only: boot_step_def)
    from boot_trans [OF st Cons.IH [OF this t(2)]] show ?thesis .
  qed (use Cons.prems in \<open>simp add: boot_step_def\<close>)
qed

text \<open>One request: it is written once; with the flag of a reset, an answer ends the loop.\<close>

definition asked :: "byte list list \<Rightarrow> proxy \<Rightarrow> bool \<Rightarrow> proxy \<Rightarrow> bool" where
  "asked ms s answered s' \<longleftrightarrow> booting s' \<and> to_modem s' = to_modem s @ ms \<and> modem_reset_flag s' = modem_reset_flag s
     \<and> (loop_over s \<longrightarrow> loop_over s')
     \<and> (modem_reset_flag s \<and> answered \<longrightarrow> \<not> loop_over s \<and> loop_over s')"

lemma send_qmi_timeout_asked:
  assumes "booting s" "starts b m" "framed m" "send_qmi_timeout writable env b want s = Some (ret, rsp, s')"
  shows "asked [m] s (rsp \<noteq> PNull) s'"
proof -
  let ?s = "s\<lparr>s_pCtlReq := Some b, s_pCtlRsq := None, writes_tried := Suc (writes_tried s), to_modem := to_modem s @ [m]\<rparr>"
  obtain t where t: "arrive writable (arrivals (env (to_modem ?s))) ?s = Some t" "s' = t\<lparr>s_pCtlReq := None\<rparr>"
    "rsp \<noteq> PNull \<longrightarrow> s_pCtlRsq t \<noteq> None"
    using assms(4) send_starts [OF assms(2,3), of "s\<lparr>s_pCtlReq := Some b, s_pCtlRsq := None\<rparr>"]
    by (auto simp: send_qmi_timeout_def Let_def split: option.splits)
  have "boot_step ?s t" by (rule arrive_booting [OF _ t(1)]) (use assms(1) in \<open>simp add: booting_def\<close>)
  then show ?thesis using t by (auto simp: boot_step_def asked_def booting_def)
qed

lemma asked_trans: "asked xs s a t \<Longrightarrow> asked ys t b u \<Longrightarrow> asked (xs @ ys) s b u"
  unfolding asked_def by auto

section \<open>The initialisation as an exchange of requests\<close>

text \<open>Requests that are sent one after the other, up to the first that is not answered well.\<close>

inductive exchange :: "byte list list \<Rightarrow> proxy \<Rightarrow> int \<Rightarrow> proxy \<Rightarrow> bool" where
  all_answered: "booting s \<Longrightarrow> exchange [] s 0 s"
| not_answered: "asked [m] s a t \<Longrightarrow> exchange (m # ms) s (-1) t"
| answered: "asked [m] s True t \<Longrightarrow> exchange ms t r u \<Longrightarrow> exchange (m # ms) s r u"

lemma exchange_sends: "exchange ms s r u \<Longrightarrow> booting u \<and> modem_reset_flag u = modem_reset_flag s
    \<and> (\<exists>k \<le> length ms. to_modem u = to_modem s @ take k ms \<and> (r = 0 \<and> k = length ms \<or> r = -1))"
proof (induction rule: exchange.induct)
  case (not_answered m s a t ms)
  then show ?case by (auto simp: asked_def intro: exI [of _ 1])
next
  case (answered m s t ms r u)
  then obtain k where "k \<le> length ms" "to_modem u = to_modem t @ take k ms" "r = 0 \<and> k = length ms \<or> r = -1"
    by blast
  with answered show ?case by (auto simp: asked_def intro!: exI [of _ "Suc k"])
qed (auto simp: booting_def)

lemma exchange_over: "exchange ms s r u \<Longrightarrow> modem_reset_flag s \<Longrightarrow> loop_over s \<Longrightarrow> ms \<noteq> [] \<Longrightarrow> r = -1"
  by (induction rule: exchange.induct) (auto simp: asked_def)

lemma exchange_reset: "exchange ms s r u \<Longrightarrow> modem_reset_flag s \<Longrightarrow> 2 \<le> length ms \<Longrightarrow> r = -1"
proof (induction rule: exchange.induct)
  case (answered m s t ms r u)
  then have "modem_reset_flag t" "loop_over t" "ms \<noteq> []" by (auto simp: asked_def)
  with exchange_over [OF answered.hyps(2)] show ?case by blast
qed auto

lemma ask_asked:
  assumes "booting s" "starts b m" "framed m" "ask writable env b p L s = Some (a, t)"
  shows "asked [m] s (\<exists>r. a = Inr r) t"
proof -
  obtain ret rsp where t: "send_qmi_timeout writable env b True s = Some (ret, rsp, t)"
    "(\<exists>r. a = Inr r) \<longrightarrow> rsp \<noteq> PNull"
    using assms(4) by (auto simp: ask_def split: if_splits)
  then show ?thesis using send_qmi_timeout_asked [OF assms(1-3) t(1)] by (auto simp: asked_def)
qed

lemma if_answered_exchange:
  assumes "booting s" "starts b m" "framed m" "ask writable env b p L s = Some a" "if_answered a k = Some (ret, s')"
    and more: "\<And>r t. booting t \<Longrightarrow> k r t = Some (ret, s') \<Longrightarrow> \<exists>x. exchange (ms x) t ret s'"
  shows "\<exists>x. exchange (m # ms x) s ret s'"
proof -
  obtain x t where a: "a = (x, t)" by force
  note asked = ask_asked [OF assms(1-3), of env p L x t] 
  show ?thesis
  proof (cases x)
    case (Inl u)
    then have "ret = -1" "s' = t" using assms(5) a by (auto simp: if_answered_def)
    then show ?thesis using asked assms(4) a by (auto intro: exchange.not_answered)
  next
    case (Inr r)
    then have "asked [m] s True t" using asked assms(4) a by simp
    moreover have "k r t = Some (ret, s')" using assms(5) a Inr by (simp add: if_answered_def)
    moreover have "booting t" using calculation(1) by (simp add: asked_def)
    ultimately show ?thesis using more exchange.answered by blast
  qed
qed

abbreviation (input) sync_request :: "byte \<Rightarrow> byte list" where
  "sync_request tid \<equiv> control_request tid 0x0027 []"

abbreviation (input) version_request :: "byte \<Rightarrow> byte list" where
  "version_request tid \<equiv> control_request tid 0x0021 [(0x01, [QMUX_TYPE_ALL])]"

abbreviation (input) client_request :: "byte \<Rightarrow> byte list" where
  "client_request tid \<equiv> control_request tid 0x0022 [(0x01, [QMUX_TYPE_WDS_ADMIN])]"

abbreviation (input) format_request :: "byte \<Rightarrow> byte \<Rightarrow> byte list" where
  "format_request cid tid \<equiv> qmux_request QMUX_TYPE_WDS_ADMIN cid (ucast tid) 0x0020 proxy_format_tlvs"

lemma sync_asked:
  "booting s \<Longrightarrow> ctl_ready b \<Longrightarrow> proxy_sync writable env n tid r b s = Some (ret, tid', b', s') \<Longrightarrow>
    \<exists>k \<le> n. (0 < n \<longrightarrow> 0 < k) \<and> tid' = tid + of_nat k \<and> ctl_ready b'
      \<and> asked (map (\<lambda>i. sync_request (tid + of_nat i)) [0..<k]) s False s'"
proof (induction n arbitrary: tid r b s)
  case 0
  then show ?case by (auto simp: asked_def)
next
  case (Suc n)
  obtain b1 where b1: "put_ctl_request tid 0x0027 0 b = Some b1" "ctl_ready b1" "starts b1 (sync_request tid)"
    using sync_bytes [OF Suc.prems(2)] by blast
  then obtain ret1 rsp t where t: "send_qmi_timeout writable env b1 False s = Some (ret1, rsp, t)"
    "(if ret1 = 0 then Some (0, tid + 1, b1, t) else proxy_sync writable env n (tid + 1) ret1 b1 t) = Some (ret, tid', b', s')"
    using Suc.prems(3) by auto
  have a: "asked [sync_request tid] s False t"
    using send_qmi_timeout_asked [OF Suc.prems(1) b1(3) framed_requests(1) t(1)] by (simp add: asked_def)
  show ?case
  proof (cases "ret1 = 0")
    case True
    then show ?thesis using t(2) a b1(2) by (intro exI [of _ 1]) simp
  next
    case False
    then have "proxy_sync writable env n (tid + 1) ret1 b1 t = Some (ret, tid', b', s')" "booting t"
      using t(2) a by (simp_all add: asked_def)
    from Suc.IH [OF this(2) b1(2) this(1)] obtain k where k: "k \<le> n" "tid' = tid + 1 + of_nat k" "ctl_ready b'"
      "asked (map (\<lambda>i. sync_request (tid + 1 + of_nat i)) [0..<k]) t False s'" by blast
    have "map (\<lambda>i. sync_request (tid + of_nat i)) [0..<Suc k]
        = [sync_request tid] @ map (\<lambda>i. sync_request (tid + 1 + of_nat i)) [0..<k]"
      by (simp add: upt_conv_Cons map_Suc_upt [symmetric] add.assoc del: upt_Suc)
    with asked_trans [OF a k(4)] k show ?thesis
      by (intro exI [of _ "Suc k"]) (simp del: upt_Suc)
  qed
qed

lemma format_exchange:
  assumes "booting s" "ctl_ready b" "set_data_format writable env b tid cid s = Some (ret, s')"
  shows "exchange [format_request cid tid] s ret s'"
proof -
  let ?m = "format_request cid tid"
  have "length b = 63" using assms(2) by (simp add: ctl_ready_def)
  from data_format_bytes [OF this, of cid tid] assms(3) obtain a where
    a: "ask writable env ?m MUXHdr QCQMUX_MSG_HDR_RESP s = Some a"
      "if_answered a (\<lambda>r s. do { _ \<leftarrow> read_data_format r 0x8000; Some (0, s) }) = Some (ret, s')"
    by (auto simp: set_data_format_def Let_def)
  have "\<exists>x :: unit. exchange [?m] s ret s'"
    by (rule if_answered_exchange [OF assms(1) _ framed_requests(3) a])
      (auto simp: starts_def intro: exchange.all_answered)
  then show ?thesis by simp
qed

lemma init_exchange:
  assumes "booting s" "length stk = 63" "qmi_proxy_init writable env stk s = Some (ret, s')"
  shows "\<exists>n cid t. 1 \<le> n \<and> n \<le> 10 \<and> asked (map (\<lambda>i. sync_request (0xC1 + of_nat i)) [0..<n]) s False t
    \<and> (ret = -1 \<and> s' = t
      \<or> exchange [version_request (0xC1 + of_nat n), client_request (0xC1 + of_nat n + 1),
            format_request cid (0xC1 + of_nat n + 2)] t ret s')"
proof -
  obtain b where b: "ctl_header stk = Some b" "ctl_ready b" using ctl_header_ready [OF assms(2)] by blast
  then obtain r tid b1 t where sync: "proxy_sync writable env 10 0xC1 0 b s = Some (r, tid, b1, t)"
    using assms(3) by (auto simp: qmi_proxy_init_def)
  obtain n where n: "n \<le> 10" "(0 :: nat) < 10 \<longrightarrow> 0 < n" "tid = 0xC1 + of_nat n" "ctl_ready b1"
    "asked (map (\<lambda>i. sync_request (0xC1 + of_nat i)) [0..<n]) s False t"
    using sync_asked [OF assms(1) b(2) sync] by (elim exE conjE) (rule that)
  then have n1: "1 \<le> n" by simp
  have t: "booting t" using n(5) by (simp add: asked_def)
  obtain b2 where b2: "do { b \<leftarrow> put_ctl_request tid 0x0021 4 b1; ctl_param QMUX_TYPE_ALL b } = Some b2"
    "ctl_ready b2" "starts b2 (version_request tid)" using param_bytes [OF n(4)] by blast
  obtain b3 where b3: "do { b \<leftarrow> put_ctl_request (tid + 1) 0x0022 4 b2; ctl_param QMUX_TYPE_WDS_ADMIN b } = Some b3"
    "ctl_ready b3" "starts b3 (client_request (tid + 1))" using param_bytes [OF b2(2)] by blast
  show ?thesis
  proof (cases "r = 0")
    case False
    then have "ret = -1" "s' = t" using assms(3) b(1) sync by (auto simp: qmi_proxy_init_def)
    then show ?thesis using n n1 by blast
  next
    case True
    obtain c2 c3 where c: "put_ctl_request tid 0x0021 4 b1 = Some c2" "ctl_param QMUX_TYPE_ALL c2 = Some b2"
      "put_ctl_request (tid + 1) 0x0022 4 b2 = Some c3" "ctl_param QMUX_TYPE_WDS_ADMIN c3 = Some b3"
      using b2(1) b3(1) by auto
    let ?k2 = "\<lambda>r s. do { cid \<leftarrow> get8 r MUXMsg QMICTL_GET_CLIENT_ID_RESP_MSG ''ClientId'';
      set_data_format writable env b3 (tid + 2) cid s }"
    let ?k1 = "\<lambda>r s. do { _ \<leftarrow> get8 r MUXMsg QMICTL_GET_VERSION_RESP_MSG ''NumElements'';
      a \<leftarrow> ask writable env b3 MUXMsg QCQMICTL_MSG_HDR_RESP s; if_answered a ?k2 }"
    obtain a where a: "ask writable env b2 MUXMsg QCQMICTL_MSG_HDR_RESP t = Some a" "if_answered a ?k1 = Some (ret, s')"
      using assms(3) b(1) sync True c by (auto simp: qmi_proxy_init_def)
    have "\<exists>cid. exchange [version_request tid, client_request (tid + 1), format_request cid (tid + 2)] t ret s'"
    proof (rule if_answered_exchange [OF t b2(3) framed_requests(2) a])
      fix r u assume u: "booting u" "?k1 r u = Some (ret, s')"
      then obtain a' where a': "ask writable env b3 MUXMsg QCQMICTL_MSG_HDR_RESP u = Some a'" "if_answered a' ?k2 = Some (ret, s')"
        by auto
      show "\<exists>cid. exchange [client_request (tid + 1), format_request cid (tid + 2)] u ret s'"
        by (rule if_answered_exchange [OF u(1) b3(3) framed_requests(2) a'])
          (auto intro!: format_exchange [OF _ b3(2)])
    qed
    then show ?thesis using n n1 by blast
  qed
qed

text \<open>A reply with the identifier of the request is handed over while the loop runs.\<close>

definition serving :: "proxy \<Rightarrow> bool" where
  "serving s \<longleftrightarrow> booting s \<and> \<not> loop_over s \<and> \<not> modem_reset_flag s \<and> length (proxy_buf s) = 2048"

definition same_id :: "byte list \<Rightarrow> byte list \<Rightarrow> bool" where
  "same_id m d \<longleftrightarrow> (if d ! 4 = QMUX_TYPE_CTL then m ! 7 = d ! 7 else m ! 7 = d ! 7 \<and> m ! 8 = d ! 8)"

lemma reply_handed_over:
  assumes "serving s" "starts b m" "framed m" "9 \<le> length m" "arrivals (env (to_modem s @ [m])) = [d]"
    and "complete_msg d" "same_id m d"
  shows "\<exists>s'. send_qmi_timeout writable env b want s = Some (0, if want then PLive d else PNull, s')
    \<and> serving s' \<and> to_modem s' = to_modem s @ [m]"
proof -
  let ?s = "s\<lparr>s_pCtlReq := Some b, s_pCtlRsq := None, writes_tried := Suc (writes_tried s), to_modem := to_modem s @ [m]\<rparr>"
  let ?r = "read_qmi d ?s"
  have s: "proxy_wdm_fd s \<noteq> qmi_proxy_server_fd s" "qmi_proxy_server_fd s \<le> 0" "\<not> modem_reset_flag s" "\<not> loop_over s"
    "length (proxy_buf ?s) = 2048" using assms(1) by (auto simp: serving_def booting_def)
  have h: "holds_msg (proxy_buf ?r) d" using read_holds [OF s(5) assms(6)] .
  have n: "length d = Suc (unat (len_field d))" "length d \<le> 2048" "10 \<le> length d" using assms(6) by (auto simp: complete_msg_def)
  have id: "b ! 7 = m ! 7" "b ! 8 = m ! 8" "8 < length b" "proxy_buf ?r ! 7 = d ! 7" "proxy_buf ?r ! 8 = d ! 8"
    "length (proxy_buf ?r) = 2048"
    using assms(2,4) holds_nth [OF h] n h by (auto simp: starts_nth holds_msg_def)
  have "recv_ctl_rsp (proxy_buf ?r) (length d) ?r = Some (?r\<lparr>s_pCtlRsq := Some d\<rparr>)"
    using id assms(7) holds_simps [OF h]
    by (auto simp: recv_ctl_rsp_def read_qmi_def same_id_def field_defs rd16_Some)
  then have "one_fd writable (proxy_wdm_fd ?s) (Input d 0) ?s = Some (Go, ?r\<lparr>s_pCtlRsq := Some d\<rparr>)"
    using s n holds_simps(1) [OF h] by (auto simp: one_fd_def Let_def recv_qmi_def)
  then have "arrive writable [d] ?s = Some (?r\<lparr>s_pCtlRsq := Some d\<rparr>)"
    using s(4) by simp
  moreover have "serving (?r\<lparr>s_pCtlRsq := Some d, s_pCtlReq := None\<rparr>)"
    using assms(1) id(6) by (simp add: serving_def booting_def) (simp add: read_qmi_def)
  ultimately show ?thesis
    using assms(5) send_starts [OF assms(2,3), of "s\<lparr>s_pCtlReq := Some b, s_pCtlRsq := None\<rparr>"]
    by (simp add: send_qmi_timeout_def)
qed

text \<open>A modem that accepts every request, and a daemon that has just opened it.\<close>

definition good_modem :: wdm where
  "good_modem ms = \<lparr>arrivals = [[[1, 18, 0, 0x80, 0, 0, 1, 0xC1, 0x27, 0, 7, 0, 2, 4, 0, 0, 0, 0, 0],
      [1, 22, 0, 0x80, 0, 0, 1, 0xC2, 0x21, 0, 11, 0, 2, 4, 0, 0, 0, 0, 0, 1, 1, 0, 0],
      [1, 23, 0, 0x80, 0, 0, 1, 0xC3, 0x22, 0, 12, 0, 2, 4, 0, 0, 0, 0, 0, 1, 2, 0, 0x1A, 5],
      [1, 19, 0, 0x80, 0x1A, 5, 2, 0xC4, 0, 0x20, 0, 7, 0, 2, 4, 0, 0, 0, 0, 0]] ! (length ms - 1)], wakes_up = False\<rparr>"

definition just_opened :: proxy where
  "just_opened = \<lparr>qmi_proxy_connection = [], qmi_proxy_ctl_msg = [], proxy_wdm_fd = 3, qmi_proxy_server_fd = -1,
    qmi_proxy_quit = False, modem_reset_flag = False, s_pCtlReq = None, s_pCtlRsq = None,
    proxy_buf = replicate 2048 0, writes_tried = 0, to_modem = [], to_clients = [], closed = [], loop_over = False\<rparr>"

lemma good_reply:
  assumes "serving s" "starts b m" "framed m" "9 \<le> length m" "length (to_modem s) = n"
    and "arrivals (good_modem (replicate (Suc n) [])) = [d]" "complete_msg d" "same_id m d"
  shows "\<exists>s'. send_qmi_timeout writable good_modem b want s = Some (0, if want then PLive d else PNull, s')
    \<and> serving s' \<and> length (to_modem s') = Suc n"
proof -
  have "arrivals (good_modem (to_modem s @ [m])) = [d]" using assms(5,6) by (simp add: good_modem_def)
  from reply_handed_over [where env = good_modem, OF assms(1-4) this assms(7,8), of want] assms(5) show ?thesis by auto
qed

lemmas reply_evals = good_modem_def complete_msg_def len_field_def mk16_def same_id_def control_request_def
  qmux_request_def le16_def

lemma no_tlvs:
  "read_data_format [1, 19, 0, 0x80, 0x1A, 5, 2, 0xC4, 0, 0x20, 0, 7, 0, 2, 4, 0, 0, 0, 0, 0] urb = Some urb"
proof -
  have "qmi_find_tlv [1, 19, 0, 0x80, 0x1A, 5, 2, 0xC4, 0, 0x20, 0, 7, 0, 2, 4, 0, 0, 0, 0, 0] ty = Some None"
    if "ty \<noteq> 2" for ty
    using that find_tlv_loop.simps [of _ ty 7 0] find_tlv_loop.simps [of _ ty 7 7]
    by (simp add: qmi_find_tlv_def field_defs rd16_def mk16_def payload_def)
  then show ?thesis by (simp add: read_data_format_def tlv_value_def)
qed

lemma good_init: "\<exists>s'. qmi_proxy_init writable good_modem (replicate 63 0) just_opened = Some (0, s')"
proof -
  let ?s = just_opened
  have s: "serving ?s" "length (to_modem ?s) = 0" by (simp_all add: just_opened_def serving_def booting_def)
  obtain b where b: "ctl_header (replicate 63 0) = Some b" "ctl_ready b" using ctl_header_ready [of "replicate 63 0"] by auto
  obtain b1 where b1: "put_ctl_request 0xC1 0x0027 0 b = Some b1" "ctl_ready b1" "starts b1 (sync_request 0xC1)"
    using sync_bytes [OF b(2)] by blast
  obtain s1 where s1: "send_qmi_timeout writable good_modem b1 False ?s = Some (0, PNull, s1)" "serving s1" "length (to_modem s1) = 1"
    using good_reply [where want = False, OF s(1) b1(3) framed_requests(1) _ s(2)] by (auto simp: reply_evals)
  have sync: "proxy_sync writable good_modem 10 0xC1 0 b ?s = Some (0, 0xC2, b1, s1)"
    using proxy_sync.simps(2) [of writable good_modem 9 "0xC1" 0 b ?s] b1(1) s1(1) by simp
  obtain c2 b2 where b2: "put_ctl_request 0xC2 0x0021 4 b1 = Some c2" "ctl_param QMUX_TYPE_ALL c2 = Some b2"
    "ctl_ready b2" "starts b2 (version_request 0xC2)" using param_bytes [where tid = "0xC2" and ty = "0x0021" and v = QMUX_TYPE_ALL, OF b1(2)] by auto
  obtain s2 where s2: "send_qmi_timeout writable good_modem b2 True s1 = Some (0,
      PLive [1, 22, 0, 0x80, 0, 0, 1, 0xC2, 0x21, 0, 11, 0, 2, 4, 0, 0, 0, 0, 0, 1, 1, 0, 0], s2)" "serving s2" "length (to_modem s2) = 2"
    using good_reply [where want = True, OF s1(2) b2(4) framed_requests(2) _ s1(3)] by (auto simp: reply_evals)
  obtain c3 b3 where b3: "put_ctl_request 0xC3 0x0022 4 b2 = Some c3" "ctl_param QMUX_TYPE_WDS_ADMIN c3 = Some b3"
    "ctl_ready b3" "starts b3 (client_request 0xC3)" using param_bytes [where tid = "0xC3" and ty = "0x0022" and v = QMUX_TYPE_WDS_ADMIN, OF b2(3)] by auto
  obtain s3 where s3: "send_qmi_timeout writable good_modem b3 True s2 = Some (0,
      PLive [1, 23, 0, 0x80, 0, 0, 1, 0xC3, 0x22, 0, 12, 0, 2, 4, 0, 0, 0, 0, 0, 1, 2, 0, 0x1A, 5], s3)" "serving s3" "length (to_modem s3) = 3"
    using good_reply [where want = True, OF s2(2) b3(4) framed_requests(2) _ s2(3)] by (auto simp: reply_evals)
  let ?f = "format_request 5 0xC4"
  let ?d = "[1, 19, 0, 0x80, 0x1A, 5, 2, 0xC4, 0, 0x20, 0, 7, 0, 2, 4, 0, 0, 0, 0, 0] :: byte list"
  have f: "starts ?f ?f" "9 \<le> length ?f" "same_id ?f ?d" "arrivals (good_modem (replicate (Suc 3) [])) = [?d]" "complete_msg ?d"
    by (simp_all add: starts_def same_id_def qmux_request_def le16_def good_modem_def complete_msg_def len_field_def mk16_def)
  obtain s4 where s4: "send_qmi_timeout writable good_modem ?f True s3 = Some (0, PLive ?d, s4)"
    using good_reply [where want = True, OF s3(2) f(1) framed_requests(3) f(2) s3(3) f(4,5,3)] by auto
  have "data_format_request 5 0xC4 0x8000 b3 = Some ?f" using data_format_bytes b3(3) by (simp add: ctl_ready_def)
  then have "set_data_format writable good_modem b3 0xC4 5 s3 = Some (0, s4)"
    using s4 no_tlvs by (simp add: set_data_format_def ask_def refused_def if_answered_def field_defs rd16_def mk16_def)
  then show ?thesis
    using b(1) sync b2(1,2) s2(1) b3(1,2) s3(1)
    by (simp add: qmi_proxy_init_def ask_def refused_def if_answered_def field_defs rd16_def mk16_def)
qed



section \<open>After a reset of the modem\<close>

lemma init_reset:
  assumes "booting s" "modem_reset_flag s" "length stk = 63" "qmi_proxy_init writable env stk s = Some (ret, s')"
  shows "ret = -1 \<and> booting s' \<and> modem_reset_flag s'"
proof -
  obtain n cid t where n: "asked (map (\<lambda>i. sync_request (0xC1 + of_nat i)) [0..<n]) s False t"
    and t: "ret = -1 \<and> s' = t \<or> exchange [version_request (0xC1 + of_nat n), client_request (0xC1 + of_nat n + 1),
            format_request cid (0xC1 + of_nat n + 2)] t ret s'" (is "_ \<or> exchange (?ms) _ _ _")
    using init_exchange [OF assms(1,3,4)] by (elim exE conjE) (rule that)
  have "booting t" "modem_reset_flag t" using n assms(2) by (auto simp: asked_def)
  with t exchange_sends [of ?ms t ret s'] exchange_reset [of ?ms t ret s'] show ?thesis by auto
qed

text \<open>
  C17: Once the modem was reset, no later life of the daemon comes up: the flag is never cleared, so the loop
  ends at the first answer and each of the at most six tries of the initialisation fails.
\<close>
theorem reset_is_final:
  assumes "modem_reset_flag s" "0 < proxy_wdm_fd s" "qmi_proxy_server_fd s \<le> 0" "\<forall>i. length (stks i) = 63"
    and "init_retries writable envs stks present n s = Some (good, k, s')"
  shows "\<not> good \<and> modem_reset_flag s' \<and> 1 \<le> k \<and> k \<le> Suc n"
proof -
  have "booting s" using assms by (simp add: booting_def)
  from this assms(1,5) show ?thesis
  proof (induction n arbitrary: s k)
    case 0
    then show ?case using init_reset [OF 0(1,2)] assms(4) by fastforce
  next
    case (Suc n)
    then obtain ret t where t: "qmi_proxy_init writable (envs (Suc n)) (stks (Suc n)) s = Some (ret, t)"
      by auto
    with init_reset [OF Suc.prems(1,2) _ t] assms(4) have "ret = -1" "booting t" "modem_reset_flag t" by auto
    then show ?case using Suc.prems(3) Suc.IH [of t] t by (cases "present (Suc n)") fastforce+
  qed
qed

lemma silent_init:
  assumes "\<And>ms. arrivals (env ms) = [] \<and> wakes_up (env ms)" "length stk = 63"
  shows "\<exists>s'. qmi_proxy_init writable env stk s = Some (-1, s')"
proof -
  have send: "\<exists>t. send_qmi_timeout writable env b want u = Some (0, PNull, t)" if "starts b m" "framed m" for b m want u
    using send_starts [OF that, of "u\<lparr>s_pCtlReq := Some b, s_pCtlRsq := None\<rparr>"] assms(1)
    by (simp add: send_qmi_timeout_def)
  obtain b where b: "ctl_header stk = Some b" "ctl_ready b" using ctl_header_ready [OF assms(2)] by blast
  obtain b1 where b1: "put_ctl_request 0xC1 0x0027 0 b = Some b1" "ctl_ready b1" "starts b1 (sync_request 0xC1)"
    using sync_bytes [OF b(2)] by blast
  obtain s1 where s1: "send_qmi_timeout writable env b1 False s = Some (0, PNull, s1)"
    using send [OF b1(3) framed_requests(1)] by blast
  obtain c2 b2 where b2: "put_ctl_request 0xC2 0x0021 4 b1 = Some c2" "ctl_param QMUX_TYPE_ALL c2 = Some b2"
    "starts b2 (version_request 0xC2)" using param_bytes [where tid = "0xC2" and ty = "0x0021" and v = QMUX_TYPE_ALL, OF b1(2)] by auto
  obtain s2 where s2: "send_qmi_timeout writable env b2 True s1 = Some (0, PNull, s2)"
    using send [OF b2(3) framed_requests(2)] by blast
  have "proxy_sync writable env 10 0xC1 0 b s = Some (0, 0xC2, b1, s1)"
    using proxy_sync.simps(2) [of writable env 9 "0xC1" 0 b s] b1(1) s1 by simp
  then show ?thesis using b(1) b2(1,2) s2 by (simp add: qmi_proxy_init_def ask_def if_answered_def)
qed

theorem reset_is_final_witness:
  "\<exists>s'. init_retries writable (\<lambda>_ _. \<lparr>arrivals = [], wakes_up = True\<rparr>) (\<lambda>_. replicate 63 0) (\<lambda>_. False) 5
      (just_opened\<lparr>modem_reset_flag := True\<rparr>) = Some (False, 1, s') \<and> modem_reset_flag s'"
proof -
  let ?s = "just_opened\<lparr>modem_reset_flag := True\<rparr>" and ?envs = "\<lambda>_ _. \<lparr>arrivals = [], wakes_up = True\<rparr>"
  obtain t where t: "qmi_proxy_init writable (?envs (5 :: nat)) (replicate 63 0) ?s = Some (-1, t)"
    using silent_init [of "?envs 5" "replicate 63 0" ?s] by auto
  have r: "init_retries writable ?envs (\<lambda>_. replicate 63 0) (\<lambda>_. False) 5 ?s = Some (False, 1, t)"
    using init_retries.simps(2) [of writable ?envs "\<lambda>_. replicate 63 0" "\<lambda>_. False" 4 ?s] t by simp
  have "\<not> False \<and> modem_reset_flag t \<and> (1 :: nat) \<le> 1 \<and> 1 \<le> Suc 5"
    by (rule reset_is_final [OF _ _ _ _ r]) (simp_all add: just_opened_def)
  then show ?thesis using r by blast
qed

end
