(* ===== verification/MbimWire.thy ===== *)
theory MbimWire
  imports NetSetup
begin

text \<open>
  The messages of the MBIM client \<open>mbim-cm.c\<close>: its structures (under \<open>#pragma pack(4)\<close>, every field of
  four bytes on its own boundary, so that the layouts have no gaps; flexible arrays are left out), UUIDs,
  and the composition of commands. The host is little-endian, as the code assumes where it
  reads fields without a conversion; pointers have eight bytes.
\<close>

section \<open>Structures\<close>

definition MBIM_MESSAGE_HEADER :: layout where
  "MBIM_MESSAGE_HEADER =
    [(''MessageType'', 4), (''MessageLength'', 4), (''TransactionId'', 4)]"

lemma MBIM_MESSAGE_HEADER_layout [simp]:
  "sizeof MBIM_MESSAGE_HEADER = 12"
  "off MBIM_MESSAGE_HEADER ''MessageType'' = 0"
  "off MBIM_MESSAGE_HEADER ''MessageLength'' = 4"
  "off MBIM_MESSAGE_HEADER ''TransactionId'' = 8"
  by (simp_all add: MBIM_MESSAGE_HEADER_def sizeof_def)

definition MBIM_OPEN_MSG_T :: layout where
  "MBIM_OPEN_MSG_T =
    [(''MessageType'', 4), (''MessageLength'', 4), (''TransactionId'', 4), (''MaxControlTransfer'', 4)]"

lemma MBIM_OPEN_MSG_T_layout [simp]:
  "sizeof MBIM_OPEN_MSG_T = 16"
  "off MBIM_OPEN_MSG_T ''MessageType'' = 0"
  "off MBIM_OPEN_MSG_T ''MessageLength'' = 4"
  "off MBIM_OPEN_MSG_T ''TransactionId'' = 8"
  "off MBIM_OPEN_MSG_T ''MaxControlTransfer'' = 12"
  by (simp_all add: MBIM_OPEN_MSG_T_def sizeof_def)

definition MBIM_OPEN_DONE_T :: layout where
  "MBIM_OPEN_DONE_T =
    [(''MessageType'', 4), (''MessageLength'', 4), (''TransactionId'', 4), (''Status'', 4)]"

lemma MBIM_OPEN_DONE_T_layout [simp]:
  "sizeof MBIM_OPEN_DONE_T = 16"
  "off MBIM_OPEN_DONE_T ''MessageType'' = 0"
  "off MBIM_OPEN_DONE_T ''MessageLength'' = 4"
  "off MBIM_OPEN_DONE_T ''TransactionId'' = 8"
  "off MBIM_OPEN_DONE_T ''Status'' = 12"
  by (simp_all add: MBIM_OPEN_DONE_T_def sizeof_def)

definition MBIM_CLOSE_MSG_T :: layout where
  "MBIM_CLOSE_MSG_T =
    [(''MessageType'', 4), (''MessageLength'', 4), (''TransactionId'', 4)]"

lemma MBIM_CLOSE_MSG_T_layout [simp]:
  "sizeof MBIM_CLOSE_MSG_T = 12"
  "off MBIM_CLOSE_MSG_T ''MessageType'' = 0"
  "off MBIM_CLOSE_MSG_T ''MessageLength'' = 4"
  "off MBIM_CLOSE_MSG_T ''TransactionId'' = 8"
  by (simp_all add: MBIM_CLOSE_MSG_T_def sizeof_def)

definition MBIM_CLOSE_DONE_T :: layout where
  "MBIM_CLOSE_DONE_T =
    [(''MessageType'', 4), (''MessageLength'', 4), (''TransactionId'', 4), (''Status'', 4)]"

lemma MBIM_CLOSE_DONE_T_layout [simp]:
  "sizeof MBIM_CLOSE_DONE_T = 16"
  "off MBIM_CLOSE_DONE_T ''MessageType'' = 0"
  "off MBIM_CLOSE_DONE_T ''MessageLength'' = 4"
  "off MBIM_CLOSE_DONE_T ''TransactionId'' = 8"
  "off MBIM_CLOSE_DONE_T ''Status'' = 12"
  by (simp_all add: MBIM_CLOSE_DONE_T_def sizeof_def)

definition MBIM_COMMAND_MSG_T :: layout where
  "MBIM_COMMAND_MSG_T =
    [(''MessageType'', 4), (''MessageLength'', 4), (''TransactionId'', 4), (''TotalFragments'', 4),
     (''CurrentFragment'', 4), (''DeviceServiceId'', 16), (''CID'', 4), (''CommandType'', 4),
     (''InformationBufferLength'', 4)]"

lemma MBIM_COMMAND_MSG_T_layout [simp]:
  "sizeof MBIM_COMMAND_MSG_T = 48"
  "off MBIM_COMMAND_MSG_T ''MessageType'' = 0"
  "off MBIM_COMMAND_MSG_T ''MessageLength'' = 4"
  "off MBIM_COMMAND_MSG_T ''TransactionId'' = 8"
  "off MBIM_COMMAND_MSG_T ''TotalFragments'' = 12"
  "off MBIM_COMMAND_MSG_T ''CurrentFragment'' = 16"
  "off MBIM_COMMAND_MSG_T ''DeviceServiceId'' = 20"
  "off MBIM_COMMAND_MSG_T ''CID'' = 36"
  "off MBIM_COMMAND_MSG_T ''CommandType'' = 40"
  "off MBIM_COMMAND_MSG_T ''InformationBufferLength'' = 44"
  by (simp_all add: MBIM_COMMAND_MSG_T_def sizeof_def)

definition MBIM_COMMAND_DONE_T :: layout where
  "MBIM_COMMAND_DONE_T =
    [(''MessageType'', 4), (''MessageLength'', 4), (''TransactionId'', 4), (''TotalFragments'', 4),
     (''CurrentFragment'', 4), (''DeviceServiceId'', 16), (''CID'', 4), (''Status'', 4),
     (''InformationBufferLength'', 4)]"

lemma MBIM_COMMAND_DONE_T_layout [simp]:
  "sizeof MBIM_COMMAND_DONE_T = 48"
  "off MBIM_COMMAND_DONE_T ''MessageType'' = 0"
  "off MBIM_COMMAND_DONE_T ''MessageLength'' = 4"
  "off MBIM_COMMAND_DONE_T ''TransactionId'' = 8"
  "off MBIM_COMMAND_DONE_T ''TotalFragments'' = 12"
  "off MBIM_COMMAND_DONE_T ''CurrentFragment'' = 16"
  "off MBIM_COMMAND_DONE_T ''DeviceServiceId'' = 20"
  "off MBIM_COMMAND_DONE_T ''CID'' = 36"
  "off MBIM_COMMAND_DONE_T ''Status'' = 40"
  "off MBIM_COMMAND_DONE_T ''InformationBufferLength'' = 44"
  by (simp_all add: MBIM_COMMAND_DONE_T_def sizeof_def)

definition MBIM_FUNCTION_ERROR_MSG_T :: layout where
  "MBIM_FUNCTION_ERROR_MSG_T =
    [(''MessageType'', 4), (''MessageLength'', 4), (''TransactionId'', 4), (''ErrorStatusCode'', 4)]"

lemma MBIM_FUNCTION_ERROR_MSG_T_layout [simp]:
  "sizeof MBIM_FUNCTION_ERROR_MSG_T = 16"
  "off MBIM_FUNCTION_ERROR_MSG_T ''MessageType'' = 0"
  "off MBIM_FUNCTION_ERROR_MSG_T ''MessageLength'' = 4"
  "off MBIM_FUNCTION_ERROR_MSG_T ''TransactionId'' = 8"
  "off MBIM_FUNCTION_ERROR_MSG_T ''ErrorStatusCode'' = 12"
  by (simp_all add: MBIM_FUNCTION_ERROR_MSG_T_def sizeof_def)

definition MBIM_INDICATE_STATUS_MSG_T :: layout where
  "MBIM_INDICATE_STATUS_MSG_T =
    [(''MessageType'', 4), (''MessageLength'', 4), (''TransactionId'', 4), (''TotalFragments'', 4),
     (''CurrentFragment'', 4), (''DeviceServiceId'', 16), (''CID'', 4), (''InformationBufferLength'', 4)]"

lemma MBIM_INDICATE_STATUS_MSG_T_layout [simp]:
  "sizeof MBIM_INDICATE_STATUS_MSG_T = 44"
  "off MBIM_INDICATE_STATUS_MSG_T ''MessageType'' = 0"
  "off MBIM_INDICATE_STATUS_MSG_T ''MessageLength'' = 4"
  "off MBIM_INDICATE_STATUS_MSG_T ''TransactionId'' = 8"
  "off MBIM_INDICATE_STATUS_MSG_T ''TotalFragments'' = 12"
  "off MBIM_INDICATE_STATUS_MSG_T ''CurrentFragment'' = 16"
  "off MBIM_INDICATE_STATUS_MSG_T ''DeviceServiceId'' = 20"
  "off MBIM_INDICATE_STATUS_MSG_T ''CID'' = 36"
  "off MBIM_INDICATE_STATUS_MSG_T ''InformationBufferLength'' = 40"
  by (simp_all add: MBIM_INDICATE_STATUS_MSG_T_def sizeof_def)

definition MBIM_PACKET_SERVICE_INFO_T :: layout where
  "MBIM_PACKET_SERVICE_INFO_T =
    [(''NwError'', 4), (''PacketServiceState'', 4), (''HighestAvailableDataClass'', 4), (''UplinkSpeed'',
     8), (''DownlinkSpeed'', 8)]"

lemma MBIM_PACKET_SERVICE_INFO_T_layout [simp]:
  "sizeof MBIM_PACKET_SERVICE_INFO_T = 28"
  "off MBIM_PACKET_SERVICE_INFO_T ''NwError'' = 0"
  "off MBIM_PACKET_SERVICE_INFO_T ''PacketServiceState'' = 4"
  "off MBIM_PACKET_SERVICE_INFO_T ''HighestAvailableDataClass'' = 8"
  "off MBIM_PACKET_SERVICE_INFO_T ''UplinkSpeed'' = 12"
  "off MBIM_PACKET_SERVICE_INFO_T ''DownlinkSpeed'' = 20"
  by (simp_all add: MBIM_PACKET_SERVICE_INFO_T_def sizeof_def)

definition MBIM_DEVICE_CAPS_INFO_T :: layout where
  "MBIM_DEVICE_CAPS_INFO_T =
    [(''DeviceType'', 4), (''CellularClass'', 4), (''VoiceClass'', 4), (''SimClass'', 4), (''DataClass'',
     4), (''SmsCaps'', 4), (''ControlCaps'', 4), (''MaxSessions'', 4), (''CustomDataClassOffset'', 4),
     (''CustomDataClassSize'', 4), (''DeviceIdOffset'', 4), (''DeviceIdSize'', 4),
     (''FirmwareInfoOffset'', 4), (''FirmwareInfoSize'', 4), (''HardwareInfoOffset'', 4),
     (''HardwareInfoSize'', 4)]"

lemma MBIM_DEVICE_CAPS_INFO_T_layout [simp]:
  "sizeof MBIM_DEVICE_CAPS_INFO_T = 64"
  "off MBIM_DEVICE_CAPS_INFO_T ''DeviceType'' = 0"
  "off MBIM_DEVICE_CAPS_INFO_T ''CellularClass'' = 4"
  "off MBIM_DEVICE_CAPS_INFO_T ''VoiceClass'' = 8"
  "off MBIM_DEVICE_CAPS_INFO_T ''SimClass'' = 12"
  "off MBIM_DEVICE_CAPS_INFO_T ''DataClass'' = 16"
  "off MBIM_DEVICE_CAPS_INFO_T ''SmsCaps'' = 20"
  "off MBIM_DEVICE_CAPS_INFO_T ''ControlCaps'' = 24"
  "off MBIM_DEVICE_CAPS_INFO_T ''MaxSessions'' = 28"
  "off MBIM_DEVICE_CAPS_INFO_T ''CustomDataClassOffset'' = 32"
  "off MBIM_DEVICE_CAPS_INFO_T ''CustomDataClassSize'' = 36"
  "off MBIM_DEVICE_CAPS_INFO_T ''DeviceIdOffset'' = 40"
  "off MBIM_DEVICE_CAPS_INFO_T ''DeviceIdSize'' = 44"
  "off MBIM_DEVICE_CAPS_INFO_T ''FirmwareInfoOffset'' = 48"
  "off MBIM_DEVICE_CAPS_INFO_T ''FirmwareInfoSize'' = 52"
  "off MBIM_DEVICE_CAPS_INFO_T ''HardwareInfoOffset'' = 56"
  "off MBIM_DEVICE_CAPS_INFO_T ''HardwareInfoSize'' = 60"
  by (simp_all add: MBIM_DEVICE_CAPS_INFO_T_def sizeof_def)

definition MBIM_SUBSCRIBER_READY_STATUS_T :: layout where
  "MBIM_SUBSCRIBER_READY_STATUS_T =
    [(''ReadyState'', 4), (''SubscriberIdOffset'', 4), (''SubscriberIdSize'', 4), (''SimIccIdOffset'',
     4), (''SimIccIdSize'', 4), (''ReadyInfo'', 4), (''ElementCount'', 4), (''TelephoneNumbersRefList'',
     8), (''DataBuffer'', 8)]"

lemma MBIM_SUBSCRIBER_READY_STATUS_T_layout [simp]:
  "sizeof MBIM_SUBSCRIBER_READY_STATUS_T = 44"
  "off MBIM_SUBSCRIBER_READY_STATUS_T ''ReadyState'' = 0"
  "off MBIM_SUBSCRIBER_READY_STATUS_T ''SubscriberIdOffset'' = 4"
  "off MBIM_SUBSCRIBER_READY_STATUS_T ''SubscriberIdSize'' = 8"
  "off MBIM_SUBSCRIBER_READY_STATUS_T ''SimIccIdOffset'' = 12"
  "off MBIM_SUBSCRIBER_READY_STATUS_T ''SimIccIdSize'' = 16"
  "off MBIM_SUBSCRIBER_READY_STATUS_T ''ReadyInfo'' = 20"
  "off MBIM_SUBSCRIBER_READY_STATUS_T ''ElementCount'' = 24"
  "off MBIM_SUBSCRIBER_READY_STATUS_T ''TelephoneNumbersRefList'' = 28"
  "off MBIM_SUBSCRIBER_READY_STATUS_T ''DataBuffer'' = 36"
  by (simp_all add: MBIM_SUBSCRIBER_READY_STATUS_T_def sizeof_def)

definition MBIM_REGISTRATION_STATE_INFO_T :: layout where
  "MBIM_REGISTRATION_STATE_INFO_T =
    [(''NwError'', 4), (''RegisterState'', 4), (''RegisterMode'', 4), (''AvailableDataClasses'', 4),
     (''CurrentCellularClass'', 4), (''ProviderIdOffset'', 4), (''ProviderIdSize'', 4),
     (''ProviderNameOffset'', 4), (''ProviderNameSize'', 4), (''RoamingTextOffset'', 4),
     (''RoamingTextSize'', 4), (''RegistrationFlag'', 4), (''DataBuffer'', 8)]"

lemma MBIM_REGISTRATION_STATE_INFO_T_layout [simp]:
  "sizeof MBIM_REGISTRATION_STATE_INFO_T = 56"
  "off MBIM_REGISTRATION_STATE_INFO_T ''NwError'' = 0"
  "off MBIM_REGISTRATION_STATE_INFO_T ''RegisterState'' = 4"
  "off MBIM_REGISTRATION_STATE_INFO_T ''RegisterMode'' = 8"
  "off MBIM_REGISTRATION_STATE_INFO_T ''AvailableDataClasses'' = 12"
  "off MBIM_REGISTRATION_STATE_INFO_T ''CurrentCellularClass'' = 16"
  "off MBIM_REGISTRATION_STATE_INFO_T ''ProviderIdOffset'' = 20"
  "off MBIM_REGISTRATION_STATE_INFO_T ''ProviderIdSize'' = 24"
  "off MBIM_REGISTRATION_STATE_INFO_T ''ProviderNameOffset'' = 28"
  "off MBIM_REGISTRATION_STATE_INFO_T ''ProviderNameSize'' = 32"
  "off MBIM_REGISTRATION_STATE_INFO_T ''RoamingTextOffset'' = 36"
  "off MBIM_REGISTRATION_STATE_INFO_T ''RoamingTextSize'' = 40"
  "off MBIM_REGISTRATION_STATE_INFO_T ''RegistrationFlag'' = 44"
  "off MBIM_REGISTRATION_STATE_INFO_T ''DataBuffer'' = 48"
  by (simp_all add: MBIM_REGISTRATION_STATE_INFO_T_def sizeof_def)

definition MBIM_SET_CONNECT_T :: layout where
  "MBIM_SET_CONNECT_T =
    [(''SessionId'', 4), (''ActivationCommand'', 4), (''AccessStringOffset'', 4), (''AccessStringSize'',
     4), (''UserNameOffset'', 4), (''UserNameSize'', 4), (''PasswordOffset'', 4), (''PasswordSize'', 4),
     (''Compression'', 4), (''AuthProtocol'', 4), (''IPType'', 4), (''ContextType'', 16)]"

lemma MBIM_SET_CONNECT_T_layout [simp]:
  "sizeof MBIM_SET_CONNECT_T = 60"
  "off MBIM_SET_CONNECT_T ''SessionId'' = 0"
  "off MBIM_SET_CONNECT_T ''ActivationCommand'' = 4"
  "off MBIM_SET_CONNECT_T ''AccessStringOffset'' = 8"
  "off MBIM_SET_CONNECT_T ''AccessStringSize'' = 12"
  "off MBIM_SET_CONNECT_T ''UserNameOffset'' = 16"
  "off MBIM_SET_CONNECT_T ''UserNameSize'' = 20"
  "off MBIM_SET_CONNECT_T ''PasswordOffset'' = 24"
  "off MBIM_SET_CONNECT_T ''PasswordSize'' = 28"
  "off MBIM_SET_CONNECT_T ''Compression'' = 32"
  "off MBIM_SET_CONNECT_T ''AuthProtocol'' = 36"
  "off MBIM_SET_CONNECT_T ''IPType'' = 40"
  "off MBIM_SET_CONNECT_T ''ContextType'' = 44"
  by (simp_all add: MBIM_SET_CONNECT_T_def sizeof_def)

definition MBIM_CONNECT_T :: layout where
  "MBIM_CONNECT_T =
    [(''SessionId'', 4), (''ActivationState'', 4), (''VoiceCallState'', 4), (''IPType'', 4),
     (''ContextType'', 16), (''NwError'', 4)]"

lemma MBIM_CONNECT_T_layout [simp]:
  "sizeof MBIM_CONNECT_T = 36"
  "off MBIM_CONNECT_T ''SessionId'' = 0"
  "off MBIM_CONNECT_T ''ActivationState'' = 4"
  "off MBIM_CONNECT_T ''VoiceCallState'' = 8"
  "off MBIM_CONNECT_T ''IPType'' = 12"
  "off MBIM_CONNECT_T ''ContextType'' = 16"
  "off MBIM_CONNECT_T ''NwError'' = 32"
  by (simp_all add: MBIM_CONNECT_T_def sizeof_def)

definition MBIM_IPV4_ELEMENT_T :: layout where
  "MBIM_IPV4_ELEMENT_T =
    [(''OnLinkPrefixLength'', 4), (''IPv4Address'', 4)]"

lemma MBIM_IPV4_ELEMENT_T_layout [simp]:
  "sizeof MBIM_IPV4_ELEMENT_T = 8"
  "off MBIM_IPV4_ELEMENT_T ''OnLinkPrefixLength'' = 0"
  "off MBIM_IPV4_ELEMENT_T ''IPv4Address'' = 4"
  by (simp_all add: MBIM_IPV4_ELEMENT_T_def sizeof_def)

definition MBIM_IPV6_ELEMENT_T :: layout where
  "MBIM_IPV6_ELEMENT_T =
    [(''OnLinkPrefixLength'', 4), (''IPv6Address'', 16)]"

lemma MBIM_IPV6_ELEMENT_T_layout [simp]:
  "sizeof MBIM_IPV6_ELEMENT_T = 20"
  "off MBIM_IPV6_ELEMENT_T ''OnLinkPrefixLength'' = 0"
  "off MBIM_IPV6_ELEMENT_T ''IPv6Address'' = 4"
  by (simp_all add: MBIM_IPV6_ELEMENT_T_def sizeof_def)

definition MBIM_IP_CONFIGURATION_INFO_T :: layout where
  "MBIM_IP_CONFIGURATION_INFO_T =
    [(''SessionId'', 4), (''IPv4ConfigurationAvailable'', 4), (''IPv6ConfigurationAvailable'', 4),
     (''IPv4AddressCount'', 4), (''IPv4AddressOffset'', 4), (''IPv6AddressCount'', 4),
     (''IPv6AddressOffset'', 4), (''IPv4GatewayOffset'', 4), (''IPv6GatewayOffset'', 4),
     (''IPv4DnsServerCount'', 4), (''IPv4DnsServerOffset'', 4), (''IPv6DnsServerCount'', 4),
     (''IPv6DnsServerOffset'', 4), (''IPv4Mtu'', 4), (''IPv6Mtu'', 4)]"

lemma MBIM_IP_CONFIGURATION_INFO_T_layout [simp]:
  "sizeof MBIM_IP_CONFIGURATION_INFO_T = 60"
  "off MBIM_IP_CONFIGURATION_INFO_T ''SessionId'' = 0"
  "off MBIM_IP_CONFIGURATION_INFO_T ''IPv4ConfigurationAvailable'' = 4"
  "off MBIM_IP_CONFIGURATION_INFO_T ''IPv6ConfigurationAvailable'' = 8"
  "off MBIM_IP_CONFIGURATION_INFO_T ''IPv4AddressCount'' = 12"
  "off MBIM_IP_CONFIGURATION_INFO_T ''IPv4AddressOffset'' = 16"
  "off MBIM_IP_CONFIGURATION_INFO_T ''IPv6AddressCount'' = 20"
  "off MBIM_IP_CONFIGURATION_INFO_T ''IPv6AddressOffset'' = 24"
  "off MBIM_IP_CONFIGURATION_INFO_T ''IPv4GatewayOffset'' = 28"
  "off MBIM_IP_CONFIGURATION_INFO_T ''IPv6GatewayOffset'' = 32"
  "off MBIM_IP_CONFIGURATION_INFO_T ''IPv4DnsServerCount'' = 36"
  "off MBIM_IP_CONFIGURATION_INFO_T ''IPv4DnsServerOffset'' = 40"
  "off MBIM_IP_CONFIGURATION_INFO_T ''IPv6DnsServerCount'' = 44"
  "off MBIM_IP_CONFIGURATION_INFO_T ''IPv6DnsServerOffset'' = 48"
  "off MBIM_IP_CONFIGURATION_INFO_T ''IPv4Mtu'' = 52"
  "off MBIM_IP_CONFIGURATION_INFO_T ''IPv6Mtu'' = 56"
  by (simp_all add: MBIM_IP_CONFIGURATION_INFO_T_def sizeof_def)

definition MBIM_SIGNAL_STATE_INFO_T :: layout where
  "MBIM_SIGNAL_STATE_INFO_T =
    [(''Rssi'', 4), (''ErrorRate'', 4), (''SignalStrengthInterval'', 4), (''RssiThreshold'', 4),
     (''ErrorRateThreshold'', 4)]"

lemma MBIM_SIGNAL_STATE_INFO_T_layout [simp]:
  "sizeof MBIM_SIGNAL_STATE_INFO_T = 20"
  "off MBIM_SIGNAL_STATE_INFO_T ''Rssi'' = 0"
  "off MBIM_SIGNAL_STATE_INFO_T ''ErrorRate'' = 4"
  "off MBIM_SIGNAL_STATE_INFO_T ''SignalStrengthInterval'' = 8"
  "off MBIM_SIGNAL_STATE_INFO_T ''RssiThreshold'' = 12"
  "off MBIM_SIGNAL_STATE_INFO_T ''ErrorRateThreshold'' = 16"
  by (simp_all add: MBIM_SIGNAL_STATE_INFO_T_def sizeof_def)

section \<open>UUIDs\<close>

definition UUID_BASIC_CONNECT :: string where
  "UUID_BASIC_CONNECT = ''a289cc33-bcbb-8b4f-b6b0-133ec2aae6df''"

definition UUID_MBIMContextTypeInternet :: string where
  "UUID_MBIMContextTypeInternet = ''7E5E2A7E-4E6F-7272-736B-656E7E5E2A7E''"

text \<open>
  The format of \<open>sscanf\<close>: a hyphen stands for itself and every \<open>x\<close> for a conversion \<open>%02x\<close>. The
  function is only called with the two constants, so a conversion that does not meet two
  hexadecimal digits, which would leave a number unset, is taken as undefined.
\<close>

definition uuid_format :: string where
  "uuid_format = ''xxxx-xx-xx-xx-xxxxxx''"

fun scan_hex :: "string \<Rightarrow> string \<Rightarrow> byte list option" where
  "scan_hex [] s = Some []"
| "scan_hex (f # fs) [] = None"
| "scan_hex (f # fs) (a # s) =
     (if f = CHR ''-'' then (if a = CHR ''-'' then scan_hex fs s else None)
      else case s of [] \<Rightarrow> None
        | b # s \<Rightarrow> if digit a < 16 \<and> digit b < 16
            then map_option ((#) (of_nat (16 * digit a + digit b))) (scan_hex fs s) else None)"

definition str2uuid :: "string \<Rightarrow> byte list option" where
  \<comment> \<open>\<open>tmp\<close> has 37 bytes\<close>
  "str2uuid str = (if 37 \<le> length str then None else scan_hex uuid_format (map lower str))"

fun print_hex :: "string \<Rightarrow> byte list \<Rightarrow> string" where
  "print_hex [] d = []"
| "print_hex (f # fs) d = (if f = CHR ''-'' then CHR ''-'' # print_hex fs d else hex2 (hd d) @ print_hex fs (tl d))"

definition uuid2str :: "byte list \<Rightarrow> string" where
  "uuid2str d = snprintf 37 (print_hex uuid_format d)"

section \<open>Commands\<close>

abbreviation (input) "MBIM_OPEN_MSG \<equiv> (1 :: u32)"
abbreviation (input) "MBIM_CLOSE_MSG \<equiv> (2 :: u32)"
abbreviation (input) "MBIM_COMMAND_MSG \<equiv> (3 :: u32)"
abbreviation (input) "MBIM_OPEN_DONE \<equiv> (0x80000001 :: u32)"
abbreviation (input) "MBIM_CLOSE_DONE \<equiv> (0x80000002 :: u32)"
abbreviation (input) "MBIM_COMMAND_DONE \<equiv> (0x80000003 :: u32)"
abbreviation (input) "MBIM_FUNCTION_ERROR_MSG \<equiv> (0x80000004 :: u32)"
abbreviation (input) "MBIM_INDICATE_STATUS_MSG \<equiv> (0x80000007 :: u32)"
abbreviation (input) "MBIM_CID_DEVICE_CAPS \<equiv> (1 :: u32)"
abbreviation (input) "MBIM_CID_SUBSCRIBER_READY_STATUS \<equiv> (2 :: u32)"
abbreviation (input) "MBIM_CID_REGISTER_STATE \<equiv> (9 :: u32)"
abbreviation (input) "MBIM_CID_PACKET_SERVICE \<equiv> (10 :: u32)"
abbreviation (input) "MBIM_CID_SIGNAL_STATE \<equiv> (11 :: u32)"
abbreviation (input) "MBIM_CID_CONNECT \<equiv> (12 :: u32)"
abbreviation (input) "MBIM_CID_IP_CONFIGURATION \<equiv> (15 :: u32)"
abbreviation (input) "MBIM_CID_CMD_TYPE_QUERY \<equiv> (0 :: u32)"
abbreviation (input) "MBIM_CID_CMD_TYPE_SET \<equiv> (1 :: u32)"

text \<open>
  A message is the block that is allocated for it, with its fields in the order of the structure. The
  length field of the open command is the size of another structure.
\<close>

definition compose_open_command :: "u32 \<Rightarrow> u32 \<Rightarrow> byte list" where
  "compose_open_command tid MaxControlTransfer =
     le32 MBIM_OPEN_MSG @ le32 (of_nat (sizeof MBIM_COMMAND_MSG_T)) @ le32 tid @ le32 MaxControlTransfer"

definition compose_close_command :: "u32 \<Rightarrow> byte list" where
  "compose_close_command tid = le32 MBIM_CLOSE_MSG @ le32 (of_nat (sizeof MBIM_CLOSE_MSG_T)) @ le32 tid"

definition compose_basic_connect_command :: "u32 \<Rightarrow> u32 \<Rightarrow> u32 \<Rightarrow> byte list \<Rightarrow> byte list option" where
  "compose_basic_connect_command tid CID CommandType info = do {
     uuid \<leftarrow> str2uuid UUID_BASIC_CONNECT;
     Some (le32 MBIM_COMMAND_MSG @ le32 (of_nat (sizeof MBIM_COMMAND_MSG_T + length info)) @ le32 tid
       @ le32 1 @ le32 0 @ uuid @ le32 CID @ le32 CommandType @ le32 (of_nat (length info)) @ info) }"

section \<open>The connect request\<close>

definition utf16 :: "string \<Rightarrow> byte list" where
  "utf16 s = concat (map (\<lambda>c. [of_char c, 0]) s)"

text \<open>A string of the request: its size, its offset and its characters behind the structure.\<close>

definition put_connect_str :: "string \<Rightarrow> string \<Rightarrow> string option \<Rightarrow> nat \<Rightarrow> byte list \<Rightarrow> byte list option" where
  "put_connect_str Offset Size str offset b = (case str of
     None \<Rightarrow> Some b
   | Some s \<Rightarrow> if s = [] then Some b else do {
       b \<leftarrow> put32 0 MBIM_SET_CONNECT_T Size (of_nat (2 * length s)) b;
       b \<leftarrow> put32 0 MBIM_SET_CONNECT_T Offset (of_nat (offset + sizeof MBIM_SET_CONNECT_T)) b;
       wr b (sizeof MBIM_SET_CONNECT_T + offset) (utf16 s) })"

definition str_size :: "string option \<Rightarrow> nat" where
  "str_size str = (case str of None \<Rightarrow> 0 | Some s \<Rightarrow> 2 * length s)"

definition mbim_populate_connect_data :: "string option \<Rightarrow> string option \<Rightarrow> string option \<Rightarrow> byte list option" where
  "mbim_populate_connect_data access usr passwd = do {
     let buflen = str_size access + str_size usr + str_size passwd;
     let b = replicate (sizeof MBIM_SET_CONNECT_T + buflen) 0;
     b \<leftarrow> put_connect_str ''AccessStringOffset'' ''AccessStringSize'' access 0 b;
     n \<leftarrow> get32 b 0 MBIM_SET_CONNECT_T ''AccessStringSize'';
     let offset = unat n;
     b \<leftarrow> put_connect_str ''UserNameOffset'' ''UserNameSize'' usr offset b;
     n \<leftarrow> get32 b 0 MBIM_SET_CONNECT_T ''UserNameSize'';
     let offset = offset + unat n;
     put_connect_str ''PasswordOffset'' ''PasswordSize'' passwd offset b }"

definition set_connect_request :: "u32 \<Rightarrow> u32 \<Rightarrow> u32 \<Rightarrow> u32 \<Rightarrow> byte list \<Rightarrow> byte list option" where
  "set_connect_request sessionID command authp iptype b = do {
     b \<leftarrow> put32 0 MBIM_SET_CONNECT_T ''SessionId'' sessionID b;
     b \<leftarrow> put32 0 MBIM_SET_CONNECT_T ''ActivationCommand'' command b;
     b \<leftarrow> put32 0 MBIM_SET_CONNECT_T ''Compression'' 0 b;
     b \<leftarrow> put32 0 MBIM_SET_CONNECT_T ''AuthProtocol'' authp b;
     b \<leftarrow> put32 0 MBIM_SET_CONNECT_T ''IPType'' iptype b;
     uuid \<leftarrow> str2uuid UUID_MBIMContextTypeInternet;
     wr b (off MBIM_SET_CONNECT_T ''ContextType'') uuid }"

section \<open>Strings of a message\<close>

definition mbim_get_segment :: "byte list \<Rightarrow> nat \<Rightarrow> u32 \<Rightarrow> u32 \<Rightarrow> string option" where
  \<comment> \<open>the second byte of every character is dropped; the buffer has 256 bytes and no bound is checked\<close>
  "mbim_get_segment m p offset len =
     (let n = unat len div 2
      in if 256 \<le> n then None
         else do {
           cs \<leftarrow> those (map (\<lambda>i. rd8 m (p + unat offset + 2 * i)) [0..<n]);
           Some (cstring (map (char_of \<circ> unat) cs)) })"

end
