(* ===== verification/Mbim.thy ===== *)
theory Mbim
  imports MbimWire
begin

unbundle bit_operations_syntax

text \<open>
  The MBIM client of \<open>mbim-cm.c\<close>: the reader thread, commands and their responses, the queries, the setup of
  the interface. The main thread and the reader share the state under a mutex; what the reader does while
  the main thread waits is a list of events, one list for each wait. Printed output is left out;
  \<open>written\<close> holds the messages that are written completely.
  \<open>None\<close> is undefined behaviour.
\<close>

section \<open>The state\<close>

record mbim =
  mbim_quit :: nat
  mbim_open_state :: int
  ReadyState :: u32
  RegisterState :: u32
  PacketServiceState :: u32
  ActivationState :: u32
  oldReadyState :: u32
  oldRegisterState :: u32
  oldPacketServiceState :: u32
  oldActivationState :: u32
  mbim_tid :: u32
  mbim_fd :: int
  read_tid :: bool
  mbim_pRequest :: "byte list option"
  mbim_pResponse :: "byte list option"
  mbim_recv_buf :: "byte list"
  mbim_netcard :: string
  mbim_apn :: "string option"
  mbim_user :: "string option"
  mbim_passwd :: "string option"
  mbim_iptype :: u32
  mbim_auth :: u32
  cmd_signal :: bool
  state_signal :: bool
  periods :: nat
  written :: "byte list list"
  effects :: "action list"

abbreviation (input) "MBIMSubscriberReadyStateInitialized \<equiv> (1 :: u32)"
abbreviation (input) "MBIMRegisterStateHome \<equiv> (3 :: u32)"
abbreviation (input) "MBIMRegisterStateRoaming \<equiv> (4 :: u32)"
abbreviation (input) "MBIMPacketServiceStateAttached \<equiv> (2 :: u32)"
abbreviation (input) "MBIMPacketServiceStateDetached \<equiv> (4 :: u32)"
abbreviation (input) "MBIMActivationStateUnknown \<equiv> (0 :: u32)"
abbreviation (input) "MBIMActivationStateActivated \<equiv> (1 :: u32)"
abbreviation (input) "MBIMActivationStateActivating \<equiv> (2 :: u32)"
abbreviation (input) "MBIMActivationStateDeactivated \<equiv> (3 :: u32)"
abbreviation (input) "MBIMActivationStateDeactivating \<equiv> (4 :: u32)"

text \<open>
  What happens while the main thread waits: data is read (\<open>[]\<close> for an error or the end), poll fails or
  reports a hang-up, or a signal is caught; whether the wait ends without a signal of the condition; and for
  a command what stands behind its block in memory and the result of \<open>write\<close> when it is not complete. Then
  the reader runs behind the command, when the mutex is free again.
\<close>

datatype reader_event = Read "byte list" | Poll_fails | Hangup | Kill int

record period =
  reads :: "reader_event list"
  spurious :: bool
  behind :: "byte list"
  write_ret :: "int option"
  garbage_of :: "byte list"

type_synonym period_env = "nat \<Rightarrow> period"

section \<open>The interface\<close>

definition ip4_text :: "byte list \<Rightarrow> string" where
  "ip4_text d = dec (unat (d ! 0)) @ ''.'' @ dec (unat (d ! 1)) @ ''.'' @ dec (unat (d ! 2)) @ ''.'' @ dec (unat (d ! 3))"

definition ip_text :: "nat \<Rightarrow> byte list \<Rightarrow> string" where
  "ip_text iptype d = (if iptype = 4 then ip4_text d else ip6_text d)"

definition shell :: "string \<Rightarrow> action" where
  "shell cmd = System (snprintf 256 cmd)"

text \<open>The calls use 4 and 6 only; an address is given as its 4 or 16 bytes.\<close>

definition mbim_ifconfig_down :: "string \<Rightarrow> action list" where
  "mbim_ifconfig_down ifname = [shell (''ip address flush dev '' @ ifname),
     shell (''ip link set dev '' @ ifname @ '' down''), Resolv 4 ifname None None, Resolv 6 ifname None None]"

definition mbim_ifconfig :: "nat \<Rightarrow> string \<Rightarrow> byte list option \<Rightarrow> byte list option \<Rightarrow> byte list option
    \<Rightarrow> byte list option \<Rightarrow> byte \<Rightarrow> u32 \<Rightarrow> action list" where
  "mbim_ifconfig iptype ifname ipaddr gw dns1 dns2 prefix mtu = (case ipaddr of
     None \<Rightarrow> mbim_ifconfig_down ifname
   | Some d \<Rightarrow>
       (let ip = ''ip -'' @ dec iptype
        in [shell (''ip link set dev '' @ ifname @ '' up''),
            shell (ip @ '' address flush dev '' @ ifname),
            shell (ip @ '' address add '' @ ip_text iptype d @ ''/'' @ dec (unat prefix) @ '' dev '' @ ifname),
            shell (case gw of
              Some g \<Rightarrow> ip @ '' route add default via '' @ ip_text iptype g @ '' dev '' @ ifname
            | None \<Rightarrow> ip @ '' route add default dev '' @ ifname)]
          @ (if mtu \<noteq> 0 then [shell (ip @ '' link set dev '' @ ifname @ '' mtu '' @ dec (unat mtu))] else [])
          @ [Resolv iptype ifname (map_option (ip_text iptype) dns1) (map_option (ip_text iptype) dns2)]))"

section \<open>The reader\<close>

definition change_state :: "(mbim \<Rightarrow> u32) \<Rightarrow> ((u32 \<Rightarrow> u32) \<Rightarrow> mbim \<Rightarrow> mbim) \<Rightarrow> u32 \<Rightarrow> mbim \<Rightarrow> mbim" where
  \<comment> \<open>\<open>notify_state_chage\<close>\<close>
  "change_state val upd new s = (if val s \<noteq> new then (upd (\<lambda>_. new) s)\<lparr>state_signal := True\<rparr> else s)"

abbreviation (input) "IndBuffer \<equiv> sizeof MBIM_INDICATE_STATUS_MSG_T"

definition indicate_status :: "byte list \<Rightarrow> mbim \<Rightarrow> mbim option" where
  \<comment> \<open>the last test is the same as the first and never holds\<close>
  "indicate_status b s = do {
     uuid \<leftarrow> rdn b (off MBIM_INDICATE_STATUS_MSG_T ''DeviceServiceId'') 16;
     basic \<leftarrow> str2uuid UUID_BASIC_CONNECT;
     if uuid \<noteq> basic then Some s
     else do {
       CID \<leftarrow> get32 b 0 MBIM_INDICATE_STATUS_MSG_T ''CID'';
       if CID = MBIM_CID_CONNECT then do {
         v \<leftarrow> get32 b IndBuffer MBIM_CONNECT_T ''ActivationState'';
         Some (change_state ActivationState ActivationState_update v s) }
       else if CID = MBIM_CID_SUBSCRIBER_READY_STATUS then do {
         v \<leftarrow> get32 b IndBuffer MBIM_SUBSCRIBER_READY_STATUS_T ''ReadyState'';
         Some (change_state ReadyState ReadyState_update v s) }
       else if CID = MBIM_CID_REGISTER_STATE then do {
         v \<leftarrow> get32 b IndBuffer MBIM_REGISTRATION_STATE_INFO_T ''RegisterState'';
         Some (change_state RegisterState RegisterState_update v s) }
       else if CID = MBIM_CID_PACKET_SERVICE then do {
         v \<leftarrow> get32 b IndBuffer MBIM_PACKET_SERVICE_INFO_T ''PacketServiceState'';
         Some (change_state PacketServiceState PacketServiceState_update v s) }
       else if CID = MBIM_CID_CONNECT then do {
         v \<leftarrow> get32 b IndBuffer MBIM_CONNECT_T ''ActivationState'';
         Some (if v = MBIMActivationStateDeactivated \<or> v = MBIMActivationStateDeactivating
               then s\<lparr>effects := effects s @ mbim_ifconfig_down (mbim_netcard s)\<rparr> else s) }
       else Some s } }"

definition mbim_recv_command :: "byte list option \<Rightarrow> mbim \<Rightarrow> mbim option" where
  "mbim_recv_command pResponse s = (case pResponse of
     None \<Rightarrow> Some (s\<lparr>cmd_signal := True\<rparr>)
   | Some b \<Rightarrow> do {
       tid \<leftarrow> get32 b 0 MBIM_MESSAGE_HEADER ''TransactionId'';
       mine \<leftarrow> (case mbim_pRequest s of
           None \<Rightarrow> Some False
         | Some r \<Rightarrow> do { t \<leftarrow> get32 r 0 MBIM_MESSAGE_HEADER ''TransactionId''; Some (t = tid) });
       if mine then do {
         len \<leftarrow> get32 b 0 MBIM_MESSAGE_HEADER ''MessageLength'';
         copy \<leftarrow> rdn b 0 (unat len);
         Some (s\<lparr>mbim_pResponse := Some copy, cmd_signal := True\<rparr>) }
       else do {
         ty \<leftarrow> get32 b 0 MBIM_MESSAGE_HEADER ''MessageType'';
         if ty = MBIM_INDICATE_STATUS_MSG then indicate_status b s else Some s } })"

definition reader_exit :: "mbim \<Rightarrow> mbim option" where
  "reader_exit s = do {
     s \<leftarrow> mbim_recv_command None (s\<lparr>read_tid := False, mbim_quit := Suc (mbim_quit s)\<rparr>);
     Some (s\<lparr>state_signal := True\<rparr>) }"

definition mbim_sigaction :: "int \<Rightarrow> mbim \<Rightarrow> mbim" where
  "mbim_sigaction signo s = (if signo = 15 \<or> signo = 1 \<or> signo = 2
     then s\<lparr>mbim_quit := Suc (mbim_quit s), state_signal := True\<rparr> else s)"

definition mbim_read_thread :: "reader_event \<Rightarrow> mbim \<Rightarrow> mbim option" where
  \<comment> \<open>one turn of the loop; a failed \<open>read\<close> only leaves the inner loop, which has one turn\<close>
  "mbim_read_thread ev s = (case ev of
     Kill signo \<Rightarrow> Some (mbim_sigaction signo s)
   | Read d \<Rightarrow>
       if \<not> read_tid s \<or> d = [] then Some s
       else let buf = take 4096 d @ drop (length (take 4096 d)) (mbim_recv_buf s)
            in mbim_recv_command (Some buf) (s\<lparr>mbim_recv_buf := buf\<rparr>)
   | _ \<Rightarrow> if \<not> read_tid s then Some s else reader_exit s)"

section \<open>Waiting and sending\<close>

definition wait_state_change :: "period_env \<Rightarrow> mbim \<Rightarrow> (int \<times> mbim) option" where
  "wait_state_change env s = do {
     let w = env (periods s);
     s \<leftarrow> run_steps mbim_read_thread (reads w) (s\<lparr>state_signal := False, periods := Suc (periods s)\<rparr>);
     Some (if state_signal s \<or> spurious w then 0 else ETIMEDOUT, s) }"

definition wait_response :: "period \<Rightarrow> mbim \<Rightarrow> (int \<times> cptr \<times> mbim) option" where
  "wait_response w s = do {
     s \<leftarrow> run_steps mbim_read_thread (reads w) s;
     let ret = (if cmd_signal s \<or> spurious w then 0 else ETIMEDOUT);
     Some (ret, (case mbim_pResponse s of Some m \<Rightarrow> if ret = 0 then PLive m else PNull | None \<Rightarrow> PNull), s) }"

definition mbim_send_command :: "period_env \<Rightarrow> byte list \<Rightarrow> mbim \<Rightarrow> (int \<times> cptr \<times> mbim) option" where
  "mbim_send_command env pRequest s =
     (if mbim_fd s \<le> 0 then Some (- ENODEV, PNull, s)
      else do {
        let w = env (periods s);
        len \<leftarrow> get32 pRequest 0 MBIM_MESSAGE_HEADER ''MessageLength'';
        out \<leftarrow> rdn (pRequest @ behind w) 0 (unat len);
        let s = s\<lparr>mbim_pRequest := Some pRequest, mbim_pResponse := None, cmd_signal := False,
          periods := Suc (periods s)\<rparr>;
        let ret = (case write_ret w of None \<Rightarrow> int (unat len) | Some r \<Rightarrow> r);
        if word_of_int ret = len then do {
          (ret, rsp, s) \<leftarrow> wait_response w (s\<lparr>written := written s @ [out]\<rparr>);
          Some (ret, rsp, s\<lparr>mbim_pRequest := None, mbim_pResponse := None\<rparr>) }
        else do {
          s \<leftarrow> run_steps mbim_read_thread (reads w) (s\<lparr>mbim_pRequest := None\<rparr>);
          Some (ret, PNull, s) } })"

section \<open>Queries\<close>

definition mbim_status_code :: "cptr \<Rightarrow> mbim \<Rightarrow> (int \<times> mbim) option" where
  "mbim_status_code pMsgHdr s = (case pMsgHdr of
     PNull \<Rightarrow> Some (0, s) | PDead \<Rightarrow> None
   | PLive m \<Rightarrow> do {
       ty \<leftarrow> get32 m 0 MBIM_MESSAGE_HEADER ''MessageType'';
       if ty = MBIM_OPEN_DONE then do { v \<leftarrow> get32 m 0 MBIM_OPEN_DONE_T ''Status''; Some (sint v, s) }
       else if ty = MBIM_CLOSE_DONE then do { v \<leftarrow> get32 m 0 MBIM_CLOSE_DONE_T ''Status''; Some (sint v, s) }
       else if ty = MBIM_COMMAND_DONE then do { v \<leftarrow> get32 m 0 MBIM_COMMAND_DONE_T ''Status''; Some (sint v, s) }
       else if ty = MBIM_FUNCTION_ERROR_MSG then do {
         v \<leftarrow> get32 m 0 MBIM_FUNCTION_ERROR_MSG_T ''ErrorStatusCode'';
         Some (sint v, if v = 5 then s\<lparr>mbim_open_state := 0\<rparr> else s) }
       else Some (0, s) })"

text \<open>\<open>mbim_check_err\<close>: only a missing response or an error of the sending ends the caller.\<close>

definition mbim_check_err :: "int \<times> cptr \<times> mbim \<Rightarrow> (byte list \<Rightarrow> mbim \<Rightarrow> (int \<times> mbim) option) \<Rightarrow> (int \<times> mbim) option" where
  "mbim_check_err r k = (case r of (err, pCmdDone, s) \<Rightarrow> do {
     (_, s) \<leftarrow> mbim_status_code pCmdDone s;
     if err \<noteq> 0 \<or> pCmdDone = PNull then Some (if err \<noteq> 0 then err else 8888, s)
     else do { m \<leftarrow> deref pCmdDone; k m s } })"

definition next_tid :: "mbim \<Rightarrow> mbim" where
  "next_tid s = s\<lparr>mbim_tid := mbim_tid s + 1\<rparr>"

definition mbim_open_device :: "period_env \<Rightarrow> u32 \<Rightarrow> mbim \<Rightarrow> (int \<times> mbim) option" where
  "mbim_open_device env MaxControlTransfer s = do {
     r \<leftarrow> mbim_send_command env (compose_open_command (mbim_tid s) MaxControlTransfer) (next_tid s);
     mbim_check_err r (\<lambda>m s. do { v \<leftarrow> get32 m 0 MBIM_OPEN_DONE_T ''Status''; Some (sint v, s) }) }"

definition mbim_close_device :: "period_env \<Rightarrow> mbim \<Rightarrow> (int \<times> mbim) option" where
  "mbim_close_device env s = do {
     r \<leftarrow> mbim_send_command env (compose_close_command (mbim_tid s)) (next_tid s);
     mbim_check_err r (\<lambda>m s. do { v \<leftarrow> get32 m 0 MBIM_CLOSE_DONE_T ''Status''; Some (sint v, s) }) }"

abbreviation (input) "InfoBuffer \<equiv> sizeof MBIM_COMMAND_DONE_T"

text \<open>A command of the basic service whose answer, when it carries information, is handled by \<open>k\<close>.\<close>

definition basic_command :: "period_env \<Rightarrow> u32 \<Rightarrow> u32 \<Rightarrow> byte list \<Rightarrow> (byte list \<Rightarrow> mbim \<Rightarrow> mbim option)
    \<Rightarrow> mbim \<Rightarrow> (int \<times> mbim) option" where
  "basic_command env CID CommandType info k s = do {
     pRequest \<leftarrow> compose_basic_connect_command (mbim_tid s) CID CommandType info;
     r \<leftarrow> mbim_send_command env pRequest (next_tid s);
     mbim_check_err r (\<lambda>m s. do {
       n \<leftarrow> get32 m 0 MBIM_COMMAND_DONE_T ''InformationBufferLength'';
       s \<leftarrow> (if n \<noteq> 0 then k m s else Some s);
       Some (0, s) }) }"

definition note_activation :: "byte list \<Rightarrow> mbim \<Rightarrow> mbim option" where
  "note_activation m s = do {
     v \<leftarrow> get32 m InfoBuffer MBIM_CONNECT_T ''ActivationState''; Some (s\<lparr>ActivationState := v\<rparr>) }"

definition note_packet_service :: "byte list \<Rightarrow> mbim \<Rightarrow> mbim option" where
  "note_packet_service m s = do {
     v \<leftarrow> get32 m InfoBuffer MBIM_PACKET_SERVICE_INFO_T ''PacketServiceState''; Some (s\<lparr>PacketServiceState := v\<rparr>) }"

definition mbim_query_connect :: "period_env \<Rightarrow> u32 \<Rightarrow> mbim \<Rightarrow> (int \<times> mbim) option" where
  \<comment> \<open>only the session of the structure on the stack is set\<close>
  "mbim_query_connect env sessionID s = do {
     info \<leftarrow> put32 0 MBIM_SET_CONNECT_T ''SessionId'' sessionID (garbage_of (env (periods s)));
     basic_command env MBIM_CID_CONNECT MBIM_CID_CMD_TYPE_QUERY info note_activation s }"

text \<open>The three strings of the capabilities are copied into a buffer of 32 bytes.\<close>

definition caps_string :: "byte list \<Rightarrow> string \<Rightarrow> string \<Rightarrow> string option" where
  "caps_string m Offset Size = do {
     p \<leftarrow> get32 m InfoBuffer MBIM_DEVICE_CAPS_INFO_T Offset;
     n \<leftarrow> get32 m InfoBuffer MBIM_DEVICE_CAPS_INFO_T Size;
     if p = 0 \<or> n = 0 then Some []
     else do {
       let k = min 32 (unat n div 2);
       cs \<leftarrow> those (map (\<lambda>i. rd8 m (InfoBuffer + unat p + 2 * i)) [0..<k]);
       if k < 32 then Some (cstring (map (char_of \<circ> unat) cs)) else None } }"

definition mbim_device_caps_query :: "period_env \<Rightarrow> mbim \<Rightarrow> (int \<times> mbim) option" where
  "mbim_device_caps_query env s = basic_command env MBIM_CID_DEVICE_CAPS MBIM_CID_CMD_TYPE_QUERY [] (\<lambda>m s. do {
     _ \<leftarrow> caps_string m ''DeviceIdOffset'' ''DeviceIdSize'';
     _ \<leftarrow> caps_string m ''FirmwareInfoOffset'' ''FirmwareInfoSize'';
     _ \<leftarrow> caps_string m ''HardwareInfoOffset'' ''HardwareInfoSize'';
     Some s }) s"

definition mbim_subscriber_status_query :: "period_env \<Rightarrow> mbim \<Rightarrow> (int \<times> mbim) option" where
  "mbim_subscriber_status_query env s =
     basic_command env MBIM_CID_SUBSCRIBER_READY_STATUS MBIM_CID_CMD_TYPE_QUERY [] (\<lambda>m s. do {
       v \<leftarrow> get32 m InfoBuffer MBIM_SUBSCRIBER_READY_STATUS_T ''ReadyState''; Some (s\<lparr>ReadyState := v\<rparr>) }) s"

definition mbim_register_state_query :: "period_env \<Rightarrow> mbim \<Rightarrow> (int \<times> mbim) option" where
  "mbim_register_state_query env s =
     basic_command env MBIM_CID_REGISTER_STATE MBIM_CID_CMD_TYPE_QUERY [] (\<lambda>m s. do {
       v \<leftarrow> get32 m InfoBuffer MBIM_REGISTRATION_STATE_INFO_T ''RegisterState''; Some (s\<lparr>RegisterState := v\<rparr>) }) s"

definition mbim_packet_service_query :: "period_env \<Rightarrow> mbim \<Rightarrow> (int \<times> mbim) option" where
  "mbim_packet_service_query env s =
     basic_command env MBIM_CID_PACKET_SERVICE MBIM_CID_CMD_TYPE_QUERY [] note_packet_service s"

definition mbim_packet_service_set :: "period_env \<Rightarrow> mbim \<Rightarrow> (int \<times> mbim) option" where
  "mbim_packet_service_set env s =
     basic_command env MBIM_CID_PACKET_SERVICE MBIM_CID_CMD_TYPE_SET (le32 0) note_packet_service s"

definition mbim_set_connect :: "period_env \<Rightarrow> bool \<Rightarrow> u32 \<Rightarrow> mbim \<Rightarrow> (int \<times> mbim) option" where
  "mbim_set_connect env onoff sessionID s = do {
     b \<leftarrow> mbim_populate_connect_data (mbim_apn s) (mbim_user s) (mbim_passwd s);
     info \<leftarrow> set_connect_request sessionID (if onoff then 1 else 0) (mbim_auth s) (mbim_iptype s) b;
     basic_command env MBIM_CID_CONNECT MBIM_CID_CMD_TYPE_SET info note_activation s }"

section \<open>The address\<close>

type_synonym ip_ptrs = "nat option \<times> nat option \<times> nat option \<times> u32"

text \<open>
  One family of the configuration. Pointers are offsets into the response. The gateway, the name servers and
  the MTU are variables of both families: what the second family does not bring is what the first left,
  and \<open>mbim_ifconfig\<close> then reads an address of the other width there.
\<close>

definition if_bit :: "u32 \<Rightarrow> nat \<Rightarrow> 'a option \<Rightarrow> 'a \<Rightarrow> 'a option" where
  "if_bit bits k new old = (if bit bits k then new else Some old)"

definition bytes_at :: "byte list \<Rightarrow> nat \<Rightarrow> nat option \<Rightarrow> byte list option option" where
  "bytes_at m n ptr = (case ptr of None \<Rightarrow> Some None | Some p \<Rightarrow> map_option Some (rdn m p n))"

definition family_config :: "nat \<Rightarrow> string \<Rightarrow> (string \<Rightarrow> string) \<Rightarrow> byte list \<Rightarrow> ip_ptrs \<Rightarrow> (action list \<times> ip_ptrs) option" where
  "family_config iptype ifname field m ptrs = (case ptrs of (gw, dns1, dns2, mtu) \<Rightarrow> do {
     let n = (if iptype = 4 then 4 else 16);
     let the_field = (\<lambda>f. get32 m InfoBuffer MBIM_IP_CONFIGURATION_INFO_T (field f));
     let ptr = (\<lambda>f. do { p \<leftarrow> the_field f; Some (InfoBuffer + unat p) });
     bits \<leftarrow> the_field ''ConfigurationAvailable'';
     if \<not> bit bits 0 then Some ([], ptrs)
     else do {
       pAddress \<leftarrow> ptr ''AddressOffset'';
       prefix \<leftarrow> rd32 m pAddress;
       gw \<leftarrow> if_bit bits 1 (map_option Some (ptr ''GatewayOffset'')) gw;
       (dns1, dns2) \<leftarrow> if_bit bits 2 (do {
           p \<leftarrow> ptr ''DnsServerOffset'';
           count \<leftarrow> the_field ''DnsServerCount'';
           Some (Some p, if count = 2 then Some (p + n) else dns2) }) (dns1, dns2);
       mtu \<leftarrow> if_bit bits 3 (the_field ''Mtu'') mtu;
       addr \<leftarrow> bytes_at m n (Some (pAddress + 4));
       g \<leftarrow> bytes_at m n gw; d1 \<leftarrow> bytes_at m n dns1; d2 \<leftarrow> bytes_at m n dns2;
       Some (mbim_ifconfig iptype ifname addr g d1 d2 (ucast prefix) mtu, gw, dns1, dns2, mtu) } })"

definition mbim_ip_config :: "period_env \<Rightarrow> u32 \<Rightarrow> mbim \<Rightarrow> (int \<times> mbim) option" where
  "mbim_ip_config env sessionID s = do {
     info \<leftarrow> put32 0 MBIM_IP_CONFIGURATION_INFO_T ''SessionId'' sessionID (garbage_of (env (periods s)));
     basic_command env MBIM_CID_IP_CONFIGURATION MBIM_CID_CMD_TYPE_QUERY info (\<lambda>m s. do {
       (v4, ptrs) \<leftarrow> family_config 4 (mbim_netcard s) (\<lambda>f. ''IPv4'' @ f) m (None, None, None, 1500);
       (v6, _) \<leftarrow> family_config 6 (mbim_netcard s) (\<lambda>f. ''IPv6'' @ f) m ptrs;
       Some (s\<lparr>effects := effects s @ v4 @ v6\<rparr>) }) s }"

end
