(* ===== verification/MbimMain.thy ===== *)
theory MbimMain
  imports Mbim
begin

text \<open>
  The state machine of \<open>mbim_main\<close>: open the function, wait until the subscriber is ready, the modem registered
  and the packet service attached, connect, configure the interface, and clean up at the end.
\<close>

section \<open>Changes of the state\<close>

definition mbim_reset_state :: "mbim \<Rightarrow> mbim" where
  "mbim_reset_state s = s\<lparr>ReadyState := 0, oldReadyState := 0, RegisterState := 0, oldRegisterState := 0,
     PacketServiceState := 0, oldPacketServiceState := 0, ActivationState := 0, oldActivationState := 0\<rparr>"

definition mbim_update_state :: "mbim \<Rightarrow> nat \<times> mbim" where
  "mbim_update_state s =
     ((if oldReadyState s \<noteq> ReadyState s then 1 else 0) + (if oldRegisterState s \<noteq> RegisterState s then 1 else 0)
      + (if oldPacketServiceState s \<noteq> PacketServiceState s then 1 else 0)
      + (if oldActivationState s \<noteq> ActivationState s then 1 else 0),
      s\<lparr>oldReadyState := ReadyState s, oldRegisterState := RegisterState s,
        oldPacketServiceState := PacketServiceState s, oldActivationState := ActivationState s\<rparr>)"

abbreviation updated :: "mbim \<Rightarrow> mbim" where
  "updated s \<equiv> snd (mbim_update_state s)"

section \<open>One turn of the loop\<close>

text \<open>A part of the turn goes on, jumps to the wait for a change (with the time in seconds) or to the exit.\<close>

datatype next_stage = Go_on | Wait_change nat | Leave_main

type_synonym stage = "mbim \<Rightarrow> (next_stage \<times> mbim) option"

definition then_stage :: "stage \<Rightarrow> stage \<Rightarrow> stage" where
  "then_stage a b s = do { (f, s) \<leftarrow> a s; if f = Go_on then b s else Some (f, s) }"

definition call :: "(int \<times> mbim) option \<Rightarrow> (next_stage \<times> mbim) option" where
  \<comment> \<open>\<open>if (retval) goto exit;\<close>\<close>
  "call r = do { (retval, s) \<leftarrow> r; Some (if retval \<noteq> 0 then Leave_main else Go_on, s) }"

abbreviation "DAY \<equiv> (24 * 60 * 60 :: nat)"

definition wait_unless :: "(mbim \<Rightarrow> bool) \<Rightarrow> stage" where
  "wait_unless P s = Some (if P s then Go_on else Wait_change DAY, s)"

definition update_stage :: stage where
  "update_stage s = Some (Go_on, updated s)"

definition open_stage :: "period_env \<Rightarrow> stage" where
  "open_stage env s =
     (if mbim_open_state s \<noteq> 0 then Some (Go_on, s)
      else do {
        let s = s\<lparr>effects := effects s @ mbim_ifconfig_down (mbim_netcard s), mbim_tid := 1\<rparr>;
        (f, s) \<leftarrow> call (mbim_open_device env 4096 s);
        if f \<noteq> Go_on then Some (f, s)
        else call (mbim_device_caps_query env (mbim_reset_state (s\<lparr>mbim_open_state := 1\<rparr>))) })"

definition query_unless :: "(mbim \<Rightarrow> bool) \<Rightarrow> (mbim \<Rightarrow> (int \<times> mbim) option) \<Rightarrow> stage" where
  "query_unless P q s = (if P s then Some (Go_on, s) else then_stage (\<lambda>s. call (q s)) update_stage s)"

definition sim_ready :: "mbim \<Rightarrow> bool" where
  "sim_ready s \<longleftrightarrow> ReadyState s = MBIMSubscriberReadyStateInitialized"

definition net_registered :: "mbim \<Rightarrow> bool" where
  "net_registered s \<longleftrightarrow> RegisterState s = MBIMRegisterStateHome \<or> RegisterState s = MBIMRegisterStateRoaming"

definition attached :: "mbim \<Rightarrow> bool" where
  "attached s \<longleftrightarrow> PacketServiceState s = MBIMPacketServiceStateAttached"

definition active :: "mbim \<Rightarrow> bool" where
  "active s \<longleftrightarrow> ActivationState s = MBIMActivationStateActivated \<or> ActivationState s = MBIMActivationStateActivating"

definition attach_stage :: "period_env \<Rightarrow> stage" where
  "attach_stage env s =
     (if attached s then Some (Go_on, s)
      else then_stage (\<lambda>s. call (mbim_packet_service_query env s)) (then_stage update_stage
        (then_stage (\<lambda>s. if PacketServiceState s = MBIMPacketServiceStateDetached
             then call (mbim_packet_service_set env s) else Some (Go_on, s)) update_stage)) s)"

definition connect_stage :: "period_env \<Rightarrow> u32 \<Rightarrow> stage" where
  "connect_stage env sessionID s =
     (if active s then Some (Wait_change DAY, s)
      else do {
        (f, s) \<leftarrow> then_stage (\<lambda>s. call (mbim_set_connect env True sessionID s)) update_stage s;
        if f \<noteq> Go_on then Some (f, s)
        else if ActivationState s = MBIMActivationStateActivated then do {
          (f, s) \<leftarrow> then_stage (\<lambda>s. call (mbim_ip_config env sessionID s)) update_stage s;
          Some (if f = Go_on then Wait_change DAY else f, s) }
        else Some (Wait_change 30, s) })"

definition mbim_turn :: "period_env \<Rightarrow> u32 \<Rightarrow> stage" where
  "mbim_turn env sessionID =
     then_stage (open_stage env)
     (then_stage (query_unless sim_ready (mbim_subscriber_status_query env))
     (then_stage (wait_unless sim_ready)
     (then_stage (query_unless net_registered (mbim_register_state_query env))
     (then_stage (wait_unless net_registered)
     (then_stage (attach_stage env)
     (then_stage (wait_unless attached)
     (then_stage (query_unless (\<lambda>s. ActivationState s \<noteq> MBIMActivationStateUnknown) (mbim_query_connect env sessionID))
        (connect_stage env sessionID))))))))"

section \<open>The loop\<close>

text \<open>
  The waits behind a turn, and the loop. The number bounds the waits and the turns that are followed; the
  first component says whether the loop ended within them.
\<close>

fun settle :: "period_env \<Rightarrow> nat \<Rightarrow> mbim \<Rightarrow> (bool \<times> mbim) option" where
  "settle env 0 s = Some (False, s)"
| "settle env (Suc n) s =
     (let s = updated s
      in if mbim_quit s = 0 \<and> read_tid s then do {
           (r, s) \<leftarrow> wait_state_change env s;
           if r \<noteq> ETIMEDOUT then settle env n s else Some (True, s) }
         else Some (True, s))"

fun mbim_loop :: "period_env \<Rightarrow> u32 \<Rightarrow> nat \<Rightarrow> mbim \<Rightarrow> (bool \<times> mbim) option" where
  "mbim_loop env sessionID 0 s = Some (False, s)"
| "mbim_loop env sessionID (Suc n) s =
     (if mbim_quit s = 0 \<and> read_tid s then do {
        (f, s) \<leftarrow> mbim_turn env sessionID s;
        if f = Leave_main then Some (True, s)
        else do {
          (_, s) \<leftarrow> wait_state_change env s;
          (over, s) \<leftarrow> settle env (Suc n) s;
          if over then mbim_loop env sessionID n s else Some (False, s) } }
      else Some (True, s))"

text \<open>
  At the exit the reader is ended with a signal. \<open>read_tid\<close> is not looked at again behind the two commands, and
  \<open>pthread_kill\<close> of no thread is undefined.
\<close>

definition mbim_exit :: "period_env \<Rightarrow> u32 \<Rightarrow> mbim \<Rightarrow> mbim option" where
  "mbim_exit env sessionID s =
     (if \<not> read_tid s then Some s
      else do {
        s \<leftarrow> (if active s then map_option snd (mbim_set_connect env False sessionID s) else Some s);
        (_, s) \<leftarrow> mbim_close_device env s;
        if \<not> read_tid s then None
        else do {
          s \<leftarrow> reader_exit (mbim_sigaction 15 s);
          Some (s\<lparr>effects := effects s @ mbim_ifconfig_down (mbim_netcard s)\<rparr>) } })"

definition mbim_setup :: "PROFILE_T \<Rightarrow> mbim \<Rightarrow> mbim" where
  "mbim_setup p s = s\<lparr>
     mbim_netcard := (case usbnet_adapter p of None \<Rightarrow> mbim_netcard s | Some n \<Rightarrow> n),
     mbim_apn := (if apn p \<noteq> None then apn p else mbim_apn s),
     mbim_user := (if user p \<noteq> None then user p else mbim_user s),
     mbim_passwd := (if password p \<noteq> None then password p else mbim_passwd s),
     mbim_auth := (if auth p \<noteq> 0 then word_of_int (auth p) else mbim_auth s),
     mbim_iptype := (if enable_ipv4 p \<noteq> 0 \<and> enable_ipv6 p \<noteq> 0 then 4
       else if enable_ipv6 p \<noteq> 0 then 2 else if enable_ipv4 p \<noteq> 0 then 1 else mbim_iptype s)\<rparr>"

definition mbim_static :: mbim where
  "mbim_static = \<lparr>mbim_quit = 0, mbim_open_state = 0, ReadyState = 0, RegisterState = 0, PacketServiceState = 0,
     ActivationState = 0, oldReadyState = 0, oldRegisterState = 0, oldPacketServiceState = 0,
     oldActivationState = 0, mbim_tid = 1, mbim_fd = -1, read_tid = False, mbim_pRequest = None,
     mbim_pResponse = None, mbim_recv_buf = replicate 4096 0, mbim_netcard = ''wwan0'', mbim_apn = None,
     mbim_user = None, mbim_passwd = None, mbim_iptype = 0, mbim_auth = 0, cmd_signal = False,
     state_signal = False, periods = 0, written = [], effects = []\<rparr>"

definition mbim_main :: "period_env \<Rightarrow> nat \<Rightarrow> int \<Rightarrow> PROFILE_T \<Rightarrow> (int option \<times> mbim) option" where
  \<comment> \<open>the third argument is the result of \<open>open\<close>; no result while the loop is still running\<close>
  "mbim_main env n fd p = do {
     let s = (mbim_setup p mbim_static)\<lparr>mbim_fd := fd\<rparr>;
     if fd \<le> 0 then Some (Some 0, s)
     else do {
       (over, s) \<leftarrow> mbim_loop env 0 n (s\<lparr>read_tid := True, mbim_open_state := 0\<rparr>);
       if \<not> over then Some (None, s)
       else do { s \<leftarrow> mbim_exit env 0 s; Some (Some 0, s) } } }"

end
