(* ===== verification/MbimRuns.thy ===== *)
theory MbimRuns
  imports MbimMain "HOL-Library.Sublist"
begin

text \<open>
  UUIDs and the strings of the connect request read back what was written.
\<close>

section \<open>UUIDs\<close>

lemma digit_hex2: "unat (b :: byte) div 16 < 16" "unat b mod 16 < 16"
  using unsigned_less [of b, where ?'a = nat] by auto

lemma lower_digit: "n < 16 \<Longrightarrow> lower (char_of (if n < 10 then 48 + n else 87 + n)) = char_of (if n < 10 then 48 + n else 87 + n :: nat)"
  by (simp add: lower_def)

lemma scan_print: "length d = length (filter (\<lambda>f. f \<noteq> CHR ''-'') fs) \<Longrightarrow>
    scan_hex fs (map lower (print_hex fs d)) = Some d"
proof (induction fs arbitrary: d)
  case (Cons f fs)
  show ?case
  proof (cases "f = CHR ''-''")
    case True
    with Cons show ?thesis by (simp add: lower_def)
  next
    case False
    with Cons.prems obtain b d' where d: "d = b # d'" by (cases d) auto
    have n: "unat b div 16 < 16" "unat b mod 16 < 16" by (rule digit_hex2)+
    have "(of_nat (16 * (unat b div 16) + unat b mod 16) :: byte) = b" by simp
    then show ?thesis
      using Cons False d n
      by (simp add: hex2_def lower_digit digit_hex [simplified] del: of_nat_add of_nat_mult)
  qed
qed simp

lemma digit_lower: "digit (lower c) < 16 \<Longrightarrow>
    char_of (if digit (lower c) < 10 then 48 + digit (lower c) else 87 + digit (lower c)) = lower c"
proof -
  have c: "char_of (of_char c :: nat) = c" "(of_char (char_of n :: char) :: nat) = n mod 256" for n :: nat by simp_all
  show "digit (lower c) < 16 \<Longrightarrow> ?thesis"
    by (cases "65 \<le> (of_char c :: nat) \<and> (of_char c :: nat) \<le> 90")
      (auto simp: lower_def digit_def Let_def c split: if_splits)
qed

lemma print_scan: "scan_hex fs (map lower s) = Some d \<Longrightarrow> length s = length fs + length (filter (\<lambda>f. f \<noteq> CHR ''-'') fs) \<Longrightarrow>
    print_hex fs d = map lower s \<and> length d = length (filter (\<lambda>f. f \<noteq> CHR ''-'') fs)"
proof (induction fs arbitrary: s d)
  case (Cons f fs)
  then obtain a s' where s: "s = a # s'" by (cases s) auto
  show ?case
  proof (cases "f = CHR ''-''")
    case True
    with Cons s show ?thesis by (auto split: if_splits)
  next
    case False
    with Cons.prems s obtain b s'' where s': "s' = b # s''" by (cases s') auto
    let ?n = "16 * digit (lower a) + digit (lower b)"
    obtain d' where d': "d = of_nat ?n # d'" "scan_hex fs (map lower s'') = Some d'"
      "digit (lower a) < 16" "digit (lower b) < 16"
      using Cons.prems(1) s s' False by (auto split: if_splits)
    have "unat (of_nat ?n :: byte) = ?n" using d'(3,4) by (simp add: unat_of_nat take_bit_nat_eq_self del: of_nat_add of_nat_mult)
    then have "hex2 (of_nat ?n) = [lower a, lower b]"
      using digit_lower [OF d'(3)] digit_lower [OF d'(4)] d'(3,4)
      by (auto simp: hex2_def simp del: of_nat_add of_nat_mult split: if_splits)
    then show ?thesis using Cons.IH [OF d'(2)] Cons.prems(2) s s' d'(1) False by simp
  qed
qed simp

text \<open>
  Printing and reading UUIDs are inverse: the text of 16 bytes reads back as these bytes, and the bytes
  that a text of 36 characters reads as print as this text in lower case.
\<close>
theorem uuid_roundtrip:
  "(length d = 16 \<longrightarrow> str2uuid (uuid2str d) = Some d)
    \<and> (length s = 36 \<and> str2uuid s = Some d \<longrightarrow> uuid2str d = map lower s \<and> length d = 16)"
proof (intro conjI impI; (elim conjE)?)
  have f: "length (filter (\<lambda>f. f \<noteq> CHR ''-'') uuid_format) = 16" "length uuid_format = 20" by (simp_all add: uuid_format_def)
  have p: "length (print_hex fs d) = length fs + length (filter (\<lambda>f. f \<noteq> CHR ''-'') fs)" for fs d
    by (induction fs arbitrary: d) (auto simp: hex2_def)
  show "str2uuid (uuid2str d) = Some d" if "length d = 16"
    using scan_print [of d uuid_format] that f p [of uuid_format d] by (simp add: uuid2str_def str2uuid_def)
  show "uuid2str d = map lower s" "length d = 16" if "length s = 36" "str2uuid s = Some d"
    using print_scan [of uuid_format s d] that f by (auto simp: uuid2str_def str2uuid_def snprintf_def)
qed

theorem uuid_roundtrip_witness:
  "uuid2str (map of_nat [0..<16]) = ''00010203-0405-0607-0809-0a0b0c0d0e0f''
    \<and> str2uuid ''00010203-0405-0607-0809-0a0b0c0d0e0f'' = Some (map of_nat [0..<16])"
proof -
  have t: "uuid2str (map of_nat [0..<16]) = ''00010203-0405-0607-0809-0a0b0c0d0e0f''"
    by (simp add: uuid2str_def uuid_format_def hex2_def wire char_of_def bit_Suc_0_iff)
  show ?thesis using uuid_roundtrip [of "map of_nat [0..<16]" "[]"] t by (simp add: wire)
qed

section \<open>The strings of the connect request\<close>

lemma rd32_wr_other: "wr b i xs = Some b' \<Longrightarrow> j + 4 \<le> i \<or> i + length xs \<le> j \<Longrightarrow> rd32 b' j = rd32 b j"
proof -
  assume w: "wr b i xs = Some b'" and j: "j + 4 \<le> i \<or> i + length xs \<le> j"
  have l: "length b' = length b" by (rule length_wr [OF w])
  have n: "b' ! k = b ! k" if "k < i \<or> i + length xs \<le> k" "k < length b" for k
    using w that by (auto simp: wr_Some_iff nth_append)
  show ?thesis
  proof (cases "j + 3 < length b")
    case True
    then show ?thesis using n [of j] n [of "j + 1"] n [of "j + 2"] n [of "j + 3"] j l by (auto simp: rd32_Some)
  next
    case False
    then have "rd32 b' j = None" "rd32 b j = None" using l by auto
    then show ?thesis by metis
  qed
qed

lemma rd32_wr_same: "wr32 b i v = Some b' \<Longrightarrow> rd32 b' i = Some v"
proof -
  assume w: "wr32 b i v = Some b'"
  have "le32 v \<noteq> []" by (simp add: le32_def)
  then have l: "i + 4 \<le> length b" "b' = take i b @ le32 v @ drop (i + 4) b"
    using w wr_Some_iff [of b i "le32 v" b'] by simp_all
  then have "b' ! (i + k) = le32 v ! k" if "k < 4" for k using that by (simp add: nth_append)
  from this [of 0] this [of 1] this [of 2] this [of 3] show ?thesis using l
    by (simp add: rd32_Some le32_def numeral_2_eq_2 numeral_3_eq_3)
qed

lemma wr_left: "i + length xs \<le> length h \<Longrightarrow> wr (h @ r) i xs = map_option (\<lambda>h. h @ r) (wr h i xs)"
  by (simp add: wr_eq)

lemma wr_right: "i + length xs \<le> length r \<Longrightarrow> wr (h @ r) (length h + i) xs = map_option ((@) h) (wr r i xs)"
  by (simp add: wr_eq)

lemma wr32_defined: "i + 4 \<le> length h \<Longrightarrow> \<exists>h'. wr32 h i v = Some h' \<and> length h' = length h"
  by (simp add: wr_eq)

lemma length_utf16 [simp]: "length (utf16 s) = 2 * length s"
  by (induction s) (simp_all add: utf16_def)

definition str_text :: "string option \<Rightarrow> string" where
  "str_text str = (case str of None \<Rightarrow> [] | Some s \<Rightarrow> s)"

lemma str_size_text: "str_size str = 2 * length (str_text str)"
  by (simp add: str_size_def str_text_def split: option.split)

lemma put_connect_str_result:
  assumes "length h = 60" "2 * length (str_text str) \<le> k" "2 * length (str_text str) < 2 ^ 32"
    and "off MBIM_SET_CONNECT_T Size = off MBIM_SET_CONNECT_T Offset + 4" "off MBIM_SET_CONNECT_T Offset + 8 \<le> 60"
  shows "\<exists>h'. put_connect_str Offset Size str (length x) (h @ x @ replicate k 0)
      = Some (h' @ (x @ utf16 (str_text str)) @ replicate (k - 2 * length (str_text str)) 0)
    \<and> length h' = 60
    \<and> (str_text str \<noteq> [] \<longrightarrow> rd32 h' (off MBIM_SET_CONNECT_T Offset) = Some (of_nat (length x + 60))
        \<and> rd32 h' (off MBIM_SET_CONNECT_T Size) = Some (of_nat (2 * length (str_text str))))
    \<and> (str_text str = [] \<longrightarrow> h' = h)
    \<and> (\<forall>i. i + 4 \<le> off MBIM_SET_CONNECT_T Offset \<or> off MBIM_SET_CONNECT_T Offset + 8 \<le> i \<longrightarrow> rd32 h' i = rd32 h i)"
proof (cases "str_text str = []")
  case True
  then show ?thesis using assms(1)
    by (intro exI [of _ h]) (auto simp: put_connect_str_def str_text_def utf16_def split: option.splits)
next
  case False
  then obtain s where s: "str = Some s" "s \<noteq> []" by (cases str) (auto simp: str_text_def)
  let ?o = "off MBIM_SET_CONNECT_T Offset" and ?n = "of_nat (2 * length s)" and ?p = "of_nat (length x + 60)"
  let ?r = "x @ replicate k 0"
  have k: "2 * length s \<le> k" using assms(2) s by (simp add: str_text_def)
  obtain h1 where h1: "wr32 h (?o + 4) ?n = Some h1" "length h1 = 60"
    using wr32_defined [of "?o + 4" h ?n] assms(1,5) by auto
  obtain h2 where h2: "wr32 h1 ?o ?p = Some h2" "length h2 = 60"
    using wr32_defined [of ?o h1 ?p] h1(2) assms(5) by auto
  have w: "wr32 (h @ ?r) (?o + 4) ?n = Some (h1 @ ?r)" "wr32 (h1 @ ?r) ?o ?p = Some (h2 @ ?r)"
    using wr_left [of "?o + 4" "le32 ?n" h ?r] wr_left [of ?o "le32 ?p" h1 ?r] h1 h2 assms(1,5) by simp_all
  have "wr (h2 @ ?r) (60 + length x) (utf16 s) = Some (h2 @ (x @ utf16 s) @ replicate (k - 2 * length s) 0)"
    using wr_right [of "length x" "utf16 s" ?r h2] k h2(2) by (simp add: wr_eq)
  then have "put_connect_str Offset Size str (length x) (h @ ?r)
      = Some (h2 @ (x @ utf16 s) @ replicate (k - 2 * length s) 0)"
    using w s assms(4) by (simp add: put_connect_str_def put32_def)
  moreover have "rd32 h2 ?o = Some ?p" by (rule rd32_wr_same [OF h2(1)])
  moreover have "rd32 h2 (?o + 4) = Some ?n"
    using rd32_wr_same [OF h1(1)] rd32_wr_other [OF h2(1), of "?o + 4"] by simp
  moreover have "rd32 h2 i = rd32 h i" if "i + 4 \<le> ?o \<or> ?o + 8 \<le> i" for i
    using rd32_wr_other [OF h1(1), of i] rd32_wr_other [OF h2(1), of i] that by auto
  ultimately show ?thesis using h2(2) s assms(4) by (intro exI [of _ h2]) (simp add: str_text_def)
qed

lemma those_Some: "(\<And>x. x \<in> set xs \<Longrightarrow> f x = Some (g x)) \<Longrightarrow> those (map f xs) = Some (map g xs)"
  by (induction xs) auto

lemma utf16_nth: "i < length s \<Longrightarrow> utf16 s ! (2 * i) = of_char (s ! i)"
proof (induction s arbitrary: i)
  case (Cons c s)
  then show ?case by (cases i) (simp_all add: utf16_def)
qed simp

lemma segment_of_utf16:
  assumes "length s < 256" "CHR 0x00 \<notin> set s" "m = pre @ utf16 s @ post" "length pre < 2 ^ 32"
  shows "mbim_get_segment m 0 (of_nat (length pre)) (of_nat (2 * length s)) = Some s"
proof -
  have n: "unat (of_nat (2 * length s) :: u32) = 2 * length s" "unat (of_nat (length pre) :: u32) = length pre"
    using assms(1,4) by (simp_all add: unat_of_nat take_bit_nat_eq_self del: of_nat_mult)
  have "those (map (\<lambda>i. rd8 m (0 + length pre + 2 * i)) [0..<length s]) = Some (map (\<lambda>i. of_char (s ! i)) [0..<length s])"
    by (rule those_Some) (simp add: assms(3) nth_append utf16_nth)
  moreover have "map (char_of \<circ> unat) (map (\<lambda>i. of_char (s ! i) :: byte) [0..<length s]) = s"
  proof (rule nth_equalityI)
    fix i assume "i < length (map (char_of \<circ> unat) (map (\<lambda>i. of_char (s ! i) :: byte) [0..<length s]))"
    then have i: "i < length s" by simp
    have "unat (of_char (s ! i) :: byte) = of_char (s ! i)"
      by (cases "s ! i") (simp add: of_char_def)
    then show "map (char_of \<circ> unat) (map (\<lambda>i. of_char (s ! i) :: byte) [0..<length s]) ! i = s ! i" using i by simp
  qed simp
  moreover have "cstring s = s" using assms(2) by (auto simp: cstring_def takeWhile_eq_all_conv)
  ultimately show ?thesis using assms(1) n by (simp add: mbim_get_segment_def del: of_nat_mult)
qed

lemma rd32_left: "i + 3 < length h \<Longrightarrow> rd32 (h @ r) i = rd32 h i"
  by (simp add: rd32_Some nth_append)

lemma context_uuid: "\<exists>u. str2uuid UUID_MBIMContextTypeInternet = Some u \<and> length u = 16"
  by (simp add: str2uuid_def UUID_MBIMContextTypeInternet_def uuid_format_def lower_def digit_def)

lemma set_connect_result:
  assumes "length h = 60"
  shows "\<exists>h'. set_connect_request sid command authp ipt (h @ r) = Some (h' @ r) \<and> length h' = 60
    \<and> (\<forall>i. 8 \<le> i \<and> i + 4 \<le> 32 \<longrightarrow> rd32 h' i = rd32 h i)
    \<and> rd32 h' 0 = Some sid \<and> rd32 h' 4 = Some command \<and> rd32 h' 36 = Some authp \<and> rd32 h' 40 = Some ipt"
proof -
  obtain u where u: "str2uuid UUID_MBIMContextTypeInternet = Some u" "length u = 16" using context_uuid by blast
  obtain h1 where h1: "wr32 h 0 sid = Some h1" "length h1 = 60" using wr32_defined [of 0 h sid] assms by auto
  obtain h2 where h2: "wr32 h1 4 command = Some h2" "length h2 = 60" using wr32_defined [of 4 h1 command] h1(2) by auto
  obtain h3 where h3: "wr32 h2 32 0 = Some h3" "length h3 = 60" using wr32_defined [of 32 h2 0] h2(2) by auto
  obtain h4 where h4: "wr32 h3 36 authp = Some h4" "length h4 = 60" using wr32_defined [of 36 h3 authp] h3(2) by auto
  obtain h5 where h5: "wr32 h4 40 ipt = Some h5" "length h5 = 60" using wr32_defined [of 40 h4 ipt] h4(2) by auto
  obtain h6 where h6: "wr h5 44 u = Some h6" "length h6 = 60" using h5(2) u(2) by (simp add: wr_eq)
  note other = rd32_wr_other [OF h1(1)] rd32_wr_other [OF h2(1)] rd32_wr_other [OF h3(1)] rd32_wr_other [OF h4(1)]
    rd32_wr_other [OF h5(1)] rd32_wr_other [OF h6(1)]
  have "set_connect_request sid command authp ipt (h @ r) = Some (h6 @ r)"
    using assms h1 h2 h3 h4 h5 h6 u by (simp add: set_connect_request_def put32_def wr_left)
  moreover have "rd32 h6 0 = Some sid" "rd32 h6 4 = Some command" "rd32 h6 36 = Some authp" "rd32 h6 40 = Some ipt"
    using rd32_wr_same [OF h1(1)] rd32_wr_same [OF h2(1)] rd32_wr_same [OF h4(1)] rd32_wr_same [OF h5(1)]
    by (simp_all add: other)
  moreover have "\<forall>i. 8 \<le> i \<and> i + 4 \<le> 32 \<longrightarrow> rd32 h6 i = rd32 h i" by (simp add: other)
  ultimately show ?thesis using h6(2) by blast
qed

definition field_string :: "byte list \<Rightarrow> string \<Rightarrow> string \<Rightarrow> string option" where
  "field_string m Offset Size = do {
     p \<leftarrow> get32 m 0 MBIM_SET_CONNECT_T Offset;
     n \<leftarrow> get32 m 0 MBIM_SET_CONNECT_T Size;
     mbim_get_segment m 0 p n }"

definition plain_str :: "string option \<Rightarrow> bool" where
  "plain_str str \<longleftrightarrow> length (str_text str) < 256 \<and> CHR 0x00 \<notin> set (str_text str)"

lemma field_string_found:
  assumes "length h = 60" "off MBIM_SET_CONNECT_T Offset \<le> 56" "off MBIM_SET_CONNECT_T Size \<le> 56"
    and "plain_str str" "length x < 2000"
    and "str_text str \<noteq> [] \<longrightarrow> rd32 h (off MBIM_SET_CONNECT_T Offset) = Some (of_nat (length x + 60))
      \<and> rd32 h (off MBIM_SET_CONNECT_T Size) = Some (of_nat (2 * length (str_text str)))"
    and "str_text str = [] \<longrightarrow> rd32 h (off MBIM_SET_CONNECT_T Offset) = Some 0 \<and> rd32 h (off MBIM_SET_CONNECT_T Size) = Some 0"
  shows "field_string (h @ x @ utf16 (str_text str) @ post) Offset Size = Some (str_text str)"
proof (cases "str_text str = []")
  case True
  with assms show ?thesis
    by (simp add: field_string_def get32_def rd32_left mbim_get_segment_def cstring_def)
next
  case False
  have "mbim_get_segment (h @ x @ utf16 (str_text str) @ post) 0 (of_nat (length (h @ x))) (of_nat (2 * length (str_text str)))
      = Some (str_text str)"
    by (rule segment_of_utf16) (use assms(1,4,5) in \<open>auto simp: plain_str_def\<close>)
  with False assms show ?thesis by (simp add: field_string_def get32_def rd32_left add.commute)
qed

text \<open>
  C28: The modem finds the strings of a connect request: at the offset and with the size of its field each of
  access string, user name and password reads back, an absent one as the empty string; command,
  session, authentication and IP type are those of the call.
\<close>
theorem connect_strings_roundtrip:
  assumes "plain_str a" "plain_str u" "plain_str p"
  shows "\<exists>b info. mbim_populate_connect_data a u p = Some b \<and> set_connect_request sid command authp ipt b = Some info
    \<and> field_string info ''AccessStringOffset'' ''AccessStringSize'' = Some (str_text a)
    \<and> field_string info ''UserNameOffset'' ''UserNameSize'' = Some (str_text u)
    \<and> field_string info ''PasswordOffset'' ''PasswordSize'' = Some (str_text p)
    \<and> get32 info 0 MBIM_SET_CONNECT_T ''SessionId'' = Some sid
    \<and> get32 info 0 MBIM_SET_CONNECT_T ''ActivationCommand'' = Some command
    \<and> get32 info 0 MBIM_SET_CONNECT_T ''AuthProtocol'' = Some authp
    \<and> get32 info 0 MBIM_SET_CONNECT_T ''IPType'' = Some ipt"
proof -
  let ?A = "utf16 (str_text a)" and ?U = "utf16 (str_text u)" and ?P = "utf16 (str_text p)"
  let ?n = "length ?A + length ?U + length ?P" and ?h = "replicate 60 (0 :: byte)"
  have len: "length ?A < 512" "length ?U < 512" "length ?P < 512" using assms by (auto simp: plain_str_def)
  have zero: "rd32 ?h i = Some 0" if "i < 57" for i
    using that by (simp add: rd32_Some mk32_def)
  obtain h1 where h1: "put_connect_str ''AccessStringOffset'' ''AccessStringSize'' a 0 (?h @ replicate ?n 0)
      = Some (h1 @ ?A @ replicate (length ?U + length ?P) 0)" "length h1 = 60"
    "str_text a \<noteq> [] \<longrightarrow> rd32 h1 8 = Some 60 \<and> rd32 h1 12 = Some (of_nat (length ?A))" "str_text a = [] \<longrightarrow> h1 = ?h"
    "\<forall>i. i + 4 \<le> 8 \<or> 16 \<le> i \<longrightarrow> rd32 h1 i = rd32 ?h i"
    using put_connect_str_result [of ?h a ?n "''AccessStringSize''" "''AccessStringOffset''" "[]"] len by auto
  obtain h2 where h2: "put_connect_str ''UserNameOffset'' ''UserNameSize'' u (length ?A) (h1 @ ?A @ replicate (length ?U + length ?P) 0)
      = Some (h2 @ (?A @ ?U) @ replicate (length ?P) 0)" "length h2 = 60"
    "str_text u \<noteq> [] \<longrightarrow> rd32 h2 16 = Some (of_nat (length ?A + 60)) \<and> rd32 h2 20 = Some (of_nat (length ?U))"
    "str_text u = [] \<longrightarrow> h2 = h1" "\<forall>i. i + 4 \<le> 16 \<or> 24 \<le> i \<longrightarrow> rd32 h2 i = rd32 h1 i"
    using put_connect_str_result [of h1 u "length ?U + length ?P" "''UserNameSize''" "''UserNameOffset''" ?A] len h1(2) by auto
  obtain h3 where h3: "put_connect_str ''PasswordOffset'' ''PasswordSize'' p (length (?A @ ?U)) (h2 @ (?A @ ?U) @ replicate (length ?P) 0)
      = Some (h3 @ ((?A @ ?U) @ ?P) @ [])" "length h3 = 60"
    "str_text p \<noteq> [] \<longrightarrow> rd32 h3 24 = Some (of_nat (length (?A @ ?U) + 60)) \<and> rd32 h3 28 = Some (of_nat (length ?P))"
    "str_text p = [] \<longrightarrow> h3 = h2" "\<forall>i. i + 4 \<le> 24 \<or> 32 \<le> i \<longrightarrow> rd32 h3 i = rd32 h2 i"
    using put_connect_str_result [of h2 p "length ?P" "''PasswordSize''" "''PasswordOffset''" "?A @ ?U"] len h2(2) by auto
  have small: "unat (of_nat n :: u32) = n" if "n < 512" for n
    using that by (simp add: unat_of_nat take_bit_nat_eq_self)
  have "rd32 h1 12 = Some (of_nat (length ?A))" "rd32 h2 20 = Some (of_nat (length ?U))"
    using h1(3,4) h2(3,4) h1(5) zero by (cases "str_text a = []"; cases "str_text u = []"; simp)+
  then have b: "mbim_populate_connect_data a u p = Some (h3 @ ?A @ ?U @ ?P)"
    using h1(1,2) h2(1,2) h3(1) small [OF len(1)] small [OF len(2)]
    by (simp add: mbim_populate_connect_data_def str_size_text get32_def rd32_left add.assoc replicate_add)
  obtain h where h: "set_connect_request sid command authp ipt (h3 @ ?A @ ?U @ ?P) = Some (h @ ?A @ ?U @ ?P)" "length h = 60"
    "\<forall>i. 8 \<le> i \<and> i + 4 \<le> 32 \<longrightarrow> rd32 h i = rd32 h3 i"
    "rd32 h 0 = Some sid" "rd32 h 4 = Some command" "rd32 h 36 = Some authp" "rd32 h 40 = Some ipt"
    using set_connect_result [OF h3(2)] by blast
  have "field_string (h @ [] @ ?A @ (?U @ ?P)) ''AccessStringOffset'' ''AccessStringSize'' = Some (str_text a)"
    by (rule field_string_found) (use assms(1) h(2,3) h3(5) h2(5) h1(3,4) zero in simp_all)
  moreover have "field_string (h @ ?A @ ?U @ ?P) ''UserNameOffset'' ''UserNameSize'' = Some (str_text u)"
    by (rule field_string_found) (use assms(2) len h(2,3) h3(5) h2(3,4) h1(5) zero in simp_all)
  moreover have "field_string (h @ (?A @ ?U) @ ?P @ []) ''PasswordOffset'' ''PasswordSize'' = Some (str_text p)"
    by (rule field_string_found) (use assms(3) len h(2,3) h3(3,4) h2(5) h1(5) zero in simp_all)
  ultimately show ?thesis using b h by (simp add: get32_def rd32_left)
qed

theorem connect_strings_roundtrip_witness:
  "\<exists>b info. mbim_populate_connect_data (Some ''internet'') None (Some ''pw'') = Some b
    \<and> set_connect_request 0 1 0 1 b = Some info
    \<and> field_string info ''AccessStringOffset'' ''AccessStringSize'' = Some ''internet''
    \<and> field_string info ''UserNameOffset'' ''UserNameSize'' = Some []
    \<and> field_string info ''PasswordOffset'' ''PasswordSize'' = Some ''pw''"
  using connect_strings_roundtrip [of "Some ''internet''" None "Some ''pw''" 0 1 0 1]
  by (auto simp: plain_str_def str_text_def)

end
