(* ===== verification/MbimCommand.thy ===== *)
theory MbimCommand
  imports MbimRuns
begin

text \<open>
  The reader of the MBIM client as the environment of its commands: what it leaves alone, which response a
  command gets, when the program is stopped, and which states change only by answers.
\<close>

section \<open>What the reader leaves alone\<close>

definition main_part where
  "main_part s = (mbim_open_state s, (oldReadyState s, oldRegisterState s, oldPacketServiceState s, oldActivationState s),
     mbim_tid s, mbim_fd s, mbim_pRequest s, (mbim_netcard s, mbim_apn s, mbim_user s, mbim_passwd s, mbim_iptype s, mbim_auth s),
     periods s, written s, effects s)"

lemma main_part_simps [simp]:
  "main_part (s\<lparr>mbim_quit := q\<rparr>) = main_part s" "main_part (s\<lparr>read_tid := t\<rparr>) = main_part s"
  "main_part (s\<lparr>mbim_pResponse := r\<rparr>) = main_part s" "main_part (s\<lparr>mbim_recv_buf := b\<rparr>) = main_part s"
  "main_part (s\<lparr>cmd_signal := g\<rparr>) = main_part s" "main_part (s\<lparr>state_signal := g\<rparr>) = main_part s"
  "main_part (s\<lparr>ReadyState := v\<rparr>) = main_part s" "main_part (s\<lparr>RegisterState := v\<rparr>) = main_part s"
  "main_part (s\<lparr>PacketServiceState := v\<rparr>) = main_part s" "main_part (s\<lparr>ActivationState := v\<rparr>) = main_part s"
  by (simp_all add: main_part_def)

text \<open>A response belongs to the request that is waited for.\<close>

definition belongs :: "byte list option \<Rightarrow> byte list \<Rightarrow> bool" where
  "belongs req m \<longleftrightarrow> (\<exists>r. req = Some r \<and> (12 \<le> length m \<longrightarrow> rd32 m 8 = rd32 r 8 \<and> rd32 m 4 = Some (of_nat (length m))))"

definition reader_rel :: "mbim \<Rightarrow> mbim \<Rightarrow> bool" where
  "reader_rel s s' \<longleftrightarrow> main_part s' = main_part s \<and> mbim_quit s \<le> mbim_quit s' \<and> (read_tid s' \<longrightarrow> read_tid s)
     \<and> (read_tid s \<and> \<not> read_tid s' \<longrightarrow> mbim_quit s < mbim_quit s')
     \<and> (\<forall>m. mbim_pResponse s' = Some m \<longrightarrow> mbim_pResponse s = Some m \<or> belongs (mbim_pRequest s) m)"

lemma reader_rel_refl: "reader_rel s s"
  by (simp add: reader_rel_def)

lemma reader_rel_trans:
  assumes a: "reader_rel s t" and b: "reader_rel t u"
  shows "reader_rel s u"
proof -
  have r: "mbim_pRequest t = mbim_pRequest s" using a by (simp add: reader_rel_def main_part_def)
  note ab = a [unfolded reader_rel_def] b [unfolded reader_rel_def r]
  have "main_part u = main_part s" using ab by metis
  moreover have "mbim_quit s \<le> mbim_quit u" using ab by linarith
  moreover have "read_tid u \<longrightarrow> read_tid s" using ab by blast
  moreover have "read_tid s \<and> \<not> read_tid u \<longrightarrow> mbim_quit s < mbim_quit u" using ab by (cases "read_tid t") auto
  moreover have "\<forall>m. mbim_pResponse u = Some m \<longrightarrow> mbim_pResponse s = Some m \<or> belongs (mbim_pRequest s) m"
    using ab by metis
  ultimately show ?thesis by (simp add: reader_rel_def)
qed

lemma change_rel:
  "reader_rel s (change_state ReadyState ReadyState_update v s)"
  "reader_rel s (change_state RegisterState RegisterState_update v s)"
  "reader_rel s (change_state PacketServiceState PacketServiceState_update v s)"
  "reader_rel s (change_state ActivationState ActivationState_update v s)"
  by (simp_all add: change_state_def reader_rel_def)

text \<open>The second test of the connect indication is dead code.\<close>

lemma indicate_status_eq:
  "indicate_status b s = do {
     uuid \<leftarrow> rdn b 20 16;
     basic \<leftarrow> str2uuid UUID_BASIC_CONNECT;
     if uuid \<noteq> basic then Some s
     else do {
       CID \<leftarrow> get32 b 0 MBIM_INDICATE_STATUS_MSG_T ''CID'';
       if CID = MBIM_CID_CONNECT then map_option (\<lambda>v. change_state ActivationState ActivationState_update v s)
         (get32 b IndBuffer MBIM_CONNECT_T ''ActivationState'')
       else if CID = MBIM_CID_SUBSCRIBER_READY_STATUS then map_option (\<lambda>v. change_state ReadyState ReadyState_update v s)
         (get32 b IndBuffer MBIM_SUBSCRIBER_READY_STATUS_T ''ReadyState'')
       else if CID = MBIM_CID_REGISTER_STATE then map_option (\<lambda>v. change_state RegisterState RegisterState_update v s)
         (get32 b IndBuffer MBIM_REGISTRATION_STATE_INFO_T ''RegisterState'')
       else if CID = MBIM_CID_PACKET_SERVICE then map_option (\<lambda>v. change_state PacketServiceState PacketServiceState_update v s)
         (get32 b IndBuffer MBIM_PACKET_SERVICE_INFO_T ''PacketServiceState'')
       else Some s } }"
  by (simp add: indicate_status_def map_option_case cong: if_cong) (simp split: bind_split option.split)

lemma indicate_rel: "indicate_status b s = Some s' \<Longrightarrow> reader_rel s s'"
  unfolding indicate_status_eq
  by (auto simp: change_rel reader_rel_refl get32_def split: if_split_asm)

lemma copy_belongs:
  assumes "rdn b 0 (unat len) = Some m" "rd32 b 4 = Some len" "rd32 b 8 = Some t" "rd32 r 8 = Some t"
  shows "belongs (Some r) m"
proof -
  have m: "m = take (unat len) b" "length m = unat len" using assms(1) by (auto simp: rdn_def split: if_splits)
  have "rd32 m i = rd32 b i" if "12 \<le> length m" "i \<le> 8" for i
    using that m assms(1) by (simp add: rd32_Some rdn_def split: if_splits)
  then show ?thesis using assms m by (simp add: belongs_def)
qed

lemma recv_rel: "mbim_recv_command b s = Some s' \<Longrightarrow> reader_rel s s'"
proof (cases b)
  case (Some d)
  assume s': "mbim_recv_command b s = Some s'"
  then obtain t mine where t: "rd32 d 8 = Some t"
    "(case mbim_pRequest s of None \<Rightarrow> Some False | Some r \<Rightarrow> do { t' \<leftarrow> get32 r 0 MBIM_MESSAGE_HEADER ''TransactionId''; Some (t' = t) }) = Some mine"
    "(if mine then do { len \<leftarrow> get32 d 0 MBIM_MESSAGE_HEADER ''MessageLength''; copy \<leftarrow> rdn d 0 (unat len);
        Some (s\<lparr>mbim_pResponse := Some copy, cmd_signal := True\<rparr>) }
      else do { ty \<leftarrow> get32 d 0 MBIM_MESSAGE_HEADER ''MessageType'';
        if ty = MBIM_INDICATE_STATUS_MSG then indicate_status d s else Some s }) = Some s'"
    using Some by (simp add: mbim_recv_command_def get32_def [of d _ _ "''TransactionId''"]) (elim exE conjE, rule that)
  show ?thesis
  proof (cases mine)
    case True
    then obtain r where r: "mbim_pRequest s = Some r" "rd32 r 8 = Some t" using t(2) by (auto simp: get32_def split: option.splits)
    from True t(3) obtain len m where m: "rd32 d 4 = Some len" "rdn d 0 (unat len) = Some m"
      "s' = s\<lparr>mbim_pResponse := Some m, cmd_signal := True\<rparr>" by (auto simp: get32_def)
    then show ?thesis using copy_belongs [OF m(2,1) t(1) r(2)] r(1) by (simp add: reader_rel_def)
  next
    case False
    then show ?thesis using t(3) indicate_rel reader_rel_refl by (auto split: if_splits)
  qed
qed (auto simp: mbim_recv_command_def reader_rel_def)

lemma read_rel: "mbim_read_thread ev s = Some s' \<Longrightarrow> reader_rel s s'"
proof (cases ev)
  case (Read d)
  assume s': "mbim_read_thread ev s = Some s'"
  let ?b = "take 4096 d @ drop (length (take 4096 d)) (mbim_recv_buf s)"
  show ?thesis
  proof (cases "\<not> read_tid s \<or> d = []")
    case False
    then have "reader_rel (s\<lparr>mbim_recv_buf := ?b\<rparr>) s'" using s' Read recv_rel [of "Some ?b"] by (simp add: mbim_read_thread_def Let_def)
    then show ?thesis by (simp add: reader_rel_def)
  qed (use s' Read in \<open>simp add: mbim_read_thread_def reader_rel_refl\<close>)
qed (auto simp: mbim_read_thread_def reader_exit_def mbim_recv_command_def mbim_sigaction_def reader_rel_def split: if_splits)

lemma reads_rel: "run_steps mbim_read_thread es s = Some s' \<Longrightarrow> reader_rel s s'"
proof (induction es arbitrary: s)
  case (Cons e es)
  then obtain t where "mbim_read_thread e s = Some t" "run_steps mbim_read_thread es t = Some s'" by auto
  then show ?case using Cons.IH read_rel reader_rel_trans by blast
qed (simp add: reader_rel_refl)

lemma wait_response_belongs:
  assumes "wait_response w s = Some (ret, p, s')" "mbim_pResponse s = None"
  shows "reader_rel s s' \<and> (\<forall>m. p = PLive m \<longrightarrow> ret = 0 \<and> belongs (mbim_pRequest s) m) \<and> p \<noteq> PDead"
proof -
  have "run_steps mbim_read_thread (reads w) s = Some s'"
    using assms(1) by (auto simp: wait_response_def Let_def)
  from reads_rel [OF this] show ?thesis
    using assms by (auto simp: wait_response_def Let_def reader_rel_def split: option.splits if_splits)
qed

section \<open>A command\<close>

text \<open>
  Apart from the reader's part a command changes the request, its response, the counter of the waits and the
  messages that were written.
\<close>

definition settings where
  "settings s = (mbim_fd s, (mbim_netcard s, mbim_apn s, mbim_user s, mbim_passwd s, mbim_iptype s, mbim_auth s))"

definition sent_part :: "period_env \<Rightarrow> byte list \<Rightarrow> mbim \<Rightarrow> byte list list \<Rightarrow> bool" where
  "sent_part env req s ms \<longleftrightarrow> ms = [] \<or> (\<exists>len out. rd32 req 4 = Some len
     \<and> rdn (req @ behind (env (periods s))) 0 (unat len) = Some out \<and> ms = [out])"

lemma main_partD: "main_part t = main_part s \<Longrightarrow> settings t = settings s \<and> periods t = periods s
    \<and> written t = written s \<and> effects t = effects s \<and> mbim_pRequest t = mbim_pRequest s"
  by (simp add: main_part_def settings_def)

lemma bound_result:
  assumes "do { t \<leftarrow> X; Some (a, b, t) } = Some (r, p, s')"
  shows "X = Some s'" "p = b"
  using assms by auto

lemma send_cases:
  assumes "mbim_send_command env req s = Some (ret, p, s')"
  obtains (closed) "s' = s" "p = PNull"
  | (run) r ms t where "run_steps mbim_read_thread (reads (env (periods s)))
        (s\<lparr>mbim_pRequest := r, mbim_pResponse := None, cmd_signal := False, periods := Suc (periods s),
          written := written s @ ms\<rparr>) = Some t"
      "s' = t \<or> s' = t\<lparr>mbim_pRequest := None, mbim_pResponse := None\<rparr>" "sent_part env req s ms"
      "p = PNull \<or> (\<exists>m. p = PLive m \<and> mbim_pResponse t = Some m \<and> r = Some req \<and> ret = 0)"
proof (cases "mbim_fd s \<le> 0")
  case True
  then show ?thesis using assms closed by (simp add: mbim_send_command_def)
next
  case False
  let ?w = "env (periods s)"
  obtain len out where l: "rd32 req 4 = Some len" "rdn (req @ behind ?w) 0 (unat len) = Some out"
    using assms False by (auto simp: mbim_send_command_def get32_def Let_def)
  let ?ret = "case write_ret ?w of None \<Rightarrow> int (unat len) | Some r \<Rightarrow> r"
  let ?s = "\<lambda>r ms. s\<lparr>mbim_pRequest := r, mbim_pResponse := None, cmd_signal := False, periods := Suc (periods s),
    written := written s @ ms\<rparr>"
  show ?thesis
  proof (cases "word_of_int ?ret = len")
    case True
    then obtain t where t: "wait_response ?w (?s (Some req) [out]) = Some (ret, p, t)"
      "s' = t\<lparr>mbim_pRequest := None, mbim_pResponse := None\<rparr>"
      using assms False l by (auto simp: mbim_send_command_def get32_def Let_def)
    show ?thesis
    proof (rule run [where r = "Some req" and ms = "[out]" and t = t])
      show "run_steps mbim_read_thread (reads ?w) (?s (Some req) [out]) = Some t"
        using t(1) by (auto simp: wait_response_def Let_def)
      show "p = PNull \<or> (\<exists>m. p = PLive m \<and> mbim_pResponse t = Some m \<and> Some req = Some req \<and> ret = 0)"
        using t(1) by (auto simp: wait_response_def Let_def split: option.splits if_splits)
    qed (use t(2) l in \<open>auto simp: sent_part_def\<close>)
  next
    case other: False
    have e: "?s None [] = s\<lparr>mbim_pResponse := None, cmd_signal := False, periods := Suc (periods s), mbim_pRequest := None\<rparr>"
      by (cases s) simp
    have c: "mbim_send_command env req s = do { s \<leftarrow> run_steps mbim_read_thread (reads ?w) (?s None []); Some (?ret, PNull, s) }"
      unfolding e using False l other by (simp add: mbim_send_command_def get32_def Let_def)
    have r: "run_steps mbim_read_thread (reads ?w) (?s None []) = Some s'" "p = PNull"
      by (rule bound_result [OF trans [OF c [symmetric] assms]])+
    show ?thesis
      by (rule run [where r = None and ms = "[]" and t = s', OF r(1)]) (simp_all add: r(2) sent_part_def)
  qed
qed

lemma send_result:
  assumes "mbim_send_command env req s = Some (ret, p, s')"
  shows "settings s' = settings s \<and> effects s' = effects s \<and> (\<exists>ms. written s' = written s @ ms \<and> sent_part env req s ms)
    \<and> p \<noteq> PDead \<and> (\<forall>m. p = PLive m \<longrightarrow> ret = 0 \<and> belongs (Some req) m)"
  using assms
proof (cases rule: send_cases)
  case (run r ms t)
  note rel = reads_rel [OF run(1)]
  have "settings t = settings s" "effects t = effects s" "written t = written s @ ms"
    using main_partD [OF rel [unfolded reader_rel_def, THEN conjunct1]] by (simp_all add: settings_def)
  then show ?thesis using run(2-4) rel by (auto simp: settings_def reader_rel_def)
qed (simp add: sent_part_def)


definition close_done :: "byte list" where
  "close_done = le32 MBIM_CLOSE_DONE @ le32 16 @ le32 7 @ le32 0"

definition answering :: period_env where
  "answering k = \<lparr>reads = [Read close_done], spurious = False, behind = [], write_ret = None, garbage_of = []\<rparr>"


section \<open>Progress\<close>

text \<open>
  The program is stopped by a signal or by the end of the reader, and stays so. Events of a wait that stop it
  do so before the wait is over.
\<close>

definition stopped :: "mbim \<Rightarrow> bool" where
  "stopped s \<longleftrightarrow> mbim_quit s \<noteq> 0 \<or> \<not> read_tid s"

definition ending :: "reader_event \<Rightarrow> bool" where
  "ending e \<longleftrightarrow> (case e of Read _ \<Rightarrow> False | Kill n \<Rightarrow> n = 15 \<or> n = 1 \<or> n = 2 | _ \<Rightarrow> True)"

lemma read_stops:
  assumes "mbim_read_thread e s = Some s'" "stopped s \<or> ending e"
  shows "stopped s'"
proof (cases "ending e")
  case True
  then show ?thesis using assms(1)
    by (auto simp: ending_def mbim_read_thread_def mbim_sigaction_def reader_exit_def mbim_recv_command_def stopped_def
      split: reader_event.splits if_splits)
next
  case False
  then show ?thesis using assms(2) read_rel [OF assms(1)] by (auto simp: reader_rel_def stopped_def)
qed

lemma reads_stop:
  "run_steps mbim_read_thread es s = Some s' \<Longrightarrow> stopped s \<or> (\<exists>e \<in> set es. ending e) \<Longrightarrow> stopped s'"
proof (induction es arbitrary: s)
  case (Cons e es)
  then obtain t where t: "mbim_read_thread e s = Some t" "run_steps mbim_read_thread es t = Some s'" by auto
  then show ?case using Cons.IH [OF t(2)] Cons.prems(2) read_stops [OF t(1)] by auto
qed simp

definition progress :: "period_env \<Rightarrow> mbim \<Rightarrow> mbim \<Rightarrow> bool" where
  "progress env s s' \<longleftrightarrow> periods s \<le> periods s' \<and> (stopped s \<longrightarrow> stopped s')
     \<and> (\<forall>k. periods s \<le> k \<and> k < periods s' \<and> (\<exists>e \<in> set (reads (env k)). ending e) \<longrightarrow> stopped s')"

lemma progress_refl: "progress env s s"
  by (auto simp: progress_def)

lemma progress_trans: "progress env s t \<Longrightarrow> progress env t u \<Longrightarrow> progress env s u"
  unfolding progress_def by (meson le_trans not_le)

lemma progress_wait:
  assumes "run_steps mbim_read_thread (reads (env (periods s))) s0 = Some t" "periods s0 = Suc (periods s)"
    "stopped s \<longrightarrow> stopped s0" "periods s' = periods t" "stopped s' = stopped t"
  shows "progress env s s' \<and> periods s' = Suc (periods s)"
proof -
  have p: "periods s' = Suc (periods s)"
    using reads_rel [OF assms(1)] main_partD [of t s0] assms(2,4) by (simp add: reader_rel_def)
  have "stopped t" if "stopped s \<or> (\<exists>e \<in> set (reads (env (periods s))). ending e)"
    using reads_stop [OF assms(1)] that assms(3) by blast
  then show ?thesis using p assms(5) unfolding progress_def by (auto simp: less_Suc_eq_le dest: antisym)
qed

lemma send_progress:
  assumes "mbim_send_command env req s = Some (ret, p, s')"
  shows "progress env s s'"
  using assms
proof (cases rule: send_cases)
  case (run r ms t)
  show ?thesis using progress_wait [where env = env and s = s and s' = s', OF run(1)] run(2) by (auto simp: stopped_def)
qed (simp_all add: progress_refl)

lemma wait_progress:
  assumes "wait_state_change env s = Some (ret, s')"
  shows "progress env s s' \<and> periods s' = Suc (periods s)"
proof -
  have "run_steps mbim_read_thread (reads (env (periods s))) (s\<lparr>state_signal := False, periods := Suc (periods s)\<rparr>) = Some s'"
    using assms by (auto simp: wait_state_change_def Let_def)
  then show ?thesis by (rule progress_wait) (simp_all add: stopped_def)
qed

section \<open>Without indications\<close>

definition states where
  "states s = (ReadyState s, RegisterState s, PacketServiceState s, ActivationState s)"

definition quiet :: "period_env \<Rightarrow> bool" where
  "quiet env \<longleftrightarrow> (\<forall>k d. Read d \<in> set (reads (env k)) \<longrightarrow> 4 \<le> length d \<and> rd32 d 0 \<noteq> Some MBIM_INDICATE_STATUS_MSG)"

lemma recv_quiet:
  assumes "mbim_recv_command (Some b) s = Some s'" "rd32 b 0 \<noteq> Some MBIM_INDICATE_STATUS_MSG"
  shows "states s' = states s"
proof -
  obtain mine where "(if mine then do { len \<leftarrow> rd32 b 4; copy \<leftarrow> rdn b 0 (unat len);
        Some (s\<lparr>mbim_pResponse := Some copy, cmd_signal := True\<rparr>) }
      else do { ty \<leftarrow> rd32 b 0; if ty = MBIM_INDICATE_STATUS_MSG then indicate_status b s else Some s }) = Some s'"
    using assms(1) by (simp add: mbim_recv_command_def get32_def cong: if_cong) (elim exE conjE, rule that)
  then show ?thesis using assms(2) by (cases mine) (auto simp: states_def split: if_splits)
qed

lemma read_quiet:
  assumes "mbim_read_thread e s = Some s'" "\<forall>d. e = Read d \<longrightarrow> 4 \<le> length d \<and> rd32 d 0 \<noteq> Some MBIM_INDICATE_STATUS_MSG"
  shows "states s' = states s"
proof (cases e)
  case (Read d)
  let ?b = "take 4096 d @ drop (length (take 4096 d)) (mbim_recv_buf s)"
  have "rd32 ?b 0 = rd32 (take 4096 d) 0" using assms(2) Read by (intro rd32_left) auto
  also have "\<dots> = rd32 d 0" using assms(2) Read by (simp add: rd32_Some)
  finally have "rd32 ?b 0 = rd32 d 0" .
  then have b: "rd32 ?b 0 \<noteq> Some MBIM_INDICATE_STATUS_MSG" using assms(2) Read by simp
  show ?thesis
  proof (cases "\<not> read_tid s \<or> d = []")
    case False
    then have "mbim_recv_command (Some ?b) (s\<lparr>mbim_recv_buf := ?b\<rparr>) = Some s'"
      using assms(1) Read by (simp add: mbim_read_thread_def Let_def)
    from recv_quiet [OF this b] show ?thesis by (simp add: states_def)
  qed (use assms(1) Read in \<open>simp add: mbim_read_thread_def\<close>)
qed (use assms(1) in \<open>auto simp: mbim_read_thread_def mbim_sigaction_def reader_exit_def mbim_recv_command_def states_def split: if_splits\<close>)

lemma reads_quiet:
  "run_steps mbim_read_thread es s = Some s' \<Longrightarrow>
    \<forall>d. Read d \<in> set es \<longrightarrow> 4 \<le> length d \<and> rd32 d 0 \<noteq> Some MBIM_INDICATE_STATUS_MSG \<Longrightarrow> states s' = states s"
proof (induction es arbitrary: s)
  case (Cons e es)
  then obtain t where t: "mbim_read_thread e s = Some t" "run_steps mbim_read_thread es t = Some s'" by auto
  then show ?case using Cons.IH [OF t(2)] Cons.prems(2) read_quiet [OF t(1)] by auto
qed simp

lemma send_quiet:
  assumes "mbim_send_command env req s = Some (ret, p, s')" "quiet env"
  shows "states s' = states s"
  using assms(1)
proof (cases rule: send_cases)
  case (run r ms t)
  have "states t = states s" using reads_quiet [OF run(1)] assms(2) by (auto simp: quiet_def states_def)
  then show ?thesis using run(2) by (auto simp: states_def)
qed simp

end
