(* ===== verification/MbimTurns.thy ===== *)
theory MbimTurns
  imports MbimCommand
begin

text \<open>
  Runs of the MBIM state machine: the order and the guards of the commands of a turn, the end of the loop and
  the clean-up.
\<close>

section \<open>What a part of the program does\<close>

text \<open>The kind of a message: its type, and for a command its identifier and whether it asks or sets.\<close>

definition kind :: "byte list \<Rightarrow> u32 option list" where
  "kind m = (if rd32 m 0 = Some MBIM_COMMAND_MSG then [rd32 m 0, rd32 m 36, rd32 m 40] else [rd32 m 0])"

abbreviation a_command :: "u32 \<Rightarrow> u32 \<Rightarrow> u32 option list" where
  "a_command CID CommandType \<equiv> [Some MBIM_COMMAND_MSG, Some CID, Some CommandType]"

definition evolves :: "period_env \<Rightarrow> u32 option list list \<Rightarrow> mbim \<Rightarrow> mbim \<Rightarrow> bool" where
  "evolves env K s s' \<longleftrightarrow> settings s' = settings s \<and> progress env s s'
     \<and> (\<exists>ms. written s' = written s @ ms \<and> subseq (map kind ms) K)"

lemma evolves_keep:
  "settings s' = settings s \<Longrightarrow> periods s' = periods s \<Longrightarrow> stopped s' = stopped s \<Longrightarrow> written s' = written s \<Longrightarrow>
    evolves env K s s'"
  by (auto simp: evolves_def progress_def)

lemma evolves_trans: "evolves env K s t \<Longrightarrow> evolves env L t u \<Longrightarrow> evolves env (K @ L) s u"
proof -
  assume a: "evolves env K s t" "evolves env L t u"
  then obtain ms ns where m: "written t = written s @ ms" "subseq (map kind ms) K"
    "written u = written t @ ns" "subseq (map kind ns) L" by (auto simp: evolves_def)
  have "subseq (map kind (ms @ ns)) (K @ L)" using m by (simp add: list_emb_append_mono)
  with a m show ?thesis by (auto simp: evolves_def intro: progress_trans)
qed

lemma evolves_then: "evolves env K s t \<Longrightarrow> evolves env [] t u \<Longrightarrow> evolves env K s u"
  using evolves_trans [of env K s t "[]" u] by simp

lemma evolves_after: "evolves env [] s t \<Longrightarrow> evolves env K t u \<Longrightarrow> evolves env K s u"
  using evolves_trans [of env "[]" s t K u] by simp

lemma evolves_more: "evolves env K s t \<Longrightarrow> subseq K L \<Longrightarrow> evolves env L s t"
  by (auto simp: evolves_def intro: subseq_order.trans)

definition runs :: "period_env \<Rightarrow> u32 option list list \<Rightarrow> mbim \<Rightarrow> ('a \<times> mbim) option \<Rightarrow> bool" where
  "runs env K s r \<longleftrightarrow> (\<forall>x s'. r = Some (x, s') \<longrightarrow> evolves env K s s')"

definition fits :: "period_env \<Rightarrow> mbim \<Rightarrow> bool" where
  "fits env s \<longleftrightarrow> (\<forall>k. length (garbage_of (env k)) = 60)
     \<and> plain_str (mbim_apn s) \<and> plain_str (mbim_user s) \<and> plain_str (mbim_passwd s)"

lemma fits_kept: "fits env s \<Longrightarrow> evolves env K s s' \<Longrightarrow> fits env s'"
  by (simp add: fits_def evolves_def settings_def)

definition does :: "period_env \<Rightarrow> u32 option list list \<Rightarrow> stage \<Rightarrow> bool" where
  "does env K a \<longleftrightarrow> (\<forall>s. fits env s \<longrightarrow> runs env K s (a s))"

lemma then_cases:
  assumes "then_stage a b s = Some (f, s')"
  obtains (stops) "a s = Some (f, s')" "f \<noteq> Go_on" | (goes) t where "a s = Some (Go_on, t)" "b t = Some (f, s')"
  using assms by (auto simp: then_stage_def split: if_splits)

lemma subseq_prefix: "subseq K (K @ L)"
  by (simp add: subseq_rev_drop_many)

lemma does_then: "does env K a \<Longrightarrow> does env L b \<Longrightarrow> does env (K @ L) (then_stage a b)"
  unfolding does_def runs_def
proof (intro allI impI)
  fix s f s' assume d: "\<forall>s. fits env s \<longrightarrow> (\<forall>x s'. a s = Some (x, s') \<longrightarrow> evolves env K s s')"
    "\<forall>s. fits env s \<longrightarrow> (\<forall>x s'. b s = Some (x, s') \<longrightarrow> evolves env L s s')"
    and s: "fits env s" "then_stage a b s = Some (f, s')"
  from s(2) show "evolves env (K @ L) s s'"
  proof (cases rule: then_cases)
    case stops
    then have "evolves env K s s'" using d(1) s(1) by blast
    then show ?thesis by (rule evolves_more) (rule subseq_prefix)
  next
    case (goes t)
    then have "evolves env K s t" using d(1) s(1) by blast
    then show ?thesis using d(2) goes(2) fits_kept [OF s(1)] evolves_trans by blast
  qed
qed

section \<open>The commands\<close>

lemma basic_uuid: "\<exists>u. str2uuid UUID_BASIC_CONNECT = Some u \<and> length u = 16"
  by (simp add: str2uuid_def UUID_BASIC_CONNECT_def uuid_format_def lower_def digit_def)

lemma sent_whole: "sent_part env req s ms \<Longrightarrow> rd32 req 4 = Some len \<Longrightarrow> unat len = length req \<Longrightarrow> ms = [] \<or> ms = [req]"
  by (auto simp: sent_part_def rdn_def)

lemma rd32_past: "length xs \<le> i \<Longrightarrow> rd32 (xs @ ys) i = rd32 ys (i - length xs)"
  by (simp add: rd32_def rd8_append Suc_diff_le)

lemma rd32_le32 [simp]: "rd32 (le32 v @ r) 0 = Some v" "rd32 (le32 v) 0 = Some v"
  by (simp_all add: rd32_Some nth_append) (simp_all add: le32_def numeral_2_eq_2 numeral_3_eq_3)

lemma sent_command:
  assumes "compose_basic_connect_command tid CID CommandType info = Some req" "length info < 2 ^ 31" "sent_part env req s ms"
  shows "subseq (map kind ms) [a_command CID CommandType]"
proof -
  obtain u where u: "str2uuid UUID_BASIC_CONNECT = Some u" "length u = 16" using basic_uuid by blast
  then have r: "req = le32 3 @ le32 (of_nat (48 + length info)) @ le32 tid @ le32 1 @ le32 0 @ u @ le32 CID @ le32 CommandType
      @ le32 (of_nat (length info)) @ info"
    using assms(1) by (simp add: compose_basic_connect_command_def)
  have n: "unat (of_nat (48 + length info) :: u32) = length req"
    using assms(2) u(2) r by (simp add: unat_of_nat take_bit_nat_eq_self del: of_nat_add)
  have rd: "rd32 req 0 = Some 3" "rd32 req 4 = Some (of_nat (48 + length info))" "rd32 req 36 = Some CID" "rd32 req 40 = Some CommandType"
    using u(2) by (simp_all add: r rd32_past del: of_nat_add)
  show ?thesis using sent_whole [OF assms(3) rd(2) n] rd by (auto simp: kind_def)
qed

lemma sent_open:
  assumes "sent_part env (compose_open_command tid n) s ms"
  shows "subseq (map kind ms) [[Some MBIM_OPEN_MSG]]"
proof -
  have r: "compose_open_command tid n = le32 1 @ le32 48 @ le32 tid @ le32 n" by (simp add: compose_open_command_def)
  have l: "rd32 (compose_open_command tid n) 4 = Some 48" by (simp add: r rd32_past)
  have "rd32 out 0 = Some 1" if "rdn (compose_open_command tid n @ b) 0 48 = Some out" for out b
  proof -
    have "out = take 48 (compose_open_command tid n @ b)" "48 \<le> length (compose_open_command tid n @ b)"
      using that by (auto simp: rdn_def split: if_splits)
    then have "rd32 out 0 = rd32 (compose_open_command tid n) 0" by (simp add: rd32_Some r nth_append)
    then show ?thesis by (simp add: r rd32_past)
  qed
  then show ?thesis using assms l by (auto simp: sent_part_def kind_def)
qed

lemma sent_close:
  assumes "sent_part env (compose_close_command tid) s ms"
  shows "subseq (map kind ms) [[Some MBIM_CLOSE_MSG]]"
proof -
  have r: "compose_close_command tid = le32 2 @ le32 12 @ le32 tid" by (simp add: compose_close_command_def)
  have c: "rd32 (compose_close_command tid) 4 = Some 12" "rd32 (compose_close_command tid) 0 = Some 2"
    "length (compose_close_command tid) = 12"
    by (simp_all add: r rd32_past)
  show ?thesis using sent_whole [OF assms c(1)] c by (auto simp: kind_def)
qed

lemma send_evolves:
  assumes "mbim_send_command env req (next_tid s) = Some (ret, p, t)"
    "\<And>ms. sent_part env req (next_tid s) ms \<Longrightarrow> subseq (map kind ms) K"
  shows "evolves env K s t"
proof -
  have "evolves env K s (next_tid s)" by (rule evolves_keep) (simp_all add: next_tid_def settings_def stopped_def)
  then have "evolves env [] s (next_tid s)" by (auto simp: evolves_def next_tid_def)
  moreover have "evolves env K (next_tid s) t"
    using send_result [OF assms(1)] send_progress [OF assms(1)] assms(2) by (auto simp: evolves_def)
  ultimately show ?thesis by (rule evolves_after)
qed

lemma check_err_cases:
  assumes "mbim_check_err (err, p, s) k = Some (x, s')"
  obtains t where "evolves env [] s t" "states t = states s" "effects t = effects s"
    "s' = t \<or> (\<exists>m. p = PLive m \<and> err = 0 \<and> k m t = Some (x, s'))"
proof -
  obtain c t where t: "mbim_status_code p s = Some (c, t)"
    "s' = t \<or> (\<exists>m. p = PLive m \<and> err = 0 \<and> k m t = Some (x, s'))"
    using assms by (cases p) (auto simp: mbim_check_err_def split: if_splits)
  have "t = s \<or> t = s\<lparr>mbim_open_state := 0\<rparr>"
    using t(1) by (cases p) (auto simp: mbim_status_code_def get32_def split: if_splits)
  then have "evolves env [] s t" "states t = states s" "effects t = effects s"
    by (auto simp: settings_def stopped_def states_def intro!: evolves_keep)
  with t(2) that show ?thesis by blast
qed

lemma basic_cases:
  assumes "basic_command env CID CommandType info k s = Some (x, s')"
  obtains t where "length info < 2 ^ 31 \<longrightarrow> evolves env [a_command CID CommandType] s t" "quiet env \<longrightarrow> states t = states s" "effects t = effects s"
    "s' = t \<or> (\<exists>m. k m t = Some s')"
proof -
  obtain req r where r: "compose_basic_connect_command (mbim_tid s) CID CommandType info = Some req"
    "mbim_send_command env req (next_tid s) = Some r"
    "mbim_check_err r (\<lambda>m s. do { n \<leftarrow> get32 m 0 MBIM_COMMAND_DONE_T ''InformationBufferLength'';
       s \<leftarrow> (if n \<noteq> 0 then k m s else Some s); Some (0, s) }) = Some (x, s')"
    using assms by (auto simp: basic_command_def)
  obtain err p t where p: "r = (err, p, t)" by (cases r)
  note send = r(2) [unfolded p]
  have e: "evolves env [a_command CID CommandType] s t" if "length info < 2 ^ 31"
    by (rule send_evolves [OF send]) (rule sent_command [OF r(1) that])
  have q: "quiet env \<longrightarrow> states t = states s" "effects t = effects s"
    using send_quiet [OF send] send_result [OF send] by (auto simp: states_def next_tid_def)
  obtain u where u: "evolves env [] t u" "states u = states t" "effects u = effects t"
    "s' = u \<or> (\<exists>m. p = PLive m \<and> err = 0 \<and> do { n \<leftarrow> get32 m 0 MBIM_COMMAND_DONE_T ''InformationBufferLength'';
       s \<leftarrow> (if n \<noteq> 0 then k m u else Some u); Some (0, s) } = Some (x, s'))"
    by (rule check_err_cases [OF r(3) [unfolded p]])
  show ?thesis
  proof (rule that [of u])
    show "length info < 2 ^ 31 \<longrightarrow> evolves env [a_command CID CommandType] s u" using evolves_then [OF e u(1)] by blast
    show "s' = u \<or> (\<exists>m. k m u = Some s')" using u(4) by (auto split: if_splits)
  qed (use q u in auto)
qed

text \<open>
  What looks at the answer of a command keeps the settings and the waits and writes nothing; then the command
  is all that is sent.
\<close>

locale answer_handler =
  fixes k :: "byte list \<Rightarrow> mbim \<Rightarrow> mbim option"
  assumes keeps: "k m s = Some s' \<Longrightarrow> settings s' = settings s \<and> periods s' = periods s
    \<and> stopped s' = stopped s \<and> written s' = written s"
begin

lemma sends_command:
  assumes "length info < 2 ^ 31"
  shows "runs env [a_command CID CommandType] s (basic_command env CID CommandType info k s)"
  unfolding runs_def
proof (intro allI impI)
  fix x s' assume r: "basic_command env CID CommandType info k s = Some (x, s')"
  obtain t where t: "evolves env [a_command CID CommandType] s t" "s' = t \<or> (\<exists>m. k m t = Some s')"
    using basic_cases [OF r] assms by metis
  have "evolves env [] t s'" using t(2) keeps evolves_keep by blast
  then show "evolves env [a_command CID CommandType] s s'" using t(1) evolves_then by blast
qed

lemma sends_info:
  assumes "\<And>info. X = Some info \<Longrightarrow> length info < 2 ^ 31"
  shows "runs env [a_command CID CommandType] s (do { info \<leftarrow> X; basic_command env CID CommandType info k s })"
  using assms sends_command by (cases X) (simp_all add: runs_def)

end

interpretation activation: answer_handler note_activation
  by unfold_locales (auto simp: note_activation_def settings_def stopped_def)

interpretation packet_service: answer_handler note_packet_service
  by unfold_locales (auto simp: note_packet_service_def settings_def stopped_def)

interpretation subscriber: answer_handler
  "\<lambda>m s. do { v \<leftarrow> get32 m InfoBuffer MBIM_SUBSCRIBER_READY_STATUS_T ''ReadyState''; Some (s\<lparr>ReadyState := v\<rparr>) }"
  by unfold_locales (auto simp: settings_def stopped_def)

interpretation registration: answer_handler
  "\<lambda>m s. do { v \<leftarrow> get32 m InfoBuffer MBIM_REGISTRATION_STATE_INFO_T ''RegisterState''; Some (s\<lparr>RegisterState := v\<rparr>) }"
  by unfold_locales (auto simp: settings_def stopped_def)

interpretation capabilities: answer_handler
  "\<lambda>m s. do {
     _ \<leftarrow> caps_string m ''DeviceIdOffset'' ''DeviceIdSize'';
     _ \<leftarrow> caps_string m ''FirmwareInfoOffset'' ''FirmwareInfoSize'';
     _ \<leftarrow> caps_string m ''HardwareInfoOffset'' ''HardwareInfoSize'';
     Some s }"
  by unfold_locales auto

interpretation addresses: answer_handler
  "\<lambda>m s. do {
     (v4, ptrs) \<leftarrow> family_config 4 (mbim_netcard s) (\<lambda>f. ''IPv4'' @ f) m (None, None, None, 1500);
     (v6, _) \<leftarrow> family_config 6 (mbim_netcard s) (\<lambda>f. ''IPv6'' @ f) m ptrs;
     Some (s\<lparr>effects := effects s @ v4 @ v6\<rparr>) }"
  by unfold_locales (auto simp: settings_def stopped_def)

lemma put_str_length: "put_connect_str Offset Size str offset b = Some b' \<Longrightarrow> length b' = length b"
  by (auto simp: put_connect_str_def put32_def split: option.splits if_splits dest!: length_wr)

lemma connect_info_length:
  assumes "plain_str a" "plain_str u" "plain_str p" "mbim_populate_connect_data a u p = Some b"
    "set_connect_request sid c au ip b = Some info"
  shows "length info < 2 ^ 31"
proof -
  have "length b = 60 + (str_size a + str_size u + str_size p)"
    using assms(4) by (auto simp: mbim_populate_connect_data_def Let_def dest!: put_str_length)
  moreover have "length info = length b"
    using assms(5) by (auto simp: set_connect_request_def put32_def dest!: length_wr)
  ultimately show ?thesis using assms(1-3) by (simp add: plain_str_def str_size_text)
qed

lemma runs_queries:
  assumes "fits env s"
  shows "runs env [a_command MBIM_CID_DEVICE_CAPS 0] s (mbim_device_caps_query env s)"
    and "runs env [a_command MBIM_CID_SUBSCRIBER_READY_STATUS 0] s (mbim_subscriber_status_query env s)"
    and "runs env [a_command MBIM_CID_REGISTER_STATE 0] s (mbim_register_state_query env s)"
    and "runs env [a_command MBIM_CID_PACKET_SERVICE 0] s (mbim_packet_service_query env s)"
    and "runs env [a_command MBIM_CID_PACKET_SERVICE 1] s (mbim_packet_service_set env s)"
  unfolding mbim_device_caps_query_def mbim_subscriber_status_query_def mbim_register_state_query_def
    mbim_packet_service_query_def mbim_packet_service_set_def
  by (rule capabilities.sends_command subscriber.sends_command registration.sends_command packet_service.sends_command; simp)+

lemma put_id_length: "put32 0 L name v b = Some info \<Longrightarrow> length b = 60 \<Longrightarrow> length info < 2 ^ 31"
  by (auto simp: put32_def dest: length_wr)

lemma runs_connect:
  assumes "fits env s"
  shows "runs env [a_command MBIM_CID_CONNECT 0] s (mbim_query_connect env sid s)"
    and "runs env [a_command MBIM_CID_CONNECT 1] s (mbim_set_connect env onoff sid s)"
    and "runs env [a_command MBIM_CID_IP_CONFIGURATION 0] s (mbim_ip_config env sid s)"
proof -
  have g: "length (garbage_of (env k)) = 60" for k using assms by (simp add: fits_def)
  show "runs env [a_command MBIM_CID_CONNECT 0] s (mbim_query_connect env sid s)"
    unfolding mbim_query_connect_def by (rule activation.sends_info) (rule put_id_length [OF _ g])
  have "length info < 2 ^ 31" if "mbim_populate_connect_data (mbim_apn s) (mbim_user s) (mbim_passwd s) = Some b"
    "set_connect_request sid c au ip b = Some info" for b info c au ip
    using connect_info_length that assms unfolding fits_def by blast
  then show "runs env [a_command MBIM_CID_CONNECT 1] s (mbim_set_connect env onoff sid s)"
    unfolding mbim_set_connect_def
    by (cases "mbim_populate_connect_data (mbim_apn s) (mbim_user s) (mbim_passwd s)")
      (simp add: runs_def, simp only: bind.bind_lunit, blast intro: activation.sends_info)
  show "runs env [a_command MBIM_CID_IP_CONFIGURATION 0] s (mbim_ip_config env sid s)"
    unfolding mbim_ip_config_def by (rule addresses.sends_info) (rule put_id_length [OF _ g])
qed

section \<open>The order of a turn\<close>

lemma runs_call: "runs env K s r \<Longrightarrow> runs env K s (call r)"
  by (auto simp: runs_def call_def)

lemma does_call: "(\<And>s. fits env s \<Longrightarrow> runs env K s (q s)) \<Longrightarrow> does env K (\<lambda>s. call (q s))"
  by (simp add: does_def runs_call)

lemma does_keep: "(\<And>s f s'. a s = Some (f, s') \<Longrightarrow> s' = s \<or> s' = updated s) \<Longrightarrow> does env [] a"
  unfolding does_def runs_def
  by (intro allI impI evolves_keep; fastforce simp: settings_def stopped_def mbim_update_state_def)

lemma does_update: "does env [] update_stage"
  by (rule does_keep) (simp add: update_stage_def)

lemma does_wait: "does env [] (wait_unless P)"
  by (rule does_keep) (simp add: wait_unless_def)

lemma does_more: "does env K a \<Longrightarrow> subseq K L \<Longrightarrow> does env L a"
  unfolding does_def runs_def using evolves_more by blast

lemma does_if: "does env K a \<Longrightarrow> does env K b \<Longrightarrow> does env K (\<lambda>s. if P s then a s else b s)"
  by (simp add: does_def)

lemma does_query:
  assumes "\<And>s. fits env s \<Longrightarrow> runs env K s (q s)"
  shows "does env K (query_unless P q)"
proof -
  have "does env [] (\<lambda>s. Some (Go_on, s))" by (rule does_keep) simp
  from does_more [OF this, of K] does_then [OF does_call [OF assms] does_update] show ?thesis
    unfolding query_unless_def [abs_def] by (intro does_if) auto
qed

lemma runs_start: "evolves env [] s t \<Longrightarrow> runs env K t r \<Longrightarrow> runs env K s r"
  unfolding runs_def using evolves_after by blast

lemma runs_open: "runs env [[Some MBIM_OPEN_MSG]] s (mbim_open_device env n s)"
  unfolding runs_def
proof (intro allI impI)
  fix x s' assume "mbim_open_device env n s = Some (x, s')"
  then obtain err p t where t: "mbim_send_command env (compose_open_command (mbim_tid s) n) (next_tid s) = Some (err, p, t)"
    "mbim_check_err (err, p, t) (\<lambda>m s. do { v \<leftarrow> get32 m 0 MBIM_OPEN_DONE_T ''Status''; Some (sint v, s) }) = Some (x, s')"
    by (auto simp: mbim_open_device_def)
  have e: "evolves env [[Some MBIM_OPEN_MSG]] s t" by (rule send_evolves [OF t(1)]) (rule sent_open)
  obtain u where u: "evolves env [] t u" "states u = states t" "effects u = effects t" "s' = u \<or> (\<exists>m. p = PLive m \<and> err = 0
      \<and> do { v \<leftarrow> get32 m 0 MBIM_OPEN_DONE_T ''Status''; Some (sint v, u) } = Some (x, s'))"
    by (rule check_err_cases [OF t(2)])
  then show "evolves env [[Some MBIM_OPEN_MSG]] s s'" using evolves_then [OF e] by auto
qed

lemma runs_close: "runs env [[Some MBIM_CLOSE_MSG]] s (mbim_close_device env s)"
  unfolding runs_def
proof (intro allI impI)
  fix x s' assume "mbim_close_device env s = Some (x, s')"
  then obtain err p t where t: "mbim_send_command env (compose_close_command (mbim_tid s)) (next_tid s) = Some (err, p, t)"
    "mbim_check_err (err, p, t) (\<lambda>m s. do { v \<leftarrow> get32 m 0 MBIM_CLOSE_DONE_T ''Status''; Some (sint v, s) }) = Some (x, s')"
    by (auto simp: mbim_close_device_def)
  have e: "evolves env [[Some MBIM_CLOSE_MSG]] s t" by (rule send_evolves [OF t(1)]) (rule sent_close)
  obtain u where u: "evolves env [] t u" "states u = states t" "effects u = effects t" "s' = u \<or> (\<exists>m. p = PLive m \<and> err = 0
      \<and> do { v \<leftarrow> get32 m 0 MBIM_CLOSE_DONE_T ''Status''; Some (sint v, u) } = Some (x, s'))"
    by (rule check_err_cases [OF t(2)])
  then show "evolves env [[Some MBIM_CLOSE_MSG]] s s'" using evolves_then [OF e] by auto
qed

lemma does_open: "does env [[Some MBIM_OPEN_MSG], a_command MBIM_CID_DEVICE_CAPS 0] (open_stage env)"
  unfolding does_def runs_def
proof (intro allI impI)
  fix s f s' assume s: "fits env s" "open_stage env s = Some (f, s')"
  let ?K = "[[Some MBIM_OPEN_MSG]]" and ?L = "[a_command MBIM_CID_DEVICE_CAPS 0]"
  let ?s = "s\<lparr>effects := effects s @ mbim_ifconfig_down (mbim_netcard s), mbim_tid := 1\<rparr>"
  show "evolves env [[Some MBIM_OPEN_MSG], a_command MBIM_CID_DEVICE_CAPS 0] s s'"
  proof (cases "mbim_open_state s = 0")
    case False
    then show ?thesis using s(2) by (auto simp: open_stage_def intro!: evolves_keep)
  next
    case True
    obtain g t where t: "call (mbim_open_device env 4096 ?s) = Some (g, t)"
      "(if g \<noteq> Go_on then Some (g, t)
        else call (mbim_device_caps_query env (mbim_reset_state (t\<lparr>mbim_open_state := 1\<rparr>)))) = Some (f, s')"
      using s(2) True by (auto simp: open_stage_def Let_def)
    have "evolves env [] s ?s" by (rule evolves_keep) (simp_all add: settings_def stopped_def)
    then have st: "evolves env ?K s t" using runs_call [OF runs_open] t(1) evolves_after unfolding runs_def by blast
    show ?thesis
    proof (cases "g = Go_on")
      case False
      then have "s' = t" using t(2) by simp
      then show ?thesis using evolves_more [OF st] by simp
    next
      case True
      let ?t = "mbim_reset_state (t\<lparr>mbim_open_state := 1\<rparr>)"
      have tt: "evolves env [] t ?t" by (rule evolves_keep) (simp_all add: settings_def stopped_def mbim_reset_state_def)
      have "evolves env ?K s ?t" by (rule evolves_then [OF st tt])
      moreover have "runs env ?L ?t (call (mbim_device_caps_query env ?t))"
        by (rule runs_call, rule runs_queries) (rule fits_kept [OF fits_kept [OF s(1) st] tt])
      ultimately show ?thesis using t(2) True evolves_trans [of env ?K s ?t ?L s'] by (simp add: runs_def)
    qed
  qed
qed

lemma does_go_on: "does env [] (\<lambda>s. Some (Go_on, s))"
  by (rule does_keep) simp

lemma does_attach: "does env [a_command MBIM_CID_PACKET_SERVICE 0, a_command MBIM_CID_PACKET_SERVICE 1] (attach_stage env)"
proof -
  have "does env [a_command MBIM_CID_PACKET_SERVICE 1]
      (\<lambda>s. if PacketServiceState s = MBIMPacketServiceStateDetached then call (mbim_packet_service_set env s) else Some (Go_on, s))"
    by (intro does_if does_call runs_queries does_more [OF does_go_on]) auto
  from does_then [OF does_call [OF runs_queries(4)] does_then [OF does_update does_then [OF this does_update]]]
  have d: "does env [a_command MBIM_CID_PACKET_SERVICE 0, a_command MBIM_CID_PACKET_SERVICE 1]
    (then_stage (\<lambda>s. call (mbim_packet_service_query env s)) (then_stage update_stage
        (then_stage (\<lambda>s. if PacketServiceState s = MBIMPacketServiceStateDetached
             then call (mbim_packet_service_set env s) else Some (Go_on, s)) update_stage)))" by simp
  show ?thesis unfolding attach_stage_def [abs_def] by (rule does_if [OF does_more [OF does_go_on] d]) simp
qed

definition turn_kinds :: "u32 option list list" where
  "turn_kinds = [[Some MBIM_OPEN_MSG], a_command MBIM_CID_DEVICE_CAPS 0, a_command MBIM_CID_SUBSCRIBER_READY_STATUS 0,
     a_command MBIM_CID_REGISTER_STATE 0, a_command MBIM_CID_PACKET_SERVICE 0, a_command MBIM_CID_PACKET_SERVICE 1,
     a_command MBIM_CID_CONNECT 0, a_command MBIM_CID_CONNECT 1, a_command MBIM_CID_IP_CONFIGURATION 0]"

lemma does_connect: "does env [a_command MBIM_CID_CONNECT 1, a_command MBIM_CID_IP_CONFIGURATION 0] (connect_stage env sid)"
  unfolding does_def runs_def
proof (intro allI impI)
  fix s f s' assume s: "fits env s" "connect_stage env sid s = Some (f, s')"
  let ?K = "[a_command MBIM_CID_CONNECT 1]" and ?L = "[a_command MBIM_CID_IP_CONFIGURATION 0]"
  have set: "does env ?K (then_stage (\<lambda>s. call (mbim_set_connect env True sid s)) update_stage)"
    using does_then [OF does_call [OF runs_connect(2)] does_update] by simp
  have conf: "does env ?L (then_stage (\<lambda>s. call (mbim_ip_config env sid s)) update_stage)"
    using does_then [OF does_call [OF runs_connect(3)] does_update] by simp
  show "evolves env [a_command MBIM_CID_CONNECT 1, a_command MBIM_CID_IP_CONFIGURATION 0] s s'"
  proof (cases "active s")
    case True
    then show ?thesis using s(2) by (auto simp: connect_stage_def intro!: evolves_keep)
  next
    case False
    obtain g t where t: "then_stage (\<lambda>s. call (mbim_set_connect env True sid s)) update_stage s = Some (g, t)"
      "s' = t \<or> (\<exists>h. then_stage (\<lambda>s. call (mbim_ip_config env sid s)) update_stage t = Some (h, s'))"
      using s(2) False by (auto simp: connect_stage_def split: if_splits)
    have st: "evolves env ?K s t" using set s(1) t(1) unfolding does_def runs_def by blast
    have "s' = t \<or> evolves env ?L t s'"
      using t(2) conf fits_kept [OF s(1) st] unfolding does_def runs_def by blast
    then show ?thesis using evolves_trans [OF st, of ?L s'] evolves_more [OF st] by auto
  qed
qed

lemma does_turn: "does env turn_kinds (mbim_turn env sid)"
proof -
  have "does env ([[Some MBIM_OPEN_MSG], a_command MBIM_CID_DEVICE_CAPS 0] @ [a_command MBIM_CID_SUBSCRIBER_READY_STATUS 0] @ []
      @ [a_command MBIM_CID_REGISTER_STATE 0] @ [] @ [a_command MBIM_CID_PACKET_SERVICE 0, a_command MBIM_CID_PACKET_SERVICE 1]
      @ [] @ [a_command MBIM_CID_CONNECT 0] @ [a_command MBIM_CID_CONNECT 1, a_command MBIM_CID_IP_CONFIGURATION 0])
      (mbim_turn env sid)"
    unfolding mbim_turn_def
    by (intro does_then does_open does_query does_wait does_attach does_connect runs_queries runs_connect)
  then show ?thesis by (simp add: turn_kinds_def)
qed

section \<open>The guards of a turn\<close>

text \<open>Nothing but the answers changes the states, so what a guard has seen still holds behind the later parts.\<close>

definition gate :: "(mbim \<Rightarrow> bool) \<Rightarrow> stage \<Rightarrow> (mbim \<Rightarrow> bool) \<Rightarrow> bool" where
  "gate P a Q \<longleftrightarrow> (\<forall>s s'. P s \<and> a s = Some (Go_on, s') \<longrightarrow> Q s')"

definition guarded :: "period_env \<Rightarrow> (mbim \<Rightarrow> bool) \<Rightarrow> stage \<Rightarrow> u32 option list list \<Rightarrow> (mbim \<Rightarrow> bool) \<Rightarrow> bool" where
  "guarded env P a K Q \<longleftrightarrow> (\<forall>s f s'. P s \<and> fits env s \<and> a s = Some (f, s') \<longrightarrow> evolves env K s s' \<or> Q s')"

lemma guarded_then:
  assumes "does env K a" "gate P a R" "guarded env R b L Q"
  shows "guarded env P (then_stage a b) (K @ L) Q"
  unfolding guarded_def
proof (intro allI impI)
  fix s f s' assume s: "P s \<and> fits env s \<and> then_stage a b s = Some (f, s')"
  then have "then_stage a b s = Some (f, s')" by simp
  then show "evolves env (K @ L) s s' \<or> Q s'"
  proof (cases rule: then_cases)
    case stops
    then have "evolves env K s s'" using assms(1) s unfolding does_def runs_def by blast
    then show ?thesis using evolves_more subseq_prefix by blast
  next
    case (goes t)
    then have st: "evolves env K s t" using assms(1) s unfolding does_def runs_def by blast
    have "R t" using assms(2) goes(1) s unfolding gate_def by blast
    then have "evolves env L t s' \<or> Q s'"
      using assms(3) goes(2) fits_kept [OF _ st] s unfolding guarded_def by blast
    then show ?thesis using evolves_trans [OF st] by blast
  qed
qed

lemma gate_wait: "gate P (wait_unless Q) (\<lambda>s. P s \<and> Q s)"
  by (auto simp: gate_def wait_unless_def split: if_splits)

lemma gate_any: "gate P a (\<lambda>_. True)"
  by (simp add: gate_def)

abbreviation may_connect :: "mbim \<Rightarrow> bool" where
  "may_connect s \<equiv> (sim_ready s \<and> net_registered s) \<and> attached s"

text \<open>A part keeps a field of the states, whether it goes on or not.\<close>

definition spares :: "(mbim \<Rightarrow> 'a) \<Rightarrow> stage \<Rightarrow> bool" where
  "spares F a \<longleftrightarrow> (\<forall>s f s'. a s = Some (f, s') \<longrightarrow> F s' = F s)"

lemma spares_then: "spares F a \<Longrightarrow> spares F b \<Longrightarrow> spares F (then_stage a b)"
  unfolding spares_def by (metis then_cases)

lemma spares_gate: "spares F a \<Longrightarrow> gate (\<lambda>s. G (F s)) a (\<lambda>s. G (F s))"
  unfolding spares_def gate_def by metis

definition spares_result :: "(mbim \<Rightarrow> 'a) \<Rightarrow> mbim \<Rightarrow> (int \<times> mbim) option \<Rightarrow> bool" where
  "spares_result F s r \<longleftrightarrow> (\<forall>x s'. r = Some (x, s') \<longrightarrow> F s' = F s)"

lemma spares_basic:
  assumes "quiet env" "\<And>m t t'. k m t = Some t' \<Longrightarrow> F t' = F t" "\<And>s t. states s = states t \<Longrightarrow> F s = F t"
  shows "spares_result F s (basic_command env CID CommandType info k s)"
  unfolding spares_result_def
proof (intro allI impI)
  fix x s' assume r: "basic_command env CID CommandType info k s = Some (x, s')"
  obtain t where "states t = states s" "s' = t \<or> (\<exists>m. k m t = Some s')"
    using basic_cases [OF r] assms(1) by metis
  then show "F s' = F s" using assms(2,3) by metis
qed

lemma spares_call: "(\<And>s. spares_result F s (q s)) \<Longrightarrow> spares F (\<lambda>s. call (q s))"
  by (auto simp: spares_def spares_result_def call_def)

lemma spares_update: "(\<And>s t. states s = states t \<Longrightarrow> F s = F t) \<Longrightarrow> spares F update_stage"
proof -
  assume F: "\<And>s t. states s = states t \<Longrightarrow> F s = F t"
  have "states (updated s) = states s" for s by (simp add: mbim_update_state_def states_def)
  then have "F (updated s) = F s" for s by (rule F)
  then show ?thesis by (simp add: spares_def update_stage_def)
qed

lemma spares_if: "spares F a \<Longrightarrow> spares F b \<Longrightarrow> spares F (\<lambda>s. if P s then a s else b s)"
  by (simp add: spares_def)

lemma spares_go_on: "spares F (\<lambda>s. Some (f, s))"
  by (simp add: spares_def)

lemma spares_query:
  "(\<And>s. spares_result F s (q s)) \<Longrightarrow> (\<And>s t. states s = states t \<Longrightarrow> F s = F t) \<Longrightarrow> spares F (query_unless P q)"
  unfolding query_unless_def [abs_def] by (intro spares_if spares_go_on spares_then spares_call spares_update)

lemma spares_register: "quiet env \<Longrightarrow> spares ReadyState (query_unless P (mbim_register_state_query env))"
  unfolding mbim_register_state_query_def [abs_def]
  by (intro spares_query spares_basic) (auto simp: states_def)

lemma spares_attach: "quiet env \<Longrightarrow> spares (\<lambda>s. (ReadyState s, RegisterState s)) (attach_stage env)"
  unfolding attach_stage_def [abs_def] mbim_packet_service_query_def mbim_packet_service_set_def
  by (intro spares_if spares_go_on spares_then spares_call spares_update spares_basic)
    (auto simp: states_def note_packet_service_def)

abbreviation guards :: "mbim \<Rightarrow> u32 \<times> u32 \<times> u32" where
  "guards s \<equiv> (ReadyState s, RegisterState s, PacketServiceState s)"

lemma spares_info:
  "(\<And>info. spares_result F s (f info)) \<Longrightarrow> spares_result F s (do { info \<leftarrow> X; f info })"
  by (auto simp: spares_result_def)

lemma spares_connecting:
  assumes "quiet env"
  shows "spares_result guards s (mbim_query_connect env sid s)" "spares_result guards s (mbim_set_connect env onoff sid s)"
    "spares_result guards s (mbim_ip_config env sid s)"
  unfolding mbim_query_connect_def mbim_set_connect_def mbim_ip_config_def
  by (intro spares_info spares_basic [OF assms]; auto simp: states_def note_activation_def)+

lemma spares_query_connect: "quiet env \<Longrightarrow> spares guards (query_unless P (mbim_query_connect env sid))"
  by (intro spares_query spares_connecting) (auto simp: states_def)

lemma spares_connect:
  assumes "quiet env"
  shows "spares guards (connect_stage env sid)"
  unfolding spares_def
proof (intro allI impI)
  fix s f s' assume s: "connect_stage env sid s = Some (f, s')"
  have set: "spares guards (then_stage (\<lambda>s. call (mbim_set_connect env True sid s)) update_stage)"
    and conf: "spares guards (then_stage (\<lambda>s. call (mbim_ip_config env sid s)) update_stage)"
    by (intro spares_then spares_call spares_update spares_connecting assms; simp add: states_def)+
  show "guards s' = guards s"
  proof (cases "active s")
    case False
    then obtain g t where t: "then_stage (\<lambda>s. call (mbim_set_connect env True sid s)) update_stage s = Some (g, t)"
      "s' = t \<or> (\<exists>h. then_stage (\<lambda>s. call (mbim_ip_config env sid s)) update_stage t = Some (h, s'))"
      using s by (auto simp: connect_stage_def split: if_splits)
    then show ?thesis using set conf unfolding spares_def by metis
  qed (use s in \<open>simp add: connect_stage_def\<close>)
qed

lemma guarded_turn:
  assumes "quiet env"
  shows "guarded env (\<lambda>_. True) (mbim_turn env sid) (take 7 turn_kinds) may_connect"
proof -
  have ready: "gate sim_ready (query_unless P (mbim_register_state_query env)) sim_ready" for P
    using spares_gate [OF spares_register [OF assms]] unfolding sim_ready_def .
  have known: "gate (\<lambda>s. sim_ready s \<and> net_registered s) (attach_stage env) (\<lambda>s. sim_ready s \<and> net_registered s)"
    using spares_gate [OF spares_attach [OF assms], of "\<lambda>(a, b). a = 1 \<and> (b = 3 \<or> b = 4)"]
    by (simp add: sim_ready_def net_registered_def)
  have may: "gate may_connect (query_unless P (mbim_query_connect env sid)) may_connect" for P
    using spares_gate [OF spares_query_connect [OF assms], of "\<lambda>(a, b, c). (a = 1 \<and> (b = 3 \<or> b = 4)) \<and> c = 2"]
    by (simp add: sim_ready_def net_registered_def attached_def)
  have conn: "guarded env may_connect (connect_stage env sid) [] may_connect"
    using spares_connect [OF assms, of sid] unfolding guarded_def spares_def sim_ready_def net_registered_def attached_def
    by (metis prod.inject)
  have first: "gate (\<lambda>_. True) (wait_unless Q) Q" for Q using gate_wait [of "\<lambda>_. True" Q] by simp
  have "guarded env (\<lambda>_. True) (mbim_turn env sid)
    ([[Some MBIM_OPEN_MSG], a_command MBIM_CID_DEVICE_CAPS 0] @ [a_command MBIM_CID_SUBSCRIBER_READY_STATUS 0] @ []
      @ [a_command MBIM_CID_REGISTER_STATE 0] @ [] @ [a_command MBIM_CID_PACKET_SERVICE 0, a_command MBIM_CID_PACKET_SERVICE 1]
      @ [] @ [a_command MBIM_CID_CONNECT 0] @ []) may_connect"
    unfolding mbim_turn_def
    by (rule guarded_then [OF does_open gate_any] guarded_then [OF does_query gate_any] guarded_then [OF does_wait first]
      guarded_then [OF does_query ready] guarded_then [OF does_wait gate_wait] guarded_then [OF does_attach known]
      guarded_then [OF does_query may] runs_queries runs_connect conn | assumption)+
  then show ?thesis by (simp add: turn_kinds_def)
qed

text \<open>
  C6: The commands of a turn go out in a fixed order, each at most once: open the function, ask for the
  capabilities, the subscriber, the registration and the packet service, attach, ask for the connection,
  connect, ask for the addresses. When the states change by answers only, the connection is asked for only
  while the subscriber is ready and the modem is registered and attached.
\<close>
theorem turn_order:
  assumes "mbim_turn env sessionID s = Some (f, s')" "fits env s"
  shows "\<exists>ms. written s' = written s @ ms \<and> subseq (map kind ms) turn_kinds
    \<and> (quiet env \<and> a_command MBIM_CID_CONNECT 1 \<in> set (map kind ms) \<longrightarrow> sim_ready s' \<and> net_registered s' \<and> attached s')"
proof -
  obtain ms where ms: "written s' = written s @ ms" "subseq (map kind ms) turn_kinds"
    using does_turn assms unfolding does_def runs_def evolves_def by blast
  have "sim_ready s' \<and> net_registered s' \<and> attached s'" if q: "quiet env" "a_command MBIM_CID_CONNECT 1 \<in> set (map kind ms)"
  proof (rule ccontr)
    assume "\<not> ?thesis"
    then have "evolves env (take 7 turn_kinds) s s'" using guarded_turn [OF q(1)] assms unfolding guarded_def by blast
    then have "subseq (map kind ms) (take 7 turn_kinds)" using ms(1) by (auto simp: evolves_def)
    then have "a_command MBIM_CID_CONNECT 1 \<in> set (take 7 turn_kinds)" using list_emb_set [OF _ q(2)] by blast
    then show False by (simp add: turn_kinds_def)
  qed
  with ms show ?thesis by blast
qed

definition silent :: period_env where
  "silent k = \<lparr>reads = [], spurious = False, behind = [], write_ret = None, garbage_of = replicate 60 0\<rparr>"

definition attached_mbim :: mbim where
  "attached_mbim = mbim_static\<lparr>mbim_fd := 5, read_tid := True, mbim_open_state := 1, ReadyState := 1, RegisterState := 3,
     PacketServiceState := 2, ActivationState := 3\<rparr>"

lemma attached_turn:
  "\<exists>s' m. mbim_turn silent 0 attached_mbim = Some (Leave_main, s') \<and> written s' = [m] \<and> kind m = a_command MBIM_CID_CONNECT 1"
proof -
  let ?b = "replicate 60 (0 :: byte)"
  obtain u where u: "str2uuid UUID_BASIC_CONNECT = Some u" "length u = 16" using basic_uuid by blast
  have b: "mbim_populate_connect_data None None None = Some ?b"
    by (simp add: mbim_populate_connect_data_def put_connect_str_def str_size_def get32_def rd32_Some)
  obtain info where info: "set_connect_request 0 1 0 0 ?b = Some info" "length info = 60"
    using set_connect_result [of ?b 0 1 0 0 "[]"] by auto
  define req where "req = le32 3 @ le32 108 @ le32 1 @ le32 1 @ le32 0 @ u @ le32 12 @ le32 1 @ le32 60 @ info"
  have req: "compose_basic_connect_command 1 12 1 info = Some req" using u(1) info(2)
    by (simp add: compose_basic_connect_command_def req_def)
  have rd: "rd32 req 4 = Some 108" "rd32 req 0 = Some 3" "rd32 req 36 = Some 12" "rd32 req 40 = Some 1"
    and n: "length req = 108"
    using u(2) info(2) by (simp_all add: req_def rd32_past)
  have send: "mbim_send_command silent req (next_tid attached_mbim)
      = Some (ETIMEDOUT, PNull, attached_mbim\<lparr>mbim_tid := 2, periods := 1, written := [req]\<rparr>)"
    using rd(1) n by (simp add: mbim_send_command_def silent_def attached_mbim_def mbim_static_def next_tid_def get32_def
      rdn_def wait_response_def)
  have "mbim_set_connect silent True 0 attached_mbim = Some (ETIMEDOUT, attached_mbim\<lparr>mbim_tid := 2, periods := 1, written := [req]\<rparr>)"
    using b info req send by (simp add: mbim_set_connect_def basic_command_def mbim_check_err_def mbim_status_code_def
      attached_mbim_def mbim_static_def)
  then have "mbim_turn silent 0 attached_mbim = Some (Leave_main, attached_mbim\<lparr>mbim_tid := 2, periods := 1, written := [req]\<rparr>)"
    by (simp add: mbim_turn_def then_stage_def open_stage_def query_unless_def wait_unless_def attach_stage_def
      connect_stage_def call_def sim_ready_def net_registered_def attached_def active_def attached_mbim_def mbim_static_def)
  then show ?thesis using rd by (simp add: kind_def)
qed

theorem turn_order_witness:
  "\<exists>s' m. mbim_turn silent 0 attached_mbim = Some (Leave_main, s') \<and> written s' = [m] \<and> kind m = a_command MBIM_CID_CONNECT 1
    \<and> subseq [kind m] turn_kinds \<and> sim_ready s' \<and> net_registered s' \<and> attached s'"
proof -
  obtain s' m where r: "mbim_turn silent 0 attached_mbim = Some (Leave_main, s')" "written s' = [m]"
    "kind m = a_command MBIM_CID_CONNECT 1"
    using attached_turn by blast
  have "fits silent attached_mbim" "quiet silent" "written attached_mbim = []"
    by (simp_all add: fits_def quiet_def silent_def attached_mbim_def mbim_static_def plain_str_def str_text_def)
  with turn_order [OF r(1)] r show ?thesis by auto
qed

section \<open>The end of the loop\<close>

definition ends_in :: "period_env \<Rightarrow> nat \<Rightarrow> bool" where
  "ends_in env k \<longleftrightarrow> (\<exists>e \<in> set (reads (env k)). ending e)"

definition ends_within :: "period_env \<Rightarrow> nat \<Rightarrow> mbim \<Rightarrow> bool" where
  "ends_within env n s \<longleftrightarrow> stopped s \<or> (\<exists>k. ends_in env k \<and> periods s \<le> k \<and> k + 1 < periods s + n)"

lemma ends_later:
  assumes "ends_within env (Suc n) s" "progress env s t" "periods s < periods t" "\<not> stopped s"
  shows "ends_within env n t \<and> 0 < n"
proof -
  obtain k where k: "ends_in env k" "periods s \<le> k" "k + 1 < periods s + Suc n" using assms(1,4) by (auto simp: ends_within_def)
  have "stopped t" if "k < periods t" using assms(2) k that unfolding progress_def ends_in_def by blast
  then show ?thesis using k assms(3) unfolding ends_within_def by (cases "k < periods t") auto
qed

lemma updated_simps [simp]: "periods (updated s) = periods s" "stopped (updated s) = stopped s" "settings (updated s) = settings s"
  "written (updated s) = written s"
  by (simp_all add: mbim_update_state_def stopped_def settings_def)

lemma evolves_updated: "evolves env [] s (updated s)"
  by (rule evolves_keep) simp_all

lemma wait_evolves:
  assumes "wait_state_change env s = Some (r, s')"
  shows "evolves env [] s s' \<and> periods s' = Suc (periods s)"
proof -
  have "run_steps mbim_read_thread (reads (env (periods s))) (s\<lparr>state_signal := False, periods := Suc (periods s)\<rparr>) = Some s'"
    using assms by (auto simp: wait_state_change_def Let_def)
  from reads_rel [OF this] have "settings s' = settings s" "written s' = written s"
    using main_partD by (auto simp: reader_rel_def main_part_def settings_def)
  then show ?thesis using wait_progress [OF assms] by (auto simp: evolves_def)
qed

lemma settle_evolves: "settle env n s = Some (over, s') \<Longrightarrow> evolves env [] s s'"
proof (induction n arbitrary: s)
  case 0
  then show ?case by (auto intro: evolves_keep)
next
  case (Suc n)
  show ?case
  proof (cases "mbim_quit (updated s) = 0 \<and> read_tid (updated s)")
    case True
    then obtain r t where t: "wait_state_change env (updated s) = Some (r, t)"
      "(if r \<noteq> ETIMEDOUT then settle env n t else Some (True, t)) = Some (over, s')"
      using Suc.prems by (auto simp: Let_def)
    have p: "evolves env [] s t" using wait_evolves [OF t(1)] evolves_then [OF evolves_updated] by blast
    have "s' = t \<or> evolves env [] t s'" using t(2) Suc.IH by (auto split: if_splits)
    then show ?thesis using evolves_then [OF p] p by blast
  next
    case False
    then have "s' = updated s" using Suc.prems by (auto simp: Let_def)
    then show ?thesis using evolves_updated by simp
  qed
qed

lemma settle_ends: "settle env n s = Some (over, s') \<Longrightarrow> 0 < n \<Longrightarrow> ends_within env n s \<Longrightarrow> over"
proof (induction n arbitrary: s)
  case (Suc n)
  show ?case
  proof (cases "mbim_quit (updated s) = 0 \<and> read_tid (updated s)")
    case True
    then obtain r t where t: "wait_state_change env (updated s) = Some (r, t)"
      "(if r \<noteq> ETIMEDOUT then settle env n t else Some (True, t)) = Some (over, s')"
      using Suc.prems(1) by (auto simp: Let_def)
    have p: "progress env s t" "periods s < periods t"
      using wait_evolves [OF t(1)] evolves_then [OF evolves_updated, of env s t] by (auto simp: evolves_def)
    have "\<not> stopped (updated s)" using True by (simp add: stopped_def del: updated_simps)
    then have "\<not> stopped s" by simp
    then have "ends_within env n t \<and> 0 < n" by (rule ends_later [OF Suc.prems(3) p])
    then show ?thesis using t(2) Suc.IH by (auto split: if_splits)
  qed (use Suc.prems(1) in \<open>auto simp: Let_def\<close>)
qed simp

lemma loop_over:
  "mbim_loop env sid n s = Some (over, s') \<Longrightarrow> 0 < n \<Longrightarrow> fits env s \<Longrightarrow> ends_within env n s \<Longrightarrow> over"
proof (induction n arbitrary: s)
  case (Suc n)
  show ?case
  proof (cases "mbim_quit s = 0 \<and> read_tid s")
    case True
    then obtain f t where t: "mbim_turn env sid s = Some (f, t)"
      "(if f = Leave_main then Some (True, t) else do { (_, u) \<leftarrow> wait_state_change env t; (over, v) \<leftarrow> settle env (Suc n) u;
          if over then mbim_loop env sid n v else Some (False, v) }) = Some (over, s')"
      using Suc.prems(1) by auto
    have st: "evolves env turn_kinds s t" using does_turn Suc.prems(3) t(1) unfolding does_def runs_def by blast
    show ?thesis
    proof (cases "f = Leave_main")
      case False
      then obtain r u over' v where u: "wait_state_change env t = Some (r, u)" "settle env (Suc n) u = Some (over', v)"
        "(if over' then mbim_loop env sid n v else Some (False, v)) = Some (over, s')"
        using t(2) by auto
      have w: "evolves env [] t u" "periods u = Suc (periods t)" using wait_evolves [OF u(1)] by auto
      note eu = evolves_then [OF st w(1)] and ev = evolves_then [OF evolves_then [OF st w(1)] settle_evolves [OF u(2)]]
      have su: "progress env s u" "periods s < periods u" and sv: "progress env s v" "periods s < periods v"
        using st eu ev w(2) settle_evolves [OF u(2)] by (auto simp: evolves_def progress_def)
      have "\<not> stopped s" using True by (simp add: stopped_def)
      note later = ends_later [OF Suc.prems(4) su this] ends_later [OF Suc.prems(4) sv this]
      have "ends_within env (Suc n) u" using later(1) by (auto simp: ends_within_def)
      then have "over'" using settle_ends [OF u(2)] by simp
      moreover have "fits env v" by (rule fits_kept [OF Suc.prems(3) ev])
      moreover have "over' \<Longrightarrow> mbim_loop env sid n v = Some (over, s')" using u(3) by simp
      ultimately show ?thesis using Suc.IH later(2) by blast
    qed (use t(2) in simp)
  qed (use Suc.prems(1) in auto)
qed simp

section \<open>The exit\<close>

lemma basic_effects:
  assumes "basic_command env CID CommandType info k s = Some (x, s')" "\<And>m t t'. k m t = Some t' \<Longrightarrow> effects t' = effects t"
  shows "effects s' = effects s"
proof -
  obtain t where "effects t = effects s" "s' = t \<or> (\<exists>m. k m t = Some s')" using basic_cases [OF assms(1)] by metis
  then show ?thesis using assms(2) by metis
qed

lemma set_connect_effects: "mbim_set_connect env onoff sid s = Some (x, s') \<Longrightarrow> effects s' = effects s"
  unfolding mbim_set_connect_def bind_Some_iff
  by (elim exE conjE, erule basic_effects) (auto simp: note_activation_def)

lemma close_effects:
  assumes "mbim_close_device env s = Some (x, s')"
  shows "effects s' = effects s"
proof -
  obtain err p t where t: "mbim_send_command env (compose_close_command (mbim_tid s)) (next_tid s) = Some (err, p, t)"
    "mbim_check_err (err, p, t) (\<lambda>m s. do { v \<leftarrow> get32 m 0 MBIM_CLOSE_DONE_T ''Status''; Some (sint v, s) }) = Some (x, s')"
    using assms by (auto simp: mbim_close_device_def)
  obtain u where u: "evolves env [] t u" "states u = states t" "effects u = effects t" "s' = u \<or> (\<exists>m. p = PLive m \<and> err = 0
      \<and> do { v \<leftarrow> get32 m 0 MBIM_CLOSE_DONE_T ''Status''; Some (sint v, u) } = Some (x, s'))"
    by (rule check_err_cases [OF t(2)])
  have "effects t = effects s" using send_result [OF t(1)] by (simp add: next_tid_def)
  with u show ?thesis by auto
qed


text \<open>
  C18: The program ends: when a signal to end, a hang-up or an error of poll comes during the wait \<open>k\<close>, then
  \<open>k + 2\<close> rounds of the loop are enough, whatever else is read; the program returns 0 and the reader is gone.
\<close>
theorem main_ends:
  assumes "mbim_main env n fd p = Some (r, s')" "ends_in env k" "k + 1 < n" "fits env (mbim_setup p mbim_static)"
  shows "r = Some 0 \<and> \<not> read_tid s'"
proof (cases "fd \<le> 0")
  case True
  then show ?thesis using assms(1) by (auto simp: mbim_main_def mbim_setup_def mbim_static_def Let_def)
next
  case False
  let ?s = "(mbim_setup p mbim_static)\<lparr>mbim_fd := fd, read_tid := True, mbim_open_state := 0\<rparr>"
  obtain over t where t: "mbim_loop env 0 n ?s = Some (over, t)"
    "(if \<not> over then Some (None, t) else do { s \<leftarrow> mbim_exit env 0 t; Some (Some 0, s) }) = Some (r, s')"
    using assms(1) False by (auto simp: mbim_main_def Let_def)
  have "fits env ?s" using assms(4) by (simp add: fits_def)
  moreover have "ends_within env n ?s" using assms(2,3) by (auto simp: ends_within_def mbim_setup_def mbim_static_def)
  ultimately have over using loop_over [OF t(1)] assms(3) by simp
  then have e: "mbim_exit env 0 t = Some s'" "r = Some 0" using t(2) by auto
  have "\<not> read_tid s'"
    using e(1) by (auto simp: mbim_exit_def reader_exit_def mbim_recv_command_def split: if_splits)
  with e show ?thesis by simp
qed

lemma close_at_timeout:
  assumes "mbim_fd s = 5" "env (periods s) = \<lparr>reads = es, spurious = False, behind = b, write_ret = None, garbage_of = g\<rparr>"
    "es = [] \<or> es = [Kill 15]" "cmd_signal s = False" "mbim_pResponse s = None"
  shows "mbim_close_device env s = Some (ETIMEDOUT, s\<lparr>mbim_tid := mbim_tid s + 1, periods := Suc (periods s),
      mbim_pRequest := None,
      mbim_quit := (if es = [] then mbim_quit s else Suc (mbim_quit s)), state_signal := (es \<noteq> [] \<or> state_signal s),
      written := written s @ [compose_close_command (mbim_tid s)]\<rparr>)"
proof -
  have "rd32 (compose_close_command (mbim_tid s)) 4 = Some 12" "length (compose_close_command (mbim_tid s)) = 12"
    by (simp_all add: compose_close_command_def rd32_past)
  then show ?thesis using assms
    by (cases s) (auto simp: mbim_close_device_def mbim_send_command_def get32_def rdn_def wait_response_def next_tid_def
      mbim_read_thread_def mbim_sigaction_def mbim_check_err_def mbim_status_code_def)
qed


definition interrupted :: period_env where
  "interrupted k = \<lparr>reads = [Kill 15], spurious = False, behind = replicate 32 0, write_ret = None, garbage_of = replicate 60 0\<rparr>"

lemma interrupted_main: "\<exists>r s'. mbim_main interrupted 2 5 zero_profile = Some (r, s')"
proof -
  let ?s = "(mbim_setup zero_profile mbim_static)\<lparr>mbim_fd := 5, read_tid := True, mbim_open_state := 0\<rparr>"
  let ?d = "mbim_ifconfig_down (mbim_netcard ?s)"
  let ?req = "compose_open_command 1 4096"
  have r: "rd32 ?req 4 = Some 48" "length ?req = 16" by (simp_all add: compose_open_command_def rd32_past)
  obtain t where t: "mbim_open_device interrupted 4096 (?s\<lparr>effects := effects ?s @ ?d, mbim_tid := 1\<rparr>) = Some (ETIMEDOUT, t)"
    "t = ?s\<lparr>effects := effects ?s @ ?d, mbim_tid := 2, periods := 1, mbim_quit := 1, state_signal := True,
       written := [take 48 (?req @ replicate 32 0)]\<rparr>"
    using r by (simp add: mbim_open_device_def mbim_send_command_def interrupted_def get32_def rdn_def wait_response_def
      next_tid_def mbim_read_thread_def mbim_sigaction_def mbim_check_err_def mbim_status_code_def mbim_setup_def mbim_static_def)
  have "mbim_turn interrupted 0 ?s = Some (Leave_main, t)"
    using t(1) by (simp add: mbim_turn_def then_stage_def open_stage_def call_def mbim_setup_def mbim_static_def Let_def)
  then have l: "mbim_loop interrupted 0 2 ?s = Some (True, t)"
    by (simp add: numeral_2_eq_2 mbim_setup_def mbim_static_def)
  have c: "mbim_fd t = 5" "cmd_signal t = False" "mbim_pResponse t = None"
    using t(2) by (simp_all add: mbim_setup_def mbim_static_def)
  have "\<exists>s'. mbim_exit interrupted 0 t = Some s'"
    using close_at_timeout [OF c(1) interrupted_def _ c(2,3)] t(2)
    by (auto simp: mbim_exit_def active_def mbim_setup_def mbim_static_def reader_exit_def mbim_recv_command_def mbim_sigaction_def)
  then show ?thesis using l by (auto simp: mbim_main_def Let_def)
qed

theorem main_ends_witness:
  "\<exists>s'. mbim_main interrupted 2 5 zero_profile = Some (Some 0, s') \<and> \<not> read_tid s'"
proof -
  obtain r s' where m: "mbim_main interrupted 2 5 zero_profile = Some (r, s')" using interrupted_main by blast
  have "ends_in interrupted 0" "fits interrupted (mbim_setup zero_profile mbim_static)"
    by (simp_all add: ends_in_def ending_def interrupted_def fits_def mbim_setup_def mbim_static_def zero_profile_def
      plain_str_def str_text_def)
  with main_ends [OF m, of 0] m show ?thesis by auto
qed

end
