(* ===== verification/MbimAddress.thy ===== *)
theory MbimAddress
  imports MbimTurns
begin

text \<open>
  The addresses that \<open>mbim_ip_config\<close> sets, family by family.
\<close>

abbreviation family_field :: "string \<Rightarrow> byte list \<Rightarrow> string \<Rightarrow> u32 option" where
  "family_field fam m f \<equiv> get32 m InfoBuffer MBIM_IP_CONFIGURATION_INFO_T (fam @ f)"

definition via :: "nat \<Rightarrow> string \<Rightarrow> byte list \<Rightarrow> action" where
  "via iptype ifname g = shell (''ip -'' @ dec iptype @ '' route add default via '' @ ip_text iptype g @ '' dev '' @ ifname)"

lemma via_in: "via iptype ifname g \<in> set (mbim_ifconfig iptype ifname (Some d) (Some g) d1 d2 plen mtu)"
  by (simp add: via_def mbim_ifconfig_def Let_def)

lemma family_config_cases:
  assumes "family_config iptype ifname field m (gw, dns1, dns2, mtu) = Some (acts, gw', rest)"
    "get32 m InfoBuffer MBIM_IP_CONFIGURATION_INFO_T (field ''ConfigurationAvailable'') = Some bits" "bit bits 0"
  shows "if_bit bits 1 (map_option (\<lambda>p. Some (InfoBuffer + unat p))
      (get32 m InfoBuffer MBIM_IP_CONFIGURATION_INFO_T (field ''GatewayOffset''))) gw = Some gw'
    \<and> (\<forall>g. gw' = Some g \<longrightarrow> via iptype ifname (take (if iptype = 4 then 4 else 16) (drop g m)) \<in> set acts)"
proof -
  let ?n = "if iptype = 4 then 4 else 16"
  obtain pAddress addr g d1 d2 plen mtu where c:
    "if_bit bits 1 (map_option Some (do { p \<leftarrow> get32 m InfoBuffer MBIM_IP_CONFIGURATION_INFO_T (field ''GatewayOffset'');
        Some (InfoBuffer + unat p) })) gw = Some gw'"
    "bytes_at m ?n (Some pAddress) = Some addr" "bytes_at m ?n gw' = Some g"
    "mbim_ifconfig iptype ifname addr g d1 d2 plen mtu = acts"
    using assms by (simp add: family_config_def Let_def split: prod.splits) (elim exE conjE, rule that, simp, assumption, simp, assumption)
  have "via iptype ifname (take ?n (drop p m)) \<in> set acts" if "gw' = Some p" for p
    using c(2,3) c(4) [symmetric] that via_in by (auto simp: bytes_at_def rdn_def split: if_splits)
  moreover have "map_option Some (do { p \<leftarrow> X; Some (InfoBuffer + unat p) }) = map_option (\<lambda>p. Some (InfoBuffer + unat p)) X"
    for X :: "u32 option" by (cases X) simp_all
  ultimately show ?thesis using c(1) by simp
qed

text \<open>
  C32: A family without a gateway of its own gets the gateway of the other: when the modem reports an IPv4
  gateway and an IPv6 address without one, the default route of IPv6 goes over the sixteen bytes that start
  at the IPv4 gateway.
\<close>
theorem gateway_of_other_family:
  assumes "family_config 4 ifname ((@) ''IPv4'') m (None, None, None, 1500) = Some (v4, ptrs)"
    "family_config 6 ifname ((@) ''IPv6'') m ptrs = Some (v6, ptrs')"
    "family_field ''IPv4'' m ''ConfigurationAvailable'' = Some b4" "bit b4 0" "bit b4 1"
    "family_field ''IPv6'' m ''ConfigurationAvailable'' = Some b6" "bit b6 0" "\<not> bit b6 1"
    "family_field ''IPv4'' m ''GatewayOffset'' = Some p"
  shows "via 4 ifname (take 4 (drop (InfoBuffer + unat p) m)) \<in> set v4
    \<and> via 6 ifname (take 16 (drop (InfoBuffer + unat p) m)) \<in> set v6"
proof -
  obtain gw dns1 dns2 mtu where p: "ptrs = (gw, dns1, dns2, mtu)" by (cases ptrs)
  have 4: "gw = Some (InfoBuffer + unat p)" "via 4 ifname (take 4 (drop (InfoBuffer + unat p) m)) \<in> set v4"
    using family_config_cases [OF assms(1) [unfolded p] assms(3,4)] assms(5,9) by (auto simp: if_bit_def)
  obtain gw' rest where p': "ptrs' = (gw', rest)" by (cases ptrs')
  show ?thesis
    using family_config_cases [OF assms(2) [unfolded p p'] assms(6,7)] assms(8) 4 by (auto simp: if_bit_def)
qed

definition two_families :: "byte list" where
  "two_families = replicate 48 0 @ concat (map le32 [0, 3, 1, 1, 60, 1, 68, 88, 0, 0, 0, 0, 0, 0, 0])
     @ le32 24 @ le32 0x0200000A @ le32 64 @ [0x20, 1, 0xD, 0xB8, 0, 0, 0, 0, 0, 0, 0, 0, 0, 0, 0, 2]
     @ [10, 0, 0, 1] @ replicate 12 0"

theorem gateway_of_other_family_witness:
  "\<exists>v4 ptrs v6 ptrs'. family_config 4 ''wwan0'' ((@) ''IPv4'') two_families (None, None, None, 1500) = Some (v4, ptrs)
    \<and> family_config 6 ''wwan0'' ((@) ''IPv6'') two_families ptrs = Some (v6, ptrs')
    \<and> via 6 ''wwan0'' [10, 0, 0, 1, 0, 0, 0, 0, 0, 0, 0, 0, 0, 0, 0, 0] \<in> set v6"
proof -
  let ?m = two_families
  have len: "length ?m = 152" by (simp add: two_families_def)
  have f: "family_field ''IPv4'' ?m ''ConfigurationAvailable'' = Some 3" "family_field ''IPv6'' ?m ''ConfigurationAvailable'' = Some 1"
    "family_field ''IPv4'' ?m ''GatewayOffset'' = Some 88" "family_field ''IPv4'' ?m ''AddressOffset'' = Some 60"
    "family_field ''IPv6'' ?m ''AddressOffset'' = Some 68"
    by (simp_all add: two_families_def get32_def rd32_past)
  have b: "bit (3 :: u32) 0" "bit (3 :: u32) 1" "\<not> bit (3 :: u32) 2" "\<not> bit (3 :: u32) 3"
    "bit (1 :: u32) 0" "\<not> bit (1 :: u32) 1" "\<not> bit (1 :: u32) 2" "\<not> bit (1 :: u32) 3"
    by (simp_all add: bit_numeral_rec)
  have r: "rd32 ?m 108 = Some 24" "rd32 ?m 116 = Some 64"
    by (simp_all add: two_families_def rd32_past)
  obtain v4 where v4: "family_config 4 ''wwan0'' ((@) ''IPv4'') ?m (None, None, None, 1500) = Some (v4, Some 136, None, None, 1500)"
    using f b r len by (simp add: family_config_def if_bit_def bytes_at_def rdn_def)
  obtain v6 where v6: "family_config 6 ''wwan0'' ((@) ''IPv6'') ?m (Some 136, None, None, 1500) = Some (v6, Some 136, None, None, 1500)"
    using f b r len by (simp add: family_config_def if_bit_def bytes_at_def rdn_def)
  have "drop 136 ?m = [10, 0, 0, 1] @ replicate 12 0" by (simp add: two_families_def)
  then have "take 16 (drop 136 ?m) = [10, 0, 0, 1, 0, 0, 0, 0, 0, 0, 0, 0, 0, 0, 0, 0]" by (simp add: numeral_eq_Suc)
  then show ?thesis
    using gateway_of_other_family [OF v4 v6 f(1) b(1,2) f(2) b(5,6) f(3)] v4 v6 by auto
qed

end
