(* ===== verification/MbimDump.thy ===== *)
theory MbimDump
  imports MbimTurns
begin

unbundle bit_operations_syntax

text \<open>
  The debug print of MBIM messages in \<open>mbim-cm.c\<close>: the name tables and \<open>mbim_dump\<close>. The result is the list of
  the printed lines, without the time in front of each; \<open>None\<close> is a read outside of the message.
\<close>

section \<open>Names\<close>

type_synonym mbim_names = "(u32 \<times> string) list"

fun enum_str :: "mbim_names \<Rightarrow> string \<Rightarrow> u32 \<Rightarrow> string" where
  "enum_str [] unknown val = unknown"
| "enum_str ((v, name) # table) unknown val = (if val = v then name else enum_str table unknown val)"

definition CID2Str :: "u32 \<Rightarrow> string" where
  "CID2Str = enum_str [
     (1, ''MBIM_CID_DEVICE_CAPS''),
     (2, ''MBIM_CID_SUBSCRIBER_READY_STATUS''),
     (3, ''MBIM_CID_RADIO_STATE''),
     (4, ''MBIM_CID_PIN''),
     (5, ''MBIM_CID_PIN_LIS''),
     (6, ''MBIM_CID_HOME_PROVIDER''),
     (7, ''MBIM_CID_PREFERRED_PROVIDERS''),
     (8, ''MBIM_CID_VISIBLE_PROVIDERS''),
     (9, ''MBIM_CID_REGISTER_STATE''),
     (10, ''MBIM_CID_PACKET_SERVICE''),
     (11, ''MBIM_CID_SIGNAL_STATE''),
     (12, ''MBIM_CID_CONNECT''),
     (13, ''MBIM_CID_PROVISIONED_CONTEXTS''),
     (14, ''MBIM_CID_SERVICE_ACTIVATION''),
     (15, ''MBIM_CID_IP_CONFIGURATION''),
     (16, ''MBIM_CID_DEVICE_SERVICES''),
     (19, ''MBIM_CID_DEVICE_SERVICE_SUBSCRIBE_LIST''),
     (20, ''MBIM_CID_PACKET_STATISTICS''),
     (21, ''MBIM_CID_NETWORK_IDLE_HINT''),
     (22, ''MBIM_CID_EMERGENCY_MODE''),
     (23, ''MBIM_CID_IP_PACKET_FILTERS''),
     (24, ''MBIM_CID_MULTICARRIER_PROVIDERS'')] ''CID2Unknow''"

definition MBIMMSGTypeStr :: "u32 \<Rightarrow> string" where
  "MBIMMSGTypeStr = enum_str [
     (1, ''MBIM_OPEN_MSG''),
     (2, ''MBIM_CLOSE_MSG''),
     (3, ''MBIM_COMMAND_MSG''),
     (4, ''MBIM_HOST_ERROR_MSG''),
     (0x80000001, ''MBIM_OPEN_DONE''),
     (0x80000002, ''MBIM_CLOSE_DONE''),
     (0x80000003, ''MBIM_COMMAND_DONE''),
     (0x80000004, ''MBIM_FUNCTION_ERROR_MSG''),
     (0x80000007, ''MBIM_INDICATE_STATUS_MSG'')] ''MBIMMSGTypeUnknow''"

definition MBIMPacketServiceStateStr :: "u32 \<Rightarrow> string" where
  "MBIMPacketServiceStateStr = enum_str [
     (0, ''Unknown''),
     (1, ''Attaching''),
     (2, ''Attached''),
     (3, ''Detaching''),
     (4, ''Detached'')] ''Undefined''"

definition MBIMDataClassStr :: "u32 \<Rightarrow> string" where
  "MBIMDataClassStr = enum_str [
     (0x0, ''MBIMDataClassNone''),
     (0x1, ''MBIMDataClassGPRS''),
     (0x2, ''MBIMDataClassEDGE''),
     (0x4, ''MBIMDataClassUMTS''),
     (0x8, ''MBIMDataClassHSDPA''),
     (0x10, ''MBIMDataClassHSUPA''),
     (0x20, ''MBIMDataClassLTE''),
     (0x10000, ''MBIMDataClass1XRTT''),
     (0x20000, ''MBIMDataClass1XEVDO''),
     (0x40000, ''MBIMDataClass1XEVDORevA''),
     (0x80000, ''MBIMDataClass1XEVDV''),
     (0x100000, ''MBIMDataClass3XRTT''),
     (0x200000, ''MBIMDataClass1XEVDORevB''),
     (0x400000, ''MBIMDataClassUMB''),
     (0x80000000, ''MBIMDataClassCustom'')] ''MBIMDataClassUnknow''"

definition MBIMSubscriberReadyStateStr :: "u32 \<Rightarrow> string" where
  "MBIMSubscriberReadyStateStr = enum_str [
     (0, ''NotInitialized''),
     (1, ''Initialized''),
     (2, ''NotInserted''),
     (3, ''BadSim''),
     (4, ''Failure''),
     (5, ''NotActivated''),
     (6, ''DeviceLocked'')] ''Undefined''"

definition MBIMRegisterStateStr :: "u32 \<Rightarrow> string" where
  "MBIMRegisterStateStr = enum_str [
     (0, ''Unknown''),
     (1, ''Deregistered''),
     (2, ''Searching''),
     (3, ''Home''),
     (4, ''Roaming''),
     (5, ''Partner''),
     (6, ''Denied'')] ''Undefined''"

definition MBIMRegisterModeStr :: "u32 \<Rightarrow> string" where
  "MBIMRegisterModeStr = enum_str [(0, ''Unknown''), (1, ''Automatic''), (2, ''Manual'')] ''Undefined''"

definition MBIMContextIPTypeStr :: "u32 \<Rightarrow> string" where
  "MBIMContextIPTypeStr = enum_str [
     (0, ''MBIMContextIPTypeDefault''),
     (1, ''MBIMContextIPTypeIPv4''),
     (2, ''MBIMContextIPTypeIPv6''),
     (3, ''MBIMContextIPTypeIPv4v6''),
     (4, ''MBIMContextIPTypeIPv4AndIPv6'')] ''MBIMContextIPTypeUnknow''"

definition MBIMActivationStateStr :: "u32 \<Rightarrow> string" where
  "MBIMActivationStateStr = enum_str [
     (0, ''Unknown''),
     (1, ''Activated''),
     (2, ''Activating''),
     (3, ''Deactivated''),
     (4, ''Deactivating'')] ''Undefined''"

definition MBIMVoiceCallStateStr :: "u32 \<Rightarrow> string" where
  "MBIMVoiceCallStateStr = enum_str [(0, ''None''), (1, ''InProgress''), (2, ''HangUp'')] ''Undefined''"

definition service_uuids :: "(string \<times> string) list" where
  "service_uuids = [
     (UUID_BASIC_CONNECT, ''UUID_BASIC_CONNECT''),
     (''533fbeeb-14fe-4467-9f90-33a223e56c3f'', ''UUID_SMS''),
     (''e550a0c8-5e82-479e-82f7-10abf4c3351f'', ''UUID_USSD''),
     (''4bf38476-1e6a-41db-b1d8-bed289c25bdb'', ''UUID_PHONEBOOK''),
     (''d8f20131-fcb5-4e17-8602-d6ed3816164c'', ''UUID_STK''),
     (''1d2b5ff7-0aa1-48b2-aa52-50f15767174e'', ''UUID_AUTH''),
     (''c08a26dd-7718-4382-8482-6e0d583c4d0e'', ''UUID_DSS'')]"

definition DeviceServiceId2str :: "byte list \<Rightarrow> string" where
  "DeviceServiceId2str uuid = (case map_of service_uuids (uuid2str uuid) of Some name \<Rightarrow> name | None \<Rightarrow> ''UUID_UNKNOW'')"

section \<open>Lines\<close>

text \<open>Lines of a structure \<open>L\<close> at \<open>p\<close>: a field with its print \<open>f\<close>.\<close>

type_synonym lines_of = "byte list \<Rightarrow> nat \<Rightarrow> string list option"

definition show_field :: "string \<Rightarrow> layout \<Rightarrow> string \<Rightarrow> (u32 \<Rightarrow> string) \<Rightarrow> lines_of" where
  "show_field direction L field f m p = do {
     v \<leftarrow> get32 m p L field;
     Some [direction @ '' '' @ field @ '' = '' @ f v] }"

definition number_of :: "u32 \<Rightarrow> string" where
  "number_of v = dec (unat v)"

definition hex_of :: "u32 \<Rightarrow> string" where
  "hex_of v = ''0x'' @ hex (unat v)"

definition named :: "(u32 \<Rightarrow> string) \<Rightarrow> u32 \<Rightarrow> string" where
  "named f v = f v @ '' ('' @ dec (unat v) @ '')''"

fun in_order :: "lines_of list \<Rightarrow> lines_of" where
  "in_order [] m p = Some []"
| "in_order (a # as) m p = do { l \<leftarrow> a m p; ls \<leftarrow> in_order as m p; Some (l @ ls) }"

definition rd64 :: "byte list \<Rightarrow> nat \<Rightarrow> 64 word option" where
  "rd64 m i = do { lo \<leftarrow> rd32 m i; hi \<leftarrow> rd32 m (i + 4); Some (push_bit 32 (ucast hi) OR ucast lo) }"

definition show_speed :: "string \<Rightarrow> string \<Rightarrow> lines_of" where
  "show_speed direction field m p = do {
     v \<leftarrow> rd64 m (p + off MBIM_PACKET_SERVICE_INFO_T field);
     Some [direction @ '' '' @ field @ '' = '' @ dec_int (sint v)] }"

definition show_uuid :: "string \<Rightarrow> layout \<Rightarrow> string \<Rightarrow> (byte list \<Rightarrow> string) \<Rightarrow> lines_of" where
  "show_uuid direction L field f m p = do {
     d \<leftarrow> rdn m (p + off L field) 16;
     Some [direction @ '' '' @ field @ '' = '' @ f d] }"

definition service_text :: "byte list \<Rightarrow> string" where
  "service_text d = DeviceServiceId2str d @ '' ('' @ uuid2str d @ '')''"

section \<open>The structures\<close>

definition msg_type_text :: "u32 \<Rightarrow> string" where
  \<comment> \<open>\<open>%08x\<close>\<close>
  "msg_type_text v = MBIMMSGTypeStr v @ '' (0x'' @ replicate (8 - length (hex (unat v))) (CHR ''0'') @ hex (unat v) @ '')''"

definition mbim_dump_header :: "string \<Rightarrow> lines_of" where
  "mbim_dump_header d m p = do {
     len \<leftarrow> get32 m p MBIM_MESSAGE_HEADER ''MessageLength'';
     ty \<leftarrow> get32 m p MBIM_MESSAGE_HEADER ''MessageType'';
     tid \<leftarrow> get32 m p MBIM_MESSAGE_HEADER ''TransactionId'';
     Some [d @ '' Header:'', d @ '' MessageLength = '' @ number_of len, d @ '' MessageType =  '' @ msg_type_text ty,
       d @ '' TransactionId = '' @ number_of tid, d @ '' Contents:''] }"

definition mbim_dump_command_msg :: "string \<Rightarrow> lines_of" where
  "mbim_dump_command_msg d = in_order [show_uuid d MBIM_COMMAND_MSG_T ''DeviceServiceId'' service_text,
     show_field d MBIM_COMMAND_MSG_T ''CID'' (named CID2Str),
     show_field d MBIM_COMMAND_MSG_T ''CommandType'' (named (\<lambda>v. if v \<noteq> 0 then ''set'' else ''query'')),
     show_field d MBIM_COMMAND_MSG_T ''InformationBufferLength'' number_of]"

definition mbim_dump_command_done :: "string \<Rightarrow> lines_of" where
  "mbim_dump_command_done d = in_order [show_uuid d MBIM_COMMAND_DONE_T ''DeviceServiceId'' service_text,
     show_field d MBIM_COMMAND_DONE_T ''CID'' (named CID2Str),
     show_field d MBIM_COMMAND_DONE_T ''Status'' number_of,
     show_field d MBIM_COMMAND_DONE_T ''InformationBufferLength'' number_of]"

definition mbim_dump_indicate_msg :: "string \<Rightarrow> lines_of" where
  "mbim_dump_indicate_msg d = in_order [show_uuid d MBIM_INDICATE_STATUS_MSG_T ''DeviceServiceId'' service_text,
     show_field d MBIM_INDICATE_STATUS_MSG_T ''CID'' (named CID2Str),
     show_field d MBIM_INDICATE_STATUS_MSG_T ''InformationBufferLength'' number_of]"

definition mbim_dump_connect :: "string \<Rightarrow> lines_of" where
  "mbim_dump_connect d = in_order [show_field d MBIM_CONNECT_T ''SessionId'' number_of,
     show_field d MBIM_CONNECT_T ''ActivationState'' (named MBIMActivationStateStr),
     show_field d MBIM_CONNECT_T ''IPType'' MBIMContextIPTypeStr,
     show_field d MBIM_CONNECT_T ''VoiceCallState'' MBIMVoiceCallStateStr,
     show_uuid d MBIM_CONNECT_T ''ContextType'' uuid2str,
     show_field d MBIM_CONNECT_T ''NwError'' number_of]"

definition mbim_dump_signal_state :: "string \<Rightarrow> lines_of" where
  "mbim_dump_signal_state d = in_order (map (\<lambda>f. show_field d MBIM_SIGNAL_STATE_INFO_T f number_of)
     [''Rssi'', ''ErrorRate'', ''SignalStrengthInterval'', ''RssiThreshold'', ''ErrorRateThreshold''])"

definition mbim_dump_packet_service :: "string \<Rightarrow> lines_of" where
  "mbim_dump_packet_service d = in_order [show_field d MBIM_PACKET_SERVICE_INFO_T ''NwError'' number_of,
     show_field d MBIM_PACKET_SERVICE_INFO_T ''PacketServiceState'' MBIMPacketServiceStateStr,
     show_field d MBIM_PACKET_SERVICE_INFO_T ''HighestAvailableDataClass'' MBIMDataClassStr,
     show_speed d ''UplinkSpeed'', show_speed d ''DownlinkSpeed'']"

definition show_segment :: "string \<Rightarrow> string \<Rightarrow> nat \<Rightarrow> nat \<Rightarrow> lines_of" where
  "show_segment d title offset len m p = do {
     o' \<leftarrow> rd32 m (p + offset);
     n \<leftarrow> rd32 m (p + len);
     str \<leftarrow> mbim_get_segment m p o' n;
     Some [d @ '' '' @ title @ '' = '' @ str] }"

definition mbim_dump_subscriber_status :: "string \<Rightarrow> lines_of" where
  \<comment> \<open>every turn of the loop reads the first reference\<close>
  "mbim_dump_subscriber_status d m p = (let F = off MBIM_SUBSCRIBER_READY_STATUS_T in do {
     a \<leftarrow> in_order [show_field d MBIM_SUBSCRIBER_READY_STATUS_T ''ReadyState'' MBIMSubscriberReadyStateStr,
       show_segment d ''SIMICCID'' (F ''SimIccIdOffset'') (F ''SimIccIdSize''),
       show_segment d ''SubscriberID'' (F ''SubscriberIdOffset'') (F ''SubscriberIdSize'')] m p;
     n \<leftarrow> get32 m p MBIM_SUBSCRIBER_READY_STATUS_T ''ElementCount'';
     if n = 0 then Some a
     else do {
       l \<leftarrow> show_segment d ''Number'' (F ''TelephoneNumbersRefList'') (F ''TelephoneNumbersRefList'' + 4) m p;
       Some (a @ concat (replicate (unat n) l)) } })"

definition mbim_dump_regiester_status :: "string \<Rightarrow> lines_of" where
  "mbim_dump_regiester_status d = in_order [show_field d MBIM_REGISTRATION_STATE_INFO_T ''NwError'' number_of,
     show_field d MBIM_REGISTRATION_STATE_INFO_T ''RegisterState'' MBIMRegisterStateStr,
     show_field d MBIM_REGISTRATION_STATE_INFO_T ''RegisterMode'' MBIMRegisterModeStr]"

section \<open>The addresses\<close>

definition show_prefix :: "string \<Rightarrow> nat \<Rightarrow> string \<Rightarrow> string \<Rightarrow> lines_of" where
  "show_prefix d iptype title fam m p = do {
     o' \<leftarrow> get32 m p MBIM_IP_CONFIGURATION_INFO_T (fam @ ''AddressOffset'');
     plen \<leftarrow> rd32 m (p + unat o');
     a \<leftarrow> rdn m (p + unat o' + 4) (if iptype = 4 then 4 else 16);
     Some [d @ '' '' @ title @ '' = '' @ ip_text iptype a @ ''/'' @ dec (unat (ucast plen :: byte))] }"

definition show_address :: "string \<Rightarrow> nat \<Rightarrow> string \<Rightarrow> string \<Rightarrow> lines_of" where
  "show_address d iptype title field m p = do {
     o' \<leftarrow> get32 m p MBIM_IP_CONFIGURATION_INFO_T field;
     a \<leftarrow> rdn m (p + unat o') (if iptype = 4 then 4 else 16);
     Some [d @ '' '' @ title @ '' = '' @ ip_text iptype a] }"

text \<open>The second IPv6 name server is printed with the bytes 4 to 7 of the first.\<close>

definition show_dns2 :: "string \<Rightarrow> nat \<Rightarrow> string \<Rightarrow> lines_of" where
  "show_dns2 d iptype fam m p = do {
     n \<leftarrow> get32 m p MBIM_IP_CONFIGURATION_INFO_T (fam @ ''DnsServerCount'');
     o' \<leftarrow> get32 m p MBIM_IP_CONFIGURATION_INFO_T (fam @ ''DnsServerOffset'');
     if n = 2 then
       (if iptype = 4 then do {
          a \<leftarrow> rdn m (p + unat o' + 4) 4;
          Some [d @ '' dns2 = '' @ ip_text iptype a] }
        else do {
          a \<leftarrow> rdn m (p + unat o') 32;
          Some [d @ '' dns2 = '' @ ip_text iptype (take 4 (drop 16 a) @ take 4 (drop 4 a) @ drop 24 a)] })
     else Some [] }"

definition show_mtu :: "string \<Rightarrow> string \<Rightarrow> string \<Rightarrow> lines_of" where
  "show_mtu d title field m p = do {
     v \<leftarrow> get32 m p MBIM_IP_CONFIGURATION_INFO_T field;
     Some (if v \<noteq> 0 then [d @ '' '' @ title @ '' = '' @ number_of v] else []) }"

definition masked :: "string \<Rightarrow> u32 \<Rightarrow> lines_of \<Rightarrow> lines_of" where
  "masked fam k a m p = do {
     bits \<leftarrow> get32 m p MBIM_IP_CONFIGURATION_INFO_T (fam @ ''ConfigurationAvailable'');
     if bits AND k \<noteq> 0 then a m p else Some [] }"

definition show_family :: "string \<Rightarrow> nat \<Rightarrow> string \<Rightarrow> string \<Rightarrow> lines_of" where
  "show_family d iptype fam mtu = in_order [
     masked fam 1 (show_prefix d iptype fam fam),
     masked fam 2 (show_address d iptype ''gw'' (fam @ ''GatewayOffset'')),
     masked fam 3 (in_order [show_address d iptype ''dns1'' (fam @ ''DnsServerOffset''), show_dns2 d iptype fam]),
     show_mtu d mtu (fam @ ''Mtu'')]"

definition mbim_dump_ipconfig :: "string \<Rightarrow> lines_of" where
  "mbim_dump_ipconfig d = in_order (
     [show_field d MBIM_IP_CONFIGURATION_INFO_T ''SessionId'' number_of]
     @ map (\<lambda>f. show_field d MBIM_IP_CONFIGURATION_INFO_T f hex_of)
         [''IPv4ConfigurationAvailable'', ''IPv6ConfigurationAvailable'', ''IPv4AddressCount'', ''IPv4AddressOffset'',
          ''IPv6AddressCount'', ''IPv6AddressOffset'']
     @ [show_family d 4 ''IPv4'' ''ipv4 mtu'', show_family d 6 ''IPv6'' ''ipv6 mtu''])"

section \<open>The message\<close>

definition upper_hex2 :: "byte \<Rightarrow> string" where
  "upper_hex2 b = [''0123456789ABCDEF'' ! (unat b div 16), ''0123456789ABCDEF'' ! (unat b mod 16)]"

definition from_modem :: "u32 \<Rightarrow> bool" where
  "from_modem ty \<longleftrightarrow> ty AND 0x80000000 \<noteq> 0"

definition hex_line :: "byte list \<Rightarrow> string option" where
  "hex_line m = do {
     ty \<leftarrow> get32 m 0 MBIM_MESSAGE_HEADER ''MessageType'';
     len \<leftarrow> get32 m 0 MBIM_MESSAGE_HEADER ''MessageLength'';
     bs \<leftarrow> rdn m 0 (min (unat len) 4096);
     Some (take 4095 ((if from_modem ty then CHR ''<'' else CHR ''>'') # concat (map (\<lambda>b. upper_hex2 b @ '':'') bs))) }"

text \<open>The information of the basic service, by its command.\<close>

definition information :: "layout \<Rightarrow> (u32 \<times> lines_of) list \<Rightarrow> lines_of" where
  "information L table m p = do {
     uuid \<leftarrow> rdn m (p + off L ''DeviceServiceId'') 16;
     basic \<leftarrow> str2uuid UUID_BASIC_CONNECT;
     CID \<leftarrow> get32 m p L ''CID'';
     case (if uuid = basic then map_of table CID else None) of
       Some a \<Rightarrow> a m (p + sizeof L)
     | None \<Rightarrow> Some [] }"

definition mbim_dump_contents :: "string \<Rightarrow> u32 \<Rightarrow> lines_of" where
  "mbim_dump_contents d ty =
     (if ty = MBIM_OPEN_MSG then show_field d MBIM_OPEN_MSG_T ''MaxControlTransfer'' number_of
      else if ty = MBIM_OPEN_DONE then show_field d MBIM_OPEN_DONE_T ''Status'' number_of
      else if ty = MBIM_CLOSE_DONE then show_field d MBIM_CLOSE_DONE_T ''Status'' number_of
      else if ty = MBIM_COMMAND_MSG then in_order [mbim_dump_command_msg d, information MBIM_COMMAND_MSG_T
        [(MBIM_CID_CONNECT, show_field d MBIM_SET_CONNECT_T ''SessionId'' number_of),
         (MBIM_CID_IP_CONFIGURATION, show_field d MBIM_IP_CONFIGURATION_INFO_T ''SessionId'' number_of)]]
      else if ty = MBIM_COMMAND_DONE then in_order [mbim_dump_command_done d, information MBIM_COMMAND_DONE_T
        [(MBIM_CID_CONNECT, mbim_dump_connect d), (MBIM_CID_IP_CONFIGURATION, mbim_dump_ipconfig d),
         (MBIM_CID_PACKET_SERVICE, mbim_dump_packet_service d),
         (MBIM_CID_SUBSCRIBER_READY_STATUS, mbim_dump_subscriber_status d),
         (MBIM_CID_REGISTER_STATE, mbim_dump_regiester_status d)]]
      else if ty = MBIM_INDICATE_STATUS_MSG then in_order [mbim_dump_indicate_msg d, information MBIM_INDICATE_STATUS_MSG_T
        [(MBIM_CID_CONNECT, mbim_dump_connect d), (MBIM_CID_SIGNAL_STATE, mbim_dump_signal_state d),
         (MBIM_CID_SUBSCRIBER_READY_STATUS, mbim_dump_subscriber_status d),
         (MBIM_CID_REGISTER_STATE, mbim_dump_regiester_status d),
         (MBIM_CID_PACKET_SERVICE, mbim_dump_packet_service d)]]
      else if ty = MBIM_FUNCTION_ERROR_MSG then show_field d MBIM_FUNCTION_ERROR_MSG_T ''ErrorStatusCode'' number_of
      else in_order [])"

definition mbim_dump :: "byte list \<Rightarrow> bool \<Rightarrow> string list option" where
  "mbim_dump m verbose = do {
     ty \<leftarrow> get32 m 0 MBIM_MESSAGE_HEADER ''MessageType'';
     let d = (if from_modem ty then ''<'' else ''>'');
     if \<not> verbose then Some []
     else do {
       hexes \<leftarrow> hex_line m;
       header \<leftarrow> mbim_dump_header d m 0;
       contents \<leftarrow> mbim_dump_contents d ty m 0;
       Some (hexes # header @ contents) } }"

section \<open>The print of a command\<close>

lemma basic_named: "str2uuid UUID_BASIC_CONNECT = Some u \<Longrightarrow> uuid2str u = UUID_BASIC_CONNECT"
proof -
  assume u: "str2uuid UUID_BASIC_CONNECT = Some u"
  have l: "map lower UUID_BASIC_CONNECT = UUID_BASIC_CONNECT" "length UUID_BASIC_CONNECT = 36"
    by (simp_all add: UUID_BASIC_CONNECT_def lower_def)
  have "length uuid_format + length (filter (\<lambda>f. f \<noteq> CHR ''-'') uuid_format) = 36" by (simp add: uuid_format_def)
  then have "print_hex uuid_format u = UUID_BASIC_CONNECT"
    using print_scan [of uuid_format UUID_BASIC_CONNECT u] u l by (simp add: str2uuid_def)
  then show ?thesis using l(2) by (simp add: uuid2str_def snprintf_def)
qed

text \<open>The lines of a command with its fields.\<close>

definition command_lines :: "u32 \<Rightarrow> u32 \<Rightarrow> u32 \<Rightarrow> nat \<Rightarrow> string list" where
  "command_lines tid CID CommandType n = [''> Header:'', ''> MessageLength = '' @ dec (48 + n),
     ''> MessageType =  MBIM_COMMAND_MSG (0x00000003)'', ''> TransactionId = '' @ dec (unat tid), ''> Contents:'',
     ''> DeviceServiceId = UUID_BASIC_CONNECT (a289cc33-bcbb-8b4f-b6b0-133ec2aae6df)'',
     ''> CID = '' @ CID2Str CID @ '' ('' @ dec (unat CID) @ '')'',
     ''> CommandType = '' @ (if CommandType = 0 then ''query'' else ''set'') @ '' ('' @ dec (unat CommandType) @ '')'',
     ''> InformationBufferLength = '' @ dec n]"

lemma command_fields:
  assumes "compose_basic_connect_command tid CID CommandType info = Some m" "length info < 2 ^ 31"
  shows "rd32 m 0 = Some 3" "rd32 m 4 = Some (of_nat (48 + length info))" "rd32 m 8 = Some tid" "rd32 m 36 = Some CID"
    "rd32 m 40 = Some CommandType" "rd32 m 44 = Some (of_nat (length info))" "rd32 m 48 = rd32 info 0"
    "length m = 48 + length info" "map_option uuid2str (rdn m 20 16) = Some UUID_BASIC_CONNECT"
    "rdn m 20 16 = str2uuid UUID_BASIC_CONNECT"
proof -
  obtain u where u: "str2uuid UUID_BASIC_CONNECT = Some u" "length u = 16" using basic_uuid by blast
  then have r: "m = le32 3 @ le32 (of_nat (48 + length info)) @ le32 tid @ le32 1 @ le32 0 @ u @ le32 CID @ le32 CommandType
      @ le32 (of_nat (length info)) @ info"
    using assms(1) by (simp add: compose_basic_connect_command_def)
  show "rd32 m 0 = Some 3" "rd32 m 4 = Some (of_nat (48 + length info))" "rd32 m 8 = Some tid" "rd32 m 36 = Some CID"
    "rd32 m 40 = Some CommandType" "rd32 m 44 = Some (of_nat (length info))" "rd32 m 48 = rd32 info 0"
    "length m = 48 + length info"
    using u(2) by (simp_all add: r rd32_past del: of_nat_add)
  have "rdn m 20 16 = Some u" using u(2) by (simp add: r rdn_def)
  then show "rdn m 20 16 = str2uuid UUID_BASIC_CONNECT" "map_option uuid2str (rdn m 20 16) = Some UUID_BASIC_CONNECT"
    using u(1) basic_named by simp_all
qed



end
