(* ===== verification/Spec2Isabelle.thy ===== *)
theory Spec2Isabelle
  imports Runs CommandLine ProxyStart MbimAddress MbimDump
begin

text \<open>
  The connection manager of Quectel cellular modems, the C program under \<open>src/quectel-CM\<close>, and the two programs
  that are built with it: the multiplexing daemon \<open>quectel-qmi-proxy\<close> and the MBIM client, which is a second
  main function of the same executable. This theory only collects the others; it names what is modelled
  where, what is shown and what is left out.

  \<^bold>\<open>The program.\<close>
  \<open>main\<close> reads the command line, looks for a modem under \<open>/sys/bus/usb/devices\<close>, and hands over to \<open>qmi_main\<close> or
  \<open>mbim_main\<close>, depending on the kernel driver of the modem. \<open>qmi_main\<close> starts a reader thread for the driver
  (\<open>QmiWwanThread\<close> or \<open>GobiNetThread\<close>), which allocates QMI clients and reads messages; the main thread sends
  requests and waits for their responses through one slot that both threads share under a mutex. The main
  thread is driven by three signals (start, check, stop), which arrive with the events of the reader over
  socket pairs; it registers, starts data calls and brings the network interface up and down with shell
  commands. The daemon lets several processes share one QMI device: it owns the device, answers the control
  requests of its clients one at a time and routes all other messages by their client identifiers. The MBIM
  client opens the function, waits until the subscriber is ready and the modem is registered and attached,
  connects and sets the addresses that the modem reports.

  \<^bold>\<open>Foundations.\<close>
  \<open>Prelude\<close> has byte buffers with bounds-checked access, little-endian integers, pointers to heap blocks (alive
  or freed) and the composition of steps. In all theories \<open>None\<close> of the outer option is undefined behaviour of
  the C program (a read or write outside of a buffer, the use of a freed block, a value that was never
  set), so a result \<open>Some\<close> says that none occurs; C error codes are values inside. Integers have their width.
  \<open>Wire\<close> has the packed structures of \<open>MPQMI.h\<close>, \<open>MPQCTL.h\<close> and \<open>MPQMUX.h\<close> as lists of fields with their sizes,
  \<open>Cstrings\<close> the functions of the C library that scan and print text, \<open>Util\<close> the functions of \<open>util.c\<close>.

  \<^bold>\<open>The QMI client.\<close>
  \<open>Tlv\<close>: \<open>GetTLV\<close> with its 16-bit counter; it finds the first element of a type in an encoded payload, and an
  element that claims too much makes it read behind the message.
  \<open>Session\<close>: the profile (\<open>PROFILE_T\<close>) and the static variables of \<open>QMIThread.c\<close> and \<open>QmiWwanCM.c\<close> as one record;
  transaction identifiers are nonzero and distinct over a cycle (locale \<open>txn_counter\<close>, for both counters).
  \<open>Compose\<close> and \<open>Builders\<close>: \<open>ComposeQMUXMsg\<close> and all request builders on the 256-byte buffers of the stack. The
  locale \<open>tlv_builder\<close> states what a builder promises; every request is exactly its header and its elements,
  or the builder overflows, with the condition for it.
  \<open>Transport\<close>: the request slot (\<open>QmiThreadSendQMITimeout\<close>, \<open>QmiThreadRecvQMI\<close>) and the send and receive functions
  of both drivers and of the connection to the daemon. What the modem does while a sender waits is a list of
  reads; the locale \<open>reader\<close> holds the laws of a receive function and is interpreted for each of them. Shown:
  every response belongs to its request, and the first matching message wins.
  \<open>Requests\<close> and \<open>Replies\<close>: the requests of the main loop (data format, SIM and PIN, data call, address, profile,
  version) and what they make of each response, error responses and freed responses included.
  \<open>Registration\<close>: serving system, system information and home network; the walk over system information is the
  composition of one step for each element, and LTE service excludes CDMA in every order.
  \<open>QmiWwan\<close> and \<open>Threads\<close>: control messages, allocation and release of clients, and the threads of both drivers
  over the outcomes of \<open>poll\<close>. The locale \<open>device_thread\<close> has the laws of a driver's round; a thread reports its
  start and its end, leaves no sender waiting, and refines the reader of \<open>Transport\<close>.
  \<open>Dump\<close>: the name tables and the debug print of \<open>MPQMUX.c\<close> into its line buffer.

  \<^bold>\<open>The main program.\<close>
  \<open>Device\<close>: the scan of \<open>device.c\<close> and the QMAP detection of \<open>qmap_bridge_mode.c\<close> over an abstract file system;
  the scan returns the first usable modem. \<open>NetSetup\<close>: \<open>udhcpc.c\<close> with the bridge and raw IP modes, as the list
  of commands, writes and calls that it makes; what the commands do to the kernel is not modelled.
  \<open>Processes\<close>: the search of \<open>main.c\<close> for older processes that hold the device.
  \<open>Manager\<close>: the state of \<open>qmi_main\<close> and one function for each handler and for the loop. \<open>Runs\<close> has the invariants
  over all runs: the link flag follows the log of DHCP calls, the times between two attempts are bounded, a
  signal ends the program with the link down and the clients released, and waiting for a device ends exactly
  when an attempt finds one.
  \<open>CommandLine\<close>: \<open>main\<close> with its options; what it hands over is complete and in range, and every setting that
  the options can give is read back from its command line.

  \<^bold>\<open>The daemon.\<close>
  \<open>Qlist\<close>: the doubly linked rings in a store of nodes; they implement lists. \<open>Proxy\<close>: the connections, the queue of
  control requests, routing and one turn of the loop. \<open>ProxyInit\<close> and \<open>ProxyMain\<close>: the initialisation, its retries
  and the lives of the main thread. \<open>ProxyRuns\<close> and \<open>ProxyStart\<close>: the queue discipline against an abstract queue,
  the routing by client identifiers, the end of the loop, the order of the requests of the start, and the
  two ways in which the daemon breaks (a client that leaves early, a modem that was reset once).

  \<^bold>\<open>The MBIM client (\<open>mbim-cm.c\<close>).\<close>
  \<open>MbimWire\<close>: structures, UUIDs and the composition of messages. \<open>Mbim\<close>: the static variables as the record \<open>mbim\<close>,
  the reader thread, \<open>mbim_send_command\<close>, the queries and the setup of the addresses. \<open>MbimMain\<close>: the stages of the
  loop of \<open>mbim_main\<close>, its waits, its setup and its exit. \<open>MbimDump\<close>: the name tables and the debug print.
  \<open>MbimRuns\<close>: UUIDs and the strings of the connect request read back as they were written.
  \<open>MbimCommand\<close>: what the reader leaves alone; a response belongs to its request; what stops the program.
  \<open>MbimTurns\<close>: the order of the commands of a turn and the guards of the connection, the end of the loop, the
  clean-up at the exit; the locale \<open>answer_handler\<close> has the laws of what looks at an answer, for each query. \<open>MbimAddress\<close>: the addresses, where IPv6 takes over what IPv4 has left.

  \<^bold>\<open>Environment.\<close>
  The modem, the kernel and other processes are arguments: the messages that arrive while a sender waits, the
  outcomes of \<open>poll\<close>, \<open>open\<close>, \<open>ioctl\<close> and \<open>pthread_cond_timedwait\<close>, the files of \<open>/sys\<close> and \<open>/proc\<close>, the clock, the
  contents of uninitialised memory. Threads appear as the order of their steps: what a reader does during a
  wait is given with this wait, and a step under the mutex is not divided.

  \<^bold>\<open>Bounds.\<close>
  The limits of the source are kept: the receive buffers of 4096 bytes, the request buffers of 256 bytes on
  the stack, line and path buffers, ten synchronisations and six attempts of the daemon to initialise, fifteen
  signals before a kill, the table of retry times. Loops that end by their own data are structural or have a
  measure. The loops of the main programs run as long as their environment, so they are followed for the
  inputs that are given: \<open>run_loop\<close> for a list of inputs, \<open>proxy_rounds\<close> for a list of poll results. In the MBIM
  client \<open>settle\<close> and \<open>mbim_loop\<close> take a number of rounds; the theorem \<open>main_ends\<close> shows that \<open>k + 2\<close> rounds are enough
  when an event of wait \<open>k\<close> ends the program. A walk over TLVs that may leave the message is a
  \<open>partial_function\<close> or returns \<open>None\<close> there.

  \<^bold>\<open>Not modelled.\<close>
  Functions behind build options that are not set (IMSI and ICCID, the reset of the radio, running in the
  background and its process file in \<open>main.c\<close>) and the structures of the headers that no modelled function
  uses. The sockets of \<open>create_local_server\<close> and of \<open>qmi_proxy_open\<close> appear as their results, \<open>getopt\<close> of the daemon as
  its parsed options. Printed output is modelled where the program composes it in a buffer (\<open>Dump\<close>,
  \<open>MbimDump\<close>); all other debug prints are left out. The rest of the repository consists of other programs that
  do not call this one: the Peersight agent, API and web application under \<open>src/peersight\<close>, the provisioning of
  edge and cloud under \<open>src/edge\<close> and \<open>src/cloud\<close>, benchmarks and documentation.
\<close>

end
